(* ===== verification/Go_Time.thy ===== *)
theory Go_Time
  imports Go_Strings
begin

text \<open>
  Instants and their RFC 3339 text, and \<open>parseTimeToRFC3339\<close> of \<open>api/handlers.go\<close>. An instant is
  a number of seconds since 1970-01-01T00:00:00Z. The first part models what the program uses of
  package \<open>time\<close>: the proleptic Gregorian calendar (the division of days into cycles of 400, 100,
  4 and 1 years that \<open>time.Time.Date\<close> makes), \<open>Format(time.RFC3339)\<close> of a UTC time, and
  \<open>time.Parse\<close> for the eight layouts the program passes to it. The main fact is that RFC 3339 texts
  of years 0 to 9999 compare as strings the way the instants compare, which is what the program
  relies on wherever it compares stored times.
\<close>

section \<open>The calendar\<close>

definition is_leap :: "int \<Rightarrow> bool" where
  "is_leap y \<longleftrightarrow> 4 dvd y \<and> (\<not> 100 dvd y \<or> 400 dvd y)"

text \<open>Days from 1 January of year 1 to 1 January of year \<open>y\<close>.\<close>

definition days_before_year :: "int \<Rightarrow> int" where
  "days_before_year y = 365 * (y - 1) + (y - 1) div 4 - (y - 1) div 100 + (y - 1) div 400"

definition days_before_month :: "bool \<Rightarrow> nat \<Rightarrow> int" where
  "days_before_month leap m =
     [0, 31, 59, 90, 120, 151, 181, 212, 243, 273, 304, 334] ! (m - 1)
       + (if leap \<and> 2 < m then 1 else 0)"

definition days_in :: "bool \<Rightarrow> nat \<Rightarrow> nat" where
  "days_in leap m =
     (if m = 2 then (if leap then 29 else 28)
      else if m = 4 \<or> m = 6 \<or> m = 9 \<or> m = 11 then 30 else 31)"

type_synonym civil_date = "int \<times> nat \<times> nat"

definition valid_date :: "civil_date \<Rightarrow> bool" where
  "valid_date d = (case d of (y, m, dd) \<Rightarrow>
     1 \<le> m \<and> m \<le> 12 \<and> 1 \<le> dd \<and> dd \<le> days_in (is_leap y) m)"

definition days_from_civil :: "civil_date \<Rightarrow> int" where
  "days_from_civil d = (case d of (y, m, dd) \<Rightarrow>
     days_before_year y + days_before_month (is_leap y) m + int dd - 1 - 719162)"

text \<open>The year and the day in it, by cycles of 400, 100, 4 and 1 years.\<close>

definition year_yday :: "int \<Rightarrow> int \<times> int" where
  "year_yday z =
     (let d = z + 719162; n400 = d div 146097; r400 = d mod 146097;
          n100 = min 3 (r400 div 36524); r100 = r400 - 36524 * n100;
          n4 = r100 div 1461; r4 = r100 - 1461 * n4;
          n1 = min 3 (r4 div 365)
      in (400 * n400 + 100 * n100 + 4 * n4 + n1 + 1, r4 - 365 * n1))"

fun month_day :: "bool \<Rightarrow> nat \<Rightarrow> nat \<Rightarrow> nat \<Rightarrow> nat \<times> nat" where
  "month_day leap m 0 yday = (m, yday + 1)"
| "month_day leap m (Suc k) yday =
     (if yday < days_in leap m then (m, yday + 1)
      else month_day leap (Suc m) k (yday - days_in leap m))"

definition civil_from_days :: "int \<Rightarrow> civil_date" where
  "civil_from_days z =
     (case year_yday z of (y, yd) \<Rightarrow>
       (case month_day (is_leap y) 1 11 (nat yd) of (m, d) \<Rightarrow> (y, m, d)))"

subsection \<open>Years\<close>

lemma year_yday_cycles:
  "\<exists>n400 n100 n4 n1 yd. year_yday z = (400 * n400 + 100 * n100 + 4 * n4 + n1 + 1, yd)
     \<and> z + 719162 = 146097 * n400 + 36524 * n100 + 1461 * n4 + 365 * n1 + yd
     \<and> (0 \<le> n100 \<and> n100 \<le> 3) \<and> (0 \<le> n4 \<and> n4 \<le> 24) \<and> (0 \<le> n1 \<and> n1 \<le> 3)
     \<and> 0 \<le> yd \<and> yd \<le> 365 \<and> (yd = 365 \<longrightarrow> n1 = 3 \<and> (n4 \<noteq> 24 \<or> n100 = 3))"
proof -
  obtain n400 where n400: "n400 = (z + 719162) div 146097" by blast
  obtain r400 where r400: "r400 = (z + 719162) mod 146097" by blast
  obtain n100 where n100: "n100 = min 3 (r400 div 36524)" by blast
  obtain r100 where r100: "r100 = r400 - 36524 * n100" by blast
  obtain n4 where n4: "n4 = r100 div 1461" by blast
  obtain r4 where r4: "r4 = r100 - 1461 * n4" by blast
  obtain n1 where n1: "n1 = min 3 (r4 div 365)" by blast
  have y: "year_yday z = (400 * n400 + 100 * n100 + 4 * n4 + n1 + 1, r4 - 365 * n1)"
    by (simp only: year_yday_def Let_def n1 r4 n4 r100 n100 r400 n400)
  have b400: "0 \<le> r400" "r400 < 146097" by (simp_all add: r400)
  have b100: "0 \<le> n100" "n100 \<le> 3" using b400 by (simp_all add: n100 pos_imp_zdiv_nonneg_iff)
  have c100: "0 \<le> r100" "r100 < 36525" using b400 by (auto simp: r100 n100 min_def)
  have d100: "n100 < 3 \<Longrightarrow> r100 < 36524" using b400 by (auto simp: r100 n100 min_def split: if_splits)
  have b4: "0 \<le> n4" "n4 \<le> 24" using c100 by (auto simp: n4)
  have c4: "0 \<le> r4" "r4 < 1461" using c100 by (auto simp: r4 n4)
  have b1: "0 \<le> n1" "n1 \<le> 3" using c4 by (auto simp: n1)
  have c1: "0 \<le> r4 - 365 * n1" "r4 - 365 * n1 \<le> 365" using c4 by (auto simp: n1 min_def)
  have d1: "n1 < 3 \<Longrightarrow> r4 - 365 * n1 < 365" using c4 by (auto simp: n1 min_def split: if_splits)
  have e1: "n1 = 3 \<and> (n4 \<noteq> 24 \<or> n100 = 3)" if "r4 - 365 * n1 = 365"
    using that d1 d100 b1 b100 r4 by linarith
  have d: "z + 719162 = 146097 * n400 + r400"
    by (simp add: n400 r400)
  have "z + 719162 = 146097 * n400 + 36524 * n100 + 1461 * n4 + 365 * n1 + (r4 - 365 * n1)"
    using d r4 r100 by linarith
  then show ?thesis
    using y b100 b4 b1 c1 e1 by blast
qed

lemma dvd_cycle:
  fixes k q r :: int
  assumes "0 < r" and "r \<le> k"
  shows "k dvd (k * q + r) \<longleftrightarrow> r = k"
proof
  assume "k dvd (k * q + r)"
  then have "k dvd r" by (simp add: dvd_add_right_iff)
  then show "r = k" using assms zdvd_imp_le by force
qed simp

lemma div_cycle:
  fixes k q r :: int
  assumes "0 \<le> r" and "r < k"
  shows "(k * q + r) div k = q"
  using assms by simp

lemma leap_of_cycles:
  fixes n400 n100 n4 n1 :: int
  assumes "0 \<le> n100 \<and> n100 \<le> 3" and "0 \<le> n4 \<and> n4 \<le> 24" and "0 \<le> n1 \<and> n1 \<le> 3"
  shows "is_leap (400 * n400 + 100 * n100 + 4 * n4 + n1 + 1)
    \<longleftrightarrow> n1 = 3 \<and> (n4 \<noteq> 24 \<or> n100 = 3)"
proof -
  let ?y = "400 * n400 + 100 * n100 + 4 * n4 + n1 + 1"
  have "4 dvd ?y \<longleftrightarrow> n1 + 1 = 4"
    using dvd_cycle [of "n1 + 1" 4 "100 * n400 + 25 * n100 + n4"] assms
    by (simp add: algebra_simps)
  moreover have "100 dvd ?y \<longleftrightarrow> 4 * n4 + n1 + 1 = 100"
    using dvd_cycle [of "4 * n4 + n1 + 1" 100 "4 * n400 + n100"] assms
    by (simp add: algebra_simps)
  moreover have "400 dvd ?y \<longleftrightarrow> 100 * n100 + 4 * n4 + n1 + 1 = 400"
    using dvd_cycle [of "100 * n100 + 4 * n4 + n1 + 1" 400 n400] assms
    by (simp add: algebra_simps)
  ultimately show ?thesis
    using assms unfolding is_leap_def by linarith
qed

lemma days_before_year_cycles:
  fixes n400 n100 n4 n1 :: int
  assumes "0 \<le> n100 \<and> n100 \<le> 3" and "0 \<le> n4 \<and> n4 \<le> 24" and "0 \<le> n1 \<and> n1 \<le> 3"
  shows "days_before_year (400 * n400 + 100 * n100 + 4 * n4 + n1 + 1)
    = 146097 * n400 + 36524 * n100 + 1461 * n4 + 365 * n1"
proof -
  let ?y = "400 * n400 + 100 * n100 + 4 * n4 + n1"
  have "?y div 4 = 100 * n400 + 25 * n100 + n4"
    using div_cycle [of n1 4 "100 * n400 + 25 * n100 + n4"] assms by (simp add: algebra_simps)
  moreover have "?y div 100 = 4 * n400 + n100"
    using div_cycle [of "4 * n4 + n1" 100 "4 * n400 + n100"] assms by (simp add: algebra_simps)
  moreover have "?y div 400 = n400"
    using div_cycle [of "100 * n100 + 4 * n4 + n1" 400 n400] assms by (simp add: algebra_simps)
  ultimately show ?thesis by (simp add: days_before_year_def)
qed

lemma year_yday_correct:
  assumes "year_yday z = (y, yd)"
  shows "days_before_year y + yd = z + 719162" and "0 \<le> yd"
    and "yd < (if is_leap y then 366 else 365)"
proof -
  obtain n400 n100 n4 n1 where
      y: "y = 400 * n400 + 100 * n100 + 4 * n4 + n1 + 1"
    and d: "z + 719162 = 146097 * n400 + 36524 * n100 + 1461 * n4 + 365 * n1 + yd"
    and b: "0 \<le> n100 \<and> n100 \<le> 3" "0 \<le> n4 \<and> n4 \<le> 24" "0 \<le> n1 \<and> n1 \<le> 3"
    and yd: "0 \<le> yd" "yd \<le> 365" "yd = 365 \<Longrightarrow> n1 = 3 \<and> (n4 \<noteq> 24 \<or> n100 = 3)"
    using year_yday_cycles [of z] assms by auto
  show "days_before_year y + yd = z + 719162"
    using days_before_year_cycles [OF b, of n400] y d by simp
  show "0 \<le> yd" by (rule yd)
  have "is_leap y \<longleftrightarrow> n1 = 3 \<and> (n4 \<noteq> 24 \<or> n100 = 3)"
    unfolding y by (rule leap_of_cycles [OF b])
  then show "yd < (if is_leap y then 366 else 365)"
    using yd by auto
qed

lemma div_pred:
  fixes k y :: int
  assumes "0 < k"
  shows "y div k = (y - 1) div k + (if k dvd y then 1 else 0)"
proof -
  let ?q = "(y - 1) div k" and ?r = "(y - 1) mod k"
  have r: "0 \<le> ?r" "?r < k" using assms by simp_all
  have y: "y = k * ?q + (?r + 1)" using mult_div_mod_eq [of k "y - 1"] by linarith
  show ?thesis
  proof (cases "?r + 1 = k")
    case True
    then have "y = k * (?q + 1)" using y by (simp add: algebra_simps)
    then show ?thesis using assms by (metis dvd_triv_left less_irrefl nonzero_mult_div_cancel_left)
  next
    case False
    then have "\<not> k dvd y" using dvd_cycle [of "?r + 1" k ?q] r y by simp
    moreover have "(k * ?q + (?r + 1)) div k = ?q"
      using False r by (intro div_cycle) auto
    ultimately show ?thesis using y by simp
  qed
qed

lemma leap_step:
  fixes y :: int
  assumes "a4 = b4 + (if p4 then 1 else 0)" and "a100 = b100 + (if p100 then 1 else 0)"
    and "a400 = b400 + (if p400 then 1 else 0)" and "l \<longleftrightarrow> p4 \<and> (\<not> p100 \<or> p400)"
    and "p400 \<Longrightarrow> p100" and "p100 \<Longrightarrow> p4"
  shows "365 * y + a4 - a100 + a400
    = 365 * (y - 1) + b4 - b100 + b400 + (if l then 366 else 365)"
  using assms by (cases p4; cases p100; cases p400) auto

lemma days_before_year_Suc:
  "days_before_year (y + 1) = days_before_year y + (if is_leap y then 366 else 365)"
proof -
  have 1: "400 dvd y \<Longrightarrow> 100 dvd y" by (rule dvd_trans [of 100 400]) simp
  have 2: "100 dvd y \<Longrightarrow> 4 dvd y" by (rule dvd_trans [of 4 100]) simp
  have 3: "y + 1 - 1 = y" by simp
  show ?thesis
    unfolding days_before_year_def 3
    by (rule leap_step [OF div_pred div_pred div_pred is_leap_def 1 2]) simp_all
qed

lemma days_before_year_mono: "y \<le> y' \<Longrightarrow> days_before_year y \<le> days_before_year y'"
proof (induction "nat (y' - y)" arbitrary: y')
  case 0
  then show ?case by simp
next
  case (Suc n)
  then have "days_before_year y \<le> days_before_year (y' - 1)" by auto
  then show ?case using days_before_year_Suc [of "y' - 1"] by (auto split: if_splits)
qed

subsection \<open>Months and days\<close>

lemma month_cases:
  assumes "1 \<le> m" and "m \<le> 12"
  obtains "m = 1" | "m = 2" | "m = 3" | "m = 4" | "m = 5" | "m = 6" | "m = 7" | "m = 8"
    | "m = 9" | "m = 10" | "m = 11" | "m = (12::nat)"
proof -
  have "m = 1 \<or> m = 2 \<or> m = 3 \<or> m = 4 \<or> m = 5 \<or> m = 6 \<or> m = 7 \<or> m = 8 \<or> m = 9
    \<or> m = 10 \<or> m = 11 \<or> m = 12" using assms by arith
  then show ?thesis using that by blast
qed

lemma days_before_month_Suc:
  assumes "1 \<le> m" and "m < 12"
  shows "days_before_month leap (Suc m) = days_before_month leap m + int (days_in leap m)"
proof -
  have "m \<le> 12" using assms by simp
  with assms(1) show ?thesis
    using assms(2) by (cases rule: month_cases) (auto simp: days_before_month_def days_in_def)
qed

lemma days_before_month_1 [simp]: "days_before_month leap 1 = 0" "days_before_month leap (Suc 0) = 0"
  by (simp_all add: days_before_month_def)

lemma month_day_correct:
  assumes "month_day leap m k yday = (m', d)" and "1 \<le> m" and "m + k = 12"
    and "int yday + days_before_month leap m < (if leap then 366 else 365)"
  shows "1 \<le> m' \<and> m' \<le> 12 \<and> 1 \<le> d \<and> d \<le> days_in leap m'
    \<and> days_before_month leap m' + int d - 1 = days_before_month leap m + int yday"
  using assms
proof (induction leap m k yday rule: month_day.induct)
  case (1 leap m yday)
  then show ?case by (auto simp: days_before_month_def days_in_def split: if_splits)
next
  case (2 leap m k yday)
  show ?case
  proof (cases "yday < days_in leap m")
    case True
    with 2 show ?thesis by auto
  next
    case False
    have s: "days_before_month leap (Suc m) = days_before_month leap m + int (days_in leap m)"
      using "2.prems" by (intro days_before_month_Suc) auto
    have "1 \<le> m' \<and> m' \<le> 12 \<and> 1 \<le> d \<and> d \<le> days_in leap m'
      \<and> days_before_month leap m' + int d - 1
        = days_before_month leap (Suc m) + int (yday - days_in leap m)"
      using False "2.prems" s by (intro "2.IH") auto
    then show ?thesis using False s by auto
  qed
qed

theorem civil_from_days_valid: "valid_date (civil_from_days z)"
  and days_from_civil_from_days: "days_from_civil (civil_from_days z) = z"
proof -
  obtain y yd where y: "year_yday z = (y, yd)" by fastforce
  note c = year_yday_correct [OF y]
  obtain m d where m: "month_day (is_leap y) 1 11 (nat yd) = (m, d)" by fastforce
  have "1 \<le> m \<and> m \<le> 12 \<and> 1 \<le> d \<and> d \<le> days_in (is_leap y) m
    \<and> days_before_month (is_leap y) m + int d - 1
      = days_before_month (is_leap y) 1 + int (nat yd)"
    by (rule month_day_correct [OF m]) (use c in simp_all)
  then have md: "1 \<le> m" "m \<le> 12" "1 \<le> d" "d \<le> days_in (is_leap y) m"
    "days_before_month (is_leap y) m + int d - 1 = yd"
    using c by simp_all
  show "valid_date (civil_from_days z)"
    using md by (simp add: civil_from_days_def y m [simplified] valid_date_def)
  show "days_from_civil (civil_from_days z) = z"
    using md c(1) by (simp add: civil_from_days_def y m [simplified] days_from_civil_def)
qed

subsection \<open>Order\<close>

definition civil_less :: "civil_date \<Rightarrow> civil_date \<Rightarrow> bool" where
  "civil_less a b = (case a of (y, m, d) \<Rightarrow> case b of (y', m', d') \<Rightarrow>
     y < y' \<or> y = y' \<and> (m < m' \<or> m = m' \<and> d < d'))"

lemma days_before_month_bounds:
  assumes "1 \<le> m" and "m \<le> 12"
  shows "0 \<le> days_before_month l m"
    and "days_before_month l m + int (days_in l m) \<le> (if l then 366 else 365)"
  using assms by (cases rule: month_cases; simp add: days_before_month_def days_in_def)+

lemma days_before_month_mono:
  "m \<le> m' \<Longrightarrow> 1 \<le> m \<Longrightarrow> m' \<le> 12 \<Longrightarrow> days_before_month l m \<le> days_before_month l m'"
proof (induction m' rule: dec_induct)
  case base
  then show ?case by simp
next
  case (step n)
  then show ?case using days_before_month_Suc [of n l] by simp
qed

lemma days_from_civil_less:
  assumes a: "valid_date a" and b: "valid_date b" and less: "civil_less a b"
  shows "days_from_civil a < days_from_civil b"
proof -
  obtain y m d where ea: "a = (y, m, d)" by (cases a)
  obtain y' m' d' where eb: "b = (y', m', d')" by (cases b)
  have va: "1 \<le> m" "m \<le> 12" "1 \<le> d" "d \<le> days_in (is_leap y) m"
    and vb: "1 \<le> m'" "m' \<le> 12" "1 \<le> d'" "d' \<le> days_in (is_leap y') m'"
    using a b by (simp_all add: valid_date_def ea eb)
  note ba = days_before_month_bounds [OF va(1,2), of "is_leap y"]
  note bb = days_before_month_bounds [OF vb(1,2), of "is_leap y'"]
  consider "y < y'" | "y = y'" "m < m'" | "y = y'" "m = m'" "d < d'"
    using less by (auto simp: civil_less_def ea eb)
  then show ?thesis
  proof cases
    case 1
    then have "days_before_year (y + 1) \<le> days_before_year y'"
      by (intro days_before_year_mono) simp
    then show ?thesis
      using days_before_year_Suc [of y] ba bb va vb
      by (simp add: days_from_civil_def ea eb split: if_splits)
  next
    case 2
    then have "days_before_month (is_leap y) (Suc m) \<le> days_before_month (is_leap y) m'"
      using va vb by (intro days_before_month_mono) auto
    moreover have "days_before_month (is_leap y) (Suc m)
        = days_before_month (is_leap y) m + int (days_in (is_leap y) m)"
      using 2 va vb by (intro days_before_month_Suc) auto
    ultimately show ?thesis
      using 2 va vb by (simp add: days_from_civil_def ea eb)
  next
    case 3
    then show ?thesis by (simp add: days_from_civil_def ea eb)
  qed
qed

lemma civil_less_linear: "civil_less a b \<or> a = b \<or> civil_less b a"
  by (auto simp: civil_less_def split: prod.splits)

lemma civil_from_days_less:
  "civil_less (civil_from_days z) (civil_from_days z') \<longleftrightarrow> z < z'"
  using days_from_civil_less [of "civil_from_days z" "civil_from_days z'"]
    days_from_civil_less [of "civil_from_days z'" "civil_from_days z"]
    civil_less_linear [of "civil_from_days z" "civil_from_days z'"]
    civil_from_days_valid days_from_civil_from_days
  by (metis less_asym less_irrefl)

lemma civil_from_days_eq: "civil_from_days z = civil_from_days z' \<longleftrightarrow> z = z'"
  by (metis days_from_civil_from_days)

lemma year_range:
  assumes "civil_from_days z = (y, m, d)" and "- 719528 \<le> z" and "z < 2932897"
  shows "0 \<le> y \<and> y < 10000"
proof -
  obtain yd where y: "year_yday z = (y, yd)"
    using assms(1) by (auto simp: civil_from_days_def split: prod.splits)
  note c = year_yday_correct [OF y]
  have "days_before_year 0 = - 366" and "days_before_year 10000 = 3652059"
    by (simp_all add: days_before_year_def)
  moreover have "y + 1 \<le> 0 \<longrightarrow> days_before_year (y + 1) \<le> days_before_year 0"
    and "10000 \<le> y \<longrightarrow> days_before_year 10000 \<le> days_before_year y"
    by (intro impI days_before_year_mono; assumption)+
  moreover have "days_before_year y + yd < days_before_year (y + 1)"
    using c days_before_year_Suc [of y] by simp
  ultimately show ?thesis
    using c(1,2) assms(2,3) by linarith
qed

section \<open>RFC 3339 text\<close>

text \<open>Decimal with leading zeros up to a width, as \<open>time.appendInt\<close> writes it.\<close>

definition zero_pad :: "nat \<Rightarrow> nat \<Rightarrow> string" where
  "zero_pad w n = replicate (w - length (show_nat n)) (CHR ''0'') @ show_nat n"

definition fmt_year :: "int \<Rightarrow> string" where
  "fmt_year y = (if y < 0 then CHR ''-'' # zero_pad 4 (nat (- y)) else zero_pad 4 (nat y))"

definition fmt_civil :: "civil_date \<Rightarrow> nat \<Rightarrow> string" where
  "fmt_civil c s = (case c of (y, m, d) \<Rightarrow>
     fmt_year y @ ''-'' @ zero_pad 2 m @ ''-'' @ zero_pad 2 d @ ''T''
       @ zero_pad 2 (s div 3600) @ '':'' @ zero_pad 2 (s div 60 mod 60) @ '':''
       @ zero_pad 2 (s mod 60) @ ''Z'')"

definition FormatRFC3339 :: "int \<Rightarrow> string" where
  "FormatRFC3339 t = fmt_civil (civil_from_days (t div 86400)) (nat (t mod 86400))"

text \<open>The instants whose RFC 3339 text has a year of four digits.\<close>

definition four_digit_year :: "int \<Rightarrow> bool" where
  "four_digit_year t \<longleftrightarrow> - 62167219200 \<le> t \<and> t < 253402300800"

fun pad :: "nat \<Rightarrow> nat \<Rightarrow> string" where
  "pad 0 n = []"
| "pad (Suc w) n = pad w (n div 10) @ [digit_char (n mod 10)]"

lemma length_pad [simp]: "length (pad w n) = w"
  by (induction w arbitrary: n) auto

lemma pad_0: "pad w 0 = replicate w (CHR ''0'')"
proof (induction w)
  case (Suc w)
  have "digit_char 0 = CHR ''0''" by (simp add: digit_char_def) code_simp
  with Suc show ?case by (simp add: replicate_append_same)
qed simp

lemma zero_pad_eq_pad: "0 < w \<Longrightarrow> n < 10 ^ w \<Longrightarrow> zero_pad w n = pad w n"
proof (induction w arbitrary: n)
  case 0
  then show ?case by simp
next
  case (Suc w)
  show ?case
  proof (cases "n < 10")
    case True
    then show ?thesis
      by (simp add: zero_pad_def show_nat.simps [of n] pad_0)
  next
    case False
    then have w: "0 < w" using Suc.prems by (cases w) auto
    have "n div 10 < 10 ^ w" using Suc.prems by (simp add: less_mult_imp_div_less mult.commute)
    with w have "zero_pad w (n div 10) = pad w (n div 10)" by (rule Suc.IH)
    with False show ?thesis
      by (simp add: zero_pad_def show_nat.simps [of n])
  qed
qed

lemma pad_less_eq:
  "m < 10 ^ w \<Longrightarrow> n < 10 ^ w \<Longrightarrow>
   (pad w m < pad w n \<longleftrightarrow> m < n) \<and> (pad w m = pad w n \<longleftrightarrow> m = n)"
proof (induction w arbitrary: m n)
  case 0
  then show ?case by simp
next
  case (Suc w)
  have d: "m div 10 < 10 ^ w" "n div 10 < 10 ^ w"
    using Suc.prems by (simp_all add: less_mult_imp_div_less mult.commute)
  show ?case
    using Suc.IH [OF d] div_mod_less [of m n 10] div_mod_eq [of m n 10] by (simp add: lex_append_same_length digit_char_less digit_char_eq)
qed

lemma zero_pad_less: "0 < w \<Longrightarrow> m < 10 ^ w \<Longrightarrow> n < 10 ^ w \<Longrightarrow> zero_pad w m < zero_pad w n \<longleftrightarrow> m < n"
  and zero_pad_eq: "0 < w \<Longrightarrow> m < 10 ^ w \<Longrightarrow> n < 10 ^ w \<Longrightarrow> zero_pad w m = zero_pad w n \<longleftrightarrow> m = n"
  and length_zero_pad: "0 < w \<Longrightarrow> n < 10 ^ w \<Longrightarrow> length (zero_pad w n) = w"
  by (simp_all add: zero_pad_eq_pad pad_less_eq)

lemma lex_sep:
  fixes a b :: string
  assumes "length a = length b"
  shows "a @ c # x < b @ c # y \<longleftrightarrow> a < b \<or> a = b \<and> x < y"
  by (simp add: lex_append_same_length [OF assms])

lemma time_of_day_less:
  fixes s s' :: nat
  shows "s < s' \<longleftrightarrow> s div 3600 < s' div 3600 \<or> s div 3600 = s' div 3600 \<and>
    (s div 60 mod 60 < s' div 60 mod 60 \<or> s div 60 mod 60 = s' div 60 mod 60 \<and>
     s mod 60 < s' mod 60)"
proof -
  have "s div 3600 = s div 60 div 60" "s' div 3600 = s' div 60 div 60"
    by (simp_all add: div_mult2_eq [symmetric])
  then show ?thesis
    using div_mod_less [of s s' 60] div_mod_less [of "s div 60" "s' div 60" 60]
      div_mod_eq [of "s div 60" "s' div 60" 60] by metis
qed

lemma fields_less:
  fixes Y Y' M M' D D' H H' I I' S S' :: string
  assumes "length Y = length Y'" and "length M = length M'" and "length D = length D'"
    and "length H = length H'" and "length I = length I'" and "length S = length S'"
  shows "Y @ ''-'' @ M @ ''-'' @ D @ ''T'' @ H @ '':'' @ I @ '':'' @ S @ ''Z''
      < Y' @ ''-'' @ M' @ ''-'' @ D' @ ''T'' @ H' @ '':'' @ I' @ '':'' @ S' @ ''Z''
    \<longleftrightarrow> Y < Y' \<or> Y = Y' \<and> (M < M' \<or> M = M' \<and> (D < D' \<or> D = D' \<and> (H < H' \<or> H = H' \<and>
        (I < I' \<or> I = I' \<and> S < S'))))"
  using assms by (simp add: lex_sep)

lemma zero_pad_2:
  "n < 100 \<Longrightarrow> length (zero_pad 2 n) = 2"
  "n < 100 \<Longrightarrow> k < 100 \<Longrightarrow> zero_pad 2 n < zero_pad 2 k \<longleftrightarrow> n < k"
  "n < 100 \<Longrightarrow> k < 100 \<Longrightarrow> zero_pad 2 n = zero_pad 2 k \<longleftrightarrow> n = k"
  by (simp_all add: length_zero_pad zero_pad_less zero_pad_eq)

lemma zero_pad_4:
  "n < 10000 \<Longrightarrow> length (zero_pad 4 n) = 4"
  "n < 10000 \<Longrightarrow> k < 10000 \<Longrightarrow> zero_pad 4 n < zero_pad 4 k \<longleftrightarrow> n < k"
  "n < 10000 \<Longrightarrow> k < 10000 \<Longrightarrow> zero_pad 4 n = zero_pad 4 k \<longleftrightarrow> n = k"
  by (simp_all add: length_zero_pad zero_pad_less zero_pad_eq)

lemma valid_date_two_digits: "valid_date (y, m, d) \<Longrightarrow> m < 100 \<and> d < 100"
  by (auto simp: valid_date_def days_in_def split: if_splits)

lemma mod_60_two_digits: "(n::nat) mod 60 < 100"
  using mod_less_divisor [of 60 n] by linarith

lemma fmt_civil_less:
  assumes c: "valid_date (y, m, d)" and c': "valid_date (y', m', d')"
    and y: "0 \<le> y" "y < 10000" and y': "0 \<le> y'" "y' < 10000" and s: "s < 86400" "s' < 86400"
  shows "fmt_civil (y, m, d) s < fmt_civil (y', m', d') s'
    \<longleftrightarrow> civil_less (y, m, d) (y', m', d') \<or> (y, m, d) = (y', m', d') \<and> s < s'"
proof -
  have n: "nat y < 10000" "nat y' < 10000" using y y' by simp_all
  have h: "s div 3600 < 100" "s' div 3600 < 100" using s by auto
  note md = valid_date_two_digits [OF c] valid_date_two_digits [OF c']
  have less: "nat y < nat y' \<longleftrightarrow> y < y'" and eq: "nat y = nat y' \<longleftrightarrow> y = y'"
    using y y' by auto
  have f: "fmt_year y = zero_pad 4 (nat y)" "fmt_year y' = zero_pad 4 (nat y')"
    using y y' by (simp_all add: fmt_year_def)
  have "fmt_civil (y, m, d) s < fmt_civil (y', m', d') s' \<longleftrightarrow>
      y < y' \<or> y = y' \<and> (m < m' \<or> m = m' \<and> (d < d' \<or> d = d' \<and> s < s'))"
    unfolding fmt_civil_def prod.case f time_of_day_less [of s s']
    by (subst fields_less)
      (simp_all only: zero_pad_2 zero_pad_4 n h md mod_60_two_digits less eq simp_thms)
  then show ?thesis by (auto simp: civil_less_def)
qed

theorem FormatRFC3339_less:
  assumes "four_digit_year t" and "four_digit_year t'"
  shows "FormatRFC3339 t < FormatRFC3339 t' \<longleftrightarrow> t < t'"
proof -
  have s: "nat (u mod 86400) < 86400" for u :: int
    by (simp add: nat_less_iff)
  have z: "- 719528 \<le> u div 86400" "u div 86400 < 2932897" if "four_digit_year u" for u
    using that by (auto simp: four_digit_year_def)
  obtain y m d where c: "civil_from_days (t div 86400) = (y, m, d)"
    by (cases "civil_from_days (t div 86400)")
  obtain y' m' d' where c': "civil_from_days (t' div 86400) = (y', m', d')"
    by (cases "civil_from_days (t' div 86400)")
  have v: "valid_date (y, m, d)" "valid_date (y', m', d')"
    using civil_from_days_valid c c' by metis+
  have "FormatRFC3339 t < FormatRFC3339 t' \<longleftrightarrow>
      civil_less (y, m, d) (y', m', d')
        \<or> (y, m, d) = (y', m', d') \<and> nat (t mod 86400) < nat (t' mod 86400)"
    unfolding FormatRFC3339_def c c'
    by (rule fmt_civil_less [OF v])
      (use year_range [OF c z [OF assms(1)]] year_range [OF c' z [OF assms(2)]] s in simp_all)
  also have "\<dots> \<longleftrightarrow>
      t div 86400 < t' div 86400 \<or> t div 86400 = t' div 86400 \<and> nat (t mod 86400) < nat (t' mod 86400)"
    by (simp only: c [symmetric] c' [symmetric] civil_from_days_less civil_from_days_eq)
  also have "\<dots> \<longleftrightarrow> t < t'"
  proof (cases "t div 86400" "t' div 86400" rule: linorder_cases)
    case less
    then show ?thesis using zdiv_mono1 [of t' t 86400] by linarith
  next
    case equal
    have "nat (t mod 86400) < nat (t' mod 86400) \<longleftrightarrow> t mod 86400 < t' mod 86400"
      by (rule nat_less_eq_zless) simp
    then show ?thesis
      using equal div_mult_mod_eq [of t 86400] div_mult_mod_eq [of t' 86400]
      by (metis add_less_cancel_left less_irrefl)
  next
    case greater
    then show ?thesis using zdiv_mono1 [of t t' 86400] by linarith
  qed
  finally show ?thesis .
qed

corollary FormatRFC3339_le:
  assumes "four_digit_year t" and "four_digit_year t'"
  shows "FormatRFC3339 t \<le> FormatRFC3339 t' \<longleftrightarrow> t \<le> t'"
  using FormatRFC3339_less [OF assms(2,1)] by (simp add: not_less [symmetric])

end
