(* ===== verification/Time_Parse.thy ===== *)
theory Time_Parse
  imports Go_Time
begin

text \<open>
  \<open>time.Parse\<close> for the layouts of the program, and \<open>parseTimeToRFC3339\<close> (\<open>api/handlers.go\<close>), the
  function that normalises every time a caller supplies. A layout is a list of chunks, as
  \<open>nextStdChunk\<close> splits it; parsing walks over the chunks and consumes the value, with the
  standard library's rules for field widths, ranges, optional fractions of a second, zone
  offsets and 12-hour clocks. Epoch seconds so large that \<open>time.Time\<close> itself wraps around (beyond
  nine quintillion) are outside the model.
\<close>

section \<open>Layouts\<close>

datatype chunk =
    Lit char | LongYear | ZeroMonth | ZeroDay | Hour | ZeroHour12 | Hour12 | ZeroMinute
  | ZeroSecond | AmPm | Frac9 | ZoneColon

definition ymd_chunks :: "chunk list" where
  "ymd_chunks = [LongYear, Lit CHR ''-'', ZeroMonth, Lit CHR ''-'', ZeroDay]"

definition hms_chunks :: "chunk list" where
  "hms_chunks = [Hour, Lit CHR '':'', ZeroMinute, Lit CHR '':'', ZeroSecond]"

definition us_date_chunks :: "chunk list" where
  "us_date_chunks = [ZeroMonth, Lit CHR ''/'', ZeroDay, Lit CHR ''/'', LongYear]"

definition layout_RFC3339Nano :: "chunk list" where
  "layout_RFC3339Nano = ymd_chunks @ [Lit CHR ''T''] @ hms_chunks @ [Frac9, ZoneColon]"

definition layout_RFC3339 :: "chunk list" where
  "layout_RFC3339 = ymd_chunks @ [Lit CHR ''T''] @ hms_chunks @ [ZoneColon]"

text \<open>The slice \<open>formats\<close> of \<open>parseTimeToRFC3339\<close>, in its order.\<close>

definition time_formats :: "chunk list list" where
  "time_formats =
     [layout_RFC3339Nano,
      layout_RFC3339,
      ymd_chunks @ [Lit CHR ''T''] @ hms_chunks,
      ymd_chunks @ [Lit CHR ''T'', Hour, Lit CHR '':'', ZeroMinute],
      ymd_chunks @ [Lit CHR '' ''] @ hms_chunks,
      ymd_chunks,
      us_date_chunks @ [Lit CHR '' '', ZeroHour12, Lit CHR '':'', ZeroMinute, Lit CHR '':'',
        ZeroSecond, Lit CHR '' '', AmPm],
      us_date_chunks @ [Lit CHR '' '', Hour12, Lit CHR '':'', ZeroMinute, Lit CHR '':'',
        ZeroSecond, Lit CHR '' '', AmPm]]"

section \<open>Parsing\<close>

record ptime =
  p_year :: nat
  p_month :: nat
  p_day :: nat
  p_hour :: nat
  p_min :: nat
  p_sec :: nat
  p_pm :: bool
  p_am :: bool
  p_zone :: int

definition ptime0 :: ptime where
  "ptime0 = \<lparr>p_year = 0, p_month = 1, p_day = 1, p_hour = 0, p_min = 0, p_sec = 0,
     p_pm = False, p_am = False, p_zone = 0\<rparr>"

text \<open>\<open>getnum\<close>: two digits, or one when the field is not of fixed width.\<close>

fun getnum :: "bool \<Rightarrow> string \<Rightarrow> (nat \<times> string) option" where
  "getnum fixed [] = None"
| "getnum fixed [c] = (if is_digit c \<and> \<not> fixed then Some (digit_val c, []) else None)"
| "getnum fixed (c # d # r) =
     (if \<not> is_digit c then None
      else if is_digit d then Some (10 * digit_val c + digit_val d, r)
      else if fixed then None else Some (digit_val c, d # r))"

fun get_year :: "string \<Rightarrow> (nat \<times> string) option" where
  "get_year (a # b # c # d # r) =
     (if is_digit a \<and> is_digit b \<and> is_digit c \<and> is_digit d
      then Some (1000 * digit_val a + 100 * digit_val b + 10 * digit_val c + digit_val d, r)
      else None)"
| "get_year _ = None"

text \<open>A fraction of a second, if there is one: it is dropped, since the output has none.\<close>

definition skip_frac :: "string \<Rightarrow> string" where
  "skip_frac v = (case v of
      p # d # r \<Rightarrow> if (p = CHR ''.'' \<or> p = CHR '','') \<and> is_digit d then dropWhile is_digit r else v
    | _ \<Rightarrow> v)"

fun skip_lit :: "char \<Rightarrow> string \<Rightarrow> string option" where
  "skip_lit c v =
     (if c = CHR '' '' then
        (case v of [] \<Rightarrow> Some []
         | x # xs \<Rightarrow> if x = CHR '' '' then Some (dropWhile (\<lambda>y. y = CHR '' '') xs) else None)
      else (case v of [] \<Rightarrow> None | x # xs \<Rightarrow> if x = c then Some xs else None))"

definition in_range :: "nat \<Rightarrow> nat \<Rightarrow> (nat \<times> string) option \<Rightarrow> (nat \<times> string) option" where
  "in_range lo hi r = (case r of None \<Rightarrow> None
     | Some (n, v) \<Rightarrow> if lo \<le> n \<and> n \<le> hi then Some (n, v) else None)"

fun get_zone :: "string \<Rightarrow> (int \<times> string) option" where
  "get_zone (sg # h1 # h2 # c # m1 # m2 # r) =
     (if sg = CHR ''Z'' then Some (0, h1 # h2 # c # m1 # m2 # r)
      else if c \<noteq> CHR '':'' then None
      else case in_range 0 24 (getnum True [h1, h2]) of None \<Rightarrow> None
        | Some (hh, _) \<Rightarrow> (case in_range 0 60 (getnum True [m1, m2]) of None \<Rightarrow> None
          | Some (mm, _) \<Rightarrow>
              if sg = CHR ''+'' then Some (int ((hh * 60 + mm) * 60), r)
              else if sg = CHR ''-'' then Some (- int ((hh * 60 + mm) * 60), r) else None))"
| "get_zone (sg # r) = (if sg = CHR ''Z'' then Some (0, r) else None)"
| "get_zone [] = None"

fun get_ampm :: "string \<Rightarrow> (bool \<times> string) option" where
  "get_ampm (a # m # r) =
     (if m = CHR ''M'' \<and> a = CHR ''P'' then Some (True, r)
      else if m = CHR ''M'' \<and> a = CHR ''A'' then Some (False, r) else None)"
| "get_ampm _ = None"

definition parse_chunk :: "bool \<Rightarrow> chunk \<Rightarrow> ptime \<Rightarrow> string \<Rightarrow> (ptime \<times> string) option" where
  "parse_chunk frac_next k t v = (case k of
     Lit c \<Rightarrow> map_option (\<lambda>v'. (t, v')) (skip_lit c v)
   | LongYear \<Rightarrow> map_option (\<lambda>(n, v'). (t\<lparr>p_year := n\<rparr>, v')) (get_year v)
   | ZeroMonth \<Rightarrow> map_option (\<lambda>(n, v'). (t\<lparr>p_month := n\<rparr>, v')) (in_range 1 12 (getnum True v))
   | ZeroDay \<Rightarrow> map_option (\<lambda>(n, v'). (t\<lparr>p_day := n\<rparr>, v')) (getnum True v)
   | Hour \<Rightarrow> map_option (\<lambda>(n, v'). (t\<lparr>p_hour := n\<rparr>, v')) (in_range 0 23 (getnum False v))
   | ZeroHour12 \<Rightarrow> map_option (\<lambda>(n, v'). (t\<lparr>p_hour := n\<rparr>, v')) (in_range 0 12 (getnum True v))
   | Hour12 \<Rightarrow> map_option (\<lambda>(n, v'). (t\<lparr>p_hour := n\<rparr>, v')) (in_range 0 12 (getnum False v))
   | ZeroMinute \<Rightarrow> map_option (\<lambda>(n, v'). (t\<lparr>p_min := n\<rparr>, v')) (in_range 0 59 (getnum True v))
   | ZeroSecond \<Rightarrow> map_option (\<lambda>(n, v'). (t\<lparr>p_sec := n\<rparr>, if frac_next then v' else skip_frac v'))
        (in_range 0 59 (getnum True v))
   | AmPm \<Rightarrow> map_option (\<lambda>(pm, v'). (t\<lparr>p_pm := pm, p_am := \<not> pm\<rparr>, v')) (get_ampm v)
   | Frac9 \<Rightarrow> Some (t, skip_frac v)
   | ZoneColon \<Rightarrow> map_option (\<lambda>(z, v'). (t\<lparr>p_zone := z\<rparr>, v')) (get_zone v))"

fun parse_chunks :: "chunk list \<Rightarrow> ptime \<Rightarrow> string \<Rightarrow> ptime option" where
  "parse_chunks [] t v = (if v = [] then Some t else None)"
| "parse_chunks (k # ks) t v =
     (case parse_chunk (case ks of Frac9 # _ \<Rightarrow> True | _ \<Rightarrow> False) k t v of
        None \<Rightarrow> None | Some (t', v') \<Rightarrow> parse_chunks ks t' v')"

definition clock_hour :: "ptime \<Rightarrow> nat" where
  "clock_hour t = (if p_pm t \<and> p_hour t < 12 then p_hour t + 12
     else if p_am t \<and> p_hour t = 12 then 0 else p_hour t)"

text \<open>\<open>time.Parse\<close>: the instant in Unix seconds, fraction dropped.\<close>

definition ParseTime :: "chunk list \<Rightarrow> string \<Rightarrow> int option" where
  "ParseTime layout v = (case parse_chunks layout ptime0 v of None \<Rightarrow> None
     | Some t \<Rightarrow>
         let d = (int (p_year t), p_month t, p_day t)
         in if valid_date d
            then Some (days_from_civil d * 86400
              + int (clock_hour t * 3600 + p_min t * 60 + p_sec t) - p_zone t)
            else None)"

fun first_layout :: "chunk list list \<Rightarrow> string \<Rightarrow> int option" where
  "first_layout [] s = None"
| "first_layout (f # fs) s = (case ParseTime f s of Some t \<Rightarrow> Some t | None \<Rightarrow> first_layout fs s)"

definition parseTimeToRFC3339 :: "string \<Rightarrow> string + string" where
  "parseTimeToRFC3339 s = (case first_layout time_formats s of
      Some t \<Rightarrow> Inr (FormatRFC3339 t)
    | None \<Rightarrow> (case ParseInt64 s of
        Some epoch \<Rightarrow> Inr (FormatRFC3339 epoch)
      | None \<Rightarrow> Inl (''unrecognized time format: '' @ go_quote s)))"

section \<open>Parsing what was formatted\<close>

lemma getnum_zero_pad [simp]:
  assumes "n < 100"
  shows "getnum fixed (zero_pad 2 n @ r) = Some (n, r)"
proof -
  have p: "zero_pad 2 n = [digit_char (n div 10), digit_char (n mod 10)]"
    using assms zero_pad_eq_pad [of 2 n] by (simp add: numeral_2_eq_2)
  have "n div 10 < 10" using assms by auto
  then show ?thesis by (simp add: p)
qed

lemma get_year_zero_pad [simp]:
  assumes "n < 10000"
  shows "get_year (zero_pad 4 n @ r) = Some (n, r)"
proof -
  have p: "zero_pad 4 n = [digit_char (n div 10 div 10 div 10 mod 10),
      digit_char (n div 10 div 10 mod 10), digit_char (n div 10 mod 10), digit_char (n mod 10)]"
  proof -
    have "4 = Suc (Suc (Suc (Suc 0)))" by simp
    then have "pad 4 n = pad (Suc (Suc (Suc (Suc 0)))) n" by (rule arg_cong)
    moreover have "zero_pad 4 n = pad 4 n" using assms by (intro zero_pad_eq_pad) simp_all
    ultimately show ?thesis by (simp only: pad.simps append.simps)
  qed
  have d: "k mod 10 < 10" for k :: nat by simp
  have "1000 * (n div 10 div 10 div 10 mod 10) + 100 * (n div 10 div 10 mod 10)
      + 10 * (n div 10 mod 10) + n mod 10 = n"
  proof -
    have "n div 10 div 10 div 10 < 10" using assms by (simp add: div_mult2_eq [symmetric])
    then have "n div 10 div 10 div 10 mod 10 = n div 10 div 10 div 10" by simp
    then show ?thesis
      using div_mult_mod_eq [of n 10] div_mult_mod_eq [of "n div 10" 10]
        div_mult_mod_eq [of "n div 10 div 10" 10] by linarith
  qed
  then show ?thesis by (simp add: p d)
qed

lemma skip_frac_id [simp]: "skip_frac (CHR ''Z'' # r) = CHR ''Z'' # r"
  by (simp add: skip_frac_def split: list.split)

lemma get_zone_Z [simp]: "get_zone [CHR ''Z''] = Some (0, [])"
  by simp

lemma parse_lit: "c \<noteq> CHR '' '' \<Longrightarrow> parse_chunks (Lit c # ks) t ([c] @ r) = parse_chunks ks t r"
  by (simp add: parse_chunk_def)

lemma parse_year:
  "n < 10000 \<Longrightarrow> parse_chunks (LongYear # ks) t (zero_pad 4 n @ r) = parse_chunks ks (t\<lparr>p_year := n\<rparr>) r"
  by (simp add: parse_chunk_def)

lemma parse_month:
  "1 \<le> n \<Longrightarrow> n \<le> 12 \<Longrightarrow>
   parse_chunks (ZeroMonth # ks) t (zero_pad 2 n @ r) = parse_chunks ks (t\<lparr>p_month := n\<rparr>) r"
  by (simp add: parse_chunk_def in_range_def)

lemma parse_day:
  "n < 100 \<Longrightarrow> parse_chunks (ZeroDay # ks) t (zero_pad 2 n @ r) = parse_chunks ks (t\<lparr>p_day := n\<rparr>) r"
  by (simp add: parse_chunk_def)

lemma parse_hour:
  "n < 24 \<Longrightarrow> parse_chunks (Hour # ks) t (zero_pad 2 n @ r) = parse_chunks ks (t\<lparr>p_hour := n\<rparr>) r"
  by (simp add: parse_chunk_def in_range_def)

lemma parse_minute:
  "n < 60 \<Longrightarrow>
   parse_chunks (ZeroMinute # ks) t (zero_pad 2 n @ r) = parse_chunks ks (t\<lparr>p_min := n\<rparr>) r"
  by (simp add: parse_chunk_def in_range_def)

lemma parse_second_frac:
  "n < 60 \<Longrightarrow> parse_chunks (ZeroSecond # Frac9 # ks) t (zero_pad 2 n @ r)
     = parse_chunks (Frac9 # ks) (t\<lparr>p_sec := n\<rparr>) r"
  by (simp add: parse_chunk_def in_range_def)

lemma parse_frac_zone:
  "parse_chunks [Frac9, ZoneColon] t ''Z'' = Some (t\<lparr>p_zone := 0\<rparr>)"
  by (simp add: parse_chunk_def)

lemmas parse_steps = parse_lit parse_year parse_month parse_day parse_hour parse_minute
  parse_second_frac parse_frac_zone

lemma parse_RFC3339_fields:
  assumes "valid_date (int y, m, d)" and "y < 10000" and "h < 24" and "mi < 60" and "s < 60"
  shows "ParseTime layout_RFC3339Nano (zero_pad 4 y @ ''-'' @ zero_pad 2 m @ ''-'' @ zero_pad 2 d
      @ ''T'' @ zero_pad 2 h @ '':'' @ zero_pad 2 mi @ '':'' @ zero_pad 2 s @ ''Z'')
    = Some (days_from_civil (int y, m, d) * 86400 + int (h * 3600 + mi * 60 + s))"
proof -
  have md: "d < 100" "1 \<le> m" "m \<le> 12"
    using assms(1) by (auto simp: valid_date_def days_in_def split: if_splits)
  have "layout_RFC3339Nano = [LongYear, Lit CHR ''-'', ZeroMonth, Lit CHR ''-'', ZeroDay,
      Lit CHR ''T'', Hour, Lit CHR '':'', ZeroMinute, Lit CHR '':'', ZeroSecond, Frac9, ZoneColon]"
    by (simp add: layout_RFC3339Nano_def ymd_chunks_def hms_chunks_def)
  moreover have "parse_chunks [LongYear, Lit CHR ''-'', ZeroMonth, Lit CHR ''-'', ZeroDay,
      Lit CHR ''T'', Hour, Lit CHR '':'', ZeroMinute, Lit CHR '':'', ZeroSecond, Frac9, ZoneColon]
      ptime0 (zero_pad 4 y @ ''-'' @ zero_pad 2 m @ ''-'' @ zero_pad 2 d
      @ ''T'' @ zero_pad 2 h @ '':'' @ zero_pad 2 mi @ '':'' @ zero_pad 2 s @ ''Z'')
    = Some (ptime0\<lparr>p_year := y, p_month := m, p_day := d, p_hour := h, p_min := mi, p_sec := s,
        p_zone := 0\<rparr>)"
    using assms md by (simp only: parse_steps char.inject simp_thms not_False_eq_True)
  ultimately show ?thesis
    using assms(1) by (simp add: ParseTime_def clock_hour_def ptime0_def)
qed

theorem ParseTime_FormatRFC3339:
  assumes "four_digit_year t"
  shows "ParseTime layout_RFC3339Nano (FormatRFC3339 t) = Some t"
proof -
  obtain y m d where c: "civil_from_days (t div 86400) = (y, m, d)"
    by (cases "civil_from_days (t div 86400)")
  have "- 719528 \<le> t div 86400" "t div 86400 < 2932897"
    using assms by (auto simp: four_digit_year_def)
  from year_range [OF c this] have y: "0 \<le> y" "y < 10000" by auto
  obtain s where s: "s = nat (t mod 86400)" by blast
  have sb: "s < 86400" by (simp add: s nat_less_iff)
  have v: "valid_date (int (nat y), m, d)"
    using civil_from_days_valid [of "t div 86400"] c y by simp
  have f: "FormatRFC3339 t = zero_pad 4 (nat y) @ ''-'' @ zero_pad 2 m @ ''-'' @ zero_pad 2 d
      @ ''T'' @ zero_pad 2 (s div 3600) @ '':'' @ zero_pad 2 (s div 60 mod 60) @ '':''
      @ zero_pad 2 (s mod 60) @ ''Z''"
    using y by (simp add: FormatRFC3339_def c s fmt_civil_def fmt_year_def)
  have "s div 3600 * 3600 + s div 60 mod 60 * 60 + s mod 60 = s"
  proof -
    have "s div 3600 = s div 60 div 60" by (simp add: div_mult2_eq [symmetric])
    then show ?thesis
      using div_mult_mod_eq [of s 60] div_mult_mod_eq [of "s div 60" 60] by linarith
  qed
  moreover have "days_from_civil (int (nat y), m, d) = t div 86400"
    using days_from_civil_from_days [of "t div 86400"] c y by simp
  moreover have "t div 86400 * 86400 + int s = t"
    by (simp add: s)
  moreover have "ParseTime layout_RFC3339Nano (FormatRFC3339 t)
      = Some (days_from_civil (int (nat y), m, d) * 86400
          + int (s div 3600 * 3600 + s div 60 mod 60 * 60 + s mod 60))"
    unfolding f using y sb by (intro parse_RFC3339_fields [OF v]) auto
  ultimately show ?thesis by simp
qed

lemma parseTimeToRFC3339_FormatRFC3339:
  "four_digit_year t \<Longrightarrow> parseTimeToRFC3339 (FormatRFC3339 t) = Inr (FormatRFC3339 t)"
  by (simp add: parseTimeToRFC3339_def time_formats_def ParseTime_FormatRFC3339)

lemma parseTimeToRFC3339_normal:
  "parseTimeToRFC3339 s = Inr r \<Longrightarrow> \<exists>t. r = FormatRFC3339 t"
  by (auto simp: parseTimeToRFC3339_def split: option.splits)

end
