(* ===== verification/World.thy ===== *)
theory World
  imports Time_Parse
begin

text \<open>
  The state every component works on. The rows are those of \<open>db/models.go\<close>, field by field, and a
  \<open>database\<close> holds the nine tables in the order of their rowids. A \<open>world\<close> adds what the code
  reads from outside or leaves there: the faults of the database driver, the clock, the random
  bytes, the job queue of the dispatcher, the cancellation of contexts, and the log of everything
  that was sent to a person.
\<close>

section \<open>Rows of db/models.go\<close>

record AuditLog =
  au_ID :: int
  au_Timestamp :: string
  au_Username :: string
  au_IpAddress :: null_string
  au_Action :: string
  au_ImpactedTable :: string
  au_OldValues :: null_string
  au_NewValues :: null_string

record Delivery =
  dl_ID :: int
  dl_DeliveryID :: string
  dl_NotificationID :: string
  dl_Group :: null_string
  dl_Member :: null_string
  dl_Destination :: null_string
  dl_Channel :: string
  dl_Status :: string
  dl_EmailTemplate :: null_string
  dl_EmailVars :: null_string
  dl_Attempt :: int
  dl_PollAttempts :: int
  dl_ErrorMessage :: null_string
  dl_SentAt :: string
  dl_CompletedAt :: null_string
  dl_TwilioSid :: null_string

record EmailTemplate =
  et_ID :: int
  et_TemplateName :: string
  et_Subject :: string
  et_Body :: string
  et_RequiredVars :: string
  et_Description :: null_string

record Event =
  ev_ID :: int
  ev_EventID :: string
  ev_EventUrl :: null_string
  ev_EventName :: null_string
  ev_EventDescription :: null_string
  ev_EventSeverity :: null_string
  ev_StartTime :: string
  ev_EndTime :: null_string
  ev_CreatedBy :: null_string
  ev_CreatedAt :: string
  ev_ModifiedBy :: null_string
  ev_ModifiedAt :: null_string
  ev_AutoClosed :: int

record GroupMember =
  gm_GroupName :: string
  gm_Username :: string
  gm_DisplayName :: null_string
  gm_Email :: null_string
  gm_Mobile :: null_string
  gm_Work :: null_string
  gm_SyncedAt :: string

record Notification =
  nt_ID :: int
  nt_NotificationID :: string
  nt_EventID :: string
  nt_Groups :: null_string
  nt_Destinations :: null_string
  nt_Channels :: null_string
  nt_Message :: string
  nt_Status :: string
  nt_ErrorMessage :: null_string
  nt_MemberCount :: int
  nt_EmailTemplate :: null_string
  nt_EmailVars :: null_string
  nt_CreatedAt :: string
  nt_CreatedBy :: null_string

record SmsSubscription =
  sb_Username :: string
  sb_Phone :: string
  sb_SubscribedAt :: string

record SmtpCramCredential =
  cc_Username :: string
  cc_SecretNonce :: string
  cc_SecretCipher :: string
  cc_Roles :: string
  cc_Enabled :: int
  cc_CreatedAt :: string

record SyncGroup =
  sg_ID :: int
  sg_GroupName :: string
  sg_CreatedAt :: string
  sg_CreatedBy :: string

section \<open>The database and the world\<close>

record database =
  events :: "Event list"
  notifications :: "Notification list"
  deliveries :: "Delivery list"
  email_templates :: "EmailTemplate list"
  group_members :: "GroupMember list"
  sync_groups :: "SyncGroup list"
  sync_groups_seq :: int
  audit_log :: "AuditLog list"
  sms_subscriptions :: "SmsSubscription list"
  smtp_cram_credentials :: "SmtpCramCredential list"

definition empty_db :: database where
  "empty_db = \<lparr>events = [], notifications = [], deliveries = [], email_templates = [],
     group_members = [], sync_groups = [], sync_groups_seq = 0, audit_log = [],
     sms_subscriptions = [], smtp_cram_credentials = []\<rparr>"

text \<open>What leaves the program towards people: each call to a provider, successful or not.\<close>

datatype outgoing =
    SmsTo string string
  | CallTo string string
  | EmailTo string string string

text \<open>
  \<open>w_faults\<close> has one entry for each statement sent to the database, \<open>True\<close> when the driver fails.
  \<open>w_ticks\<close> says by how many nanoseconds the clock \<open>w_now\<close> moves at each reading.
  \<open>w_random\<close> is the stream of \<open>crypto/rand\<close>, read from position \<open>w_rpos\<close>.
  \<open>w_queue\<close> is the channel between the front ends and the dispatcher, of capacity \<open>w_queue_cap\<close>.
  \<open>w_cancels\<close> has one entry for each \<open>select\<close> on \<open>ctx.Done()\<close>, \<open>True\<close> when the context is done.
  \<open>w_sleeps\<close> lists the waits (in nanoseconds), \<open>w_outbox\<close> what was sent, newest first.
\<close>

record world =
  w_db :: database
  w_faults :: "bool list"
  w_now :: int
  w_ticks :: "nat list"
  w_random :: "nat \<Rightarrow> 8 word"
  w_rpos :: nat
  w_queue :: "string list"
  w_queue_cap :: nat
  w_cancels :: "bool list"
  w_sleeps :: "int list"
  w_outbox :: "outgoing list"

definition world0 :: world where
  "world0 = \<lparr>w_db = empty_db, w_faults = [], w_now = 0, w_ticks = [], w_random = (\<lambda>_. 0),
     w_rpos = 0, w_queue = [], w_queue_cap = 256, w_cancels = [], w_sleeps = [], w_outbox = []\<rparr>"

section \<open>Clock, random bytes, contexts\<close>

definition advance_clock :: "world \<Rightarrow> world" where
  "advance_clock w = (case w_ticks w of [] \<Rightarrow> w
     | k # ks \<Rightarrow> w\<lparr>w_now := w_now w + int k, w_ticks := ks\<rparr>)"

text \<open>\<open>time.Now()\<close>, in nanoseconds since 1970.\<close>

definition time_Now :: "(world, int) state" where
  "time_Now = do { modify advance_clock; gets w_now }"

definition unix_sec :: "int \<Rightarrow> int" where
  "unix_sec ns = ns div 1000000000"

text \<open>\<open>time.Now().UTC().Format(time.RFC3339)\<close>\<close>

definition now_RFC3339 :: "(world, string) state" where
  "now_RFC3339 = do { t \<leftarrow> time_Now; ret (FormatRFC3339 (unix_sec t)) }"

text \<open>\<open>rand.Read\<close> of \<open>n\<close> bytes: since Go 1.24 it never returns an error.\<close>

definition rand_Read :: "nat \<Rightarrow> (world, 8 word list) state" where
  "rand_Read n = do {
     w \<leftarrow> State_Monad.get;
     modify (\<lambda>w. w\<lparr>w_rpos := w_rpos w + n\<rparr>);
     ret (map (\<lambda>i. w_random w (w_rpos w + i)) [0..<n]) }"

text \<open>\<open>select\<close> between \<open>time.After d\<close> and \<open>ctx.Done()\<close>: \<open>True\<close> when the wait was cancelled.\<close>

definition sleep_or_done :: "int \<Rightarrow> (world, bool) state" where
  "sleep_or_done d = do {
     cs \<leftarrow> gets w_cancels;
     modify (\<lambda>w. w\<lparr>w_cancels := tl cs\<rparr>);
     if cs \<noteq> [] \<and> hd cs then ret True
     else do { modify (\<lambda>w. w\<lparr>w_sleeps := d # w_sleeps w\<rparr>); ret False } }"

text \<open>The arm \<open>ctx.Done()\<close> of a \<open>select\<close> beside another that is ready.\<close>

definition ctx_done :: "(world, bool) state" where
  "ctx_done = do {
     cs \<leftarrow> gets w_cancels;
     modify (\<lambda>w. w\<lparr>w_cancels := tl cs\<rparr>);
     ret (cs \<noteq> [] \<and> hd cs) }"

definition send_out :: "outgoing \<Rightarrow> (world, unit) state" where
  "send_out m = modify (\<lambda>w. w\<lparr>w_outbox := m # w_outbox w\<rparr>)"

lemma advance_clock_simps [simp]:
  "w_db (advance_clock w) = w_db w" "w_faults (advance_clock w) = w_faults w"
  "w_queue (advance_clock w) = w_queue w" "w_queue_cap (advance_clock w) = w_queue_cap w"
  "w_outbox (advance_clock w) = w_outbox w" "w_sleeps (advance_clock w) = w_sleeps w"
  "w_cancels (advance_clock w) = w_cancels w" "w_random (advance_clock w) = w_random w"
  "w_rpos (advance_clock w) = w_rpos w"
  by (simp_all add: advance_clock_def split: list.split)

lemma advance_clock_mono: "w_now w \<le> w_now (advance_clock w)"
  by (simp add: advance_clock_def split: list.split)

lemma wp_get [wp_simps]: "wp State_Monad.get Q s = Q s s"
  by (simp add: wp_def State_Monad.get_def)

lemma wp_time_Now [wp_simps]:
  "wp time_Now Q w = Q (w_now (advance_clock w)) (advance_clock w)"
  by (simp add: time_Now_def wp_simps)

lemma wp_now_RFC3339 [wp_simps]:
  "wp now_RFC3339 Q w = Q (FormatRFC3339 (unix_sec (w_now (advance_clock w)))) (advance_clock w)"
  by (simp add: now_RFC3339_def wp_simps)

lemma wp_rand_Read [wp_simps]:
  "wp (rand_Read n) Q w = Q (map (\<lambda>i. w_random w (w_rpos w + i)) [0..<n]) (w\<lparr>w_rpos := w_rpos w + n\<rparr>)"
  by (simp add: rand_Read_def wp_simps)

lemma wp_sleep_or_done [wp_simps]:
  "wp (sleep_or_done d) Q w =
    (if w_cancels w \<noteq> [] \<and> hd (w_cancels w) then Q True (w\<lparr>w_cancels := tl (w_cancels w)\<rparr>)
     else Q False (w\<lparr>w_cancels := tl (w_cancels w), w_sleeps := d # w_sleeps w\<rparr>))"
  by (simp add: sleep_or_done_def wp_simps)

lemma wp_ctx_done [wp_simps]:
  "wp ctx_done Q w = Q (w_cancels w \<noteq> [] \<and> hd (w_cancels w)) (w\<lparr>w_cancels := tl (w_cancels w)\<rparr>)"
  by (simp add: ctx_done_def wp_simps)

lemma wp_send_out [wp_simps]: "wp (send_out m) Q w = Q () (w\<lparr>w_outbox := m # w_outbox w\<rparr>)"
  by (simp add: send_out_def wp_simps)

section \<open>Statements sent to the database\<close>

text \<open>
  \<open>ErrNoRows\<close> is \<open>sql.ErrNoRows\<close>, \<open>ErrConstraint\<close> a violated UNIQUE, PRIMARY KEY or FOREIGN KEY,
  \<open>ErrDriver\<close> any failure of the driver, after which the tables are as before.
\<close>

datatype db_error = ErrNoRows | ErrConstraint | ErrDriver

type_synonym 'a db_result = "db_error + 'a"

definition statement :: "(database \<Rightarrow> ('a \<times> database) db_result) \<Rightarrow> (world, 'a db_result) state" where
  "statement f = State (\<lambda>w.
     let w' = w\<lparr>w_faults := tl (w_faults w)\<rparr>
     in if w_faults w \<noteq> [] \<and> hd (w_faults w) then (Inl ErrDriver, w')
        else case f (w_db w) of Inl e \<Rightarrow> (Inl e, w')
          | Inr (a, d) \<Rightarrow> (Inr a, w'\<lparr>w_db := d\<rparr>))"

text \<open>The three shapes of sqlc's methods: \<open>:one\<close>, \<open>:many\<close> and \<open>:exec\<close>.\<close>

definition query_one :: "(database \<Rightarrow> 'a option) \<Rightarrow> (world, 'a db_result) state" where
  "query_one f = statement (\<lambda>d. case f d of None \<Rightarrow> Inl ErrNoRows | Some r \<Rightarrow> Inr (r, d))"

definition query_many :: "(database \<Rightarrow> 'a) \<Rightarrow> (world, 'a db_result) state" where
  "query_many f = statement (\<lambda>d. Inr (f d, d))"

definition exec :: "(database \<Rightarrow> database) \<Rightarrow> (world, unit db_result) state" where
  "exec f = statement (\<lambda>d. Inr ((), f d))"

definition insert_unless :: "(database \<Rightarrow> bool) \<Rightarrow> (database \<Rightarrow> 'a \<times> database)
    \<Rightarrow> (world, 'a db_result) state" where
  "insert_unless violated f = statement (\<lambda>d. if violated d then Inl ErrConstraint else Inr (f d))"

text \<open>Whether the next statement fails in the driver, and the world after it was sent.\<close>

definition faulty :: "world \<Rightarrow> bool" where
  "faulty w \<longleftrightarrow> w_faults w \<noteq> [] \<and> hd (w_faults w)"

definition sent :: "world \<Rightarrow> world" where
  "sent w = w\<lparr>w_faults := tl (w_faults w)\<rparr>"

lemma sent_simps [simp]:
  "w_db (sent w) = w_db w" "w_queue (sent w) = w_queue w" "w_now (sent w) = w_now w"
  "w_outbox (sent w) = w_outbox w" "w_sleeps (sent w) = w_sleeps w" "w_queue_cap (sent w) = w_queue_cap w"
  "w_cancels (sent w) = w_cancels w" "w_faults (sent w) = tl (w_faults w)"
  "w_ticks (sent w) = w_ticks w" "w_random (sent w) = w_random w" "w_rpos (sent w) = w_rpos w"
  by (simp_all add: sent_def)

lemma no_faults [simp]: "w_faults w = [] \<Longrightarrow> sent w = w" "w_faults w = [] \<Longrightarrow> \<not> faulty w"
  by (cases w, simp add: sent_def) (simp add: faulty_def)

lemma wp_statement [wp_simps]:
  "wp (statement f) Q w =
    (if faulty w then Q (Inl ErrDriver) (sent w)
     else case f (w_db w) of Inl e \<Rightarrow> Q (Inl e) (sent w)
       | Inr (a, d) \<Rightarrow> Q (Inr a) (sent w\<lparr>w_db := d\<rparr>))"
  by (simp add: wp_def statement_def faulty_def sent_def split: sum.split prod.split)

lemma wp_query_one [wp_simps]:
  "wp (query_one f) Q w =
    (if faulty w then Q (Inl ErrDriver) (sent w)
     else case f (w_db w) of None \<Rightarrow> Q (Inl ErrNoRows) (sent w) | Some r \<Rightarrow> Q (Inr r) (sent w))"
  by (simp add: query_one_def wp_statement sent_def split: option.split)

lemma wp_query_many [wp_simps]:
  "wp (query_many f) Q w =
    (if faulty w then Q (Inl ErrDriver) (sent w) else Q (Inr (f (w_db w))) (sent w))"
  by (simp add: query_many_def wp_statement sent_def)

lemma wp_exec [wp_simps]:
  "wp (exec f) Q w =
    (if faulty w then Q (Inl ErrDriver) (sent w)
     else Q (Inr ()) (sent w\<lparr>w_db := f (w_db w)\<rparr>))"
  by (simp add: exec_def wp_statement)

lemma wp_insert_unless [wp_simps]:
  "wp (insert_unless v f) Q w =
    (if faulty w then Q (Inl ErrDriver) (sent w)
     else if v (w_db w) then Q (Inl ErrConstraint) (sent w)
     else case f (w_db w) of (a, d) \<Rightarrow> Q (Inr a) (sent w\<lparr>w_db := d\<rparr>))"
  by (simp add: insert_unless_def wp_statement split: prod.split)

section \<open>Programs that keep a property of the database\<close>

definition on_db :: "(database \<Rightarrow> bool) \<Rightarrow> world \<Rightarrow> bool" where
  "on_db J w = J (w_db w)"

lemma on_db_simps [simp]:
  "on_db J (sent w) = on_db J w" "on_db J (advance_clock w) = on_db J w"
  "on_db J (w\<lparr>w_faults := a\<rparr>) = on_db J w" "on_db J (w\<lparr>w_cancels := cs\<rparr>) = on_db J w"
  "on_db J (w\<lparr>w_sleeps := ss\<rparr>) = on_db J w" "on_db J (w\<lparr>w_outbox := out\<rparr>) = on_db J w"
  "on_db J (w\<lparr>w_queue := q\<rparr>) = on_db J w" "on_db J (w\<lparr>w_rpos := n\<rparr>) = on_db J w"
  "on_db J (w\<lparr>w_db := d\<rparr>) = J d"
  by (simp_all add: on_db_def)

lemma preserves_get [keeps]: "preserves I State_Monad.get"
  by (simp add: preserves_def State_Monad.get_def)

lemma db_keeps [keeps]:
  "preserves (on_db J) time_Now" "preserves (on_db J) now_RFC3339"
  "preserves (on_db J) (rand_Read n)" "preserves (on_db J) (sleep_or_done d)"
  "preserves (on_db J) (send_out m)" "preserves (on_db J) ctx_done"
  by (auto intro!: preservesI simp: wp_simps)

lemma preserves_statement:
  "(\<And>d a d'. J d \<Longrightarrow> f d = Inr (a, d') \<Longrightarrow> J d') \<Longrightarrow> preserves (on_db J) (statement f)"
  by (rule preservesI) (auto simp: wp_statement on_db_def split: sum.split)

lemma preserves_query_one [keeps]: "preserves (on_db J) (query_one f)"
  by (rule preservesI) (auto simp: wp_query_one split: option.split)

lemma preserves_query_many [keeps]: "preserves (on_db J) (query_many f)"
  by (rule preservesI) (auto simp: wp_query_many)

lemma preserves_exec: "(\<And>d. J d \<Longrightarrow> J (f d)) \<Longrightarrow> preserves (on_db J) (exec f)"
  by (rule preservesI) (auto simp: wp_exec on_db_def)

lemma preserves_insert_unless:
  "(\<And>d. J d \<Longrightarrow> \<not> v d \<Longrightarrow> J (snd (f d))) \<Longrightarrow> preserves (on_db J) (insert_unless v f)"
  by (rule preservesI) (auto simp: wp_insert_unless on_db_def case_prod_beta)

end
