(* ===== verification/Go_Json.thy ===== *)
theory Go_Json
  imports World
begin

text \<open>
  \<open>encoding/json\<close> as the program uses it: \<open>Marshal\<close> with the escapes Go chooses, the parser, and
  \<open>Unmarshal\<close> into \<open>[]string\<close>, a slice of destinations and \<open>map[string]any\<close>. Strings are bytes of
  valid UTF-8, which pass through unchanged; a number keeps its literal text; Go's limit of ten
  thousand nested levels is not modelled. A map is a list of pairs sorted by key, the order in
  which \<open>Marshal\<close> writes it. The parser has fuel for the nesting, which the length of the text
  bounds (\<open>json_fuel\<close>), and it returns what was encoded (\<open>json_parse_encode\<close>).
\<close>

datatype json =
    JNull
  | JBool bool
  | JNum string
  | JStr string
  | JArr "json list"
  | JObj "(string \<times> json) list"

section \<open>Marshal\<close>

definition json_char :: "char \<Rightarrow> string" where
  "json_char c =
     (if c = CHR 0x22 then [CHR 0x5C, CHR 0x22]
      else if c = CHR 0x5C then [CHR 0x5C, CHR 0x5C]
      else if c = CHR 0x08 then [CHR 0x5C, CHR ''b'']
      else if c = CHR 0x0C then [CHR 0x5C, CHR ''f'']
      else if c = CHR 0x0A then [CHR 0x5C, CHR ''n'']
      else if c = CHR 0x0D then [CHR 0x5C, CHR ''r'']
      else if c = CHR 0x09 then [CHR 0x5C, CHR ''t'']
      else if byte c < 32 \<or> c = CHR ''<'' \<or> c = CHR ''>'' \<or> c = CHR ''&'' then
        [CHR 0x5C, CHR ''u'', CHR ''0'', CHR ''0'', hex_digit (byte c div 16), hex_digit (byte c mod 16)]
      else [c])"

definition json_string :: "string \<Rightarrow> string" where
  "json_string s = [CHR 0x22] @ concat (map json_char s) @ [CHR 0x22]"

primrec encode :: "json \<Rightarrow> string" where
  "encode JNull = ''null''"
| "encode (JBool b) = (if b then ''true'' else ''false'')"
| "encode (JNum n) = n"
| "encode (JStr s) = json_string s"
| "encode (JArr xs) = ''['' @ Join (map encode xs) '','' @ '']''"
| "encode (JObj kvs) =
     ''{'' @ Join (map (\<lambda>(k, v). json_string k @ '':'' @ v) (map (map_prod id encode) kvs)) '','' @ ''}''"

section \<open>Scanning\<close>

definition json_ws :: "char \<Rightarrow> bool" where
  "json_ws c \<longleftrightarrow> byte c = 32 \<or> byte c = 9 \<or> byte c = 10 \<or> byte c = 13"

definition skip_ws :: "string \<Rightarrow> string" where
  "skip_ws s = dropWhile json_ws s"

definition hex_val :: "char \<Rightarrow> nat option" where
  "hex_val c = (if 48 \<le> byte c \<and> byte c \<le> 57 then Some (byte c - 48)
     else if 97 \<le> byte c \<and> byte c \<le> 102 then Some (byte c - 87)
     else if 65 \<le> byte c \<and> byte c \<le> 70 then Some (byte c - 55) else None)"

fun hex4 :: "string \<Rightarrow> (nat \<times> string) option" where
  "hex4 (a # b # c # d # r) = (case (hex_val a, hex_val b, hex_val c, hex_val d) of
      (Some w, Some x, Some y, Some z) \<Rightarrow> Some (4096 * w + 256 * x + 16 * y + z, r)
    | _ \<Rightarrow> None)"
| "hex4 _ = None"

text \<open>\<open>utf8.AppendRune\<close>\<close>

definition utf8_rune :: "nat \<Rightarrow> string" where
  "utf8_rune u =
     (if u < 0x80 then [char_of u]
      else if u < 0x800 then [char_of (0xC0 + u div 64), char_of (0x80 + u mod 64)]
      else if u < 0x10000 then
        [char_of (0xE0 + u div 4096), char_of (0x80 + u div 64 mod 64), char_of (0x80 + u mod 64)]
      else [char_of (0xF0 + u div 262144), char_of (0x80 + u div 4096 mod 64),
        char_of (0x80 + u div 64 mod 64), char_of (0x80 + u mod 64)])"

text \<open>A lone surrogate becomes U+FFFD; a pair becomes one code point.\<close>

definition unescape_u :: "string \<Rightarrow> (string \<times> string) option" where
  "unescape_u r = (case hex4 r of None \<Rightarrow> None
     | Some (u, r1) \<Rightarrow>
         if u < 0xD800 \<or> 0xDFFF < u then Some (utf8_rune u, r1)
         else (case r1 of
             b # v # r2 \<Rightarrow>
               if b = CHR 0x5C \<and> v = CHR ''u'' \<and> u < 0xDC00 then
                 (case hex4 r2 of
                    Some (l, r3) \<Rightarrow>
                      if 0xDC00 \<le> l \<and> l \<le> 0xDFFF
                      then Some (utf8_rune ((u - 0xD800) * 1024 + (l - 0xDC00) + 0x10000), r3)
                      else Some (utf8_rune 0xFFFD, r1)
                  | None \<Rightarrow> Some (utf8_rune 0xFFFD, r1))
               else Some (utf8_rune 0xFFFD, r1)
           | _ \<Rightarrow> Some (utf8_rune 0xFFFD, r1)))"

fun unescape :: "string \<Rightarrow> (string \<times> string) option" where
  "unescape [] = None"
| "unescape (c # r) =
     (if c = CHR 0x22 \<or> c = CHR 0x5C \<or> c = CHR ''/'' then Some ([c], r)
      else if c = CHR ''b'' then Some ([CHR 0x08], r)
      else if c = CHR ''f'' then Some ([CHR 0x0C], r)
      else if c = CHR ''n'' then Some ([CHR 0x0A], r)
      else if c = CHR ''r'' then Some ([CHR 0x0D], r)
      else if c = CHR ''t'' then Some ([CHR 0x09], r)
      else if c = CHR ''u'' then unescape_u r
      else None)"

lemma hex4_length: "hex4 r = Some (u, r') \<Longrightarrow> length r' < length r"
  by (induction r rule: hex4.induct) (auto split: option.splits)

lemma unescape_length: "unescape r = Some (u, r') \<Longrightarrow> length r' < length r"
proof (cases r)
  case (Cons c s)
  assume h: "unescape r = Some (u, r')"
  have "length r' < length s" if "unescape_u s = Some (u, r')"
    using that hex4_length unfolding unescape_u_def
    by (auto split: option.splits if_splits list.splits) (fastforce dest!: hex4_length)+
  with h Cons show ?thesis by (auto split: if_splits)
qed simp

text \<open>The body of a string, after the opening quote; control characters are errors.\<close>

function parse_str :: "string \<Rightarrow> (string \<times> string) option" where
  "parse_str [] = None"
| "parse_str (c # r) =
     (if c = CHR 0x22 then Some ([], r)
      else if c = CHR 0x5C then
        (case unescape r of None \<Rightarrow> None
         | Some (u, r') \<Rightarrow> map_option (\<lambda>(s, q). (u @ s, q)) (parse_str r'))
      else if byte c < 32 then None
      else map_option (\<lambda>(s, q). (c # s, q)) (parse_str r))"
  by pat_completeness auto
termination
  by (relation "measure length") (auto dest: unescape_length)

definition scan_digits :: "string \<Rightarrow> string \<times> string" where
  "scan_digits s = (takeWhile is_digit s, dropWhile is_digit s)"

text \<open>A number: sign, whole part, fraction, exponent; the last two may be empty.\<close>

definition num_sign :: "string \<Rightarrow> string \<times> string" where
  "num_sign s = (case s of [] \<Rightarrow> ([], [])
     | c # r \<Rightarrow> if c = CHR ''-'' then ([c], r) else ([], s))"

definition num_whole :: "string \<Rightarrow> string \<times> string" where
  "num_whole s = (case s of [] \<Rightarrow> ([], [])
     | c # r \<Rightarrow> if c = CHR ''0'' then ([c], r) else scan_digits s)"

definition num_frac :: "string \<Rightarrow> (string \<times> string) option" where
  "num_frac s = (case s of [] \<Rightarrow> Some ([], [])
     | c # r \<Rightarrow> if c \<noteq> CHR ''.'' then Some ([], s)
         else (case scan_digits r of (ds, q) \<Rightarrow> if ds = [] then None else Some (c # ds, q)))"

definition num_exp_sign :: "string \<Rightarrow> string \<times> string" where
  "num_exp_sign s = (case s of [] \<Rightarrow> ([], [])
     | c # r \<Rightarrow> if c = CHR ''+'' \<or> c = CHR ''-'' then ([c], r) else ([], s))"

definition num_exp :: "string \<Rightarrow> (string \<times> string) option" where
  "num_exp s = (case s of [] \<Rightarrow> Some ([], [])
     | c # r \<Rightarrow> if c \<noteq> CHR ''e'' \<and> c \<noteq> CHR ''E'' then Some ([], s)
         else (case num_exp_sign r of (sg, q) \<Rightarrow>
           (case scan_digits q of (ds, t) \<Rightarrow> if ds = [] then None else Some (c # sg @ ds, t))))"

definition parse_num :: "string \<Rightarrow> (string \<times> string) option" where
  "parse_num s = (case num_sign s of (sg, s1) \<Rightarrow> (case num_whole s1 of (w, s2) \<Rightarrow>
     if w = [] then None
     else (case num_frac s2 of None \<Rightarrow> None
       | Some (f, s3) \<Rightarrow> map_option (\<lambda>(e, r). (sg @ w @ f @ e, r)) (num_exp s3))))"

section \<open>The parser\<close>

definition parse_literal :: "string \<Rightarrow> (json \<times> string) option" where
  "parse_literal s =
     (if HasPrefix s ''null'' then Some (JNull, drop 4 s)
      else if HasPrefix s ''true'' then Some (JBool True, drop 4 s)
      else if HasPrefix s ''false'' then Some (JBool False, drop 5 s)
      else map_option (\<lambda>(n, r). (JNum n, r)) (parse_num s))"

fun parse_value :: "nat \<Rightarrow> string \<Rightarrow> (json \<times> string) option"
  and parse_elems :: "nat \<Rightarrow> string \<Rightarrow> (json list \<times> string) option"
  and parse_members :: "nat \<Rightarrow> string \<Rightarrow> ((string \<times> json) list \<times> string) option" where
  "parse_value 0 s = None"
| "parse_value (Suc n) s = (case skip_ws s of [] \<Rightarrow> None
     | c # r \<Rightarrow>
         if c = CHR 0x22 then map_option (\<lambda>(t, q). (JStr t, q)) (parse_str r)
         else if c = CHR ''['' then
           (case skip_ws r of d # q \<Rightarrow> if d = CHR '']'' then Some (JArr [], q)
                else map_option (\<lambda>(xs, q). (JArr xs, q)) (parse_elems n r)
            | [] \<Rightarrow> None)
         else if c = CHR ''{'' then
           (case skip_ws r of d # q \<Rightarrow> if d = CHR ''}'' then Some (JObj [], q)
                else map_option (\<lambda>(kvs, q). (JObj kvs, q)) (parse_members n r)
            | [] \<Rightarrow> None)
         else parse_literal (c # r))"
| "parse_elems 0 s = None"
| "parse_elems (Suc n) s = (case parse_value n s of None \<Rightarrow> None
     | Some (v, r) \<Rightarrow> (case skip_ws r of [] \<Rightarrow> None
        | d # q \<Rightarrow> if d = CHR '']'' then Some ([v], q)
                  else if d = CHR '','' then map_option (\<lambda>(vs, q'). (v # vs, q')) (parse_elems n q)
                  else None))"
| "parse_members 0 s = None"
| "parse_members (Suc n) s = (case skip_ws s of [] \<Rightarrow> None
     | c # r \<Rightarrow> if c \<noteq> CHR 0x22 then None else (case parse_str r of None \<Rightarrow> None
        | Some (k, r1) \<Rightarrow> (case skip_ws r1 of [] \<Rightarrow> None
           | d # r2 \<Rightarrow> if d \<noteq> CHR '':'' then None else (case parse_value n r2 of None \<Rightarrow> None
              | Some (v, r3) \<Rightarrow> (case skip_ws r3 of [] \<Rightarrow> None
                 | e # q \<Rightarrow> if e = CHR ''}'' then Some ([(k, v)], q)
                           else if e = CHR '','' then
                             map_option (\<lambda>(kvs, q'). ((k, v) # kvs, q')) (parse_members n q)
                           else None)))))"

definition json_fuel :: "string \<Rightarrow> nat" where
  "json_fuel s = 2 * length s + 2"

definition json_parse :: "string \<Rightarrow> json option" where
  "json_parse s = (case parse_value (json_fuel s) s of None \<Rightarrow> None
     | Some (v, r) \<Rightarrow> if skip_ws r = [] then Some v else None)"

section \<open>Parsing what was written\<close>

lemma hex_val_hex_digit [simp]: "n < 16 \<Longrightarrow> hex_val (hex_digit n) = Some n"
  by (auto simp: hex_val_def hex_digit_def)

lemma char_of_byte [simp]: "char_of (byte c) = c"
  by simp

lemma unescape_u_byte:
  assumes "byte c < 128"
  shows "unescape_u (CHR ''0'' # CHR ''0'' # hex_digit (byte c div 16) # hex_digit (byte c mod 16) # t)
    = Some ([c], t)"
proof -
  have "hex_val (CHR ''0'') = Some 0" by (simp add: hex_val_def)
  moreover have "byte c div 16 < 16" using assms by auto
  ultimately show ?thesis
    using assms by (simp add: unescape_u_def utf8_rune_def)
qed

lemma parse_str_json_char:
  "parse_str (json_char c @ t) = map_option (\<lambda>(s, q). (c # s, q)) (parse_str t)"
proof (cases "byte c < 32 \<or> c = CHR ''<'' \<or> c = CHR ''>'' \<or> c = CHR ''&''")
  case True
  then have "byte c < 128" by auto
  with True show ?thesis by (auto simp: json_char_def unescape_u_byte)
next
  case False
  then show ?thesis by (auto simp: json_char_def)
qed

lemma parse_str_encode: "parse_str (concat (map json_char s) @ CHR 0x22 # r) = Some (s, r)"
  by (induction s) (simp_all add: parse_str_json_char del: parse_str.simps(2), simp)

lemma skip_ws_Cons [simp]: "\<not> json_ws c \<Longrightarrow> skip_ws (c # r) = c # r"
  by (simp add: skip_ws_def)

lemma skip_ws_Nil [simp]: "skip_ws [] = []"
  by (simp add: skip_ws_def)

lemma json_ws_simps [simp]:
  "\<not> json_ws CHR 0x22" "\<not> json_ws CHR ''[''" "\<not> json_ws CHR '']''" "\<not> json_ws CHR ''{''"
  "\<not> json_ws CHR ''}''" "\<not> json_ws CHR '',''" "\<not> json_ws CHR '':''" "\<not> json_ws CHR ''n''"
  "\<not> json_ws CHR ''t''" "\<not> json_ws CHR ''f''"
  by (simp_all add: json_ws_def)

primrec plain :: "json \<Rightarrow> bool" where
  "plain JNull = True"
| "plain (JBool b) = True"
| "plain (JNum n) = False"
| "plain (JStr s) = True"
| "plain (JArr xs) = list_all id (map plain xs)"
| "plain (JObj kvs) = list_all snd (map (map_prod id plain) kvs)"

lemma parse_value_string:
  "0 < n \<Longrightarrow> parse_value n (json_string s @ r) = Some (JStr s, r)"
  by (cases n) (simp_all add: json_string_def parse_str_encode)

text \<open>The first byte of a value is never white space, nor a closing bracket.\<close>

lemma encode_head:
  "plain j \<Longrightarrow> \<exists>c r. encode j = c # r \<and> \<not> json_ws c \<and> c \<noteq> CHR '']'' \<and> c \<noteq> CHR ''}''"
  by (cases j) (auto simp: json_string_def)

definition parses :: "json \<Rightarrow> bool" where
  "parses j \<longleftrightarrow> (\<forall>n r. 2 * length (encode j) \<le> n \<longrightarrow> parse_value n (encode j @ r) = Some (j, r))"

lemma parsesD: "parses j \<Longrightarrow> 2 * length (encode j) \<le> n \<Longrightarrow> parse_value n (encode j @ r) = Some (j, r)"
  by (simp add: parses_def)

lemma parses_Suc:
  assumes "\<And>n r. parse_value (Suc n) (encode j @ r) = Some (j, r)" and "encode j \<noteq> []"
  shows "parses j"
  unfolding parses_def
proof (intro allI impI)
  fix n r assume "2 * length (encode j) \<le> n"
  with assms(2) obtain m where "n = Suc m" by (cases n) auto
  with assms(1) show "parse_value n (encode j @ r) = Some (j, r)" by simp
qed

lemma parse_elems_encode:
  "xs \<noteq> [] \<Longrightarrow> (\<And>x. x \<in> set xs \<Longrightarrow> parses x) \<Longrightarrow>
   2 * length (Join (map encode xs) '','') + 2 \<le> n \<Longrightarrow>
   parse_elems n (Join (map encode xs) '','' @ CHR '']'' # r) = Some (xs, r)"
proof (induction xs arbitrary: n)
  case Nil
  then show ?case by simp
next
  case (Cons x xs)
  obtain m where m: "n = Suc m" using Cons.prems(3) by (cases n) auto
  have x: "parse_value m (encode x @ q) = Some (x, q)" if "2 * length (encode x) \<le> m" for q
    using Cons.prems(2) that by (simp add: parses_def)
  show ?case
  proof (cases xs)
    case Nil
    then show ?thesis using Cons.prems(3) by (simp add: m x)
  next
    case (Cons y ys)
    have "parse_elems m (Join (map encode xs) '','' @ CHR '']'' # r) = Some (xs, r)"
      using Cons Cons.prems m by (intro Cons.IH) auto
    with Cons show ?thesis using Cons.prems(3) by (simp add: m x)
  qed
qed

lemma parse_members_encode:
  "kvs \<noteq> [] \<Longrightarrow> (\<And>k v. (k, v) \<in> set kvs \<Longrightarrow> parses v) \<Longrightarrow>
   2 * length (Join (map (\<lambda>(k, v). json_string k @ '':'' @ encode v) kvs) '','') + 2 \<le> n \<Longrightarrow>
   parse_members n (Join (map (\<lambda>(k, v). json_string k @ '':'' @ encode v) kvs) '','' @ CHR ''}'' # r)
     = Some (kvs, r)"
proof (induction kvs arbitrary: n)
  case Nil
  then show ?case by simp
next
  case (Cons kv kvs)
  obtain k v where kv: "kv = (k, v)" by fastforce
  obtain m where m: "n = Suc m" using Cons.prems(3) by (cases n) auto
  have v: "parse_value m (encode v @ q) = Some (v, q)" if "2 * length (encode v) \<le> m" for q
    using Cons.prems(2) [of k v] that kv by (simp add: parses_def)
  have k: "json_string k @ t = CHR 0x22 # concat (map json_char k) @ CHR 0x22 # t" for t
    by (simp add: json_string_def)
  show ?case
  proof (cases kvs)
    case Nil
    then show ?thesis using Cons.prems(3) by (simp add: m kv k parse_str_encode v)
  next
    case (Cons y ys)
    have "parse_members m (Join (map (\<lambda>(k, v). json_string k @ '':'' @ encode v) kvs) '','' @ CHR ''}'' # r)
        = Some (kvs, r)"
      using Cons Cons.prems m by (intro Cons.IH) auto
    with Cons show ?thesis using Cons.prems(3) by (simp add: m kv k parse_str_encode v)
  qed
qed

lemma map_map_prod_encode:
  "map (\<lambda>(k, v). json_string k @ '':'' @ v) (map (map_prod id encode) kvs)
     = map (\<lambda>(k, v). json_string k @ '':'' @ encode v) kvs"
  by auto

lemma plain_parses: "plain j \<Longrightarrow> parses j"
proof (induction j)
  case (JArr xs)
  show ?case
    unfolding parses_def
  proof (intro allI impI)
    fix n r assume n: "2 * length (encode (JArr xs)) \<le> n"
    then obtain m where m: "n = Suc m" by (cases n) auto
    show "parse_value n (encode (JArr xs) @ r) = Some (JArr xs, r)"
    proof (cases xs)
      case Nil
      then show ?thesis by (simp add: m)
    next
      case (Cons y ys)
      then obtain c q where c: "encode y = c # q" "\<not> json_ws c" "c \<noteq> CHR '']''"
        using JArr.prems encode_head [of y] by auto
      have "parse_elems m (Join (map encode xs) '','' @ CHR '']'' # r) = Some (xs, r)"
        using Cons JArr n m by (intro parse_elems_encode) (auto simp: list_all_iff)
      moreover obtain q' where "Join (map encode xs) '','' = c # q'"
        using Cons c by (cases ys) auto
      ultimately show ?thesis using c by (simp add: m)
    qed
  qed
next
  case (JObj kvs)
  show ?case
    unfolding parses_def
  proof (intro allI impI)
    fix n r assume n: "2 * length (encode (JObj kvs)) \<le> n"
    then obtain m where m: "n = Suc m" by (cases n) auto
    show "parse_value n (encode (JObj kvs) @ r) = Some (JObj kvs, r)"
    proof (cases kvs)
      case Nil
      then show ?thesis by (simp add: m)
    next
      case (Cons kv ys)
      let ?j = "Join (map (\<lambda>(k, v). json_string k @ '':'' @ encode v) kvs) '',''"
      have "parse_members m (?j @ CHR ''}'' # r) = Some (kvs, r)"
      proof (rule parse_members_encode)
        show "kvs \<noteq> []" using Cons by simp
        show "parses v" if "(k, v) \<in> set kvs" for k v
          using JObj.IH [of "(k, v)" v] JObj.prems that by (auto simp: list_all_iff)
        show "2 * length ?j + 2 \<le> m"
          using n m by (simp only: encode.simps map_map_prod_encode) simp
      qed
      moreover obtain q where "?j = CHR 0x22 # q"
        using Cons by (cases kv; cases ys) (auto simp: json_string_def)
      ultimately show ?thesis
        by (simp only: encode.simps map_map_prod_encode m) simp
    qed
  qed
next
  case (JStr s)
  have "0 < n" if "2 * length (json_string s) \<le> n" for n
    using that by (simp add: json_string_def)
  then show ?case by (simp add: parses_def parse_value_string)
next
  case JNull
  have "parse_value (Suc n) (encode JNull @ r) = Some (JNull, r)" for n r
    by (simp add: parse_literal_def HasPrefix_def)
  then show ?case by (rule parses_Suc) simp
next
  case (JBool b)
  have "parse_value (Suc n) (encode (JBool b) @ r) = Some (JBool b, r)" for n r
    by (simp add: parse_literal_def HasPrefix_def)
  then show ?case by (rule parses_Suc) simp
qed simp

theorem json_parse_encode:
  assumes "plain j"
  shows "json_parse (encode j) = Some j"
proof -
  have "parse_value (json_fuel (encode j)) (encode j @ []) = Some (j, [])"
    by (rule parsesD [OF plain_parses [OF assms]]) (simp add: json_fuel_def)
  then show ?thesis by (simp only: json_parse_def append_Nil2) simp
qed

section \<open>The fuel is enough\<close>

lemma skip_ws_length: "skip_ws s = c # r \<Longrightarrow> length r < length s"
  unfolding skip_ws_def by (metis length_Cons length_dropWhile_le less_eq_Suc_le)

lemma parse_str_length: "parse_str s = Some (t, r) \<Longrightarrow> length r < length s"
proof (induction s arbitrary: t rule: parse_str.induct)
  case (2 c s)
  show ?case
  proof (cases "c = CHR 0x5C")
    case True
    with 2 show ?thesis by (auto split: option.splits dest: unescape_length) (fastforce dest: unescape_length)
  next
    case False
    with 2 show ?thesis by (fastforce split: if_splits)
  qed
qed simp

lemma scan_digits_length: "scan_digits s = (ds, r) \<Longrightarrow> length s = length ds + length r"
  by (metis Pair_inject length_append scan_digits_def takeWhile_dropWhile_id)

lemma num_sign_length: "num_sign s = (sg, r) \<Longrightarrow> length r \<le> length s"
  by (auto simp: num_sign_def split: list.splits if_splits)

lemma num_whole_length: "num_whole s = (w, r) \<Longrightarrow> length r + length w = length s"
  by (auto simp: num_whole_def split: list.splits if_splits dest: scan_digits_length)

lemma num_frac_length: "num_frac s = Some (f, r) \<Longrightarrow> length r \<le> length s"
  by (auto simp: num_frac_def split: list.splits if_splits prod.splits dest: scan_digits_length)

lemma num_exp_length: "num_exp s = Some (e, r) \<Longrightarrow> length r \<le> length s"
  by (auto simp: num_exp_def num_exp_sign_def split: list.splits if_splits prod.splits
      dest!: scan_digits_length)

lemma parse_num_length:
  assumes "parse_num s = Some (n, r)"
  shows "length r < length s"
proof -
  obtain sg s1 w s2 f s3 e where 1: "num_sign s = (sg, s1)" and 2: "num_whole s1 = (w, s2)"
    and 3: "num_frac s2 = Some (f, s3)" and 4: "num_exp s3 = Some (e, r)" and "w \<noteq> []"
    using assms by (auto simp: parse_num_def split: prod.splits if_splits option.splits)
  then show ?thesis
    using num_sign_length [OF 1] num_whole_length [OF 2] num_frac_length [OF 3] num_exp_length [OF 4]
    by (cases w) auto
qed

lemma HasPrefix_drop_length: "HasPrefix s p \<Longrightarrow> p \<noteq> [] \<Longrightarrow> length (drop (length p) s) < length s"
  by (cases s) (auto simp: HasPrefix_def)

lemma parse_literal_length: "parse_literal s = Some (v, r) \<Longrightarrow> length r < length s"
  using HasPrefix_drop_length [of s "''null''"] HasPrefix_drop_length [of s "''true''"]
    HasPrefix_drop_length [of s "''false''"]
  by (auto simp: parse_literal_def dest: parse_num_length split: if_splits)

lemma parse_shorter:
  "parse_value n s = Some (v, r) \<Longrightarrow> length r < length s"
  "parse_elems n s = Some (vs, r) \<Longrightarrow> length r < length s"
  "parse_members n s = Some (kvs, r) \<Longrightarrow> length r < length s"
proof (induction n s and n s and n s arbitrary: v r and vs r and kvs r
    rule: parse_value_parse_elems_parse_members.induct)
  case (2 n s)
  then show ?case
    by (fastforce split: list.splits if_splits dest!: skip_ws_length parse_str_length parse_literal_length)
next
  case (4 n s)
  then show ?case
    by (fastforce split: list.splits if_splits option.splits dest!: skip_ws_length)
next
  case (6 n s)
  then show ?case
    by (fastforce split: list.splits if_splits option.splits dest!: skip_ws_length parse_str_length)
qed simp_all

lemma parse_fuel:
  "2 * length s < n \<Longrightarrow> 2 * length s < m \<Longrightarrow> parse_value n s = parse_value m s"
  "2 * length s + 1 < n \<Longrightarrow> 2 * length s + 1 < m \<Longrightarrow> parse_elems n s = parse_elems m s"
  "2 * length s + 1 < n \<Longrightarrow> 2 * length s + 1 < m \<Longrightarrow> parse_members n s = parse_members m s"
proof (induction n s and n s and n s arbitrary: m and m and m
    rule: parse_value_parse_elems_parse_members.induct)
  case (2 n s)
  obtain k where m: "m = Suc k" using "2.prems"(2) by (cases m) auto
  show ?case
  proof (cases "skip_ws s")
    case (Cons c r)
    have l: "length r < length s" using Cons by (rule skip_ws_length)
    have e: "parse_elems n r = parse_elems k r"
      if "c = CHR ''[''" "skip_ws r = d # q" "d \<noteq> CHR '']''" for d q
      by (rule "2.IH"(1) [OF Cons _ that]) (use that l "2.prems" m in auto)
    have f: "parse_members n r = parse_members k r"
      if "c = CHR ''{''" "skip_ws r = d # q" "d \<noteq> CHR ''}''" for d q
      by (rule "2.IH"(2) [OF Cons _ _ that]) (use that l "2.prems" m in auto)
    show ?thesis
      using e f Cons by (auto simp: m split: list.split)
  qed (simp add: m)
next
  case (4 n s)
  obtain k where m: "m = Suc k" using "4.prems"(2) by (cases m) auto
  have v: "parse_value n s = parse_value k s"
    using "4.prems" m by (intro "4.IH"(1)) auto
  show ?case
  proof (cases "parse_value k s")
    case (Some p)
    obtain x r where p: "p = (x, r)" by fastforce
    have l: "length r < length s" using Some p parse_shorter(1) by blast
    have "parse_elems n q = parse_elems k q" if "skip_ws r = CHR '','' # q" for q
    proof (rule "4.IH"(2))
      show "parse_value n s = Some p" using v Some by simp
      show "(x, r) = p" by (simp add: p)
      show "skip_ws r = CHR '','' # q" by (rule that)
      show "2 * length q + 1 < n" "2 * length q + 1 < k"
        using skip_ws_length [OF that] l "4.prems" m by auto
    qed auto
    then show ?thesis using Some p v by (auto simp: m split: list.split)
  qed (simp add: m v)
next
  case (6 n s)
  obtain k where m: "m = Suc k" using "6.prems"(2) by (cases m) auto
  show ?case
  proof (cases "skip_ws s")
    case (Cons c r)
    have l1: "length r < length s" using Cons by (rule skip_ws_length)
    show ?thesis
    proof (cases "c = CHR 0x22")
      case True
      show ?thesis
      proof (cases "parse_str r")
        case (Some p)
        obtain key r1 where p: "p = (key, r1)" by fastforce
        have l2: "length r1 < length r" using Some p by (intro parse_str_length) simp
        show ?thesis
        proof (cases "skip_ws r1")
          case r1: (Cons d r2)
          have l3: "length r2 < length r1" using r1 by (rule skip_ws_length)
          show ?thesis
          proof (cases "d = CHR '':''")
            case d: True
            have v: "parse_value n r2 = parse_value k r2"
              by (rule "6.IH"(1) [OF Cons _ Some p [symmetric] r1])
                (use True d "6.prems" m l1 l2 l3 in auto)
            show ?thesis
            proof (cases "parse_value k r2")
              case vk: (Some p2)
              obtain x r3 where p2: "p2 = (x, r3)" by fastforce
              have l4: "length r3 < length r2" using vk p2 parse_shorter(1) by blast
              have "parse_members n q = parse_members k q" if "skip_ws r3 = CHR '','' # q" for q
                by (rule "6.IH"(2) [OF Cons _ Some p [symmetric] r1 _ _ p2 [symmetric] that])
                  (use True d v vk "6.prems" m l1 l2 l3 l4 skip_ws_length [OF that] in auto)
              then show ?thesis
                using Cons True Some p r1 d v vk p2 by (auto simp: m split: list.split)
            qed (simp add: m Cons True Some p r1 d v)
          qed (simp add: m Cons True Some p r1)
        qed (simp add: m Cons True Some p)
      qed (simp add: m Cons True)
    qed (simp add: m Cons)
  qed (simp add: m)
qed simp_all

section \<open>Unmarshal into Go types\<close>

text \<open>
  Into \<open>*[]string\<close>: \<open>null\<close> is the nil slice, an element \<open>null\<close> is the zero value, any other
  element that is not a string is an error.
\<close>

definition string_elem :: "json \<Rightarrow> string option" where
  "string_elem j = (case j of JStr s \<Rightarrow> Some s | JNull \<Rightarrow> Some [] | _ \<Rightarrow> None)"

definition unmarshal_strings :: "string \<Rightarrow> string list option" where
  "unmarshal_strings s = (case json_parse s of
      Some JNull \<Rightarrow> Some []
    | Some (JArr xs) \<Rightarrow> those (map string_elem xs)
    | _ \<Rightarrow> None)"

definition marshal_strings :: "string list \<Rightarrow> string" where
  "marshal_strings xs = encode (JArr (map JStr xs))"

text \<open>The type \<open>Destination\<close> (and \<open>notifDestination\<close>); keys match without regard to case, the last
  one wins, unknown keys are ignored and \<open>null\<close> leaves a field alone.\<close>

record Destination =
  ds_Channel :: string
  ds_Target :: string

definition destination0 :: Destination where
  "destination0 = \<lparr>ds_Channel = [], ds_Target = []\<rparr>"

fun destination_fields :: "(string \<times> json) list \<Rightarrow> Destination \<Rightarrow> Destination option" where
  "destination_fields [] t = Some t"
| "destination_fields ((k, v) # kvs) t =
     (if EqualFold k ''channel'' then
        (case v of JStr s \<Rightarrow> destination_fields kvs (t\<lparr>ds_Channel := s\<rparr>)
         | JNull \<Rightarrow> destination_fields kvs t | _ \<Rightarrow> None)
      else if EqualFold k ''target'' then
        (case v of JStr s \<Rightarrow> destination_fields kvs (t\<lparr>ds_Target := s\<rparr>)
         | JNull \<Rightarrow> destination_fields kvs t | _ \<Rightarrow> None)
      else destination_fields kvs t)"

definition destination_elem :: "json \<Rightarrow> Destination option" where
  "destination_elem j = (case j of JObj kvs \<Rightarrow> destination_fields kvs destination0
     | JNull \<Rightarrow> Some destination0 | _ \<Rightarrow> None)"

definition unmarshal_destinations :: "string \<Rightarrow> Destination list option" where
  "unmarshal_destinations s = (case json_parse s of
      Some JNull \<Rightarrow> Some []
    | Some (JArr xs) \<Rightarrow> those (map destination_elem xs)
    | _ \<Rightarrow> None)"

definition destination_json :: "Destination \<Rightarrow> json" where
  "destination_json t = JObj [(''channel'', JStr (ds_Channel t)), (''target'', JStr (ds_Target t))]"

definition marshal_destinations :: "Destination list \<Rightarrow> string" where
  "marshal_destinations xs = encode (JArr (map destination_json xs))"

text \<open>Into \<open>map[string]any\<close>, with nested objects as maps too: the last of equal keys wins.\<close>

type_synonym any_map = "(string \<times> json) list"

fun map_put :: "string \<Rightarrow> 'v \<Rightarrow> (string \<times> 'v) list \<Rightarrow> (string \<times> 'v) list" where
  "map_put k v [] = [(k, v)]"
| "map_put k v ((k', v') # m) =
     (if k = k' then (k, v) # m else if k < k' then (k, v) # (k', v') # m
      else (k', v') # map_put k v m)"

definition to_map :: "(string \<times> 'v) list \<Rightarrow> (string \<times> 'v) list" where
  "to_map kvs = foldl (\<lambda>m (k, v). map_put k v m) [] kvs"

primrec canon :: "json \<Rightarrow> json" where
  "canon JNull = JNull"
| "canon (JBool b) = JBool b"
| "canon (JNum n) = JNum n"
| "canon (JStr s) = JStr s"
| "canon (JArr xs) = JArr (map canon xs)"
| "canon (JObj kvs) = JObj (to_map (map (map_prod id canon) kvs))"

definition unmarshal_map :: "string \<Rightarrow> any_map option" where
  "unmarshal_map s = (case json_parse s of
      Some JNull \<Rightarrow> Some []
    | Some (JObj kvs) \<Rightarrow> Some (to_map (map (map_prod id canon) kvs))
    | _ \<Rightarrow> None)"

definition marshal_map :: "any_map \<Rightarrow> string" where
  "marshal_map m = encode (JObj m)"

lemma map_of_map_put: "map_of (map_put k v m) = (map_of m)(k \<mapsto> v)"
  by (induction m) auto

definition sorted_keys :: "(string \<times> 'v) list \<Rightarrow> bool" where
  "sorted_keys m \<longleftrightarrow> sorted_wrt (<) (map fst m)"

lemma fst_map_put: "fst ` set (map_put k v m) = insert k (fst ` set m)"
  by (induction k v m rule: map_put.induct) auto

lemma sorted_map_put: "sorted_keys m \<Longrightarrow> sorted_keys (map_put k v m)"
proof (induction m)
  case (Cons kv m)
  then show ?case
    using fst_map_put [of k v m] by (cases kv) (auto simp: sorted_keys_def image_iff)
qed (simp add: sorted_keys_def)

lemma sorted_to_map: "sorted_keys (to_map kvs)"
proof -
  have "sorted_keys m \<Longrightarrow> sorted_keys (foldl (\<lambda>m (k, v). map_put k v m) m kvs)" for m
    by (induction kvs arbitrary: m) (auto simp: sorted_map_put)
  then show ?thesis by (simp add: to_map_def sorted_keys_def)
qed

lemma map_of_to_map: "map_of (to_map kvs) = map_of (rev kvs)"
proof -
  have "map_of (foldl (\<lambda>m (k, v). map_put k v m) m kvs) = map_of m ++ map_of (rev kvs)" for m
    by (induction kvs arbitrary: m) (auto simp: map_of_map_put map_add_def fun_eq_iff split: option.split)
  then show ?thesis by (simp add: to_map_def)
qed

lemma those_map: "(\<And>x. x \<in> set xs \<Longrightarrow> f (g x) = Some x) \<Longrightarrow> those (map f (map g xs)) = Some xs"
  by (induction xs) auto

lemma unmarshal_marshal_strings: "unmarshal_strings (marshal_strings xs) = Some xs"
proof -
  have "plain (JArr (map JStr xs))" by (simp add: list_all_iff)
  then have "json_parse (marshal_strings xs) = Some (JArr (map JStr xs))"
    unfolding marshal_strings_def by (rule json_parse_encode)
  then show ?thesis
    using those_map [of xs string_elem JStr] by (simp add: unmarshal_strings_def string_elem_def)
qed

lemma unmarshal_marshal_destinations: "unmarshal_destinations (marshal_destinations xs) = Some xs"
proof -
  have "plain (JArr (map destination_json xs))" by (simp add: list_all_iff destination_json_def)
  then have "json_parse (marshal_destinations xs) = Some (JArr (map destination_json xs))"
    unfolding marshal_destinations_def by (rule json_parse_encode)
  moreover have "destination_elem (destination_json x) = Some x" for x :: Destination
    by (simp add: destination_elem_def destination_json_def destination0_def EqualFold_def ToLower_def
        lower_char_def)
  ultimately show ?thesis
    using those_map [of xs destination_elem destination_json] by (simp add: unmarshal_destinations_def)
qed

end
