(* ===== verification/Uuid.thy ===== *)
theory Uuid
  imports World
begin

text \<open>
  The generator of identifiers, which the program has three times: \<open>uuidV7\<close> (\<open>notify/twilio.go\<close>)
  and \<open>newUUIDV7\<close> (\<open>api/handlers.go\<close> and \<open>smtpapi/session.go\<close>). Sixteen random bytes, the first
  six overwritten with the milliseconds of the clock (as a 64-bit word, shifted and truncated),
  then the version and variant bits. The lemmas: the shape of RFC 9562, the timestamp that can be
  read back, and the order of identifiers by the time they were made.
\<close>

unbundle bit_operations_syntax

definition uuid_bytes :: "64 word \<Rightarrow> 8 word list \<Rightarrow> 8 word list" where
  "uuid_bytes ms b =
     (let b = b[0 := ucast (drop_bit 40 ms)];
          b = b[1 := ucast (drop_bit 32 ms)];
          b = b[2 := ucast (drop_bit 24 ms)];
          b = b[3 := ucast (drop_bit 16 ms)];
          b = b[4 := ucast (drop_bit 8 ms)];
          b = b[5 := ucast ms];
          b = b[6 := (b ! 6 AND 0x0F) OR 0x70]
      in b[8 := (b ! 8 AND 0x3F) OR 0x80])"

definition hex_byte :: "8 word \<Rightarrow> string" where
  "hex_byte x = [hex_digit (unat x div 16), hex_digit (unat x mod 16)]"

definition hex_bytes :: "8 word list \<Rightarrow> string" where
  "hex_bytes bs = concat (map hex_byte bs)"

text \<open>\<open>fmt.Sprintf("%08x-%04x-%04x-%04x-%012x", b[0:4], b[4:6], b[6:8], b[8:10], b[10:16])\<close>\<close>

definition format_uuid :: "8 word list \<Rightarrow> string" where
  "format_uuid b = hex_bytes (take 4 b) @ ''-'' @ hex_bytes (take 2 (drop 4 b)) @ ''-''
     @ hex_bytes (take 2 (drop 6 b)) @ ''-'' @ hex_bytes (take 2 (drop 8 b)) @ ''-''
     @ hex_bytes (take 6 (drop 10 b))"

definition unix_milli :: "int \<Rightarrow> 64 word" where
  "unix_milli ns = word_of_int (ns div 1000000)"

definition uuidV7 :: "(world, string) state" where
  "uuidV7 = do {
     b \<leftarrow> rand_Read 16;
     t \<leftarrow> time_Now;
     ret (format_uuid (uuid_bytes (unix_milli t) b)) }"

definition api_newUUIDV7 :: "(world, string) state" where
  "api_newUUIDV7 = do {
     b \<leftarrow> rand_Read 16;
     t \<leftarrow> time_Now;
     ret (format_uuid (uuid_bytes (unix_milli t) b)) }"

definition smtp_newUUIDV7 :: "(world, string) state" where
  "smtp_newUUIDV7 = do {
     b \<leftarrow> rand_Read 16;
     t \<leftarrow> time_Now;
     ret (format_uuid (uuid_bytes (unix_milli t) b)) }"

section \<open>Frame and shape\<close>

definition next_uuid :: "world \<Rightarrow> string" where
  "next_uuid w = format_uuid (uuid_bytes (unix_milli (w_now (advance_clock w)))
     (map (\<lambda>i. w_random w (w_rpos w + i)) [0..<16]))"

definition after_uuid :: "world \<Rightarrow> world" where
  "after_uuid w = advance_clock (w\<lparr>w_rpos := w_rpos w + 16\<rparr>)"

lemma after_uuid_simps [simp]:
  "w_db (after_uuid w) = w_db w" "w_faults (after_uuid w) = w_faults w"
  "w_queue (after_uuid w) = w_queue w" "w_queue_cap (after_uuid w) = w_queue_cap w"
  "w_outbox (after_uuid w) = w_outbox w" "w_sleeps (after_uuid w) = w_sleeps w"
  "w_cancels (after_uuid w) = w_cancels w" "on_db J (after_uuid w) = on_db J w"
  "w_random (after_uuid w) = w_random w" "w_rpos (after_uuid w) = w_rpos w + 16"
  "faulty (after_uuid w) = faulty w"
  by (simp_all add: after_uuid_def faulty_def)

lemma wp_uuidV7 [wp_simps]:
  "wp uuidV7 Q w = Q (next_uuid w) (after_uuid w)"
  "wp api_newUUIDV7 Q w = Q (next_uuid w) (after_uuid w)"
  "wp smtp_newUUIDV7 Q w = Q (next_uuid w) (after_uuid w)"
  by (simp_all add: uuidV7_def api_newUUIDV7_def smtp_newUUIDV7_def wp_simps next_uuid_def
      after_uuid_def advance_clock_def split: list.split)

lemma uuid_keeps [keeps]:
  "preserves (on_db J) uuidV7" "preserves (on_db J) api_newUUIDV7"
  "preserves (on_db J) smtp_newUUIDV7"
  by (auto intro!: preservesI simp: wp_simps)

text \<open>The bytes written, one by one.\<close>

lemma length_uuid_bytes [simp]: "length (uuid_bytes ms b) = length b"
  by (simp add: uuid_bytes_def Let_def)

lemma uuid_bytes_expand:
  assumes "length b = 16"
  shows "uuid_bytes ms b =
    [ucast (drop_bit 40 ms), ucast (drop_bit 32 ms), ucast (drop_bit 24 ms), ucast (drop_bit 16 ms),
     ucast (drop_bit 8 ms), ucast ms, (b ! 6 AND 0x0F) OR 0x70, b ! 7, (b ! 8 AND 0x3F) OR 0x80,
     b ! 9, b ! 10, b ! 11, b ! 12, b ! 13, b ! 14, b ! 15]"
proof -
  have "length b = Suc (Suc (Suc (Suc (Suc (Suc (Suc (Suc (Suc (Suc (Suc (Suc (Suc (Suc (Suc (Suc 0)))))))))))))))"
    using assms by simp
  then obtain b0 b1 b2 b3 b4 b5 b6 b7 b8 b9 b10 b11 b12 b13 b14 b15 where
    "b = [b0, b1, b2, b3, b4, b5, b6, b7, b8, b9, b10, b11, b12, b13, b14, b15]"
    by (auto simp only: length_Suc_conv length_0_conv)
  then show ?thesis by (simp add: uuid_bytes_def Let_def)
qed

lemma version_nibble: "unat ((x AND 0x0F) OR (0x70 :: 8 word)) div 16 = 7"
proof -
  have "drop_bit 4 ((x AND 0x0F) OR (0x70 :: 8 word)) = 7"
    by (rule bit_word_eqI) (auto simp: bit_simps numeral_eq_Suc less_Suc_eq)
  then have "unat (drop_bit 4 ((x AND 0x0F) OR (0x70 :: 8 word))) = 7" by simp
  then show ?thesis by (simp add: unat_drop_bit_eq drop_bit_eq_div unat_div)
qed


lemma variant_nibble:
  "unat ((x AND 0x3F) OR (0x80 :: 8 word)) div 16 \<in> {8, 9, 10, 11}"
proof -
  have "drop_bit 6 ((x AND 0x3F) OR (0x80 :: 8 word)) = 2"
    by (rule bit_word_eqI) (auto simp: bit_simps numeral_eq_Suc less_Suc_eq)
  then have "unat (drop_bit 6 ((x AND 0x3F) OR (0x80 :: 8 word))) = 2" by simp
  then have "unat ((x AND 0x3F) OR (0x80 :: 8 word)) div 64 = 2"
    by (simp add: unat_drop_bit_eq drop_bit_eq_div unat_div)
  then have "unat ((x AND 0x3F) OR (0x80 :: 8 word)) div 16 div 4 = 2"
    by (simp add: div_mult2_eq [symmetric])
  then have "8 \<le> unat ((x AND 0x3F) OR (0x80 :: 8 word)) div 16"
    "unat ((x AND 0x3F) OR (0x80 :: 8 word)) div 16 < 12" by linarith+
  then show ?thesis by auto
qed

lemma length_hex_bytes [simp]: "length (hex_bytes bs) = 2 * length bs"
  by (induction bs) (auto simp: hex_bytes_def hex_byte_def)

lemma length_format_uuid: "length b = 16 \<Longrightarrow> length (format_uuid b) = 36"
  by (simp add: format_uuid_def)

lemma nth_format_uuid:
  assumes "length b = 16"
  shows "format_uuid b ! 14 = hex_digit (unat (b ! 6) div 16)"
    and "format_uuid b ! 19 = hex_digit (unat (b ! 8) div 16)"
proof -
  have l: "length (hex_bytes (take 4 b)) = 8" "length (hex_bytes (take 2 (drop 4 b))) = 4"
    "length (hex_bytes (take 2 (drop 6 b))) = 4"
    using assms by simp_all
  have t: "take 2 (drop k b) = [b ! k, b ! Suc k]" if "Suc k < 16" for k
    using that assms by (simp add: take_Suc_conv_app_nth numeral_2_eq_2)
  show "format_uuid b ! 14 = hex_digit (unat (b ! 6) div 16)"
    using l by (simp add: format_uuid_def nth_append t hex_bytes_def hex_byte_def)
  show "format_uuid b ! 19 = hex_digit (unat (b ! 8) div 16)"
    using l by (simp add: format_uuid_def nth_append t hex_bytes_def hex_byte_def)
qed

section \<open>Identifiers in the order of their timestamps\<close>

lemma hex_digit_less:
  assumes "m < 16" "n < 16"
  shows "hex_digit m < hex_digit n \<longleftrightarrow> m < n" and "hex_digit m = hex_digit n \<longleftrightarrow> m = n"
proof -
  have b: "byte (hex_digit k) = (if k < 10 then 48 + k else 87 + k)" if "k < 16" for k
    using that by (simp add: hex_digit_def)
  have less: "hex_digit i < hex_digit j \<longleftrightarrow> i < j" if "i < 16" "j < 16" for i j
    using that by (auto simp: less_char_def b)
  then show "hex_digit m < hex_digit n \<longleftrightarrow> m < n"
    using assms by blast
  show "hex_digit m = hex_digit n \<longleftrightarrow> m = n"
    using less assms by (metis linorder_less_linear order_less_irrefl)
qed

lemma hex_byte_less:
  "hex_byte x < hex_byte y \<longleftrightarrow> unat x < unat y" "hex_byte x = hex_byte y \<longleftrightarrow> unat x = unat y"
proof -
  have u: "unat z div 16 < 16" for z :: "8 word"
    using unsigned_less [of z, where ?'a = nat] by (simp add: less_mult_imp_div_less)
  show "hex_byte x < hex_byte y \<longleftrightarrow> unat x < unat y"
    using u by (simp add: hex_byte_def hex_digit_less div_mod_less [of "unat x" "unat y" 16])
  show "hex_byte x = hex_byte y \<longleftrightarrow> unat x = unat y"
    using u by (simp add: hex_byte_def hex_digit_less div_mod_eq [of "unat x" "unat y" 16])
qed

lemma hex_bytes_less:
  "length as = length bs \<Longrightarrow>
   (hex_bytes as < hex_bytes bs \<longleftrightarrow> map unat as < map unat bs) \<and>
   (hex_bytes as = hex_bytes bs \<longleftrightarrow> map unat as = map unat bs)"
proof (induction as bs rule: list_induct2)
  case Nil
  then show ?case by (simp add: hex_bytes_def)
next
  case (Cons x xs y ys)
  have "length (hex_byte x) = length (hex_byte y)" by (simp add: hex_byte_def)
  from lex_append_same_length [OF this] append_eq_append_conv [of "hex_byte x" "hex_byte y"] this
  show ?case using Cons by (simp add: hex_bytes_def hex_byte_less)
qed

text \<open>The bytes of a number, most significant first.\<close>

fun be_bytes :: "nat \<Rightarrow> nat \<Rightarrow> nat list" where
  "be_bytes 0 n = []"
| "be_bytes (Suc k) n = be_bytes k (n div 256) @ [n mod 256]"

lemma length_be_bytes [simp]: "length (be_bytes k n) = k"
  by (induction k arbitrary: n) auto

lemma be_bytes_less:
  "m < 256 ^ k \<Longrightarrow> n < 256 ^ k \<Longrightarrow> be_bytes k m < be_bytes k n \<longleftrightarrow> m < n"
  "m < 256 ^ k \<Longrightarrow> n < 256 ^ k \<Longrightarrow> be_bytes k m = be_bytes k n \<longleftrightarrow> m = n"
proof (induction k arbitrary: m n)
  case 0
  case 1 then show ?case using 0 by simp
  case 2 then show ?case using 0 by simp
next
  case (Suc k)
  have d: "j div 256 < 256 ^ k" if "j < 256 ^ Suc k" for j :: nat
    using that by (intro less_mult_imp_div_less) (simp add: mult.commute)
  case 1
  then show ?case
    using Suc [OF d d] by (simp add: lex_append_same_length div_mod_less [of m n 256])
  case 2
  then show ?case
    using Suc [OF d d] by (simp add: div_mod_eq [of m n 256])
qed

lemma uuid_timestamp_bytes:
  assumes "length b = 16" and "unat ms < 2 ^ 48"
  shows "map unat (take 6 (uuid_bytes ms b)) = be_bytes 6 (unat ms)"
proof -
  have s: "6 = Suc (Suc (Suc (Suc (Suc (Suc 0)))))" by simp
  have "unat (drop_bit k ms) = unat ms div 2 ^ k" for k
    by (simp only: unat_drop_bit_eq) (simp only: drop_bit_eq_div)
  then have u: "unat (ucast (drop_bit k ms) :: 8 word) = unat ms div 2 ^ k mod 256" for k
    by (simp add: unsigned_ucast_eq take_bit_eq_mod)
  have "unat (ucast ms :: 8 word) = unat ms mod 256"
    by (simp add: unsigned_ucast_eq take_bit_eq_mod)
  then show ?thesis
    using assms by (simp add: uuid_bytes_expand u s div_mult2_eq [symmetric])
qed

lemma uuid_order:
  assumes "length b = 16" "length c = 16" and "unat m < 2 ^ 48" "unat n < 2 ^ 48" and "m < n"
  shows "format_uuid (uuid_bytes m b) < format_uuid (uuid_bytes n c)"
proof -
  obtain x y where x: "x = uuid_bytes m b" and y: "y = uuid_bytes n c" by blast
  have split6: "map unat (take 6 z) = map unat (take 4 z) @ map unat (take 2 (drop 4 z))"
    for z :: "8 word list"
    by (metis map_append take_add numeral_plus_numeral semiring_norm(2) semiring_norm(6) add_num_simps(4) )
  have "be_bytes 6 (unat m) < be_bytes 6 (unat n)"
    using assms by (simp add: be_bytes_less word_less_nat_alt)
  then have "map unat (take 6 x) < map unat (take 6 y)"
    using assms by (simp add: x y uuid_timestamp_bytes)
  then have "map unat (take 4 x) < map unat (take 4 y) \<or>
      map unat (take 4 x) = map unat (take 4 y)
        \<and> map unat (take 2 (drop 4 x)) < map unat (take 2 (drop 4 y))"
    using assms by (simp add: split6 lex_append_same_length x y)
  then show ?thesis
    using assms
    by (simp add: format_uuid_def lex_append_same_length hex_bytes_less
        x [symmetric] y [symmetric]) (auto simp: x y lex_append_same_length hex_bytes_less)
qed

end
