(* ===== verification/Database.thy ===== *)
theory Database
  imports Uuid
begin

text \<open>
  The statements of \<open>db/queries.sql.go\<close>, one definition for each method of \<open>Queries\<close>, under the
  method's name; a method's parameter struct becomes arguments in the order of its fields. The
  statements mean what SQLite makes of them: \<open>INTEGER PRIMARY KEY\<close> takes one more than the largest
  rowid, a UNIQUE or PRIMARY KEY or (\<open>_foreign_keys=on\<close>) a foreign key that fails is an error,
  NULL makes a comparison false, \<open>LIKE\<close> has its wildcards and ignores ASCII case, and rows with
  equal sort keys come in the order of their rowids. \<open>db_ok\<close> collects the keys of the schema
  (\<open>db/migrations\<close>); every statement keeps it.
\<close>

section \<open>SQL\<close>

definition next_rowid :: "int list \<Rightarrow> int" where
  "next_rowid ids = foldr max ids 0 + 1"

definition order_by :: "('a \<Rightarrow> 'b::linorder) \<Rightarrow> 'a list \<Rightarrow> 'a list" where
  "order_by key rows = sort_key key rows"

text \<open>Descending, and still stable.\<close>

definition order_by_desc :: "('a \<Rightarrow> 'b::linorder) \<Rightarrow> 'a list \<Rightarrow> 'a list" where
  "order_by_desc key rows = rev (sort_key key (rev rows))"

text \<open>\<open>LIMIT l OFFSET o\<close>: a negative limit is none, a negative offset is zero.\<close>

definition limit_offset :: "int \<Rightarrow> int \<Rightarrow> 'a list \<Rightarrow> 'a list" where
  "limit_offset l k rows =
     (let rest = drop (nat k) rows in if l < 0 then rest else take (nat l) rest)"

text \<open>\<open>text LIKE pattern\<close>\<close>

fun sql_like :: "string \<Rightarrow> string \<Rightarrow> bool" where
  "sql_like [] [] = True"
| "sql_like [] (t # ts) = False"
| "sql_like (p # ps) [] = (p = CHR ''%'' \<and> sql_like ps [])"
| "sql_like (p # ps) (t # ts) =
     (if p = CHR ''%'' then sql_like ps (t # ts) \<or> sql_like (p # ps) ts
      else if p = CHR ''_'' then sql_like ps ts
      else lower_char p = lower_char t \<and> sql_like ps ts)"

definition like_contains :: "string \<Rightarrow> null_string \<Rightarrow> bool" where
  "like_contains needle col = (case col of None \<Rightarrow> False
     | Some t \<Rightarrow> sql_like (''%'' @ ToLower needle @ ''%'') (ToLower t))"

definition opt_filter :: "string \<Rightarrow> bool \<Rightarrow> bool" where
  "opt_filter arg cond \<longleftrightarrow> arg = [] \<or> cond"

section \<open>sync_groups\<close>

definition ListSyncGroups :: "(world, SyncGroup list db_result) state" where
  "ListSyncGroups = query_many (\<lambda>d. order_by sg_GroupName (sync_groups d))"

definition GetSyncGroup :: "string \<Rightarrow> (world, SyncGroup db_result) state" where
  "GetSyncGroup g = query_one (\<lambda>d. find (\<lambda>r. sg_GroupName r = g) (sync_groups d))"

text \<open>\<open>created_at\<close> is the column's default \<open>CURRENT_TIMESTAMP\<close>: SQLite's own text of the time.\<close>

definition sqlite_timestamp :: "int \<Rightarrow> string" where
  "sqlite_timestamp t = (let r = FormatRFC3339 t in take 10 r @ '' '' @ take 8 (drop 11 r))"

definition InsertSyncGroup :: "string \<Rightarrow> string \<Rightarrow> (world, SyncGroup db_result) state" where
  "InsertSyncGroup g by = do {
     t \<leftarrow> time_Now;
     insert_unless (\<lambda>d. g \<in> sg_GroupName ` set (sync_groups d))
       (\<lambda>d. let n = max (sync_groups_seq d) (next_rowid (map sg_ID (sync_groups d)) - 1) + 1;
                r = \<lparr>sg_ID = n, sg_GroupName = g, sg_CreatedAt = sqlite_timestamp (unix_sec t),
                     sg_CreatedBy = by\<rparr>
            in (r, d\<lparr>sync_groups := sync_groups d @ [r], sync_groups_seq := n\<rparr>)) }"

definition DeleteSyncGroup :: "string \<Rightarrow> (world, unit db_result) state" where
  "DeleteSyncGroup g = exec (\<lambda>d. d\<lparr>sync_groups := filter (\<lambda>r. sg_GroupName r \<noteq> g) (sync_groups d)\<rparr>)"

section \<open>group_members\<close>

definition member_key :: "GroupMember \<Rightarrow> string \<times> string" where
  "member_key m = (gm_GroupName m, gm_Username m)"

definition InsertGroupMember :: "GroupMember \<Rightarrow> (world, unit db_result) state" where
  "InsertGroupMember m = insert_unless (\<lambda>d. member_key m \<in> member_key ` set (group_members d))
     (\<lambda>d. ((), d\<lparr>group_members := group_members d @ [m]\<rparr>))"

definition DeleteGroupMembers :: "string \<Rightarrow> (world, unit db_result) state" where
  "DeleteGroupMembers g =
     exec (\<lambda>d. d\<lparr>group_members := filter (\<lambda>m. gm_GroupName m \<noteq> g) (group_members d)\<rparr>)"

definition ListGroupMembers :: "string \<Rightarrow> (world, GroupMember list db_result) state" where
  "ListGroupMembers g =
     query_many (\<lambda>d. order_by gm_Username (filter (\<lambda>m. gm_GroupName m = g) (group_members d)))"

definition GetGroupMember :: "string \<Rightarrow> string \<Rightarrow> (world, GroupMember db_result) state" where
  "GetGroupMember g u =
     query_one (\<lambda>d. find (\<lambda>m. gm_GroupName m = g \<and> gm_Username m = u) (group_members d))"

definition ListDistinctGroupNames :: "(world, string list db_result) state" where
  "ListDistinctGroupNames = query_many (\<lambda>d. remdups (order_by id (map gm_GroupName (group_members d))))"

section \<open>events\<close>

definition InsertEvent :: "string \<Rightarrow> null_string \<Rightarrow> null_string \<Rightarrow> null_string \<Rightarrow> null_string
    \<Rightarrow> string \<Rightarrow> null_string \<Rightarrow> null_string \<Rightarrow> string \<Rightarrow> (world, Event db_result) state" where
  "InsertEvent eid url name desc sev start ending by at =
     insert_unless (\<lambda>d. eid \<in> ev_EventID ` set (events d))
       (\<lambda>d. let e = \<lparr>ev_ID = next_rowid (map ev_ID (events d)), ev_EventID = eid, ev_EventUrl = url,
                 ev_EventName = name, ev_EventDescription = desc, ev_EventSeverity = sev,
                 ev_StartTime = start, ev_EndTime = ending, ev_CreatedBy = by, ev_CreatedAt = at,
                 ev_ModifiedBy = None, ev_ModifiedAt = None, ev_AutoClosed = 0\<rparr>
            in (e, d\<lparr>events := events d @ [e]\<rparr>))"

definition GetEventByID :: "int \<Rightarrow> (world, Event db_result) state" where
  "GetEventByID i = query_one (\<lambda>d. find (\<lambda>e. ev_ID e = i) (events d))"

definition GetEventByEventID :: "string \<Rightarrow> (world, Event db_result) state" where
  "GetEventByEventID eid = query_one (\<lambda>d. find (\<lambda>e. ev_EventID e = eid) (events d))"

definition UpdateEventEndTime :: "null_string \<Rightarrow> null_string \<Rightarrow> null_string \<Rightarrow> string
    \<Rightarrow> (world, unit db_result) state" where
  "UpdateEventEndTime ending at by eid = exec (\<lambda>d. d\<lparr>events := update_where (\<lambda>e. ev_EventID e = eid)
     (\<lambda>e. e\<lparr>ev_EndTime := ending, ev_ModifiedAt := at, ev_ModifiedBy := by\<rparr>) (events d)\<rparr>)"

definition AutoCloseStaleEvents :: "null_string \<Rightarrow> null_string \<Rightarrow> null_string \<Rightarrow> string
    \<Rightarrow> (world, string list db_result) state" where
  "AutoCloseStaleEvents ending at by start =
     statement (\<lambda>d. let stale = (\<lambda>e. ev_EndTime e = None \<and> ev_StartTime e \<le> start) in
       Inr (map ev_EventID (filter stale (events d)),
            d\<lparr>events := update_where stale
                (\<lambda>e. e\<lparr>ev_EndTime := ending, ev_AutoClosed := 1, ev_ModifiedAt := at,
                     ev_ModifiedBy := by\<rparr>) (events d)\<rparr>))"

definition ListEvents :: "int \<Rightarrow> int \<Rightarrow> (world, Event list db_result) state" where
  "ListEvents lim off = query_many (\<lambda>d. limit_offset lim off (order_by_desc ev_StartTime (events d)))"

record ListEventsFilteredParams =
  lp_StartFrom :: string
  lp_StartTo :: string
  lp_EventID :: string
  lp_EventName :: string
  lp_Description :: string
  lp_Severity :: string
  lp_CreatedBy :: string
  lp_Status :: string
  lp_Offset :: int
  lp_Limit :: int

definition event_matches :: "ListEventsFilteredParams \<Rightarrow> Event \<Rightarrow> bool" where
  "event_matches p e \<longleftrightarrow>
     opt_filter (lp_StartFrom p) (lp_StartFrom p \<le> ev_StartTime e)
   \<and> opt_filter (lp_StartTo p) (ev_StartTime e \<le> lp_StartTo p)
   \<and> opt_filter (lp_EventID p) (like_contains (lp_EventID p) (Some (ev_EventID e)))
   \<and> opt_filter (lp_EventName p) (like_contains (lp_EventName p) (ev_EventName e))
   \<and> opt_filter (lp_Description p) (like_contains (lp_Description p) (ev_EventDescription e))
   \<and> opt_filter (lp_Severity p) (ev_EventSeverity e = Some (lp_Severity p))
   \<and> opt_filter (lp_CreatedBy p) (like_contains (lp_CreatedBy p) (ev_CreatedBy e))
   \<and> opt_filter (lp_Status p) (lp_Status p = ''active'' \<and> ev_EndTime e = None
       \<or> lp_Status p = ''ended'' \<and> ev_EndTime e \<noteq> None)"

definition ListEventsFiltered :: "ListEventsFilteredParams \<Rightarrow> (world, Event list db_result) state" where
  "ListEventsFiltered p = query_many (\<lambda>d. limit_offset (lp_Limit p) (lp_Offset p)
     (order_by_desc ev_StartTime (filter (event_matches p) (events d))))"

definition UpdateEvent :: "null_string \<Rightarrow> null_string \<Rightarrow> null_string \<Rightarrow> null_string \<Rightarrow> null_string
    \<Rightarrow> null_string \<Rightarrow> string \<Rightarrow> (world, Event db_result) state" where
  "UpdateEvent url name desc sev by at eid = statement (\<lambda>d.
     let d' = d\<lparr>events := update_where (\<lambda>e. ev_EventID e = eid)
           (\<lambda>e. e\<lparr>ev_EventUrl := url, ev_EventName := name, ev_EventDescription := desc,
                ev_EventSeverity := sev, ev_ModifiedBy := by, ev_ModifiedAt := at\<rparr>) (events d)\<rparr>
     in case find (\<lambda>e. ev_EventID e = eid) (events d') of None \<Rightarrow> Inl ErrNoRows | Some e \<Rightarrow> Inr (e, d'))"

section \<open>notifications\<close>

definition InsertNotification :: "string \<Rightarrow> string \<Rightarrow> null_string \<Rightarrow> null_string \<Rightarrow> null_string \<Rightarrow> string
    \<Rightarrow> int \<Rightarrow> null_string \<Rightarrow> null_string \<Rightarrow> string \<Rightarrow> null_string \<Rightarrow> string
    \<Rightarrow> (world, Notification db_result) state" where
  "InsertNotification nid eid groups dests channels msg count tmpl vars at by status =
     insert_unless (\<lambda>d. nid \<in> nt_NotificationID ` set (notifications d)
                      \<or> eid \<notin> ev_EventID ` set (events d))
       (\<lambda>d. let n = \<lparr>nt_ID = next_rowid (map nt_ID (notifications d)), nt_NotificationID = nid,
                 nt_EventID = eid, nt_Groups = groups, nt_Destinations = dests,
                 nt_Channels = channels, nt_Message = msg, nt_Status = status,
                 nt_ErrorMessage = None, nt_MemberCount = count, nt_EmailTemplate = tmpl,
                 nt_EmailVars = vars, nt_CreatedAt = at, nt_CreatedBy = by\<rparr>
            in (n, d\<lparr>notifications := notifications d @ [n]\<rparr>))"

definition GetNotificationByID :: "int \<Rightarrow> (world, Notification db_result) state" where
  "GetNotificationByID i = query_one (\<lambda>d. find (\<lambda>n. nt_ID n = i) (notifications d))"

definition GetNotificationByNotificationID :: "string \<Rightarrow> (world, Notification db_result) state" where
  "GetNotificationByNotificationID nid =
     query_one (\<lambda>d. find (\<lambda>n. nt_NotificationID n = nid) (notifications d))"

definition ListNotificationsByEventID :: "string \<Rightarrow> (world, Notification list db_result) state" where
  "ListNotificationsByEventID eid = query_many (\<lambda>d.
     order_by_desc nt_CreatedAt (filter (\<lambda>n. nt_EventID n = eid) (notifications d)))"

definition UpdateNotificationMemberCount :: "int \<Rightarrow> string \<Rightarrow> (world, unit db_result) state" where
  "UpdateNotificationMemberCount count nid = exec (\<lambda>d. d\<lparr>notifications :=
     update_where (\<lambda>n. nt_NotificationID n = nid) (\<lambda>n. n\<lparr>nt_MemberCount := count\<rparr>) (notifications d)\<rparr>)"

definition UpdateNotificationStatus :: "string \<Rightarrow> null_string \<Rightarrow> string \<Rightarrow> (world, unit db_result) state" where
  "UpdateNotificationStatus status err nid = exec (\<lambda>d. d\<lparr>notifications :=
     update_where (\<lambda>n. nt_NotificationID n = nid)
       (\<lambda>n. n\<lparr>nt_Status := status, nt_ErrorMessage := err\<rparr>) (notifications d)\<rparr>)"

section \<open>deliveries\<close>

definition new_delivery :: "database \<Rightarrow> string \<Rightarrow> string \<Rightarrow> null_string \<Rightarrow> null_string \<Rightarrow> null_string
    \<Rightarrow> string \<Rightarrow> string \<Rightarrow> null_string \<Rightarrow> null_string \<Rightarrow> int \<Rightarrow> string \<Rightarrow> null_string \<Rightarrow> Delivery" where
  "new_delivery d did nid grp mem dest chan status tmpl vars att at sid =
     \<lparr>dl_ID = next_rowid (map dl_ID (deliveries d)), dl_DeliveryID = did, dl_NotificationID = nid,
      dl_Group = grp, dl_Member = mem, dl_Destination = dest, dl_Channel = chan, dl_Status = status,
      dl_EmailTemplate = tmpl, dl_EmailVars = vars, dl_Attempt = att, dl_PollAttempts = 0,
      dl_ErrorMessage = None, dl_SentAt = at, dl_CompletedAt = None, dl_TwilioSid = sid\<rparr>"

definition insert_delivery_row :: "string \<Rightarrow> (database \<Rightarrow> Delivery) \<Rightarrow> (world, Delivery db_result) state" where
  "insert_delivery_row nid row = insert_unless (\<lambda>d. nid \<notin> nt_NotificationID ` set (notifications d))
     (\<lambda>d. (row d, d\<lparr>deliveries := deliveries d @ [row d]\<rparr>))"

definition InsertDelivery :: "string \<Rightarrow> string \<Rightarrow> null_string \<Rightarrow> null_string \<Rightarrow> string \<Rightarrow> string
    \<Rightarrow> null_string \<Rightarrow> null_string \<Rightarrow> int \<Rightarrow> string \<Rightarrow> null_string \<Rightarrow> (world, Delivery db_result) state" where
  "InsertDelivery did nid grp mem chan status tmpl vars att at sid = insert_delivery_row nid
     (\<lambda>d. new_delivery d did nid grp mem None chan status tmpl vars att at sid)"

definition InsertDestinationDelivery :: "string \<Rightarrow> string \<Rightarrow> null_string \<Rightarrow> string \<Rightarrow> string
    \<Rightarrow> null_string \<Rightarrow> null_string \<Rightarrow> int \<Rightarrow> string \<Rightarrow> null_string \<Rightarrow> (world, Delivery db_result) state" where
  "InsertDestinationDelivery did nid dest chan status tmpl vars att at sid = insert_delivery_row nid
     (\<lambda>d. new_delivery d did nid None None dest chan status tmpl vars att at sid)"

definition GetDeliveryByDeliveryID :: "string \<Rightarrow> (world, Delivery db_result) state" where
  "GetDeliveryByDeliveryID did = query_one (\<lambda>d. find (\<lambda>x. dl_DeliveryID x = did) (deliveries d))"

definition ListDeliveriesByNotificationID :: "string \<Rightarrow> (world, Delivery list db_result) state" where
  "ListDeliveriesByNotificationID nid = query_many (\<lambda>d.
     order_by_desc dl_SentAt (filter (\<lambda>x. dl_NotificationID x = nid) (deliveries d)))"

definition voice_in_flight :: "Delivery \<Rightarrow> bool" where
  "voice_in_flight x \<longleftrightarrow> dl_Channel x = ''voice''
     \<and> dl_Status x \<in> {''queued'', ''ringing'', ''in-progress''}"

definition ListInFlightVoiceDeliveries :: "(world, Delivery list db_result) state" where
  "ListInFlightVoiceDeliveries =
     query_many (\<lambda>d. order_by dl_SentAt (filter voice_in_flight (deliveries d)))"

definition ListPollFailedDeliveries :: "(world, Delivery list db_result) state" where
  "ListPollFailedDeliveries = query_many (\<lambda>d. filter (\<lambda>x. dl_Status x = ''poll_failed'') (deliveries d))"

definition sms_in_flight :: "Delivery \<Rightarrow> bool" where
  "sms_in_flight x \<longleftrightarrow> dl_Channel x = ''sms''
     \<and> dl_Status x \<in> {''accepted'', ''scheduled'', ''queued'', ''sending'', ''sent''}"

definition ListInFlightSMSDeliveries :: "(world, Delivery list db_result) state" where
  "ListInFlightSMSDeliveries =
     query_many (\<lambda>d. order_by dl_SentAt (filter sms_in_flight (deliveries d)))"

definition update_deliveries :: "(Delivery \<Rightarrow> bool) \<Rightarrow> (Delivery \<Rightarrow> Delivery) \<Rightarrow> database \<Rightarrow> database" where
  "update_deliveries P f d = d\<lparr>deliveries := update_where P f (deliveries d)\<rparr>"

definition IncrementPollAttempts :: "string \<Rightarrow> (world, Delivery db_result) state" where
  "IncrementPollAttempts did = statement (\<lambda>d.
     let d' = update_deliveries (\<lambda>x. dl_DeliveryID x = did)
           (\<lambda>x. x\<lparr>dl_PollAttempts := dl_PollAttempts x + 1\<rparr>) d
     in case find (\<lambda>x. dl_DeliveryID x = did) (deliveries d') of
          None \<Rightarrow> Inl ErrNoRows | Some x \<Rightarrow> Inr (x, d'))"

definition ResetPollAttempts :: "(world, unit db_result) state" where
  "ResetPollAttempts = exec (update_deliveries (\<lambda>x. dl_Status x = ''poll_failed'')
     (\<lambda>x. x\<lparr>dl_PollAttempts := 0\<rparr>))"

definition UpdateDeliveryStatus :: "string \<Rightarrow> null_string \<Rightarrow> null_string \<Rightarrow> string
    \<Rightarrow> (world, unit db_result) state" where
  "UpdateDeliveryStatus status completed err did = exec (update_deliveries (\<lambda>x. dl_DeliveryID x = did)
     (\<lambda>x. x\<lparr>dl_Status := status, dl_CompletedAt := completed, dl_ErrorMessage := err\<rparr>))"

definition IncrementDeliveryAttempt :: "string \<Rightarrow> string \<Rightarrow> (world, unit db_result) state" where
  "IncrementDeliveryAttempt at did = exec (update_deliveries (\<lambda>x. dl_DeliveryID x = did)
     (\<lambda>x. x\<lparr>dl_Attempt := dl_Attempt x + 1, dl_SentAt := at\<rparr>))"

definition UpdateDeliveryError :: "null_string \<Rightarrow> string \<Rightarrow> (world, unit db_result) state" where
  "UpdateDeliveryError err did = exec (update_deliveries (\<lambda>x. dl_DeliveryID x = did)
     (\<lambda>x. x\<lparr>dl_ErrorMessage := err\<rparr>))"

section \<open>email_templates\<close>

definition InsertEmailTemplate :: "string \<Rightarrow> string \<Rightarrow> string \<Rightarrow> string \<Rightarrow> null_string
    \<Rightarrow> (world, EmailTemplate db_result) state" where
  "InsertEmailTemplate name subj body req desc =
     insert_unless (\<lambda>d. name \<in> et_TemplateName ` set (email_templates d))
       (\<lambda>d. let t = \<lparr>et_ID = next_rowid (map et_ID (email_templates d)), et_TemplateName = name,
                 et_Subject = subj, et_Body = body, et_RequiredVars = req, et_Description = desc\<rparr>
            in (t, d\<lparr>email_templates := email_templates d @ [t]\<rparr>))"

definition GetEmailTemplateByName :: "string \<Rightarrow> (world, EmailTemplate db_result) state" where
  "GetEmailTemplateByName name = query_one (\<lambda>d. find (\<lambda>t. et_TemplateName t = name) (email_templates d))"

definition ListEmailTemplates :: "(world, EmailTemplate list db_result) state" where
  "ListEmailTemplates = query_many (\<lambda>d. order_by et_TemplateName (email_templates d))"

definition UpdateEmailTemplate :: "string \<Rightarrow> string \<Rightarrow> string \<Rightarrow> null_string \<Rightarrow> string
    \<Rightarrow> (world, unit db_result) state" where
  "UpdateEmailTemplate subj body req desc name = exec (\<lambda>d. d\<lparr>email_templates :=
     update_where (\<lambda>t. et_TemplateName t = name)
       (\<lambda>t. t\<lparr>et_Subject := subj, et_Body := body, et_RequiredVars := req, et_Description := desc\<rparr>)
       (email_templates d)\<rparr>)"

definition DeleteEmailTemplate :: "string \<Rightarrow> (world, unit db_result) state" where
  "DeleteEmailTemplate name = exec (\<lambda>d. d\<lparr>email_templates :=
     filter (\<lambda>t. et_TemplateName t \<noteq> name) (email_templates d)\<rparr>)"

section \<open>audit_log\<close>

definition InsertAuditLog :: "string \<Rightarrow> string \<Rightarrow> null_string \<Rightarrow> string \<Rightarrow> string \<Rightarrow> null_string
    \<Rightarrow> null_string \<Rightarrow> (world, unit db_result) state" where
  "InsertAuditLog at user ip action tab old new = exec (\<lambda>d. d\<lparr>audit_log := audit_log d @
     [\<lparr>au_ID = next_rowid (map au_ID (audit_log d)), au_Timestamp = at, au_Username = user,
       au_IpAddress = ip, au_Action = action, au_ImpactedTable = tab, au_OldValues = old,
       au_NewValues = new\<rparr>]\<rparr>)"

definition audit_matches :: "string \<Rightarrow> string \<Rightarrow> string \<Rightarrow> AuditLog \<Rightarrow> bool" where
  "audit_matches user from_time to_time a \<longleftrightarrow>
     opt_filter user (au_Username a = user)
   \<and> opt_filter from_time (from_time \<le> au_Timestamp a)
   \<and> opt_filter to_time (au_Timestamp a \<le> to_time)"

definition ListAuditLogFiltered :: "string \<Rightarrow> string \<Rightarrow> string \<Rightarrow> int \<Rightarrow> int
    \<Rightarrow> (world, AuditLog list db_result) state" where
  "ListAuditLogFiltered user from_time to_time off lim = query_many (\<lambda>d. limit_offset lim off
     (order_by_desc au_Timestamp (filter (audit_matches user from_time to_time) (audit_log d))))"

section \<open>sms_subscriptions\<close>

definition GetSMSSubscription :: "string \<Rightarrow> (world, SmsSubscription db_result) state" where
  "GetSMSSubscription u =
     query_one (\<lambda>d. find (\<lambda>r. ToLower (sb_Username r) = ToLower u) (sms_subscriptions d))"

definition GetSMSSubscriptionByPhone :: "string \<Rightarrow> (world, SmsSubscription db_result) state" where
  "GetSMSSubscriptionByPhone p = query_one (\<lambda>d. find (\<lambda>r. sb_Phone r = p) (sms_subscriptions d))"

definition InsertSMSSubscription :: "string \<Rightarrow> string \<Rightarrow> string \<Rightarrow> (world, unit db_result) state" where
  "InsertSMSSubscription u p at = insert_unless (\<lambda>d. u \<in> sb_Username ` set (sms_subscriptions d))
     (\<lambda>d. ((), d\<lparr>sms_subscriptions := sms_subscriptions d @
        [\<lparr>sb_Username = u, sb_Phone = p, sb_SubscribedAt = at\<rparr>]\<rparr>))"

definition ListSMSSubscriptions :: "(world, SmsSubscription list db_result) state" where
  "ListSMSSubscriptions = query_many (\<lambda>d. order_by_desc sb_SubscribedAt (sms_subscriptions d))"

definition DeleteSMSSubscription :: "string \<Rightarrow> (world, unit db_result) state" where
  "DeleteSMSSubscription u =
     exec (\<lambda>d. d\<lparr>sms_subscriptions := filter (\<lambda>r. sb_Username r \<noteq> u) (sms_subscriptions d)\<rparr>)"

section \<open>smtp_cram_credentials\<close>

definition GetCRAMCredential :: "string \<Rightarrow> (world, SmtpCramCredential db_result) state" where
  "GetCRAMCredential u = query_one (\<lambda>d.
     find (\<lambda>r. cc_Username r = u \<and> cc_Enabled r = 1) (smtp_cram_credentials d))"

definition InsertCRAMCredential :: "SmtpCramCredential \<Rightarrow> (world, unit db_result) state" where
  "InsertCRAMCredential r =
     insert_unless (\<lambda>d. cc_Username r \<in> cc_Username ` set (smtp_cram_credentials d))
       (\<lambda>d. ((), d\<lparr>smtp_cram_credentials := smtp_cram_credentials d @ [r]\<rparr>))"

definition ListCRAMCredentials :: "(world, SmtpCramCredential list db_result) state" where
  "ListCRAMCredentials = query_many (\<lambda>d. order_by cc_Username (smtp_cram_credentials d))"

definition DeleteCRAMCredential :: "string \<Rightarrow> (world, unit db_result) state" where
  "DeleteCRAMCredential u = exec (\<lambda>d. d\<lparr>smtp_cram_credentials :=
     filter (\<lambda>r. cc_Username r \<noteq> u) (smtp_cram_credentials d)\<rparr>)"

end
