(* ===== verification/Templates.thy ===== *)
theory Templates
  imports Go_Json Database
begin

text \<open>
  Email templates: \<open>notify/template.go\<close> and the two helpers of \<open>notify/dispatcher.go\<close> that build and
  inspect the data of a template. Parsing and executing a template (\<open>html/template\<close>) is a
  parameter, the record \<open>template_engine\<close>; everything the program itself decides is defined:
  which actions mention a variable (the two regular expressions of \<open>containsFieldRef\<close>), which
  variables a template must mention, what the data of an email holds, and when a dotted path is
  present in it.
\<close>

record template_engine =
  te_parse :: "string \<Rightarrow> string \<Rightarrow> string option"
  te_execute :: "string \<Rightarrow> string \<Rightarrow> any_map \<Rightarrow> string + string"

section \<open>References to a variable in the actions of a template\<close>

text \<open>\<open>actionRe.FindAllStringSubmatch\<close>: the texts between \<open>{{\<close> and the next \<open>}}\<close>.\<close>

fun until_close :: "string \<Rightarrow> (string \<times> string) option" where
  "until_close (a # b # r) = (if a = CHR ''}'' \<and> b = CHR ''}'' then Some ([], r)
     else map_option (\<lambda>(x, q). (a # x, q)) (until_close (b # r)))"
| "until_close _ = None"

lemma until_close_length: "until_close s = Some (x, r) \<Longrightarrow> length r < length s"
  by (induction s arbitrary: x rule: until_close.induct) (fastforce split: if_splits)+

function template_actions :: "string \<Rightarrow> string list" where
  "template_actions (a # b # r) =
     (if a = CHR ''{'' \<and> b = CHR ''{'' then
        (case until_close r of None \<Rightarrow> template_actions (b # r) | Some (x, q) \<Rightarrow> x # template_actions q)
      else template_actions (b # r))"
| "template_actions [a] = []"
| "template_actions [] = []"
  by pat_completeness auto
termination
  by (relation "measure length") (auto dest: until_close_length)

definition is_word :: "char \<Rightarrow> bool" where
  "is_word c \<longleftrightarrow> is_digit c \<or> 65 \<le> byte c \<and> byte c \<le> 90 \<or> 97 \<le> byte c \<and> byte c \<le> 122 \<or> c = CHR ''_''"

definition word_boundary :: "char \<Rightarrow> string \<Rightarrow> bool" where
  "word_boundary before rest \<longleftrightarrow>
     is_word before \<noteq> (case rest of [] \<Rightarrow> False | c # _ \<Rightarrow> is_word c)"

definition field_here :: "string \<Rightarrow> string \<Rightarrow> bool" where
  "field_here varName s \<longleftrightarrow> HasPrefix s (CHR ''.'' # varName)
     \<and> word_boundary (last (CHR ''.'' # varName)) (drop (Suc (length varName)) s)"

text \<open>\<open>(?:^|[^.\w])\.varName\b\<close>: \<open>ok\<close> says whether the reference may start here.\<close>

fun field_match :: "string \<Rightarrow> bool \<Rightarrow> string \<Rightarrow> bool" where
  "field_match varName ok [] = False"
| "field_match varName ok (c # r) =
     (ok \<and> field_here varName (c # r) \<or> field_match varName (c \<noteq> CHR ''.'' \<and> \<not> is_word c) r)"

definition containsFieldRef :: "string \<Rightarrow> string \<Rightarrow> bool" where
  "containsFieldRef src varName = (\<exists>m \<in> set (template_actions src). field_match varName True m)"

section \<open>Validation and rendering\<close>

fun check_required :: "string \<Rightarrow> string \<Rightarrow> string list \<Rightarrow> string option" where
  "check_required subject body [] = None"
| "check_required subject body (v # vs) =
     (if \<not> containsFieldRef body v \<and> \<not> containsFieldRef subject v
      then Some (''required variable '' @ go_quote v @ '' not referenced in subject or body'')
      else check_required subject body vs)"

text \<open>The result is the error, \<open>None\<close> for success.\<close>

definition ValidateTemplate :: "template_engine \<Rightarrow> string \<Rightarrow> string \<Rightarrow> string list \<Rightarrow> string option" where
  "ValidateTemplate te subject body requiredVars =
     (case te_parse te ''body'' body of Some e \<Rightarrow> Some (''invalid body template: '' @ e)
      | None \<Rightarrow> (case te_parse te ''subject'' subject of
          Some e \<Rightarrow> Some (''invalid subject template: '' @ e)
        | None \<Rightarrow> check_required subject body requiredVars))"

definition renderOne :: "template_engine \<Rightarrow> string \<Rightarrow> string \<Rightarrow> any_map \<Rightarrow> string + string" where
  "renderOne te name src vars = (case te_parse te name src of Some e \<Rightarrow> Inl e
     | None \<Rightarrow> te_execute te name src vars)"

definition RenderTemplate :: "template_engine \<Rightarrow> string \<Rightarrow> string \<Rightarrow> any_map
    \<Rightarrow> string + string \<times> string" where
  "RenderTemplate te subject body vars =
     (case renderOne te ''subject'' subject vars of Inl e \<Rightarrow> Inl (''render subject: '' @ e)
      | Inr s \<Rightarrow> (case renderOne te ''body'' body vars of Inl e \<Rightarrow> Inl (''render body: '' @ e)
        | Inr b \<Rightarrow> Inr (s, b)))"

section \<open>The data of a template\<close>

text \<open>The error of the inner \<open>Unmarshal\<close> is ignored; \<open>processJob\<close> parsed the same text before.\<close>

definition notification_vars :: "Notification \<Rightarrow> json" where
  "notification_vars n =
     (let groups = (case nt_Groups n of None \<Rightarrow> []
          | Some g \<Rightarrow> (case unmarshal_strings g of None \<Rightarrow> [] | Some gs \<Rightarrow> gs))
      in JObj (to_map
        [(''id'', JStr (nt_NotificationID n)), (''message'', JStr (nt_Message n)),
         (''created_at'', JStr (nt_CreatedAt n)), (''groups'', JArr (map JStr groups))]))"

definition event_vars :: "Event \<Rightarrow> json" where
  "event_vars e = JObj (to_map
     [(''id'', JStr (ev_EventID e)), (''url'', JStr (ns_string (ev_EventUrl e))),
      (''name'', JStr (ns_string (ev_EventName e))),
      (''description'', JStr (ns_string (ev_EventDescription e))),
      (''severity'', JStr (ns_string (ev_EventSeverity e))),
      (''start_time'', JStr (ev_StartTime e)), (''end_time'', JStr (ns_string (ev_EndTime e)))])"

definition mergeEmailVars :: "any_map \<Rightarrow> Notification \<Rightarrow> Event \<Rightarrow> any_map" where
  "mergeEmailVars userVars notif event =
     map_put ''event'' (event_vars event)
       (map_put ''notification'' (notification_vars notif) (to_map userVars))"

function walkPath :: "any_map \<Rightarrow> string \<Rightarrow> bool" where
  "walkPath vars path = (case cut_at CHR ''.'' path of
      None \<Rightarrow> map_of vars path \<noteq> None
    | Some (k, rest) \<Rightarrow> (case map_of vars k of Some (JObj nested) \<Rightarrow> walkPath nested rest | _ \<Rightarrow> False))"
  by pat_completeness auto
termination
  by (relation "measure (\<lambda>(_, p). length p)") (auto simp: cut_at_Some)

declare walkPath.simps [simp del]

section \<open>Lemmas\<close>

lemma ValidateTemplate_required:
  "ValidateTemplate te subject body req = None \<longleftrightarrow>
     te_parse te ''body'' body = None \<and> te_parse te ''subject'' subject = None
     \<and> (\<forall>v \<in> set req. containsFieldRef body v \<or> containsFieldRef subject v)"
proof -
  have "check_required subject body req = None \<longleftrightarrow>
      (\<forall>v \<in> set req. containsFieldRef body v \<or> containsFieldRef subject v)"
    by (induction req) auto
  then show ?thesis by (auto simp: ValidateTemplate_def split: option.split)
qed

text \<open>What a match of the field expression means: a dotted name with nothing glued to it.\<close>

lemma field_match_iff:
  "field_match v ok s \<longleftrightarrow> (\<exists>pre post. s = pre @ CHR ''.'' # v @ post
     \<and> (if pre = [] then ok else last pre \<noteq> CHR ''.'' \<and> \<not> is_word (last pre))
     \<and> word_boundary (last (CHR ''.'' # v)) post)"
proof (induction s arbitrary: ok)
  case Nil
  then show ?case by simp
next
  case (Cons c r)
  have here: "field_here v s \<longleftrightarrow> (\<exists>post. s = CHR ''.'' # v @ post
      \<and> word_boundary (last (CHR ''.'' # v)) post)" for s
  proof
    assume h: "field_here v s"
    then have "s = CHR ''.'' # v @ drop (Suc (length v)) s"
      unfolding field_here_def HasPrefix_def
      by (metis append_Cons append_take_drop_id length_Cons)
    with h show "\<exists>post. s = CHR ''.'' # v @ post \<and> word_boundary (last (CHR ''.'' # v)) post"
      unfolding field_here_def by blast
  qed (auto simp: field_here_def HasPrefix_def)
  let ?Q = "\<lambda>ok pre. if pre = [] then ok else last pre \<noteq> CHR ''.'' \<and> \<not> is_word (last pre)"
  let ?W = "word_boundary (last (CHR ''.'' # v))"
  have step: "?Q ok (c # pre) \<longleftrightarrow> ?Q (c \<noteq> CHR ''.'' \<and> \<not> is_word c) pre" for pre ok
    by simp
  have "(\<exists>pre post. c # r = pre @ CHR ''.'' # v @ post \<and> ?Q ok pre \<and> ?W post) \<longleftrightarrow>
      ok \<and> (\<exists>post. c # r = CHR ''.'' # v @ post \<and> ?W post)
      \<or> (\<exists>pre post. r = pre @ CHR ''.'' # v @ post \<and> ?Q ok (c # pre) \<and> ?W post)"
    (is "?L \<longleftrightarrow> ?R1 \<or> ?R2")
  proof
    assume ?L
    then obtain pre post where h: "c # r = pre @ CHR ''.'' # v @ post" "?Q ok pre" "?W post" by blast
    show "?R1 \<or> ?R2"
    proof (cases pre)
      case Nil
      with h show ?thesis by simp
    next
      case (Cons p ps)
      with h(1) have "p = c" "r = ps @ CHR ''.'' # v @ post" by simp_all
      with h(2,3) Cons have ?R2 by blast
      then show ?thesis ..
    qed
  next
    assume "?R1 \<or> ?R2"
    then show ?L
    proof
      assume ?R1
      then obtain post where "c # r = [] @ CHR ''.'' # v @ post" "?Q ok []" "?W post" by auto
      then show ?L by blast
    next
      assume ?R2
      then obtain pre post where "c # r = (c # pre) @ CHR ''.'' # v @ post" "?Q ok (c # pre)" "?W post"
        by auto
      then show ?L by blast
    qed
  qed
  then show ?case
    by (simp only: field_match.simps Cons.IH here step)
qed

lemma mergeEmailVars_lookup:
  assumes "sorted_keys userVars"
  shows "map_of (mergeEmailVars userVars notif event) k =
    (if k = ''event'' then Some (event_vars event)
     else if k = ''notification'' then Some (notification_vars notif) else map_of userVars k)"
proof -
  have "distinct (map fst userVars)"
    using assms strict_sorted_iff unfolding sorted_keys_def by blast
  then have "map_of (rev userVars) = map_of userVars"
    by (subst map_of_inject_set) (simp_all add: rev_map [symmetric])
  then show ?thesis by (simp add: mergeEmailVars_def map_of_map_put map_of_to_map)
qed

text \<open>The dotted path, taken segment by segment.\<close>

fun path_present :: "json \<Rightarrow> string list \<Rightarrow> bool" where
  "path_present j [] = True"
| "path_present j (k # ks) = (case j of
      JObj m \<Rightarrow> (case map_of m k of None \<Rightarrow> False | Some v \<Rightarrow> path_present v ks)
    | _ \<Rightarrow> False)"

lemma walkPath_path_present: "walkPath vars path = path_present (JObj vars) (Split path CHR ''.'')"
proof (induction vars path rule: walkPath.induct)
  case (1 vars path)
  show ?case
  proof (cases "cut_at CHR ''.'' path")
    case None
    then have "Split path CHR ''.'' = [path]" by (simp add: cut_at_None Split_single)
    with None show ?thesis by (subst walkPath.simps) (simp split: option.split)
  next
    case (Some p)
    obtain k rest where p: "p = (k, rest)" by fastforce
    then have s: "Split path CHR ''.'' = k # Split rest CHR ''.''"
      using Some by (simp add: cut_at_Some Split_append_sep)
    obtain s0 ss where ss: "Split rest CHR ''.'' = s0 # ss" by (cases "Split rest CHR ''.''") auto
    show ?thesis
      using 1 [OF Some p [symmetric]]
      by (subst walkPath.simps) (auto simp: Some p s ss split: option.split json.split)
  qed
qed

end
