(* ===== verification/Database_Facts.thy ===== *)
theory Database_Facts
  imports Database
begin

text \<open>
  What the statements of the database promise. The locale \<open>keyed_table\<close> states the contract of a
  table with a unique key (what a lookup finds after an insert, an update or a delete) and is
  interpreted on each of the program's tables. \<open>db_ok\<close> is the schema as an invariant: the unique
  keys, the row identifiers and the foreign keys. Every statement keeps it, whatever the driver
  does, and so does every program composed of statements.
\<close>

section \<open>Tables with a unique key\<close>

locale keyed_table =
  fixes key :: "'r \<Rightarrow> 'k"
    and rows :: "database \<Rightarrow> 'r list"
    and set_rows :: "'r list \<Rightarrow> database \<Rightarrow> database"
  assumes rows_set_rows: "rows (set_rows rs d) = rs"
begin

definition lookup :: "'k \<Rightarrow> database \<Rightarrow> 'r option" where
  "lookup k d = find (\<lambda>r. key r = k) (rows d)"

definition unique :: "database \<Rightarrow> bool" where
  "unique d \<longleftrightarrow> distinct (map key (rows d))"

lemma lookup_key: "lookup k d = Some r \<Longrightarrow> key r = k \<and> r \<in> set (rows d)"
  unfolding lookup_def by (drule find_Some_set) simp

lemma lookup_None: "lookup k d = None \<longleftrightarrow> k \<notin> key ` set (rows d)"
  unfolding lookup_def by (auto simp: find_None)

lemma lookup_member: "unique d \<Longrightarrow> r \<in> set (rows d) \<Longrightarrow> lookup (key r) d = Some r"
  unfolding lookup_def unique_def by (rule find_unique_key)

lemma unique_insert:
  "unique d \<Longrightarrow> key r \<notin> key ` set (rows d) \<Longrightarrow> unique (set_rows (rows d @ [r]) d)"
  by (simp add: unique_def rows_set_rows)

lemma lookup_insert:
  "key r \<notin> key ` set (rows d) \<Longrightarrow>
   lookup k (set_rows (rows d @ [r]) d) = (if k = key r then Some r else lookup k d)"
  using lookup_None [of "key r" d]
  by (auto simp: lookup_def rows_set_rows find_append split: option.split)

lemma unique_update:
  "unique d \<Longrightarrow> (\<And>r. key (f r) = key r) \<Longrightarrow> unique (set_rows (update_where P f (rows d)) d)"
  by (simp add: unique_def rows_set_rows map_update_where)

lemma lookup_update:
  "(\<And>r. key (f r) = key r) \<Longrightarrow>
   lookup k (set_rows (update_where P f (rows d)) d)
     = map_option (\<lambda>r. if P r then f r else r) (lookup k d)"
  by (simp add: lookup_def rows_set_rows find_update_where_key)

lemma unique_filter: "unique d \<Longrightarrow> unique (set_rows (filter P (rows d)) d)"
  by (simp add: unique_def rows_set_rows distinct_map_filter)

lemma lookup_delete:
  "lookup k (set_rows (filter (\<lambda>r. key r \<noteq> k') (rows d)) d) = (if k = k' then None else lookup k d)"
  by (simp add: lookup_def rows_set_rows find_filter_key)

end

interpretation event_table: keyed_table ev_EventID events "\<lambda>rs d. d\<lparr>events := rs\<rparr>"
  by unfold_locales simp

interpretation notification_table:
  keyed_table nt_NotificationID notifications "\<lambda>rs d. d\<lparr>notifications := rs\<rparr>"
  by unfold_locales simp

interpretation template_table:
  keyed_table et_TemplateName email_templates "\<lambda>rs d. d\<lparr>email_templates := rs\<rparr>"
  by unfold_locales simp

interpretation member_table: keyed_table member_key group_members "\<lambda>rs d. d\<lparr>group_members := rs\<rparr>"
  by unfold_locales simp

interpretation sync_group_table: keyed_table sg_GroupName sync_groups "\<lambda>rs d. d\<lparr>sync_groups := rs\<rparr>"
  by unfold_locales simp

interpretation subscription_table:
  keyed_table sb_Username sms_subscriptions "\<lambda>rs d. d\<lparr>sms_subscriptions := rs\<rparr>"
  by unfold_locales simp

interpretation credential_table:
  keyed_table cc_Username smtp_cram_credentials "\<lambda>rs d. d\<lparr>smtp_cram_credentials := rs\<rparr>"
  by unfold_locales simp

section \<open>Rowids\<close>

lemma next_rowid_fresh: "i \<in> set ids \<Longrightarrow> i < next_rowid ids"
  by (induction ids) (auto simp: next_rowid_def)

lemma next_rowid_not_in: "next_rowid ids \<notin> set ids"
  using next_rowid_fresh by blast

lemma distinct_next_rowid: "distinct ids \<Longrightarrow> distinct (ids @ [next_rowid ids])"
  by (simp add: next_rowid_not_in)

section \<open>The schema\<close>

definition db_ok :: "database \<Rightarrow> bool" where
  "db_ok d \<longleftrightarrow>
     event_table.unique d \<and> notification_table.unique d \<and> template_table.unique d
   \<and> member_table.unique d \<and> sync_group_table.unique d \<and> subscription_table.unique d
   \<and> credential_table.unique d
   \<and> distinct (map ev_ID (events d)) \<and> distinct (map nt_ID (notifications d))
   \<and> distinct (map dl_ID (deliveries d)) \<and> distinct (map et_ID (email_templates d))
   \<and> distinct (map au_ID (audit_log d))
   \<and> nt_EventID ` set (notifications d) \<subseteq> ev_EventID ` set (events d)
   \<and> dl_NotificationID ` set (deliveries d) \<subseteq> nt_NotificationID ` set (notifications d)"

lemmas unique_defs = event_table.unique_def notification_table.unique_def
  template_table.unique_def member_table.unique_def sync_group_table.unique_def
  subscription_table.unique_def credential_table.unique_def

lemma db_ok_empty: "db_ok empty_db"
  by (simp add: db_ok_def unique_defs empty_db_def)

lemma image_update_where: "(\<And>x. key (f x) = key x) \<Longrightarrow> key ` set (update_where P f xs) = key ` set xs"
  by (metis list.set_map map_update_where)

lemmas db_ok_simps = db_ok_def unique_defs map_update_where image_update_where distinct_map_filter
  next_rowid_not_in [where ids = "map f xs" for f xs, simplified]

lemma update_events_db_ok:
  "(\<And>e. ev_EventID (f e) = ev_EventID e) \<Longrightarrow> (\<And>e. ev_ID (f e) = ev_ID e) \<Longrightarrow> db_ok d \<Longrightarrow>
   db_ok (d\<lparr>events := update_where P f (events d)\<rparr>)"
  by (simp add: db_ok_simps)

lemma events_keep_db_ok [keeps]:
  "preserves (on_db db_ok) (InsertEvent eid url name desc sev start ending by at)"
  "preserves (on_db db_ok) (UpdateEventEndTime ending at' by eid)"
  "preserves (on_db db_ok) (AutoCloseStaleEvents ending at' by start)"
  "preserves (on_db db_ok) (UpdateEvent url name desc sev by at' eid)"
     apply (unfold InsertEvent_def UpdateEventEndTime_def AutoCloseStaleEvents_def UpdateEvent_def)
     apply (rule preserves_insert_unless, force simp: db_ok_simps Let_def)
    apply (rule preserves_exec, simp add: update_events_db_ok)
   apply (rule preserves_statement, auto simp: update_events_db_ok Let_def)[1]
  apply (rule preserves_statement, auto simp: update_events_db_ok Let_def split: option.splits)[1]
  done

lemma notifications_keep_db_ok [keeps]:
  "preserves (on_db db_ok) (InsertNotification nid eid groups dests channels msg count tmpl vars at' by status)"
  "preserves (on_db db_ok) (UpdateNotificationMemberCount count nid)"
  "preserves (on_db db_ok) (UpdateNotificationStatus status err nid)"
    apply (unfold InsertNotification_def UpdateNotificationMemberCount_def UpdateNotificationStatus_def)
    apply (rule preserves_insert_unless, force simp: db_ok_simps Let_def)
   apply (rule preserves_exec, simp add: db_ok_simps)
  apply (rule preserves_exec, simp add: db_ok_simps)
  done

lemma insert_delivery_row_keeps_db_ok:
  "(\<And>d. dl_NotificationID (row d) = nid \<and> dl_ID (row d) = next_rowid (map dl_ID (deliveries d))) \<Longrightarrow>
   preserves (on_db db_ok) (insert_delivery_row nid row)"
  unfolding insert_delivery_row_def
  by (rule preserves_insert_unless) (force simp: db_ok_simps)

lemma update_deliveries_db_ok:
  "(\<And>x. dl_ID (f x) = dl_ID x) \<Longrightarrow> (\<And>x. dl_NotificationID (f x) = dl_NotificationID x) \<Longrightarrow>
   db_ok d \<Longrightarrow> db_ok (update_deliveries P f d)"
  by (simp add: db_ok_simps update_deliveries_def)

lemma deliveries_keep_db_ok [keeps]:
  "preserves (on_db db_ok) (InsertDelivery did nid grp mem chan status tmpl vars att at' sid)"
  "preserves (on_db db_ok) (InsertDestinationDelivery did nid dest chan status tmpl vars att at' sid)"
  "preserves (on_db db_ok) (IncrementPollAttempts did)"
  "preserves (on_db db_ok) ResetPollAttempts"
  "preserves (on_db db_ok) (UpdateDeliveryStatus status completed err did)"
  "preserves (on_db db_ok) (IncrementDeliveryAttempt at' did)"
  "preserves (on_db db_ok) (UpdateDeliveryError err did)"
        apply (unfold InsertDelivery_def InsertDestinationDelivery_def IncrementPollAttempts_def
          ResetPollAttempts_def UpdateDeliveryStatus_def IncrementDeliveryAttempt_def
          UpdateDeliveryError_def)
        apply (rule insert_delivery_row_keeps_db_ok, simp add: new_delivery_def)
       apply (rule insert_delivery_row_keeps_db_ok, simp add: new_delivery_def)
      apply (rule preserves_statement, auto simp: Let_def update_deliveries_db_ok split: option.splits)[1]
     apply (rule preserves_exec, simp add: update_deliveries_db_ok)+
  done

lemma templates_keep_db_ok [keeps]:
  "preserves (on_db db_ok) (InsertEmailTemplate name subj body req desc)"
  "preserves (on_db db_ok) (UpdateEmailTemplate subj body req desc name)"
  "preserves (on_db db_ok) (DeleteEmailTemplate name)"
    apply (unfold InsertEmailTemplate_def UpdateEmailTemplate_def DeleteEmailTemplate_def)
    apply (rule preserves_insert_unless, force simp: db_ok_simps Let_def)
   apply (rule preserves_exec, simp add: db_ok_simps)+
  done

lemma groups_keep_db_ok [keeps]:
  "preserves (on_db db_ok) (InsertSyncGroup g by)"
  "preserves (on_db db_ok) (DeleteSyncGroup g)"
  "preserves (on_db db_ok) (InsertGroupMember m)"
  "preserves (on_db db_ok) (DeleteGroupMembers g)"
     apply (unfold InsertSyncGroup_def DeleteSyncGroup_def InsertGroupMember_def DeleteGroupMembers_def)
     apply (intro keeps, rule preserves_insert_unless, simp add: db_ok_simps Let_def)
    apply (rule preserves_exec, simp add: db_ok_simps)
   apply (rule preserves_insert_unless, simp add: db_ok_simps)
  apply (rule preserves_exec, simp add: db_ok_simps)
  done

lemma other_tables_keep_db_ok [keeps]:
  "preserves (on_db db_ok) (InsertAuditLog at' user ip action tab old new)"
  "preserves (on_db db_ok) (InsertSMSSubscription u p at')"
  "preserves (on_db db_ok) (DeleteSMSSubscription u)"
  "preserves (on_db db_ok) (InsertCRAMCredential r)"
  "preserves (on_db db_ok) (DeleteCRAMCredential u)"
      apply (unfold InsertAuditLog_def InsertSMSSubscription_def DeleteSMSSubscription_def
        InsertCRAMCredential_def DeleteCRAMCredential_def)
      apply (rule preserves_exec, simp add: db_ok_simps)
     apply (rule preserves_insert_unless, simp add: db_ok_simps)
    apply (rule preserves_exec, simp add: db_ok_simps)
   apply (rule preserves_insert_unless, simp add: db_ok_simps)
  apply (rule preserves_exec, simp add: db_ok_simps)
  done

text \<open>Reading keeps everything.\<close>

lemmas read_defs = ListSyncGroups_def GetSyncGroup_def ListGroupMembers_def GetGroupMember_def
  ListDistinctGroupNames_def GetEventByID_def GetEventByEventID_def ListEvents_def
  ListEventsFiltered_def GetNotificationByID_def GetNotificationByNotificationID_def
  ListNotificationsByEventID_def GetDeliveryByDeliveryID_def ListDeliveriesByNotificationID_def
  ListInFlightVoiceDeliveries_def ListPollFailedDeliveries_def ListInFlightSMSDeliveries_def
  GetEmailTemplateByName_def ListEmailTemplates_def ListAuditLogFiltered_def
  GetSMSSubscription_def GetSMSSubscriptionByPhone_def ListSMSSubscriptions_def
  GetCRAMCredential_def ListCRAMCredentials_def

lemma reads_keep [keeps]:
  "preserves (on_db J) ListSyncGroups"
  "preserves (on_db J) (GetSyncGroup g)"
  "preserves (on_db J) (ListGroupMembers g)"
  "preserves (on_db J) (GetGroupMember g u)"
  "preserves (on_db J) ListDistinctGroupNames"
  "preserves (on_db J) (GetEventByID i)"
  "preserves (on_db J) (GetEventByEventID eid)"
  "preserves (on_db J) (ListEvents lim off)"
  "preserves (on_db J) (ListEventsFiltered p)"
  "preserves (on_db J) (GetNotificationByID i)"
  "preserves (on_db J) (GetNotificationByNotificationID nid)"
  "preserves (on_db J) (ListNotificationsByEventID eid)"
  "preserves (on_db J) (GetDeliveryByDeliveryID did)"
  "preserves (on_db J) (ListDeliveriesByNotificationID nid)"
  "preserves (on_db J) ListInFlightVoiceDeliveries"
  "preserves (on_db J) ListPollFailedDeliveries"
  "preserves (on_db J) ListInFlightSMSDeliveries"
  "preserves (on_db J) (GetEmailTemplateByName name)"
  "preserves (on_db J) ListEmailTemplates"
  "preserves (on_db J) (ListAuditLogFiltered user from_time to_time off lim)"
  "preserves (on_db J) (GetSMSSubscription u)"
  "preserves (on_db J) (GetSMSSubscriptionByPhone phone)"
  "preserves (on_db J) ListSMSSubscriptions"
  "preserves (on_db J) (GetCRAMCredential u)"
  "preserves (on_db J) ListCRAMCredentials"
  by (unfold read_defs) (rule keeps)+

section \<open>What the statements return\<close>

definition members_of :: "database \<Rightarrow> string \<Rightarrow> GroupMember list" where
  "members_of d g = filter (\<lambda>m. gm_GroupName m = g) (group_members d)"

lemma set_order_by [simp]: "set (order_by key rows) = set rows"
  by (simp add: order_by_def)

lemma set_order_by_desc [simp]: "set (order_by_desc key rows) = set rows"
  by (simp add: order_by_desc_def)

lemma length_order_by [simp]: "length (order_by key rows) = length rows"
  by (simp add: order_by_def)

lemma sorted_order_by: "sorted (map key (order_by key rows))"
  by (simp add: order_by_def)

lemma sorted_order_by_desc: "sorted (map key (rev (order_by_desc key rows)))"
  by (simp add: order_by_desc_def)

lemma set_limit_offset: "set (limit_offset l k rows) \<subseteq> set rows"
  by (auto simp: limit_offset_def Let_def dest: in_set_takeD in_set_dropD)

lemma length_limit_offset: "0 \<le> l \<Longrightarrow> length (limit_offset l k rows) \<le> nat l"
  by (simp add: limit_offset_def Let_def)

text \<open>A page of rows that come in descending order.\<close>

lemma sorted_page: "sorted (map key (rev (limit_offset l k (order_by_desc key rows))))"
  using sorted_order_by_desc [of key rows]
  by (simp add: limit_offset_def Let_def order_by_desc_def rev_drop rev_take sorted_wrt_take
      take_map [symmetric] drop_map [symmetric] sorted_wrt_drop)

text \<open>A pattern without wildcards between two percent signs is a substring test.\<close>

lemma sql_like_percent: "sql_like (CHR ''%'' # ps) ts \<longleftrightarrow> (\<exists>i. sql_like ps (drop i ts))"
proof (induction ts)
  case Nil
  then show ?case by simp
next
  case (Cons t ts)
  have "sql_like (CHR ''%'' # ps) (t # ts) \<longleftrightarrow> sql_like ps (t # ts) \<or> (\<exists>i. sql_like ps (drop i ts))"
    using Cons by simp
  also have "\<dots> \<longleftrightarrow> (\<exists>i. sql_like ps (drop i (t # ts)))"
    by (metis drop0 drop_Suc_Cons not0_implies_Suc)
  finally show ?case .
qed

lemma sql_like_literal:
  "CHR ''%'' \<notin> set p \<Longrightarrow> CHR ''_'' \<notin> set p \<Longrightarrow>
   sql_like (p @ ''%'') t \<longleftrightarrow> ToLower (take (length p) t) = ToLower p"
proof (induction p arbitrary: t)
  case Nil
  have "sql_like ''%'' u" for u by (induction u) auto
  then show ?case by (simp add: ToLower_def)
next
  case (Cons c p)
  then show ?case by (cases t) (auto simp: ToLower_def)
qed

lemma like_contains_substring:
  assumes "CHR ''%'' \<notin> set p" and "CHR ''_'' \<notin> set p"
  shows "like_contains p (Some t) \<longleftrightarrow> (\<exists>i. EqualFold (take (length p) (drop i t)) p)"
proof -
  have lc: "lower_char x = CHR ''%'' \<longleftrightarrow> x = CHR ''%''" "lower_char x = CHR ''_'' \<longleftrightarrow> x = CHR ''_''" for x
    by (simp_all add: lower_char_eq_other)
  have "c \<notin> set (ToLower p)" if "c \<notin> set p" and "\<And>x. lower_char x = c \<longleftrightarrow> x = c" for c
    using that by (metis ToLower_def imageE list.set_map)
  with assms lc have p: "CHR ''%'' \<notin> set (ToLower p)" "CHR ''_'' \<notin> set (ToLower p)"
    by blast+
  have "like_contains p (Some t) \<longleftrightarrow> (\<exists>i. sql_like (ToLower p @ ''%'') (drop i (ToLower t)))"
    by (simp add: like_contains_def sql_like_percent)
  also have "\<dots> \<longleftrightarrow> (\<exists>i. ToLower (take (length p) (drop i (ToLower t))) = ToLower p)"
    using p by (simp add: sql_like_literal) (simp add: ToLower_def)
  also have "\<dots> \<longleftrightarrow> (\<exists>i. ToLower (take (length p) (drop i t)) = ToLower p)"
    by (simp add: ToLower_def take_map drop_map o_def)
  finally show ?thesis by (simp add: EqualFold_def)
qed

end
