(* ===== verification/Dispatcher.thy ===== *)
theory Dispatcher
  imports Templates Database_Facts "HOL-Library.Multiset"
begin

text \<open>
  The dispatcher (\<open>notify/dispatcher.go\<close>): a job names a notification; \<open>processJob\<close> loads it, decides
  for each member of the requested groups and each direct destination which deliveries to make,
  makes them, and records the outcome. The providers are parameters (\<open>notify/sms.go\<close>,
  \<open>voice.go\<close> and \<open>email.go\<close> are interfaces): functions of the number of messages sent so far, the
  recipient and the text, so a provider may answer each call differently. A delivery is a \<open>task\<close>;
  the goroutines of a job become its list of tasks, which run one after the other in an order
  chosen by \<open>dp_order\<close> (any rearrangement). Interleaving inside a task is not modelled: a task
  reads tables that no task writes and adds rows of its own.
\<close>

datatype task =
    SmsMember string GroupMember
  | VoiceMember string GroupMember
  | EmailMember string GroupMember
  | ToDestination Destination

record Dispatcher =
  dp_RetryLimit :: int
  dp_RetryDelay :: int
  dp_sms :: "(nat \<Rightarrow> string \<Rightarrow> string \<Rightarrow> string \<times> string \<times> string option) option"
  dp_voice :: "(nat \<Rightarrow> string \<Rightarrow> string \<Rightarrow> string \<times> string \<times> string option) option"
  dp_email :: "(nat \<Rightarrow> string \<Rightarrow> string \<Rightarrow> string \<Rightarrow> string option) option"
  dp_engine :: template_engine
  dp_json_error :: "string \<Rightarrow> string"
  dp_order :: "task list \<Rightarrow> task list"

section \<open>Calls to the providers\<close>

definition sms_send :: "Dispatcher \<Rightarrow> string \<Rightarrow> string \<Rightarrow> (world, string \<times> string \<times> string option) state" where
  "sms_send d recipient msg = (case dp_sms d of None \<Rightarrow> ret ([], [], None)
     | Some f \<Rightarrow> do {
         w \<leftarrow> State_Monad.get;
         send_out (SmsTo recipient msg);
         ret (f (length (w_outbox w)) recipient msg) })"

definition voice_call :: "Dispatcher \<Rightarrow> string \<Rightarrow> string \<Rightarrow> (world, string \<times> string \<times> string option) state" where
  "voice_call d recipient msg = (case dp_voice d of None \<Rightarrow> ret ([], [], None)
     | Some f \<Rightarrow> do {
         w \<leftarrow> State_Monad.get;
         send_out (CallTo recipient msg);
         ret (f (length (w_outbox w)) recipient msg) })"

definition email_send :: "Dispatcher \<Rightarrow> string \<Rightarrow> string \<Rightarrow> string \<Rightarrow> (world, string option) state" where
  "email_send d recipient subject body = (case dp_email d of None \<Rightarrow> ret None
     | Some f \<Rightarrow> do {
         w \<leftarrow> State_Monad.get;
         send_out (EmailTo recipient subject body);
         ret (f (length (w_outbox w)) recipient subject body) })"

section \<open>The retry loop\<close>

text \<open>Arithmetic of \<open>int64\<close>, which \<open>time.Duration\<close> is.\<close>

definition wrap64 :: "int \<Rightarrow> int" where
  "wrap64 i = (i + 2 ^ 63) mod 2 ^ 64 - 2 ^ 63"

definition retry_delay :: "Dispatcher \<Rightarrow> nat \<Rightarrow> int" where
  "retry_delay d n = wrap64 (dp_RetryDelay d * wrap64 (2 ^ (n - 1)))"

text \<open>
  \<open>for n := 0; n < RetryLimit; n++\<close> with \<open>k\<close> iterations left; \<open>acc\<close> holds the variables
  \<open>sid, status, lastErr, finalAttempt\<close>. \<open>None\<close> when the context was done during a wait.
\<close>

type_synonym attempt = "string \<times> string \<times> string option \<times> nat"

primrec send_with_retry :: "Dispatcher \<Rightarrow> (world, string \<times> string \<times> string option) state \<Rightarrow> nat \<Rightarrow> nat
    \<Rightarrow> attempt \<Rightarrow> (world, attempt option) state" where
  "send_with_retry d send 0 n acc = ret (Some acc)"
| "send_with_retry d send (Suc k) n acc = do {
     cancelled \<leftarrow> (if n > 0 then sleep_or_done (retry_delay d n) else ret False);
     if cancelled then ret None
     else do {
       (sid, status, lastErr) \<leftarrow> send;
       (case lastErr of
          None \<Rightarrow> ret (Some (sid, status, None, n + 1))
        | Some e \<Rightarrow> send_with_retry d send k (n + 1) (sid, status, Some e, n + 1)) } }"

text \<open>
  The common shape of \<open>dispatchSMS\<close>, \<open>dispatchVoice\<close> and their variants for destinations: send with
  retries, insert the delivery, record the error if there is one.
\<close>

definition dispatch_with_retry :: "Dispatcher \<Rightarrow> (world, string \<times> string \<times> string option) state
    \<Rightarrow> (string \<Rightarrow> string \<Rightarrow> int \<Rightarrow> string \<Rightarrow> null_string \<Rightarrow> (world, Delivery db_result) state)
    \<Rightarrow> (world, unit) state" where
  "dispatch_with_retry d send ins = do {
     r \<leftarrow> send_with_retry d send (nat (dp_RetryLimit d)) 0 ([], [], None, 0);
     (case r of None \<Rightarrow> ret ()
      | Some (sid, status0, lastErr, finalAttempt) \<Rightarrow> do {
          let status = (if lastErr \<noteq> None then ''failed'' else status0);
          did \<leftarrow> uuidV7;
          at \<leftarrow> now_RFC3339;
          x \<leftarrow> ins did status (int finalAttempt) at (nullString sid);
          (case x of Inl e \<Rightarrow> ret ()
           | Inr delivery \<Rightarrow> (case lastErr of None \<Rightarrow> ret ()
              | Some e \<Rightarrow> do {
                  _ \<leftarrow> UpdateDeliveryError (Some e) (dl_DeliveryID delivery);
                  ret () })) }) }"

definition dispatchSMS :: "Dispatcher \<Rightarrow> Notification \<Rightarrow> string \<Rightarrow> GroupMember \<Rightarrow> (world, unit) state" where
  "dispatchSMS d notif grp m =
     dispatch_with_retry d (sms_send d (ns_string (gm_Mobile m)) (nt_Message notif))
       (\<lambda>did status att at sid. InsertDelivery did (nt_NotificationID notif) (Some grp)
          (Some (gm_Username m)) ''sms'' status None None att at sid)"

definition dispatchVoice :: "Dispatcher \<Rightarrow> Notification \<Rightarrow> string \<Rightarrow> GroupMember \<Rightarrow> (world, unit) state" where
  "dispatchVoice d notif grp m =
     dispatch_with_retry d
       (if gm_Mobile m \<noteq> None then voice_call d (ns_string (gm_Mobile m)) (nt_Message notif)
        else voice_call d (ns_string (gm_Work m)) (nt_Message notif))
       (\<lambda>did status att at sid. InsertDelivery did (nt_NotificationID notif) (Some grp)
          (Some (gm_Username m)) ''voice'' status None None att at sid)"

definition dispatchSMSToDestination :: "Dispatcher \<Rightarrow> Notification \<Rightarrow> string \<Rightarrow> (world, unit) state" where
  "dispatchSMSToDestination d notif target =
     dispatch_with_retry d (sms_send d target (nt_Message notif))
       (\<lambda>did status att at sid. InsertDestinationDelivery did (nt_NotificationID notif) (Some target)
          ''sms'' status None None att at sid)"

definition dispatchVoiceToDestination :: "Dispatcher \<Rightarrow> Notification \<Rightarrow> string \<Rightarrow> (world, unit) state" where
  "dispatchVoiceToDestination d notif target =
     dispatch_with_retry d (voice_call d target (nt_Message notif))
       (\<lambda>did status att at sid. InsertDestinationDelivery did (nt_NotificationID notif) (Some target)
          ''voice'' status None None att at sid)"

section \<open>Email\<close>

fun first_missing :: "any_map \<Rightarrow> string list \<Rightarrow> string option" where
  "first_missing vars [] = None"
| "first_missing vars (v # vs) = (if walkPath vars v then first_missing vars vs else Some v)"

text \<open>
  Everything of \<open>dispatchEmail\<close> between the identifier and the send: either the reason why nothing
  can be sent, or the rendered subject and body.
\<close>

definition render_email :: "Dispatcher \<Rightarrow> any_map \<Rightarrow> EmailTemplate \<Rightarrow> Notification \<Rightarrow> Event
    \<Rightarrow> string + string \<times> string" where
  "render_email d userVars tmpl notif event =
     (let vars = mergeEmailVars userVars notif event
      in case unmarshal_strings (et_RequiredVars tmpl) of
           None \<Rightarrow> Inl ''template has invalid required_vars''
         | Some requiredVars \<Rightarrow> (case first_missing vars requiredVars of
             Some v \<Rightarrow> Inl (''missing required template variable: '' @ v)
           | None \<Rightarrow> (case RenderTemplate (dp_engine d) (et_Subject tmpl) (et_Body tmpl) vars of
               Inl e \<Rightarrow> Inl (''template render error: '' @ e)
             | Inr sb \<Rightarrow> Inr sb)))"

definition prepare_email :: "Dispatcher \<Rightarrow> Notification \<Rightarrow> (world, string + string \<times> string) state" where
  "prepare_email d notif =
     (if \<not> ns_present (nt_EmailTemplate notif) then ret (Inl ''no email template specified'')
      else do {
        t \<leftarrow> GetEmailTemplateByName (ns_string (nt_EmailTemplate notif));
        (case t of
           Inl e \<Rightarrow> ret (Inl (''template not found: '' @ ns_string (nt_EmailTemplate notif)))
         | Inr tmpl \<Rightarrow>
             (case (if ns_present (nt_EmailVars notif) then unmarshal_map (ns_string (nt_EmailVars notif))
                    else Some []) of
                None \<Rightarrow> ret (Inl ''invalid email_vars JSON'')
              | Some userVars \<Rightarrow> do {
                  ev \<leftarrow> GetEventByEventID (nt_EventID notif);
                  (case ev of
                     Inl e \<Rightarrow> ret (Inl (''failed to load event: '' @ nt_EventID notif))
                   | Inr event \<Rightarrow> ret (render_email d userVars tmpl notif event)) })) })"

definition dispatch_email_with :: "Dispatcher \<Rightarrow> Notification \<Rightarrow> string
    \<Rightarrow> (string \<Rightarrow> string \<Rightarrow> string \<Rightarrow> (world, Delivery db_result) state) \<Rightarrow> (world, unit) state" where
  "dispatch_email_with d notif recipient ins = do {
     deliveryID \<leftarrow> uuidV7;
     sentAt \<leftarrow> now_RFC3339;
     p \<leftarrow> prepare_email d notif;
     (status, err) \<leftarrow> (case p of
          Inl reason \<Rightarrow> ret (''failed'', Some reason)
        | Inr (subject, body) \<Rightarrow> do {
            sendErr \<leftarrow> email_send d recipient subject body;
            ret (if sendErr = None then ''sent'' else ''failed'', sendErr) });
     x \<leftarrow> ins deliveryID status sentAt;
     (case x of Inl e \<Rightarrow> ret ()
      | Inr delivery \<Rightarrow> (case err of None \<Rightarrow> ret ()
         | Some e \<Rightarrow> do { _ \<leftarrow> UpdateDeliveryError (Some e) (dl_DeliveryID delivery); ret () })) }"

definition dispatchEmail :: "Dispatcher \<Rightarrow> Notification \<Rightarrow> string \<Rightarrow> GroupMember \<Rightarrow> (world, unit) state" where
  "dispatchEmail d notif grp m = dispatch_email_with d notif (ns_string (gm_Email m))
     (\<lambda>did status at. InsertDelivery did (nt_NotificationID notif) (Some grp) (Some (gm_Username m))
        ''email'' status (nt_EmailTemplate notif) (nt_EmailVars notif) 1 at None)"

definition dispatchEmailToDestination :: "Dispatcher \<Rightarrow> Notification \<Rightarrow> string \<Rightarrow> (world, unit) state" where
  "dispatchEmailToDestination d notif target = dispatch_email_with d notif target
     (\<lambda>did status at. InsertDestinationDelivery did (nt_NotificationID notif) (Some target)
        ''email'' status (nt_EmailTemplate notif) (nt_EmailVars notif) 1 at None)"

section \<open>A job\<close>

definition setNotificationStatus :: "string \<Rightarrow> string \<Rightarrow> string \<Rightarrow> (world, unit) state" where
  "setNotificationStatus nid status errMsg = do {
     _ \<leftarrow> UpdateNotificationStatus status (nullString errMsg) nid;
     ret () }"

text \<open>The deliveries recorded when an SMS is withheld.\<close>

definition withheld_destination :: "Notification \<Rightarrow> string \<Rightarrow> (world, unit) state" where
  "withheld_destination notif target = do {
     did \<leftarrow> uuidV7;
     at \<leftarrow> now_RFC3339;
     _ \<leftarrow> InsertDestinationDelivery did (nt_NotificationID notif) (Some target) ''sms''
        ''not_subscribed'' None None 0 at None;
     ret () }"

definition withheld_member :: "Notification \<Rightarrow> string \<Rightarrow> GroupMember \<Rightarrow> (world, unit) state" where
  "withheld_member notif grp m = do {
     did \<leftarrow> uuidV7;
     at \<leftarrow> now_RFC3339;
     _ \<leftarrow> InsertDelivery did (nt_NotificationID notif) (Some grp) (Some (gm_Username m)) ''sms''
        ''not_subscribed'' None None 0 at None;
     ret () }"

text \<open>The body of the goroutine of a destination.\<close>

definition dispatch_destination :: "Dispatcher \<Rightarrow> Notification \<Rightarrow> Destination \<Rightarrow> (world, unit) state" where
  "dispatch_destination d notif dst =
     (if ds_Channel dst = ''sms'' then
        (if dp_sms d = None then ret ()
         else do {
           s \<leftarrow> GetSMSSubscriptionByPhone (ds_Target dst);
           (case s of
              Inr _ \<Rightarrow> dispatchSMSToDestination d notif (ds_Target dst)
            | Inl _ \<Rightarrow> withheld_destination notif (ds_Target dst)) })
      else if ds_Channel dst = ''voice'' then
        (if dp_voice d = None then ret () else dispatchVoiceToDestination d notif (ds_Target dst))
      else if ds_Channel dst = ''email'' then
        (if dp_email d = None then ret () else dispatchEmailToDestination d notif (ds_Target dst))
      else ret ())"

fun run_task :: "Dispatcher \<Rightarrow> Notification \<Rightarrow> task \<Rightarrow> (world, unit) state" where
  "run_task d notif (SmsMember g m) = dispatchSMS d notif g m"
| "run_task d notif (VoiceMember g m) = dispatchVoice d notif g m"
| "run_task d notif (EmailMember g m) = dispatchEmail d notif g m"
| "run_task d notif (ToDestination dst) = dispatch_destination d notif dst"

text \<open>The body of the loop over the members of a group: the tasks it starts.\<close>

definition member_tasks :: "Dispatcher \<Rightarrow> Notification \<Rightarrow> string set \<Rightarrow> string \<Rightarrow> GroupMember
    \<Rightarrow> (world, task list) state" where
  "member_tasks d notif channelSet grp m = do {
     sms \<leftarrow> (if ''sms'' \<in> channelSet \<and> dp_sms d \<noteq> None \<and> ns_present (gm_Mobile m) then do {
         s \<leftarrow> GetSMSSubscription (gm_Username m);
         (case s of
            Inr _ \<Rightarrow> ret [SmsMember grp m]
          | Inl _ \<Rightarrow> do { withheld_member notif grp m; ret [] }) }
       else ret []);
     let voice = (if ''voice'' \<in> channelSet \<and> dp_voice d \<noteq> None
         \<and> (ns_present (gm_Mobile m) \<or> ns_present (gm_Work m)) then [VoiceMember grp m] else []);
     let email = (if ''email'' \<in> channelSet \<and> dp_email d \<noteq> None \<and> ns_present (gm_Email m)
         then [EmailMember grp m] else []);
     ret (sms @ voice @ email) }"

primrec members_tasks :: "Dispatcher \<Rightarrow> Notification \<Rightarrow> string set \<Rightarrow> string \<Rightarrow> GroupMember list
    \<Rightarrow> (world, task list) state" where
  "members_tasks d notif channelSet grp [] = ret []"
| "members_tasks d notif channelSet grp (m # ms) = do {
     ts \<leftarrow> member_tasks d notif channelSet grp m;
     us \<leftarrow> members_tasks d notif channelSet grp ms;
     ret (ts @ us) }"

text \<open>The loop over the groups: tasks, and \<open>totalMembers\<close>. A group that cannot be listed is skipped.\<close>

primrec group_tasks :: "Dispatcher \<Rightarrow> Notification \<Rightarrow> string set \<Rightarrow> string list
    \<Rightarrow> (world, task list \<times> nat) state" where
  "group_tasks d notif channelSet [] = ret ([], 0)"
| "group_tasks d notif channelSet (g # gs) = do {
     r \<leftarrow> ListGroupMembers g;
     (ts, n) \<leftarrow> (case r of
          Inl e \<Rightarrow> ret ([], 0)
        | Inr ms \<Rightarrow> do {
            ts \<leftarrow> members_tasks d notif channelSet g ms;
            ret (ts, length ms) });
     (us, k) \<leftarrow> group_tasks d notif channelSet gs;
     ret (ts @ us, n + k) }"

definition parse_column :: "(string \<Rightarrow> 'a list option) \<Rightarrow> null_string \<Rightarrow> 'a list option" where
  "parse_column f c = (if ns_present c then f (ns_string c) else Some [])"

text \<open>After \<open>wg.Wait()\<close>: the outcome, and the number of targets (members and destinations).\<close>

definition finish_job :: "Notification \<Rightarrow> nat \<Rightarrow> (world, unit) state" where
  "finish_job notif totalTargets = do {
     (if totalTargets = 0
      then setNotificationStatus (nt_NotificationID notif) ''failed'' ''no members found for requested groups''
      else setNotificationStatus (nt_NotificationID notif) ''completed'' []);
     _ \<leftarrow> UpdateNotificationMemberCount (int totalTargets) (nt_NotificationID notif);
     ret () }"

definition dispatch_parsed :: "Dispatcher \<Rightarrow> Notification \<Rightarrow> string list \<Rightarrow> string list \<Rightarrow> Destination list
    \<Rightarrow> (world, unit) state" where
  "dispatch_parsed d notif groups channels destinations = do {
     (ts, totalMembers) \<leftarrow> group_tasks d notif (set channels) groups;
     for_each (run_task d notif) (dp_order d (ts @ map ToDestination destinations));
     finish_job notif (totalMembers + length destinations) }"

text \<open>\<open>processJob\<close> once the notification is loaded: the three JSON columns, in their order.\<close>

definition process_loaded :: "Dispatcher \<Rightarrow> Notification \<Rightarrow> (world, unit) state" where
  "process_loaded d notif = do {
     setNotificationStatus (nt_NotificationID notif) ''processing'' [];
     (case parse_column unmarshal_strings (nt_Groups notif) of
        None \<Rightarrow> setNotificationStatus (nt_NotificationID notif) ''failed''
          (''failed to parse groups: '' @ dp_json_error d (ns_string (nt_Groups notif)))
      | Some groups \<Rightarrow> (case parse_column unmarshal_strings (nt_Channels notif) of
          None \<Rightarrow> setNotificationStatus (nt_NotificationID notif) ''failed''
            (''failed to parse channels: '' @ dp_json_error d (ns_string (nt_Channels notif)))
        | Some channels \<Rightarrow> (case parse_column unmarshal_destinations (nt_Destinations notif) of
            None \<Rightarrow> setNotificationStatus (nt_NotificationID notif) ''failed''
              (''failed to parse destinations: '' @ dp_json_error d (ns_string (nt_Destinations notif)))
          | Some destinations \<Rightarrow> dispatch_parsed d notif groups channels destinations))) }"

definition processJob :: "Dispatcher \<Rightarrow> string \<Rightarrow> (world, unit) state" where
  "processJob d nid = do {
     r \<leftarrow> GetNotificationByNotificationID nid;
     (case r of Inl e \<Rightarrow> ret ()
      | Inr notif \<Rightarrow> process_loaded d notif) }"

text \<open>
  A worker, for at most \<open>n\<close> rounds of its loop: at each round the context may be done, and otherwise
  the next job of the queue is processed. On an empty queue the worker waits, and the run ends.
\<close>

primrec worker :: "Dispatcher \<Rightarrow> nat \<Rightarrow> (world, unit) state" where
  "worker d 0 = ret ()"
| "worker d (Suc n) = do {
     stopped \<leftarrow> ctx_done;
     if stopped then ret ()
     else do {
       q \<leftarrow> gets w_queue;
       (case q of [] \<Rightarrow> ret ()
        | job # rest \<Rightarrow> do {
            modify (\<lambda>w. w\<lparr>w_queue := rest\<rparr>);
            processJob d job;
            worker d n }) } }"

end
