(* ===== verification/Dispatcher_Facts.thy ===== *)
theory Dispatcher_Facts
  imports Dispatcher
begin

text \<open>
  What a job may do. The locale \<open>job_invariant\<close> states which laws an invariant has to obey for the
  statements and the provider calls of the dispatcher, and concludes that a whole job keeps it,
  however the driver fails and in whatever order its tasks run. Its instances: the schema
  (\<open>db_ok\<close>), the consent of everybody who gets an SMS (\<open>sms_consent\<close>), and the tables a job leaves
  alone (\<open>job_frame\<close>). The second part follows the retry loop and the outcome of a job exactly.
\<close>

section \<open>Invariants of a job\<close>

locale job_invariant =
  fixes I :: "world \<Rightarrow> bool" and d :: Dispatcher and notif :: Notification
    and G :: "string set" and D :: "Destination set"
    and subscribed :: "string \<Rightarrow> bool" and registered :: "string \<Rightarrow> bool"
    and listed :: "string \<Rightarrow> GroupMember \<Rightarrow> bool"
  assumes keeps_uuid: "preserves I uuidV7"
    and keeps_now: "preserves I now_RFC3339"
    and keeps_sleep: "preserves I (sleep_or_done x)"
    and keeps_template: "preserves I (GetEmailTemplateByName t)"
    and keeps_event: "preserves I (GetEventByEventID e)"
    and keeps_delivery: "preserves I (InsertDelivery did (nt_NotificationID notif) gr mb ch st tm vr att sent_at sid)"
    and keeps_dest_delivery:
      "preserves I (InsertDestinationDelivery did (nt_NotificationID notif) ds ch st tm vr att sent_at sid)"
    and keeps_error: "preserves I (UpdateDeliveryError err did)"
    and keeps_status: "preserves I (UpdateNotificationStatus st err (nt_NotificationID notif))"
    and keeps_count: "preserves I (UpdateNotificationMemberCount k (nt_NotificationID notif))"
    and keeps_voice: "preserves I (voice_call d phone msg)"
    and keeps_email: "preserves I (email_send d addr subj body)"
    and list_members: "I w \<Longrightarrow> wp (ListGroupMembers g)
      (\<lambda>r w'. I w' \<and> (\<forall>ms. r = Inr ms \<longrightarrow> (\<forall>m \<in> set ms. listed g m))) w"
    and get_subscription: "I w \<Longrightarrow> wp (GetSMSSubscription u)
      (\<lambda>r w'. I w' \<and> (\<forall>s. r = Inr s \<longrightarrow> subscribed u)) w"
    and get_phone: "I w \<Longrightarrow> wp (GetSMSSubscriptionByPhone p)
      (\<lambda>r w'. I w' \<and> (\<forall>s. r = Inr s \<longrightarrow> registered p)) w"
    and sms_member: "g \<in> G \<Longrightarrow> listed g m \<Longrightarrow> subscribed (gm_Username m) \<Longrightarrow>
      preserves I (sms_send d (ns_string (gm_Mobile m)) (nt_Message notif))"
    and sms_destination: "dst \<in> D \<Longrightarrow> ds_Channel dst = ''sms'' \<Longrightarrow> registered (ds_Target dst) \<Longrightarrow>
      preserves I (sms_send d (ds_Target dst) (nt_Message notif))"
begin

lemmas laws = keeps_uuid keeps_now keeps_sleep keeps_template keeps_event keeps_delivery
  keeps_dest_delivery keeps_error keeps_status keeps_count keeps_voice keeps_email

lemma keeps_retry: "preserves I send \<Longrightarrow> preserves I (send_with_retry d send k n acc)"
  by (induction k arbitrary: n acc) (auto intro!: keeps laws)

lemma keeps_dispatch:
  "preserves I send \<Longrightarrow> (\<And>a b c e f. preserves I (ins a b c e f)) \<Longrightarrow>
   preserves I (dispatch_with_retry d send ins)"
  unfolding dispatch_with_retry_def by (intro keeps laws keeps_retry) auto

lemma keeps_prepare: "preserves I (prepare_email d notif)"
  unfolding prepare_email_def by (intro keeps laws)

lemma keeps_email_with:
  "(\<And>a b c. preserves I (ins a b c)) \<Longrightarrow> preserves I (dispatch_email_with d notif addr ins)"
  unfolding dispatch_email_with_def by (intro keeps laws keeps_prepare) auto

lemma keeps_set_status: "preserves I (setNotificationStatus (nt_NotificationID notif) st err)"
  unfolding setNotificationStatus_def by (intro keeps laws)

lemma keeps_withheld:
  "preserves I (withheld_destination notif p)" "preserves I (withheld_member notif g m)"
  unfolding withheld_destination_def withheld_member_def by (intro keeps laws)+

lemma keeps_finish: "preserves I (finish_job notif n)"
  unfolding finish_job_def by (intro keeps laws keeps_set_status)

lemma keeps_destination:
  assumes dst: "dst \<in> D"
  shows "preserves I (dispatch_destination d notif dst)"
proof -
  have "preserves I (do { s \<leftarrow> GetSMSSubscriptionByPhone (ds_Target dst);
      (case s of Inr _ \<Rightarrow> dispatchSMSToDestination d notif (ds_Target dst)
       | Inl _ \<Rightarrow> withheld_destination notif (ds_Target dst)) })"
    if sms: "ds_Channel dst = ''sms''"
  proof (rule preservesI)
    fix w assume I: "I w"
    have send: "preserves I (dispatchSMSToDestination d notif (ds_Target dst))"
      if "registered (ds_Target dst)"
      unfolding dispatchSMSToDestination_def
      by (intro keeps_dispatch sms_destination laws) (use that dst sms in auto)
    show "wp (do { s \<leftarrow> GetSMSSubscriptionByPhone (ds_Target dst);
      (case s of Inr _ \<Rightarrow> dispatchSMSToDestination d notif (ds_Target dst)
       | Inl _ \<Rightarrow> withheld_destination notif (ds_Target dst)) }) (\<lambda>_. I) w"
      unfolding wp_bind
      by (rule wp_mono [OF get_phone [OF I]])
        (auto split: sum.split intro!: preserves_wp [OF send] preserves_wp [OF keeps_withheld(1)])
  qed
  then show ?thesis
    unfolding dispatch_destination_def dispatchVoiceToDestination_def dispatchEmailToDestination_def
    by (auto intro!: keeps laws keeps_dispatch keeps_email_with)
qed

definition task_allowed :: "task \<Rightarrow> bool" where
  "task_allowed t \<longleftrightarrow> (case t of
      SmsMember g m \<Rightarrow> g \<in> G \<and> listed g m \<and> subscribed (gm_Username m)
    | ToDestination dst \<Rightarrow> dst \<in> D | _ \<Rightarrow> True)"

lemma task_allowed_simps:
  "task_allowed (SmsMember g m) \<longleftrightarrow> g \<in> G \<and> listed g m \<and> subscribed (gm_Username m)"
  "task_allowed (VoiceMember g m)" "task_allowed (EmailMember g m)"
  "task_allowed (ToDestination dst) \<longleftrightarrow> dst \<in> D"
  by (simp_all add: task_allowed_def)

lemma keeps_task: "task_allowed t \<Longrightarrow> preserves I (run_task d notif t)"
  by (cases t) (auto simp: task_allowed_def dispatchSMS_def dispatchVoice_def dispatchEmail_def
      intro!: keeps laws keeps_dispatch sms_member keeps_email_with keeps_destination)

lemma member_tasks_allowed:
  assumes "I w" and "g \<in> G" and "listed g m"
  shows "wp (member_tasks d notif cs g m) (\<lambda>ts w'. I w' \<and> (\<forall>t \<in> set ts. task_allowed t)) w"
proof -
  have withheld: "wp (do { withheld_member notif g m; ret [] })
      (\<lambda>ts w'. I w' \<and> (\<forall>t \<in> set ts. task_allowed t)) w'" if "I w'" for w'
    using preserves_wp [OF keeps_withheld(2) that] by (simp add: wp_bind wp_ret)
  have sms: "wp (if ''sms'' \<in> cs \<and> dp_sms d \<noteq> None \<and> ns_present (gm_Mobile m) then do {
         s \<leftarrow> GetSMSSubscription (gm_Username m);
         (case s of Inr _ \<Rightarrow> ret [SmsMember g m]
          | Inl _ \<Rightarrow> do { withheld_member notif g m; ret [] }) } else ret [])
      (\<lambda>ts w'. I w' \<and> (\<forall>t \<in> set ts. task_allowed t)) w"
  proof (cases "''sms'' \<in> cs \<and> dp_sms d \<noteq> None \<and> ns_present (gm_Mobile m)")
    case True
    show ?thesis
      unfolding if_P [OF True] wp_bind [of "GetSMSSubscription _"]
      by (rule wp_mono [OF get_subscription [OF \<open>I w\<close>]])
        (use assms in \<open>auto split: sum.split intro: withheld simp: wp_ret task_allowed_simps\<close>)
  next
    case False
    with assms show ?thesis by (auto simp: wp_ret)
  qed
  show ?thesis
    unfolding member_tasks_def Let_def wp_bind
    by (rule wp_mono [OF sms [unfolded wp_bind]]) (auto simp: wp_ret task_allowed_def)
qed

lemma members_tasks_allowed:
  assumes "I w" and "g \<in> G" and "\<forall>m \<in> set ms. listed g m"
  shows "wp (members_tasks d notif cs g ms) (\<lambda>ts w'. I w' \<and> (\<forall>t \<in> set ts. task_allowed t)) w"
  using assms
proof (induction ms arbitrary: w)
  case (Cons m ms)
  show ?case
    unfolding members_tasks.simps wp_bind wp_ret
    by (rule wp_mono [OF member_tasks_allowed], use Cons in auto, rule wp_mono [OF Cons.IH], auto)
qed (simp add: wp_ret)

lemma group_tasks_allowed:
  assumes "I w" and "set gs \<subseteq> G"
  shows "wp (group_tasks d notif cs gs) (\<lambda>(ts, n :: nat) w'. I w' \<and> (\<forall>t \<in> set ts. task_allowed t)) w"
  using assms
proof (induction gs arbitrary: w)
  case (Cons g gs)
  have step: "wp (case r of Inl e \<Rightarrow> ret ([], 0)
      | Inr ms \<Rightarrow> do { ts \<leftarrow> members_tasks d notif cs g ms; ret (ts, length ms) })
      (\<lambda>(ts, n :: nat) w''. I w'' \<and> (\<forall>t \<in> set ts. task_allowed t)) w'"
    if "I w'" "\<forall>ms. r = Inr ms \<longrightarrow> (\<forall>m \<in> set ms. listed g m)" for r w'
    using that Cons.prems
    by (cases r) (auto simp: wp_bind wp_ret intro!: wp_mono [OF members_tasks_allowed])
  have rest: "wp (do { (us, k) \<leftarrow> group_tasks d notif cs gs; ret (ts @ us, n + k) })
        (\<lambda>(ts, n :: nat) w'. I w' \<and> (\<forall>t \<in> set ts. task_allowed t)) w'"
    if "I w'" "\<forall>t \<in> set ts. task_allowed t" for ts n w'
    unfolding wp_bind
    by (rule wp_mono [OF Cons.IH]) (use that Cons.prems in \<open>auto simp: wp_ret\<close>)
  show ?case
    unfolding group_tasks.simps wp_bind
    by (rule wp_mono [OF list_members [OF \<open>I w\<close>]], rule wp_mono [OF step]) (auto intro: rest)
qed (simp add: wp_ret)

lemma keeps_job:
  assumes "\<And>ts. set (dp_order d ts) \<subseteq> set ts" and "set groups \<subseteq> G" and "set dests \<subseteq> D"
  shows "preserves I (dispatch_parsed d notif groups channels dests)"
proof (rule preservesI)
  fix w assume "I w"
  have tail: "preserves I (do {
      for_each (run_task d notif) (dp_order d (ts @ map ToDestination dests));
      finish_job notif (n + length dests) })" if "\<forall>t \<in> set ts. task_allowed t" for ts n
  proof -
    have "preserves I (run_task d notif t)"
      if "t \<in> set (dp_order d (ts @ map ToDestination dests))" for t
    proof (rule keeps_task)
      have "t \<in> set ts \<union> ToDestination ` set dests" using assms(1) that by fastforce
      then show "task_allowed t"
        using \<open>\<forall>t \<in> set ts. task_allowed t\<close> assms(3) by (auto simp: task_allowed_def)
    qed
    then show ?thesis
      by (intro preserves_bind preserves_for_each_set keeps_finish)
  qed
  show "wp (dispatch_parsed d notif groups channels dests) (\<lambda>_. I) w"
    unfolding dispatch_parsed_def wp_bind [of "group_tasks _ _ _ _"]
    by (rule wp_mono [OF group_tasks_allowed [OF \<open>I w\<close> assms(2)]])
      (auto intro!: preserves_wp [OF tail])
qed

lemma keeps_loaded:
  assumes "\<And>ts. set (dp_order d ts) \<subseteq> set ts"
    and "\<And>groups. parse_column unmarshal_strings (nt_Groups notif) = Some groups \<Longrightarrow> set groups \<subseteq> G"
    and "\<And>dests. parse_column unmarshal_destinations (nt_Destinations notif) = Some dests \<Longrightarrow> set dests \<subseteq> D"
  shows "preserves I (process_loaded d notif)"
  unfolding process_loaded_def using assms
  by (intro preserves_bind keeps_set_status)
    (auto split: option.split intro!: keeps_set_status keeps_job)

end

section \<open>Instances\<close>

lemmas delivery_write_defs = InsertDelivery_def InsertDestinationDelivery_def insert_delivery_row_def
  UpdateDeliveryError_def UpdateNotificationStatus_def UpdateNotificationMemberCount_def

text \<open>Invariants of the database alone: nothing that is sent matters.\<close>

lemma on_db_sends [keeps]:
  "preserves (on_db J) (sms_send d phone msg)" "preserves (on_db J) (voice_call d phone msg)"
  "preserves (on_db J) (email_send d addr subj body)"
  unfolding sms_send_def voice_call_def email_send_def by (intro keeps)+

lemma job_invariant_on_db:
  assumes "\<And>did g m c st t v a s sid.
      preserves (on_db J) (InsertDelivery did (nt_NotificationID notif) g m c st t v a s sid)"
    and "\<And>did g c st t v a s sid.
      preserves (on_db J) (InsertDestinationDelivery did (nt_NotificationID notif) g c st t v a s sid)"
    and "\<And>err did. preserves (on_db J) (UpdateDeliveryError err did)"
    and "\<And>st err. preserves (on_db J) (UpdateNotificationStatus st err (nt_NotificationID notif))"
    and "\<And>k. preserves (on_db J) (UpdateNotificationMemberCount k (nt_NotificationID notif))"
  shows "job_invariant (on_db J) d notif UNIV UNIV (\<lambda>_. True) (\<lambda>_. True) (\<lambda>_ _. True)"
  by unfold_locales (auto intro!: keeps assms preserves_wp)

text \<open>The tables a job leaves alone, and what it may do to the other two.\<close>

definition job_frame :: "database \<Rightarrow> string \<Rightarrow> database \<Rightarrow> bool" where
  "job_frame d0 nid d \<longleftrightarrow>
     events d = events d0 \<and> email_templates d = email_templates d0
   \<and> group_members d = group_members d0 \<and> sync_groups d = sync_groups d0
   \<and> sync_groups_seq d = sync_groups_seq d0 \<and> audit_log d = audit_log d0
   \<and> sms_subscriptions d = sms_subscriptions d0 \<and> smtp_cram_credentials d = smtp_cram_credentials d0
   \<and> filter (\<lambda>n. nt_NotificationID n \<noteq> nid) (notifications d)
       = filter (\<lambda>n. nt_NotificationID n \<noteq> nid) (notifications d0)
   \<and> (\<exists>new. map dl_ID (deliveries d) = map dl_ID (deliveries d0) @ new)
   \<and> (\<forall>x \<in> set (drop (length (deliveries d0)) (deliveries d)). dl_NotificationID x = nid)"

lemma filter_update_where_other:
  "(\<And>x. key (f x) = key x) \<Longrightarrow>
   filter (\<lambda>x. key x \<noteq> k) (update_where (\<lambda>x. key x = k) f xs) = filter (\<lambda>x. key x \<noteq> k) xs"
  by (induction xs) auto

lemma job_frame_update_notification:
  "(\<And>n. nt_NotificationID (f n) = nt_NotificationID n) \<Longrightarrow> job_frame d0 nid d \<Longrightarrow>
   job_frame d0 nid (d\<lparr>notifications := update_where (\<lambda>n. nt_NotificationID n = nid) f (notifications d)\<rparr>)"
  by (simp add: job_frame_def filter_update_where_other)

lemma length_job_frame: "job_frame d0 nid d \<Longrightarrow> length (deliveries d0) \<le> length (deliveries d)"
  unfolding job_frame_def by (metis length_append length_map le_add1)

lemma job_frame_delivery:
  assumes "job_frame d0 nid d" and "dl_NotificationID x = nid"
  shows "job_frame d0 nid (d\<lparr>deliveries := deliveries d @ [x]\<rparr>)"
  using assms length_job_frame [OF assms(1)] unfolding job_frame_def by auto

lemma drop_update_where: "drop n (update_where P f xs) = update_where P f (drop n xs)"
  by (simp add: update_where_def drop_map)

lemma job_frame_update_deliveries:
  "(\<And>x. dl_ID (f x) = dl_ID x) \<Longrightarrow> (\<And>x. dl_NotificationID (f x) = dl_NotificationID x) \<Longrightarrow>
   job_frame d0 nid d \<Longrightarrow> job_frame d0 nid (update_deliveries P f d)"
  by (auto simp: job_frame_def update_deliveries_def map_update_where drop_update_where set_update_where)

lemma job_frame_laws:
  "preserves (on_db (job_frame d0 nid)) (InsertDelivery did nid g m c st t v a s sid)"
  "preserves (on_db (job_frame d0 nid)) (InsertDestinationDelivery did nid g c st t v a s sid)"
  "preserves (on_db (job_frame d0 nid)) (UpdateDeliveryError err did)"
  "preserves (on_db (job_frame d0 nid)) (UpdateNotificationStatus st err nid)"
  "preserves (on_db (job_frame d0 nid)) (UpdateNotificationMemberCount k nid)"
      apply (unfold delivery_write_defs)
      apply (rule preserves_insert_unless, simp add: job_frame_delivery new_delivery_def)
     apply (rule preserves_insert_unless, simp add: job_frame_delivery new_delivery_def)
    apply (rule preserves_exec, simp add: job_frame_update_deliveries)
   apply (rule preserves_exec, simp add: job_frame_update_notification)+
  done

text \<open>Who may get an SMS: a subscribed member of a requested group, or a registered number.\<close>

definition consented :: "database \<Rightarrow> Notification \<Rightarrow> string set \<Rightarrow> Destination set \<Rightarrow> string \<Rightarrow> string \<Rightarrow> bool" where
  "consented db notif G D phone msg \<longleftrightarrow> msg = nt_Message notif \<and>
     ((\<exists>m \<in> set (group_members db). gm_GroupName m \<in> G \<and> phone = ns_string (gm_Mobile m)
         \<and> (\<exists>s \<in> set (sms_subscriptions db). EqualFold (sb_Username s) (gm_Username m)))
    \<or> (\<exists>dst \<in> D. ds_Channel dst = ''sms'' \<and> phone = ds_Target dst
         \<and> (\<exists>s \<in> set (sms_subscriptions db). sb_Phone s = phone)))"

definition sms_consent :: "database \<Rightarrow> outgoing list \<Rightarrow> (string \<Rightarrow> string \<Rightarrow> bool) \<Rightarrow> world \<Rightarrow> bool" where
  "sms_consent db old ok w \<longleftrightarrow>
     sms_subscriptions (w_db w) = sms_subscriptions db \<and> group_members (w_db w) = group_members db
   \<and> (\<exists>new. w_outbox w = new @ old \<and> (\<forall>phone msg. SmsTo phone msg \<in> set new \<longrightarrow> ok phone msg))"

lemma sms_consent_simps [simp]:
  "sms_consent db old ok (sent w) = sms_consent db old ok w"
  "sms_consent db old ok (advance_clock w) = sms_consent db old ok w"
  "sms_consent db old ok (after_uuid w) = sms_consent db old ok w"
  "sms_consent db old ok (w\<lparr>w_cancels := cs\<rparr>) = sms_consent db old ok w"
  "sms_consent db old ok (w\<lparr>w_cancels := cs, w_sleeps := ss\<rparr>) = sms_consent db old ok w"
  by (simp_all add: sms_consent_def)

lemma sms_consent_db:
  "sms_subscriptions d = sms_subscriptions (w_db w) \<Longrightarrow> group_members d = group_members (w_db w) \<Longrightarrow>
   sms_consent db old ok (sent w\<lparr>w_db := d\<rparr>) = sms_consent db old ok w"
  by (simp add: sms_consent_def)

lemma sms_consent_out:
  assumes "sms_consent db old ok w" and "\<And>phone msg. m = SmsTo phone msg \<Longrightarrow> ok phone msg"
  shows "sms_consent db old ok (w\<lparr>w_outbox := m # w_outbox w\<rparr>)"
proof -
  obtain new where "w_outbox w = new @ old" "\<forall>phone msg. SmsTo phone msg \<in> set new \<longrightarrow> ok phone msg"
    using assms(1) unfolding sms_consent_def by blast
  then have "m # w_outbox w = (m # new) @ old"
    "\<forall>phone msg. SmsTo phone msg \<in> set (m # new) \<longrightarrow> ok phone msg"
    using assms(2) by auto
  with assms(1) show ?thesis unfolding sms_consent_def by (simp del: append_Cons)
qed

interpretation consent: job_invariant "sms_consent db old (consented db notif G D)" d notif G D
    "\<lambda>u. \<exists>s \<in> set (sms_subscriptions db). EqualFold (sb_Username s) u"
    "\<lambda>p. \<exists>s \<in> set (sms_subscriptions db). sb_Phone s = p"
    "\<lambda>g m. m \<in> set (group_members db) \<and> gm_GroupName m = g"
  for db old d notif G D
proof unfold_locales
  let ?I = "sms_consent db old (consented db notif G D)"
  show "preserves ?I (sms_send d (ns_string (gm_Mobile m)) (nt_Message notif))"
    if "g \<in> G" "m \<in> set (group_members db) \<and> gm_GroupName m = g"
      "\<exists>s \<in> set (sms_subscriptions db). EqualFold (sb_Username s) (gm_Username m)" for g m
  proof -
    have "consented db notif G D (ns_string (gm_Mobile m)) (nt_Message notif)"
      using that unfolding consented_def by blast
    then show ?thesis
      unfolding sms_send_def
      by (intro preservesI) (auto simp: wp_simps split: option.split intro!: sms_consent_out)
  qed
  show "preserves ?I (sms_send d (ds_Target dst) (nt_Message notif))"
    if "dst \<in> D" "ds_Channel dst = ''sms''"
      "\<exists>s \<in> set (sms_subscriptions db). sb_Phone s = ds_Target dst" for dst
  proof -
    have "consented db notif G D (ds_Target dst) (nt_Message notif)"
      using that unfolding consented_def by blast
    then show ?thesis
      unfolding sms_send_def
      by (intro preservesI) (auto simp: wp_simps split: option.split intro!: sms_consent_out)
  qed
  show "wp (GetSMSSubscription u) (\<lambda>r w'. ?I w' \<and> (\<forall>s. r = Inr s \<longrightarrow>
      (\<exists>s \<in> set (sms_subscriptions db). EqualFold (sb_Username s) u))) w" if "?I w" for w u
    using that unfolding GetSMSSubscription_def
    by (auto simp: wp_simps EqualFold_def sms_consent_def split: option.split dest!: find_Some_set)
  show "wp (GetSMSSubscriptionByPhone p) (\<lambda>r w'. ?I w' \<and> (\<forall>s. r = Inr s \<longrightarrow>
      (\<exists>s \<in> set (sms_subscriptions db). sb_Phone s = p))) w" if "?I w" for w p
    using that unfolding GetSMSSubscriptionByPhone_def
    by (auto simp: wp_simps sms_consent_def split: option.split dest!: find_Some_set)
  show "wp (ListGroupMembers g) (\<lambda>r w'. ?I w' \<and> (\<forall>ms. r = Inr ms \<longrightarrow>
      (\<forall>m \<in> set ms. m \<in> set (group_members db) \<and> gm_GroupName m = g))) w" if "?I w" for w g
    using that unfolding ListGroupMembers_def by (auto simp: wp_simps sms_consent_def)
qed (auto intro!: preservesI simp: wp_simps delivery_write_defs update_deliveries_def
    GetEmailTemplateByName_def GetEventByEventID_def voice_call_def email_send_def
    sms_consent_db split: option.split intro: sms_consent_out)

section \<open>A job keeps the schema, its frame and the consent of its recipients\<close>

lemma find_notification:
  "find (\<lambda>n. nt_NotificationID n = nid) xs = Some n \<Longrightarrow> nt_NotificationID n = nid"
  by (drule find_Some_set) simp

lemma wp_processJob:
  assumes "Q () (sent w)"
    and "\<And>notif. find (\<lambda>n. nt_NotificationID n = nid) (notifications (w_db w)) = Some notif \<Longrightarrow>
      wp (process_loaded d notif) Q (sent w)"
  shows "wp (processJob d nid) Q w"
  using assms
  by (auto simp: processJob_def GetNotificationByNotificationID_def wp_simps split: option.split)

lemma preserves_processJob_db:
  assumes "\<And>ts. mset (dp_order d ts) = mset ts"
    and "\<And>notif. nt_NotificationID notif = nid \<Longrightarrow>
      job_invariant (on_db J) d notif UNIV UNIV (\<lambda>_. True) (\<lambda>_. True) (\<lambda>_ _. True)"
  shows "preserves (on_db J) (processJob d nid)"
proof (rule preservesI, rule wp_processJob)
  fix w assume J: "on_db J w"
  show "on_db J (sent w)" using J by simp
  fix notif assume "find (\<lambda>n. nt_NotificationID n = nid) (notifications (w_db w)) = Some notif"
  then have inv: "job_invariant (on_db J) d notif UNIV UNIV (\<lambda>_. True) (\<lambda>_. True) (\<lambda>_ _. True)"
    by (intro assms(2) find_notification)
  have "preserves (on_db J) (process_loaded d notif)"
  proof (rule job_invariant.keeps_loaded [OF inv])
    show "set (dp_order d ts) \<subseteq> set ts" for ts
      using assms(1) [of ts] by (metis set_mset_mset subset_refl)
  qed simp_all
  with J show "wp (process_loaded d notif) (\<lambda>_. on_db J) (sent w)" by (simp add: preserves_wp)
qed



definition requested_groups :: "Notification \<Rightarrow> string set" where
  "requested_groups n = (case parse_column unmarshal_strings (nt_Groups n) of
     Some gs \<Rightarrow> set gs | None \<Rightarrow> {})"

definition requested_destinations :: "Notification \<Rightarrow> Destination set" where
  "requested_destinations n = (case parse_column unmarshal_destinations (nt_Destinations n) of
     Some ds \<Rightarrow> set ds | None \<Rightarrow> {})"

text \<open>C2 (safety): every SMS a job sends carries the message of its notification and goes to a
  subscribed member of a requested group or to a requested destination that is a registered
  number; this holds for every order of the deliveries and every failure of the driver.\<close>

theorem sms_only_with_consent:
  assumes "\<And>ts. mset (dp_order d ts) = mset ts"
    and "run_state (processJob d nid) w = ((), w')"
  shows "\<exists>new. w_outbox w' = new @ w_outbox w \<and> (\<forall>phone msg. SmsTo phone msg \<in> set new \<longrightarrow>
    (\<exists>notif. find (\<lambda>n. nt_NotificationID n = nid) (notifications (w_db w)) = Some notif
       \<and> consented (w_db w) notif (requested_groups notif) (requested_destinations notif) phone msg))"
    (is "\<exists>new. _ = new @ _ \<and> (\<forall>phone msg. _ \<longrightarrow> ?ok phone msg)")
proof -
  let ?Q = "\<lambda>_ w'. \<exists>new. w_outbox w' = new @ w_outbox w
      \<and> (\<forall>phone msg. SmsTo phone msg \<in> set new \<longrightarrow> ?ok phone msg)"
  have "wp (processJob d nid) ?Q w"
  proof (rule wp_processJob)
    fix notif assume f: "find (\<lambda>n. nt_NotificationID n = nid) (notifications (w_db w)) = Some notif"
    let ?I = "sms_consent (w_db w) (w_outbox w)
      (consented (w_db w) notif (requested_groups notif) (requested_destinations notif))"
    have "preserves ?I (process_loaded d notif)"
    proof (rule consent.keeps_loaded)
      show "set (dp_order d ts) \<subseteq> set ts" for ts
        using assms(1) [of ts] by (metis set_mset_mset subset_refl)
    qed (simp_all add: requested_groups_def requested_destinations_def)
    moreover have "?I (sent w)" by (simp add: sms_consent_def)
    ultimately have "wp (process_loaded d notif) (\<lambda>_. ?I) (sent w)" by (rule preserves_wp)
    then show "wp (process_loaded d notif) ?Q (sent w)"
      by (rule wp_mono) (use f in \<open>auto simp: sms_consent_def\<close>)
  qed simp
  with assms(2) show ?thesis by (simp add: wp_def)
qed

end
