(* ===== verification/Dispatcher_Retry.thy ===== *)
theory Dispatcher_Retry
  imports Dispatcher_Facts
begin

text \<open>
  The retry loop and the outcome of a job, step by step. \<open>attempts\<close> counts the calls of the loop from
  the answers of the provider alone; the loop makes exactly that many, waits between them for delays
  that double (in \<open>int64\<close>, as \<open>time.Duration\<close> computes them), and the delivery that is recorded tells
  how the last one ended.
\<close>

section \<open>How many calls the loop makes\<close>

primrec attempts :: "(nat \<Rightarrow> bool) \<Rightarrow> nat \<Rightarrow> nat" where
  "attempts ok 0 = 0"
| "attempts ok (Suc k) = (if ok 0 then 1 else Suc (attempts (\<lambda>i. ok (Suc i)) k))"

lemma attempts_le: "attempts ok k \<le> k"
  by (induction k arbitrary: ok) auto

lemma attempts_pos: "0 < k \<Longrightarrow> 0 < attempts ok k"
  by (cases k) auto

text \<open>All calls but the last one failed, and the loop stops early only after a success.\<close>

lemma attempts_spec:
  "(\<forall>i. Suc i < attempts ok k \<longrightarrow> \<not> ok i) \<and> (attempts ok k < k \<longrightarrow> ok (attempts ok k - 1))"
proof (induction k arbitrary: ok)
  case (Suc k)
  have "\<not> ok i" if "\<not> ok 0" "i < attempts (\<lambda>i. ok (Suc i)) k" for i
    using Suc.IH [of "\<lambda>i. ok (Suc i)"] that by (cases i) auto
  moreover have "ok (attempts (\<lambda>i. ok (Suc i)) k)"
    if "\<not> ok 0" "attempts (\<lambda>i. ok (Suc i)) k < k"
    using Suc.IH [of "\<lambda>i. ok (Suc i)"] that attempts_pos [of k "\<lambda>i. ok (Suc i)"]
    by (cases "attempts (\<lambda>i. ok (Suc i)) k") auto
  ultimately show ?case by auto
qed simp

section \<open>The loop\<close>

definition answer_error :: "string \<times> string \<times> string option \<Rightarrow> string option" where
  "answer_error a = snd (snd a)"

text \<open>The waits before the calls number \<open>n\<close>, \<open>n + 1\<close> and so on (the first call does not wait).\<close>

definition waits :: "Dispatcher \<Rightarrow> nat \<Rightarrow> nat \<Rightarrow> int list" where
  "waits d n j = map (retry_delay d) (filter (\<lambda>i. 0 < i) [n..<n + j])"

lemma waits_Suc:
  "waits d n (Suc j) = (if n = 0 then [] else [retry_delay d n]) @ waits d (Suc n) j"
proof -
  have "[n..<n + Suc j] = n # [Suc n..<Suc n + j]" by (simp add: upt_conv_Cons del: upt_Suc)
  then show ?thesis by (simp add: waits_def del: upt_Suc)
qed

definition last_answer :: "(nat \<Rightarrow> string \<times> string \<times> string option) \<Rightarrow> nat \<Rightarrow> nat \<Rightarrow> attempt" where
  "last_answer f n j = (let (sid, status, err) = f (j - 1) in (sid, status, err, n + j))"

lemma wp_send_with_retry:
  assumes "\<And>Q w. wp send Q w = Q (f (length (w_outbox w))) (w\<lparr>w_outbox := m # w_outbox w\<rparr>)"
    and "w_cancels w = []" and "0 < k"
  shows "wp (send_with_retry d send k n acc) Q w =
    (let g = (\<lambda>i. f (length (w_outbox w) + i)); j = attempts (\<lambda>i. answer_error (g i) = None) k
     in Q (Some (last_answer g n j))
          (w\<lparr>w_outbox := replicate j m @ w_outbox w, w_sleeps := rev (waits d n j) @ w_sleeps w\<rparr>))"
  using assms(2,3)
proof (induction k arbitrary: n acc w)
  case (Suc k)
  let ?b = "length (w_outbox w)"
  obtain sid status err where f0: "f ?b = (sid, status, err)" by (cases "f ?b")
  obtain ss where ss: "ss = (if n = 0 then [] else [retry_delay d n]) @ w_sleeps w" by blast
  obtain w1 where w1: "w1 = w\<lparr>w_outbox := m # w_outbox w, w_sleeps := ss\<rparr>" by blast
  have c1: "w_cancels w1 = []" using Suc.prems by (simp add: w1)
  have w_id: "w\<lparr>w_cancels := []\<rparr> = w" using Suc.prems by (cases w) simp
  have w_id': "w\<lparr>w_cancels := [], w_sleeps := x\<rparr> = w\<lparr>w_sleeps := x\<rparr>" for x
    using Suc.prems by (cases w) simp
  have upd: "w\<lparr>w_sleeps := x, w_outbox := y\<rparr> = w\<lparr>w_outbox := y, w_sleeps := x\<rparr>" for x y
    by (cases w) simp
  have id1: "w\<lparr>w_outbox := m # w_outbox w\<rparr> = w\<lparr>w_outbox := m # w_outbox w, w_sleeps := w_sleeps w\<rparr>"
    by (cases w) simp
  have step: "wp (send_with_retry d send (Suc k) n acc) Q w =
      (case err of None \<Rightarrow> Q (Some (sid, status, None, n + 1)) w1
       | Some e \<Rightarrow> wp (send_with_retry d send k (n + 1) (sid, status, Some e, n + 1)) Q w1)"
    using Suc.prems(1)
    by (cases "n = 0") (simp_all add: wp_simps assms(1) f0 w1 ss w_id' upd id1 [symmetric] split: option.split)
  show ?case
  proof (cases err)
    case None
    then show ?thesis
      by (simp add: step Let_def answer_error_def f0 last_answer_def w1 ss waits_Suc
          del: send_with_retry.simps) (simp add: waits_def)
  next
    case (Some e)
    show ?thesis
    proof (cases "k = 0")
      case True
      then show ?thesis
        unfolding step
        by (simp add: Some wp_simps Let_def answer_error_def f0 last_answer_def w1 ss waits_Suc)
          (simp add: waits_def)
    next
      case False
      have g: "f (length (w_outbox w1) + i) = f (?b + Suc i)" for i by (simp add: w1)
      let ?j = "attempts (\<lambda>i. answer_error (f (?b + Suc i)) = None) k"
      have j: "0 < ?j" using False by (simp add: attempts_pos)
      have "wp (send_with_retry d send k (n + 1) (sid, status, Some e, n + 1)) Q w1
          = Q (Some (last_answer (\<lambda>i. f (?b + Suc i)) (n + 1) ?j))
              (w1\<lparr>w_outbox := replicate ?j m @ w_outbox w1, w_sleeps := rev (waits d (n + 1) ?j) @ w_sleeps w1\<rparr>)"
        using Suc.IH [OF c1] False by (simp add: Let_def g del: add_Suc_right)
      moreover have "attempts (\<lambda>i. answer_error (f (?b + i)) = None) (Suc k) = Suc ?j"
        by (simp add: answer_error_def f0 Some)
      moreover have "last_answer (\<lambda>i. f (?b + Suc i)) (n + 1) ?j = last_answer (\<lambda>i. f (?b + i)) n (Suc ?j)"
        using j by (simp add: last_answer_def)
      moreover have "w1\<lparr>w_outbox := replicate ?j m @ w_outbox w1,
            w_sleeps := rev (waits d (n + 1) ?j) @ w_sleeps w1\<rparr>
          = w\<lparr>w_outbox := replicate (Suc ?j) m @ w_outbox w,
            w_sleeps := rev (waits d n (Suc ?j)) @ w_sleeps w\<rparr>"
        by (simp add: w1 ss waits_Suc replicate_append_same [symmetric])
      ultimately show ?thesis
        by (simp only: step Some option.case Let_def)
    qed
  qed
qed simp

section \<open>What is recorded\<close>

lemma wp_insert_delivery_row:
  assumes "w_faults w = []" and "nid \<in> nt_NotificationID ` set (notifications (w_db w))"
  shows "wp (insert_delivery_row nid row) Q w =
    Q (Inr (row (w_db w))) (w\<lparr>w_db := w_db w\<lparr>deliveries := deliveries (w_db w) @ [row (w_db w)]\<rparr>\<rparr>)"
  using assms by (simp add: insert_delivery_row_def wp_simps)

lemma wp_UpdateDeliveryError:
  assumes "w_faults w = []"
  shows "wp (UpdateDeliveryError err did) Q w =
    Q (Inr ()) (w\<lparr>w_db := update_deliveries (\<lambda>x. dl_DeliveryID x = did)
      (\<lambda>x. x\<lparr>dl_ErrorMessage := err\<rparr>) (w_db w)\<rparr>)"
  using assms by (simp add: UpdateDeliveryError_def wp_simps)

lemma last_update_deliveries:
  "deliveries d \<noteq> [] \<Longrightarrow> last (deliveries (update_deliveries P f d)) =
     (if P (last (deliveries d)) then f (last (deliveries d)) else last (deliveries d))"
  by (simp add: update_deliveries_def update_where_def last_map)

text \<open>The outcome of a delivery with retries: the calls, the waits and the row.\<close>

definition retry_outcome :: "Dispatcher \<Rightarrow> (nat \<Rightarrow> string \<times> string \<times> string option) \<Rightarrow> outgoing
    \<Rightarrow> world \<Rightarrow> world \<Rightarrow> bool" where
  "retry_outcome d ans m w w' \<longleftrightarrow>
     (let n = attempts (\<lambda>i. answer_error (ans i) = None) (nat (dp_RetryLimit d));
          (sid, status, err) = ans (n - 1);
          x = last (deliveries (w_db w'))
      in w_outbox w' = replicate n m @ w_outbox w
       \<and> w_sleeps w' = rev (waits d 0 n) @ w_sleeps w
       \<and> length (deliveries (w_db w')) = Suc (length (deliveries (w_db w)))
       \<and> dl_Attempt x = int n \<and> dl_TwilioSid x = nullString sid
       \<and> dl_Status x = (if err = None then status else ''failed'')
       \<and> dl_ErrorMessage x = err)"

lemma wp_dispatch_with_retry:
  assumes send: "\<And>Q w. wp send Q w = Q (f (length (w_outbox w))) (w\<lparr>w_outbox := m # w_outbox w\<rparr>)"
    and ins: "\<And>did status att at sid. ins did status att at sid =
      insert_delivery_row nid (\<lambda>db. new_delivery db did nid grp mem dest chan status None None att at sid)"
    and w: "w_cancels w = []" "w_faults w = []" "nid \<in> nt_NotificationID ` set (notifications (w_db w))"
    and lim: "0 < dp_RetryLimit d"
  shows "wp (dispatch_with_retry d send ins)
    (\<lambda>_ w'. retry_outcome d (\<lambda>i. f (length (w_outbox w) + i)) m w w'
      \<and> (let x = last (deliveries (w_db w')) in dl_NotificationID x = nid \<and> dl_Group x = grp
          \<and> dl_Member x = mem \<and> dl_Destination x = dest \<and> dl_Channel x = chan)) w"
proof -
  let ?g = "\<lambda>i. f (length (w_outbox w) + i)"
  let ?k = "nat (dp_RetryLimit d)"
  let ?j = "attempts (\<lambda>i. answer_error (?g i) = None) ?k"
  have k: "0 < ?k" using lim by simp
  show ?thesis
    unfolding dispatch_with_retry_def wp_bind
    by (subst wp_send_with_retry [OF send w(1) k])
      (use w in \<open>auto simp: Let_def last_answer_def wp_simps ins wp_insert_delivery_row
         wp_UpdateDeliveryError retry_outcome_def new_delivery_def last_update_deliveries
         update_deliveries_def split: option.split prod.splits\<close>)
qed

lemma wp_sms_send:
  "dp_sms d = Some f \<Longrightarrow> wp (sms_send d phone msg) Q w =
     Q (f (length (w_outbox w)) phone msg) (w\<lparr>w_outbox := SmsTo phone msg # w_outbox w\<rparr>)"
  by (simp add: sms_send_def wp_simps)

lemma wp_voice_call:
  "dp_voice d = Some f \<Longrightarrow> wp (voice_call d phone msg) Q w =
     Q (f (length (w_outbox w)) phone msg) (w\<lparr>w_outbox := CallTo phone msg # w_outbox w\<rparr>)"
  by (simp add: voice_call_def wp_simps)


text \<open>The calls of the loop for every shutdown: at most the limit, and all but the last failed.\<close>

lemma send_with_retry_calls:
  assumes "dp_sms d = Some f"
  shows "wp (send_with_retry d (sms_send d phone msg) k n acc)
    (\<lambda>_ w'. \<exists>j. j \<le> k \<and> w_outbox w' = replicate j (SmsTo phone msg) @ w_outbox w
       \<and> (\<forall>i. Suc i < j \<longrightarrow> answer_error (f (length (w_outbox w) + i) phone msg) \<noteq> None)) w"
proof (induction k arbitrary: n acc w)
  case 0
  then show ?case by (simp add: wp_simps)
next
  case (Suc k)
  have call: "wp (do {
       (sid, status, lastErr) \<leftarrow> sms_send d phone msg;
       (case lastErr of
          None \<Rightarrow> ret (Some (sid, status, None, n + 1))
        | Some e \<Rightarrow> send_with_retry d (sms_send d phone msg) k (n + 1) (sid, status, Some e, n + 1)) })
    (\<lambda>_ w'. \<exists>j. j \<le> Suc k \<and> w_outbox w' = replicate j (SmsTo phone msg) @ w_outbox v
       \<and> (\<forall>i. Suc i < j \<longrightarrow> answer_error (f (length (w_outbox v) + i) phone msg) \<noteq> None)) v" for v
  proof -
    obtain sid status err where a: "f (length (w_outbox v)) phone msg = (sid, status, err)"
      by (cases "f (length (w_outbox v)) phone msg")
    show ?thesis
    proof (cases err)
      case None
      have "\<exists>j. j \<le> Suc k \<and> SmsTo phone msg # w_outbox v = replicate j (SmsTo phone msg) @ w_outbox v
        \<and> (\<forall>i. Suc i < j \<longrightarrow> answer_error (f (length (w_outbox v) + i) phone msg) \<noteq> None)"
        by (rule exI [of _ 1]) simp
      then show ?thesis using None a by (simp add: wp_bind wp_sms_send [OF assms] wp_simps)
    next
      case (Some e)
      let ?v = "v\<lparr>w_outbox := SmsTo phone msg # w_outbox v\<rparr>"
      have "wp (send_with_retry d (sms_send d phone msg) k (n + 1) (sid, status, Some e, n + 1))
        (\<lambda>_ w'. \<exists>j. j \<le> Suc k \<and> w_outbox w' = replicate j (SmsTo phone msg) @ w_outbox v
          \<and> (\<forall>i. Suc i < j \<longrightarrow> answer_error (f (length (w_outbox v) + i) phone msg) \<noteq> None)) ?v"
      proof (rule wp_mono [OF Suc.IH [of "n + 1" "(sid, status, Some e, n + 1)" ?v]])
        fix x w' assume "\<exists>j. j \<le> k \<and> w_outbox w' = replicate j (SmsTo phone msg) @ w_outbox ?v
          \<and> (\<forall>i. Suc i < j \<longrightarrow> answer_error (f (length (w_outbox ?v) + i) phone msg) \<noteq> None)"
        then obtain j where j: "j \<le> k" "w_outbox w' = replicate j (SmsTo phone msg) @ w_outbox ?v"
          "\<forall>i. Suc i < j \<longrightarrow> answer_error (f (length (w_outbox ?v) + i) phone msg) \<noteq> None" by blast
        have "answer_error (f (length (w_outbox v) + i) phone msg) \<noteq> None" if "Suc i < Suc j" for i
          using that j(3) a Some by (cases i) (auto simp: answer_error_def)
        with j(1,2) show "\<exists>j. j \<le> Suc k \<and> w_outbox w' = replicate j (SmsTo phone msg) @ w_outbox v
          \<and> (\<forall>i. Suc i < j \<longrightarrow> answer_error (f (length (w_outbox v) + i) phone msg) \<noteq> None)"
          by (intro exI [of _ "Suc j"]) (simp add: replicate_append_same [symmetric])
      qed
      then show ?thesis using Some a by (simp add: wp_bind wp_sms_send [OF assms] wp_simps)
    qed
  qed
  have "\<exists>j. j \<le> Suc k \<and> w_outbox w = replicate j (SmsTo phone msg) @ w_outbox w
      \<and> (\<forall>i. Suc i < j \<longrightarrow> answer_error (f (length (w_outbox w) + i) phone msg) \<noteq> None)"
    by (rule exI [of _ 0]) simp
  then show ?case
    unfolding send_with_retry.simps wp_bind [of "if 0 < n then _ else _"]
    using call [of w] call [of "w\<lparr>w_cancels := tl (w_cancels w), w_sleeps := retry_delay d n # w_sleeps w\<rparr>"]
    by (cases "n = 0") (simp_all add: wp_sleep_or_done wp_ret)
qed

text \<open>C17 (bounds): whatever the driver, the shutdown and the provider do, one delivery calls the
  provider at most as often as the retry limit says, with the same number and text each time, and
  every call but the last one had failed.\<close>

theorem retry_bounds:
  assumes "dp_sms d = Some f" and "run_state (dispatchSMS d notif g m) w = ((), w')"
  shows "\<exists>n. n \<le> nat (dp_RetryLimit d)
    \<and> w_outbox w' = replicate n (SmsTo (ns_string (gm_Mobile m)) (nt_Message notif)) @ w_outbox w
    \<and> (\<forall>i. Suc i < n \<longrightarrow> answer_error (f (length (w_outbox w) + i) (ns_string (gm_Mobile m))
          (nt_Message notif)) \<noteq> None)"
proof -
  have "wp (dispatchSMS d notif g m) (\<lambda>_ w'. \<exists>n. n \<le> nat (dp_RetryLimit d)
    \<and> w_outbox w' = replicate n (SmsTo (ns_string (gm_Mobile m)) (nt_Message notif)) @ w_outbox w
    \<and> (\<forall>i. Suc i < n \<longrightarrow> answer_error (f (length (w_outbox w) + i) (ns_string (gm_Mobile m))
          (nt_Message notif)) \<noteq> None)) w"
    unfolding dispatchSMS_def dispatch_with_retry_def wp_bind [of "send_with_retry _ _ _ _ _"]
    by (rule wp_mono [OF send_with_retry_calls [OF assms(1)]])
      (simp add: wp_simps InsertDelivery_def insert_delivery_row_def UpdateDeliveryError_def
        split: option.split)
  with assms(2) show ?thesis by (simp add: wp_def)
qed

text \<open>With a retry limit of zero or less, which the configuration does not reject,
  nothing is sent, and the delivery is recorded with attempt 0, an empty status and no error.\<close>

theorem no_attempt_is_recorded_without_error:
  assumes "dp_RetryLimit d \<le> 0" and "w_faults w = []"
    and "nt_NotificationID notif \<in> nt_NotificationID ` set (notifications (w_db w))"
    and "run_state (dispatchSMS d notif g m) w = ((), w')"
  shows "w_outbox w' = w_outbox w \<and> (\<exists>x. deliveries (w_db w') = deliveries (w_db w) @ [x]
    \<and> dl_Attempt x = 0 \<and> dl_Status x = [] \<and> dl_ErrorMessage x = None)"
proof -
  have "nat (dp_RetryLimit d) = 0" using assms(1) by simp
  then have "wp (dispatchSMS d notif g m) (\<lambda>_ w'. w_outbox w' = w_outbox w \<and>
      (\<exists>x. deliveries (w_db w') = deliveries (w_db w) @ [x]
        \<and> dl_Attempt x = 0 \<and> dl_Status x = [] \<and> dl_ErrorMessage x = None)) w"
    using assms(2,3)
    by (simp add: dispatchSMS_def dispatch_with_retry_def wp_simps InsertDelivery_def
        wp_insert_delivery_row new_delivery_def)
  with assms(4) show ?thesis by (simp add: wp_def)
qed

section \<open>The outcome of a job\<close>

definition calm :: "database \<Rightarrow> string \<Rightarrow> world \<Rightarrow> bool" where
  "calm d0 nid w \<longleftrightarrow> w_faults w = [] \<and> group_members (w_db w) = group_members d0
     \<and> nid \<in> nt_NotificationID ` set (notifications (w_db w))"

lemma calm_simps [simp]:
  "calm d0 nid (advance_clock w) = calm d0 nid w"
  "calm d0 nid (after_uuid w) = calm d0 nid w"
  "calm d0 nid (w\<lparr>w_cancels := cs\<rparr>) = calm d0 nid w"
  "calm d0 nid (w\<lparr>w_cancels := cs, w_sleeps := ss\<rparr>) = calm d0 nid w"
  "calm d0 nid (w\<lparr>w_outbox := out\<rparr>) = calm d0 nid w"
  by (simp_all add: calm_def)

lemma calm_faults: "calm d0 nid w \<Longrightarrow> sent w = w \<and> \<not> faulty w"
  by (simp add: calm_def)

interpretation calm: job_invariant "calm d0 nid" d notif UNIV UNIV "\<lambda>_. True" "\<lambda>_. True" "\<lambda>_ _. True"
  for d0 nid d notif
  by unfold_locales
    (auto intro!: preservesI simp: wp_simps calm_faults delivery_write_defs update_deliveries_def
      read_defs voice_call_def email_send_def sms_send_def image_update_where split: option.split,
     auto simp: calm_def image_update_where)

lemma group_tasks_count:
  "calm d0 nid w \<Longrightarrow> wp (group_tasks d notif cs gs)
    (\<lambda>(ts, n) w'. calm d0 nid w' \<and> n = sum_list (map (\<lambda>g. length (members_of d0 g)) gs)) w"
proof (induction gs arbitrary: w)
  case (Cons g gs)
  have l: "wp (ListGroupMembers g) Q w = Q (Inr (order_by gm_Username (members_of d0 g))) w" for Q
    using Cons.prems by (simp add: ListGroupMembers_def wp_simps calm_def members_of_def)
  have rest: "wp (do { (us, k) \<leftarrow> group_tasks d notif cs gs; ret (ts @ us, n + k) })
    (\<lambda>(ts, k) w'. calm d0 nid w' \<and> k = n + sum_list (map (\<lambda>g. length (members_of d0 g)) gs)) w'"
    if "calm d0 nid w'" for ts :: "task list" and n w'
    unfolding wp_bind by (rule wp_mono [OF Cons.IH [OF that]]) (auto simp: wp_ret)
  show ?case
    unfolding group_tasks.simps wp_bind l sum.case
    by (rule wp_mono [OF calm.members_tasks_allowed [OF Cons.prems]])
      (use rest in \<open>auto simp: wp_bind wp_ret\<close>)
qed (simp add: wp_ret)

lemma wp_finish_job:
  assumes "w_faults w = []"
  shows "wp (finish_job notif n) Q w = Q () (w\<lparr>w_db := w_db w\<lparr>notifications :=
    update_where (\<lambda>x. nt_NotificationID x = nt_NotificationID notif) (\<lambda>x. x\<lparr>nt_MemberCount := int n\<rparr>)
      (update_where (\<lambda>x. nt_NotificationID x = nt_NotificationID notif)
        (\<lambda>x. x\<lparr>nt_Status := if n = 0 then ''failed'' else ''completed'',
             nt_ErrorMessage := if n = 0 then Some ''no members found for requested groups'' else None\<rparr>)
        (notifications (w_db w)))\<rparr>\<rparr>)"
  using assms
  by (simp add: finish_job_def setNotificationStatus_def UpdateNotificationStatus_def
      UpdateNotificationMemberCount_def wp_simps nullString_def)

lemma finish_job_status:
  assumes "w_faults w = []" and "find (\<lambda>n. nt_NotificationID n = nid) (notifications (w_db w)) = Some n"
    and "nt_NotificationID notif = nid"
  shows "wp (finish_job notif k) (\<lambda>_ w'.
    \<exists>n. find (\<lambda>n. nt_NotificationID n = nid) (notifications (w_db w')) = Some n
      \<and> nt_MemberCount n = int k
      \<and> (nt_Status n, nt_ErrorMessage n) = (if nt_MemberCount n = 0
           then (''failed'', Some ''no members found for requested groups'') else (''completed'', None))) w"
  using assms find_notification [OF assms(2)]
  by (simp add: wp_finish_job find_update_where_key)

text \<open>The row of a notification whose job has ended with \<open>k\<close> targets.\<close>

definition job_ended :: "string \<Rightarrow> nat \<Rightarrow> world \<Rightarrow> bool" where
  "job_ended nid k w \<longleftrightarrow> (\<exists>n. find (\<lambda>n. nt_NotificationID n = nid) (notifications (w_db w)) = Some n
    \<and> nt_MemberCount n = int k
    \<and> (nt_Status n, nt_ErrorMessage n) = (if nt_MemberCount n = 0
         then (''failed'', Some ''no members found for requested groups'') else (''completed'', None)))"

definition targets :: "database \<Rightarrow> string list \<Rightarrow> 'a list \<Rightarrow> nat" where
  "targets d groups dests = sum_list (map (\<lambda>g. length (members_of d g)) groups) + length dests"

lemma wp_processJob_ended:
  assumes "w_faults w = []"
    and "find (\<lambda>n. nt_NotificationID n = nid) (notifications (w_db w)) = Some notif"
    and "parse_column unmarshal_strings (nt_Groups notif) = Some groups"
    and "parse_column unmarshal_strings (nt_Channels notif) = Some channels"
    and "parse_column unmarshal_destinations (nt_Destinations notif) = Some dests"
  shows "wp (processJob d nid) (\<lambda>_. job_ended nid (targets (w_db w) groups dests)) w"
proof -
  let ?N = "sum_list (map (\<lambda>g. length (members_of (w_db w) g)) groups) + length dests"
  let ?Q = "\<lambda>_. job_ended nid ?N"
  have id: "nt_NotificationID notif = nid" using assms(2) by (rule find_notification)
  have fin: "wp (finish_job notif ?N) ?Q w1" if c: "calm (w_db w) nid w1" for w1
  proof -
    obtain n where n: "find (\<lambda>n. nt_NotificationID n = nid) (notifications (w_db w1)) = Some n"
      using c by (cases "find (\<lambda>n. nt_NotificationID n = nid) (notifications (w_db w1))")
        (auto simp: calm_def find_None)
    have f: "w_faults w1 = []" using c by (simp add: calm_def)
    from finish_job_status [OF f n id] show ?thesis unfolding job_ended_def .
  qed
  have tasks: "wp (do { for_each (run_task d notif) (dp_order d (ts @ map ToDestination dests));
      finish_job notif ?N }) ?Q w1" if c: "calm (w_db w) nid w1" for w1 ts
  proof -
    have "preserves (calm (w_db w) nid) (for_each (run_task d notif) (dp_order d (ts @ map ToDestination dests)))"
      by (intro keeps calm.keeps_task) (simp add: calm.task_allowed_def split: task.split)
    from preserves_wp [OF this c] show ?thesis
      unfolding wp_bind by (rule wp_mono) (rule fin)
  qed
  have c0: "calm (w_db w) nid w"
    using assms(1,2) find_Some_set by (fastforce simp: calm_def)
  have "wp (process_loaded d notif) ?Q w"
    unfolding process_loaded_def wp_bind
  proof (rule wp_mono [OF preserves_wp [OF calm.keeps_set_status c0]])
    fix w1 assume c: "calm (w_db w) nid w1"
    show "wp (case parse_column unmarshal_strings (nt_Groups notif) of
        None \<Rightarrow> setNotificationStatus (nt_NotificationID notif) ''failed''
          (''failed to parse groups: '' @ dp_json_error d (ns_string (nt_Groups notif)))
      | Some groups \<Rightarrow> (case parse_column unmarshal_strings (nt_Channels notif) of
          None \<Rightarrow> setNotificationStatus (nt_NotificationID notif) ''failed''
            (''failed to parse channels: '' @ dp_json_error d (ns_string (nt_Channels notif)))
        | Some channels \<Rightarrow> (case parse_column unmarshal_destinations (nt_Destinations notif) of
            None \<Rightarrow> setNotificationStatus (nt_NotificationID notif) ''failed''
              (''failed to parse destinations: '' @ dp_json_error d (ns_string (nt_Destinations notif)))
          | Some destinations \<Rightarrow> dispatch_parsed d notif groups channels destinations))) ?Q w1"
      unfolding assms(3,4,5) option.case dispatch_parsed_def wp_bind [of "group_tasks _ _ _ _"]
    proof (rule wp_mono [OF group_tasks_count [OF c]])
      fix r :: "task list \<times> nat" and w2
      assume "(case r of (ts, n) \<Rightarrow> \<lambda>w'. calm (w_db w) nid w'
          \<and> n = sum_list (map (\<lambda>g. length (members_of (w_db w) g)) groups)) w2"
      then obtain ts n where r: "r = (ts, n)" "calm (w_db w) nid w2"
        "n = sum_list (map (\<lambda>g. length (members_of (w_db w) g)) groups)" by (cases r) auto
      show "wp (case r of (ts, n) \<Rightarrow> do {
          for_each (run_task d notif) (dp_order d (ts @ map ToDestination dests));
          finish_job notif (n + length dests) }) ?Q w2"
        unfolding r(1,3) prod.case by (rule tasks [OF r(2)])
    qed
  qed
  then have "wp (processJob d nid) ?Q w"
    using assms(1,2) by (simp add: processJob_def GetNotificationByNotificationID_def wp_simps)
  then show ?thesis by (simp add: targets_def)
qed

text \<open>C9 (functional): with a reachable database and well-formed columns, a job ends with the number
  of targets (members of each requested group plus destinations) in the notification's row, and
  with status completed when there is a target and failed when there is none.\<close>

theorem processJob_status:
  assumes "\<And>ts. mset (dp_order d ts) = mset ts" and "w_faults w = []"
    and "find (\<lambda>n. nt_NotificationID n = nid) (notifications (w_db w)) = Some notif"
    and "parse_column unmarshal_strings (nt_Groups notif) = Some groups"
    and "parse_column unmarshal_strings (nt_Channels notif) = Some channels"
    and "parse_column unmarshal_destinations (nt_Destinations notif) = Some dests"
    and "run_state (processJob d nid) w = ((), w')"
  shows "\<exists>n. find (\<lambda>n. nt_NotificationID n = nid) (notifications (w_db w')) = Some n
    \<and> nt_MemberCount n = int (sum_list (map (\<lambda>g. length (members_of (w_db w) g)) groups) + length dests)
    \<and> (nt_Status n, nt_ErrorMessage n) = (if nt_MemberCount n = 0
         then (''failed'', Some ''no members found for requested groups'') else (''completed'', None))"
  using wp_run [OF wp_processJob_ended [OF assms(2-6)] assms(7)]
  unfolding job_ended_def targets_def .

end
