(* ===== verification/Twilio.thy ===== *)
theory Twilio
  imports Templates Database_Facts
begin

text \<open>
  The Twilio providers (\<open>notify/twilio.go\<close>). The HTTP exchange is a parameter: a function from the
  URL and the form to either the error of \<open>http.Client.Do\<close> or the status code and the body. What
  the program sends (URL, form, TwiML) and what it makes of the answer is defined here.
\<close>

type_synonym http_post = "string \<Rightarrow> (string \<times> string) list \<Rightarrow> string + int \<times> string"
type_synonym http_get = "string \<Rightarrow> string + int \<times> string"

definition twilioPost :: "http_post \<Rightarrow> string \<Rightarrow> (string \<times> string) list \<Rightarrow> string + string" where
  "twilioPost post apiURL form = (case post apiURL form of Inl e \<Rightarrow> Inl e
     | Inr (status, body) \<Rightarrow> if status < 200 \<or> 300 \<le> status
         then Inl (''twilio '' @ apiURL @ '': status '' @ show_int status @ '': '' @ body) else Inr body)"

definition twilioGet :: "http_get \<Rightarrow> string \<Rightarrow> string + string" where
  "twilioGet get apiURL = (case get apiURL of Inl e \<Rightarrow> Inl e
     | Inr (status, body) \<Rightarrow> if status < 200 \<or> 300 \<le> status
         then Inl (''twilio GET '' @ apiURL @ '': status '' @ show_int status @ '': '' @ body)
         else Inr body)"

record twilioResponse =
  tr_Sid :: string
  tr_Status :: string
  tr_ErrorCode :: "int option"
  tr_ErrorMessage :: string

definition twilioResponse0 :: twilioResponse where
  "twilioResponse0 = \<lparr>tr_Sid = [], tr_Status = [], tr_ErrorCode = None, tr_ErrorMessage = []\<rparr>"

text \<open>One field of \<open>json.Unmarshal\<close> into the struct; \<open>None\<close> is an error of type.\<close>

definition response_field :: "string \<Rightarrow> json \<Rightarrow> twilioResponse \<Rightarrow> twilioResponse option" where
  "response_field k v r =
     (if EqualFold k ''sid'' then
        (case v of JStr s \<Rightarrow> Some (r\<lparr>tr_Sid := s\<rparr>) | JNull \<Rightarrow> Some r | _ \<Rightarrow> None)
      else if EqualFold k ''status'' then
        (case v of JStr s \<Rightarrow> Some (r\<lparr>tr_Status := s\<rparr>) | JNull \<Rightarrow> Some r | _ \<Rightarrow> None)
      else if EqualFold k ''error_code'' then
        (case v of JNum n \<Rightarrow> map_option (\<lambda>i. r\<lparr>tr_ErrorCode := Some i\<rparr>) (ParseInt64 n)
         | JNull \<Rightarrow> Some (r\<lparr>tr_ErrorCode := None\<rparr>) | _ \<Rightarrow> None)
      else if EqualFold k ''error_message'' then
        (case v of JStr s \<Rightarrow> Some (r\<lparr>tr_ErrorMessage := s\<rparr>) | JNull \<Rightarrow> Some r | _ \<Rightarrow> None)
      else Some r)"

fun response_fields :: "(string \<times> json) list \<Rightarrow> twilioResponse \<Rightarrow> twilioResponse option" where
  "response_fields [] r = Some r"
| "response_fields ((k, v) # kvs) r =
     (case response_field k v r of None \<Rightarrow> None | Some r' \<Rightarrow> response_fields kvs r')"

definition unmarshal_response :: "string \<Rightarrow> twilioResponse option" where
  "unmarshal_response body = (case json_parse body of
      Some (JObj kvs) \<Rightarrow> response_fields kvs twilioResponse0
    | Some JNull \<Rightarrow> Some twilioResponse0
    | _ \<Rightarrow> None)"

record TwilioClient =
  tc_accountSID :: string
  tc_fromNumber :: string
  tc_baseURL :: string
  tc_json_error :: "string \<Rightarrow> string"

definition api_url :: "TwilioClient \<Rightarrow> string \<Rightarrow> string" where
  "api_url t resource = tc_baseURL t @ ''/2010-04-01/Accounts/'' @ tc_accountSID t @ ''/'' @ resource"

definition twilio_answer :: "TwilioClient \<Rightarrow> string \<Rightarrow> string + string \<Rightarrow> string \<times> string \<times> string option" where
  "twilio_answer t what r = (case r of Inl e \<Rightarrow> ([], [], Some e)
     | Inr body \<Rightarrow> (case unmarshal_response body of
         None \<Rightarrow> ([], [], Some (''twilio '' @ what @ '': parse response: '' @ tc_json_error t body))
       | Some x \<Rightarrow> (tr_Sid x, tr_Status x, None)))"

text \<open>\<open>TwilioSMS.Send\<close>\<close>

definition TwilioSMS_Send :: "TwilioClient \<Rightarrow> http_post \<Rightarrow> string \<Rightarrow> string
    \<Rightarrow> string \<times> string \<times> string option" where
  "TwilioSMS_Send t post recipient message =
     twilio_answer t ''sms'' (twilioPost post (api_url t ''Messages.json'')
       [(''To'', recipient), (''From'', tc_fromNumber t), (''Body'', message)])"

text \<open>The TwiML of a call: the message, twice, as it is.\<close>

definition nl_tabs :: "nat \<Rightarrow> string" where
  "nl_tabs n = CHR 0x0A # replicate n CHR 0x09"

definition twiml :: "string \<Rightarrow> string" where
  "twiml message =
     ''<Response>'' @ nl_tabs 2 @ ''<!-- Wait for 1 second -->'' @ nl_tabs 2
     @ ''<Pause length='' @ [CHR 0x22, CHR ''1'', CHR 0x22] @ '' />'' @ nl_tabs 2
     @ nl_tabs 2 @ ''<!-- Deliver the message -->'' @ nl_tabs 2
     @ ''<Say>'' @ message @ ''</Say>'' @ nl_tabs 2
     @ nl_tabs 2 @ ''<!-- Wait for 1 second -->'' @ nl_tabs 2
     @ ''<Pause length='' @ [CHR 0x22, CHR ''1'', CHR 0x22] @ '' />'' @ nl_tabs 2
     @ nl_tabs 2 @ ''<!-- Deliver the message again -->'' @ nl_tabs 2
     @ ''<Say>'' @ message @ ''</Say>'' @ nl_tabs 1 @ ''</Response>''"

text \<open>\<open>TwilioVoice.Call\<close>\<close>

definition TwilioVoice_Call :: "TwilioClient \<Rightarrow> http_post \<Rightarrow> string \<Rightarrow> string
    \<Rightarrow> string \<times> string \<times> string option" where
  "TwilioVoice_Call t post recipient message =
     twilio_answer t ''voice'' (twilioPost post (api_url t ''Calls.json'')
       [(''To'', recipient), (''From'', tc_fromNumber t), (''Twiml'', twiml message)])"

section \<open>Lemmas\<close>

lemma twilioPost_ok: "twilioPost post url form = Inr body \<longleftrightarrow>
    (\<exists>status. post url form = Inr (status, body) \<and> 200 \<le> status \<and> status < 300)"
  by (auto simp: twilioPost_def split: sum.split prod.split)

text \<open>An error of the provider comes without SID and status.\<close>

lemma twilio_answer_error:
  "twilio_answer t what r = (sid, status, Some e) \<Longrightarrow> sid = [] \<and> status = []"
  by (auto simp: twilio_answer_def split: sum.splits option.splits)

text \<open>\<open>TwilioSMS.Send\<close> succeeds exactly when Twilio answers with a 2xx status and a
  body that is a JSON object of the expected types, and then returns its SID and status.\<close>

theorem TwilioSMS_Send_ok:
  "TwilioSMS_Send t post recipient message = (sid, status, None) \<longleftrightarrow>
     (\<exists>code body r. post (api_url t ''Messages.json'')
          [(''To'', recipient), (''From'', tc_fromNumber t), (''Body'', message)] = Inr (code, body)
        \<and> 200 \<le> code \<and> code < 300 \<and> unmarshal_response body = Some r
        \<and> sid = tr_Sid r \<and> status = tr_Status r)"
  unfolding TwilioSMS_Send_def twilio_answer_def twilioPost_def
  by (auto split: sum.splits option.splits prod.splits if_splits)

end
