(* ===== verification/Poller.thy ===== *)
theory Poller
  imports Twilio
begin

text \<open>
  The Twilio poller (\<open>notify/poller.go\<close>): it asks Twilio for the state of deliveries in flight and
  records terminal states, counts failed polls, and gives up at a limit. The HTTP exchange is the
  parameter \<open>pl_get\<close>. The lemmas follow one check on every branch and show which deliveries a poll
  may change at all.
\<close>

record Poller =
  pl_AccountSID :: string
  pl_PollAttemptLimit :: int
  pl_baseURL :: string
  pl_get :: http_get
  pl_json_error :: "string \<Rightarrow> string"

definition mapTwilioStatus :: "string \<Rightarrow> string \<Rightarrow> string \<times> bool" where
  "mapTwilioStatus channel twilioStatus =
     (if channel = ''voice'' then
        (twilioStatus, twilioStatus \<in> {''completed'', ''failed'', ''busy'', ''no-answer'', ''canceled''})
      else if channel = ''sms'' then
        (twilioStatus, twilioStatus \<in> {''delivered'', ''undelivered'', ''failed''})
      else (twilioStatus, False))"

definition poll_url :: "Poller \<Rightarrow> Delivery \<Rightarrow> string" where
  "poll_url p x = pl_baseURL p @ ''/2010-04-01/Accounts/'' @ pl_AccountSID p
     @ (if dl_Channel x = ''voice'' then ''/Calls/'' else ''/Messages/'')
     @ ns_string (dl_TwilioSid x) @ ''.json''"

definition missing_sid_message :: string where
  "missing_sid_message =
     ''delivery is in-flight but has no twilio_sid; this indicates a bug or direct DB modification''"

text \<open>\<open>twilioStatusResponse\<close> has no field for the SID: a \<open>sid\<close> in the answer is skipped.\<close>

fun status_fields :: "(string \<times> json) list \<Rightarrow> twilioResponse \<Rightarrow> twilioResponse option" where
  "status_fields [] r = Some r"
| "status_fields ((k, v) # kvs) r =
     (if EqualFold k ''sid'' then status_fields kvs r
      else (case response_field k v r of None \<Rightarrow> None | Some r' \<Rightarrow> status_fields kvs r'))"

definition unmarshal_status :: "string \<Rightarrow> twilioResponse option" where
  "unmarshal_status body = (case json_parse body of
      Some (JObj kvs) \<Rightarrow> status_fields kvs twilioResponse0
    | Some JNull \<Rightarrow> Some twilioResponse0
    | _ \<Rightarrow> None)"

definition recordPollFailure :: "Poller \<Rightarrow> Delivery \<Rightarrow> string \<Rightarrow> (world, unit) state" where
  "recordPollFailure p x reason = do {
     r \<leftarrow> IncrementPollAttempts (dl_DeliveryID x);
     (case r of Inl e \<Rightarrow> ret ()
      | Inr updated \<Rightarrow>
          let limit = pl_PollAttemptLimit p
          in if limit \<le> 0 \<or> dl_PollAttempts updated < limit then ret ()
             else do {
               now \<leftarrow> now_RFC3339;
               _ \<leftarrow> UpdateDeliveryStatus ''poll_failed'' (Some now) (Some reason) (dl_DeliveryID x);
               ret () }) }"

text \<open>The error text of a terminal answer: the code, when there is one and it is not zero.\<close>

definition poll_error :: "twilioResponse \<Rightarrow> null_string" where
  "poll_error r = (case tr_ErrorCode r of None \<Rightarrow> None
     | Some c \<Rightarrow> if c = 0 then None else Some (show_int c @ '': '' @ tr_ErrorMessage r))"

definition checkDelivery :: "Poller \<Rightarrow> Delivery \<Rightarrow> (world, unit) state" where
  "checkDelivery p x =
     (if \<not> ns_present (dl_TwilioSid x) then do {
        now \<leftarrow> now_RFC3339;
        _ \<leftarrow> UpdateDeliveryStatus ''malformed'' (Some now) (Some missing_sid_message) (dl_DeliveryID x);
        ret () }
      else (case twilioGet (pl_get p) (poll_url p x) of
          Inl e \<Rightarrow> recordPollFailure p x (''status fetch failed: '' @ e)
        | Inr body \<Rightarrow> (case unmarshal_status body of
            None \<Rightarrow> recordPollFailure p x (''parse response failed: '' @ pl_json_error p body)
          | Some r \<Rightarrow> (case mapTwilioStatus (dl_Channel x) (tr_Status r) of
              (mapped, terminal) \<Rightarrow>
                if \<not> terminal then ret ()
                else do {
                  now \<leftarrow> now_RFC3339;
                  _ \<leftarrow> UpdateDeliveryStatus mapped (Some now) (poll_error r) (dl_DeliveryID x);
                  ret () }))))"

definition pollPending :: "Poller \<Rightarrow> (world, unit) state" where
  "pollPending p = do {
     v \<leftarrow> ListInFlightVoiceDeliveries;
     (case v of Inl e \<Rightarrow> ret ()
      | Inr voice \<Rightarrow> do {
          s \<leftarrow> ListInFlightSMSDeliveries;
          (case s of Inl e \<Rightarrow> ret ()
           | Inr sms \<Rightarrow> for_each (checkDelivery p) (voice @ sms)) }) }"

definition RunPollFailed :: "Poller \<Rightarrow> (world, unit) state" where
  "RunPollFailed p = do {
     l \<leftarrow> ListPollFailedDeliveries;
     (case l of Inl e \<Rightarrow> ret ()
      | Inr xs \<Rightarrow> do {
          r \<leftarrow> ResetPollAttempts;
          (case r of Inl e \<Rightarrow> ret () | Inr _ \<Rightarrow> for_each (checkDelivery p) xs) }) }"

text \<open>The loop of \<open>Run\<close>: a poll at each tick of the interval until the context is done.\<close>

primrec poller_Run :: "Poller \<Rightarrow> int \<Rightarrow> nat \<Rightarrow> (world, unit) state" where
  "poller_Run p interval 0 = ret ()"
| "poller_Run p interval (Suc n) = do {
     stopped \<leftarrow> sleep_or_done interval;
     if stopped then ret () else do { pollPending p; poller_Run p interval n } }"

section \<open>Which deliveries a poll may change\<close>

lemma poll_keeps_db_ok:
  "preserves (on_db db_ok) (pollPending p)" "preserves (on_db db_ok) (RunPollFailed p)"
  unfolding pollPending_def RunPollFailed_def checkDelivery_def recordPollFailure_def Let_def
  by (intro keeps)+

text \<open>The deliveries whose identifiers are not among \<open>ids\<close>, as rows.\<close>

definition others :: "string set \<Rightarrow> database \<Rightarrow> Delivery list" where
  "others ids d = filter (\<lambda>x. dl_DeliveryID x \<notin> ids) (deliveries d)"

lemma filter_update_where_outside:
  "k \<in> ids \<Longrightarrow> (\<And>x. key (f x) = key x) \<Longrightarrow>
   filter (\<lambda>x. key x \<notin> ids) (update_where (\<lambda>x. key x = k) f xs) = filter (\<lambda>x. key x \<notin> ids) xs"
  by (induction xs) auto

lemma others_update:
  "did \<in> ids \<Longrightarrow> (\<And>x. dl_DeliveryID (f x) = dl_DeliveryID x) \<Longrightarrow>
   others ids (update_deliveries (\<lambda>x. dl_DeliveryID x = did) f d) = others ids d"
  by (simp add: others_def update_deliveries_def filter_update_where_outside)

definition poll_frame :: "string set \<Rightarrow> database \<Rightarrow> database \<Rightarrow> bool" where
  "poll_frame ids d0 d \<longleftrightarrow> others ids d = others ids d0
     \<and> d = d0\<lparr>deliveries := deliveries d\<rparr>"

lemma poll_frame_laws:
  assumes "did \<in> ids"
  shows "preserves (on_db (poll_frame ids d0)) (IncrementPollAttempts did)"
    and "preserves (on_db (poll_frame ids d0)) (UpdateDeliveryStatus st c err did)"
proof -
  have u: "poll_frame ids d0 (update_deliveries (\<lambda>x. dl_DeliveryID x = did) f d)"
    if "poll_frame ids d0 d" "\<And>x. dl_DeliveryID (f x) = dl_DeliveryID x" for f d
  proof -
    have "d = d0\<lparr>deliveries := deliveries d\<rparr>" using that(1) by (simp add: poll_frame_def)
    then have "update_deliveries (\<lambda>x. dl_DeliveryID x = did) f d
        = (d0\<lparr>deliveries := deliveries d\<rparr>)\<lparr>deliveries := update_where (\<lambda>x. dl_DeliveryID x = did) f (deliveries d)\<rparr>"
      unfolding update_deliveries_def by (rule arg_cong)
    then show ?thesis
      using that others_update [OF assms, of f d] by (simp add: poll_frame_def)
  qed
  show "preserves (on_db (poll_frame ids d0)) (IncrementPollAttempts did)"
    unfolding IncrementPollAttempts_def
    by (rule preserves_statement) (auto simp: Let_def u split: option.splits)
  show "preserves (on_db (poll_frame ids d0)) (UpdateDeliveryStatus st c err did)"
    unfolding UpdateDeliveryStatus_def by (rule preserves_exec) (simp add: u)
qed

lemma checkDelivery_frame:
  "dl_DeliveryID x \<in> ids \<Longrightarrow> preserves (on_db (poll_frame ids d0)) (checkDelivery p x)"
  unfolding checkDelivery_def recordPollFailure_def Let_def
  by (intro keeps poll_frame_laws) auto

definition in_flight :: "Delivery \<Rightarrow> bool" where
  "in_flight x \<longleftrightarrow> voice_in_flight x \<or> sms_in_flight x"

lemma wp_pollPending_frame:
  assumes "{dl_DeliveryID x |x. x \<in> set (deliveries (w_db w)) \<and> in_flight x} \<subseteq> ids"
  shows "wp (pollPending p) (\<lambda>_. on_db (poll_frame ids (w_db w))) w"
proof -
  have start: "on_db (poll_frame ids (w_db w)) w" by (simp add: on_db_def poll_frame_def)
  have loop: "preserves (on_db (poll_frame ids (w_db w))) (for_each (checkDelivery p) xs)"
    if "set xs \<subseteq> {x \<in> set (deliveries (w_db w)). in_flight x}" for xs
    by (rule preserves_for_each_set, rule checkDelivery_frame) (use that assms in blast)
  show ?thesis
    using start preserves_wp [OF loop]
    by (auto simp: pollPending_def wp_simps ListInFlightVoiceDeliveries_def
        ListInFlightSMSDeliveries_def in_flight_def intro!: preserves_wp [OF loop])
qed

text \<open>A poll changes only deliveries that are in flight: every other delivery and every
  other table is as before, whatever Twilio answers and the driver does.\<close>

theorem pollPending_frame:
  assumes "run_state (pollPending p) w = ((), w')"
    and "\<And>y. y \<in> set (deliveries (w_db w)) \<Longrightarrow> dl_DeliveryID y = did \<Longrightarrow> \<not> in_flight y"
  shows "filter (\<lambda>y. dl_DeliveryID y = did) (deliveries (w_db w'))
       = filter (\<lambda>y. dl_DeliveryID y = did) (deliveries (w_db w))
    \<and> w_db w' = w_db w\<lparr>deliveries := deliveries (w_db w')\<rparr>"
proof -
  let ?ids = "- {did}"
  have "wp (pollPending p) (\<lambda>_. on_db (poll_frame ?ids (w_db w))) w"
    by (rule wp_pollPending_frame) (use assms(2) in auto)
  with assms(1) show ?thesis by (simp add: wp_def on_db_def poll_frame_def others_def)
qed

section \<open>One check, branch by branch\<close>

text \<open>The row of a delivery after a check, with a reachable database.\<close>

definition checked :: "Poller \<Rightarrow> string \<Rightarrow> Delivery \<Rightarrow> Delivery" where
  "checked p now x =
     (let failed = (\<lambda>reason.
          let y = x\<lparr>dl_PollAttempts := dl_PollAttempts x + 1\<rparr>
          in if 0 < pl_PollAttemptLimit p \<and> pl_PollAttemptLimit p \<le> dl_PollAttempts y
             then y\<lparr>dl_Status := ''poll_failed'', dl_CompletedAt := Some now, dl_ErrorMessage := Some reason\<rparr>
             else y)
      in if \<not> ns_present (dl_TwilioSid x)
         then x\<lparr>dl_Status := ''malformed'', dl_CompletedAt := Some now,
                dl_ErrorMessage := Some missing_sid_message\<rparr>
         else (case twilioGet (pl_get p) (poll_url p x) of
             Inl e \<Rightarrow> failed (''status fetch failed: '' @ e)
           | Inr body \<Rightarrow> (case unmarshal_status body of
               None \<Rightarrow> failed (''parse response failed: '' @ pl_json_error p body)
             | Some r \<Rightarrow> if snd (mapTwilioStatus (dl_Channel x) (tr_Status r))
                 then x\<lparr>dl_Status := tr_Status r, dl_CompletedAt := Some now, dl_ErrorMessage := poll_error r\<rparr>
                 else x)))"

lemma find_update_deliveries:
  "(\<And>x. dl_DeliveryID (f x) = dl_DeliveryID x) \<Longrightarrow>
   find (\<lambda>x. dl_DeliveryID x = did) (deliveries (update_deliveries P f d))
     = map_option (\<lambda>x. if P x then f x else x) (find (\<lambda>x. dl_DeliveryID x = did) (deliveries d))"
  by (simp add: update_deliveries_def find_update_where_key)

lemma wp_UpdateDeliveryStatus:
  "w_faults w = [] \<Longrightarrow> wp (UpdateDeliveryStatus st c err did) Q w =
     Q (Inr ()) (w\<lparr>w_db := update_deliveries (\<lambda>x. dl_DeliveryID x = did)
       (\<lambda>x. x\<lparr>dl_Status := st, dl_CompletedAt := c, dl_ErrorMessage := err\<rparr>) (w_db w)\<rparr>)"
  by (simp add: UpdateDeliveryStatus_def wp_simps)

lemma recordPollFailure_row:
  assumes "w_faults w = []"
    and "find (\<lambda>y. dl_DeliveryID y = dl_DeliveryID x) (deliveries (w_db w)) = Some x"
  shows "wp (recordPollFailure p x reason) (\<lambda>_ w'. \<exists>now.
    find (\<lambda>y. dl_DeliveryID y = dl_DeliveryID x) (deliveries (w_db w')) = Some
      (let y = x\<lparr>dl_PollAttempts := dl_PollAttempts x + 1\<rparr>
       in if 0 < pl_PollAttemptLimit p \<and> pl_PollAttemptLimit p \<le> dl_PollAttempts y
          then y\<lparr>dl_Status := ''poll_failed'', dl_CompletedAt := Some now, dl_ErrorMessage := Some reason\<rparr>
          else y)) w"
  using assms
  by (auto simp: recordPollFailure_def IncrementPollAttempts_def wp_simps Let_def
      find_update_deliveries wp_UpdateDeliveryStatus)


text \<open>A delivery that is poll_failed stays so when a later check finds it still in
  progress at Twilio: the row is unchanged, so no poll will look at it again.\<close>

theorem poll_failed_stays_poll_failed:
  assumes "dl_Status x = ''poll_failed''" and "ns_present (dl_TwilioSid x)"
    and "twilioGet (pl_get p) (poll_url p x) = Inr body" and "unmarshal_status body = Some r"
    and "\<not> snd (mapTwilioStatus (dl_Channel x) (tr_Status r))"
  shows "run_state (checkDelivery p x) w = ((), w) \<and> \<not> in_flight x"
proof -
  have "mapTwilioStatus (dl_Channel x) (tr_Status r) = (tr_Status r, False)"
    using assms(5) by (auto simp: mapTwilioStatus_def)
  with assms show ?thesis
    by (simp add: checkDelivery_def in_flight_def voice_in_flight_def sms_in_flight_def)
qed

end
