(* ===== verification/Sweeper.thy ===== *)
theory Sweeper
  imports Database_Facts
begin

text \<open>
  The event sweeper (\<open>notify/sweeper.go\<close>): one pass closes every open event that started before the
  configured time to live and writes one audit row for each. The lemmas give its effect exactly and
  show that a closed event never ends before it started, provided the clock does not move by more
  than the time to live between the two readings of one pass.
\<close>

definition auditSystemUser :: string where
  "auditSystemUser = ''system:event-sweeper''"

definition audit_closed :: "string \<Rightarrow> string \<Rightarrow> (world, unit) state" where
  "audit_closed now eventID = do {
     _ \<leftarrow> InsertAuditLog now auditSystemUser None ''auto_close_event'' ''events'' (Some eventID) None;
     ret () }"

text \<open>\<open>ttl\<close> is \<open>cfg.TTL\<close>, in nanoseconds.\<close>

definition sweep :: "int \<Rightarrow> (world, unit) state" where
  "sweep ttl = do {
     now \<leftarrow> now_RFC3339;
     t \<leftarrow> time_Now;
     let cutoff = FormatRFC3339 (unix_sec (t - ttl));
     r \<leftarrow> AutoCloseStaleEvents (Some now) (Some now) (Some auditSystemUser) cutoff;
     (case r of Inl e \<Rightarrow> ret ()
      | Inr closed \<Rightarrow> if closed = [] then ret () else for_each (audit_closed now) closed) }"

text \<open>The loop of \<open>Run\<close>: a pass at each tick of the interval until the context is done.\<close>

primrec sweeper_Run :: "int \<Rightarrow> int \<Rightarrow> nat \<Rightarrow> (world, unit) state" where
  "sweeper_Run interval ttl 0 = ret ()"
| "sweeper_Run interval ttl (Suc n) = do {
     stopped \<leftarrow> sleep_or_done interval;
     if stopped then ret () else do { sweep ttl; sweeper_Run interval ttl n } }"

section \<open>Lemmas\<close>

definition stale :: "string \<Rightarrow> Event \<Rightarrow> bool" where
  "stale cutoff e \<longleftrightarrow> ev_EndTime e = None \<and> ev_StartTime e \<le> cutoff"

definition auto_close :: "string \<Rightarrow> Event \<Rightarrow> Event" where
  "auto_close now e = e\<lparr>ev_EndTime := Some now, ev_AutoClosed := 1, ev_ModifiedAt := Some now,
     ev_ModifiedBy := Some auditSystemUser\<rparr>"

definition closing_row :: "string \<Rightarrow> string \<Rightarrow> int \<Rightarrow> AuditLog" where
  "closing_row now eid i = \<lparr>au_ID = i, au_Timestamp = now, au_Username = auditSystemUser,
     au_IpAddress = None, au_Action = ''auto_close_event'', au_ImpactedTable = ''events'',
     au_OldValues = Some eid, au_NewValues = None\<rparr>"

fun closing_rows :: "string \<Rightarrow> string list \<Rightarrow> AuditLog list \<Rightarrow> AuditLog list" where
  "closing_rows now [] log = log"
| "closing_rows now (e # es) log = closing_rows now es (log @ [closing_row now e (next_rowid (map au_ID log))])"

lemma closing_rows_new:
  "\<exists>new. closing_rows now es log = log @ new \<and> map au_OldValues new = map Some es
     \<and> (\<forall>a \<in> set new. au_Timestamp a = now \<and> au_Username a = auditSystemUser
          \<and> au_Action a = ''auto_close_event'')"
proof (induction es arbitrary: log)
  case (Cons e es)
  obtain new where n: "closing_rows now (e # es) log =
      log @ [closing_row now e (next_rowid (map au_ID log))] @ new" "map au_OldValues new = map Some es"
      "\<forall>a \<in> set new. au_Timestamp a = now \<and> au_Username a = auditSystemUser
          \<and> au_Action a = ''auto_close_event''"
    using Cons.IH [of "log @ [closing_row now e (next_rowid (map au_ID log))]"] by auto
  then show ?case
    by (intro exI [of _ "[closing_row now e (next_rowid (map au_ID log))] @ new"])
      (simp add: closing_row_def)
qed simp

lemma wp_audit_closed:
  "w_faults w = [] \<Longrightarrow> wp (for_each (audit_closed now) es) Q w =
     Q () (w\<lparr>w_db := w_db w\<lparr>audit_log := closing_rows now es (audit_log (w_db w))\<rparr>\<rparr>)"
  by (induction es arbitrary: w)
    (simp_all add: wp_simps audit_closed_def InsertAuditLog_def closing_row_def)

lemma wp_sweep:
  assumes "w_faults w = []"
  shows "wp (sweep ttl) Q w =
    (let w1 = advance_clock w; w2 = advance_clock w1; now = FormatRFC3339 (unix_sec (w_now w1));
         cutoff = FormatRFC3339 (unix_sec (w_now w2 - ttl)); es = events (w_db w)
     in Q () (w2\<lparr>w_db := w_db w\<lparr>events := update_where (stale cutoff) (auto_close now) es,
          audit_log := closing_rows now (map ev_EventID (filter (stale cutoff) es)) (audit_log (w_db w))\<rparr>\<rparr>))"
proof -
  have f: "w_faults (advance_clock (advance_clock w)) = []" using assms by simp
  show ?thesis
    unfolding sweep_def wp_bind wp_now_RFC3339 wp_time_Now wp_Let AutoCloseStaleEvents_def wp_statement
    using f
    by (simp add: Let_def wp_ret wp_audit_closed stale_def [abs_def] auto_close_def [abs_def])
qed

lemma sweep_keeps_db_ok: "preserves (on_db db_ok) (sweep ttl)"
  unfolding sweep_def audit_closed_def by (intro keeps)

text \<open>C21 (functional): one pass of the sweeper closes exactly the open events that started no later
  than the cutoff, leaves every other event as it is, and appends one audit row for each closed
  event, in their order.\<close>

theorem sweep_effect:
  assumes "w_faults w = []" and "run_state (sweep ttl) w = ((), w')"
  shows "\<exists>now cutoff new. events (w_db w') =
      map (\<lambda>e. if ev_EndTime e = None \<and> ev_StartTime e \<le> cutoff
        then e\<lparr>ev_EndTime := Some now, ev_AutoClosed := 1, ev_ModifiedAt := Some now,
               ev_ModifiedBy := Some auditSystemUser\<rparr> else e) (events (w_db w))
    \<and> audit_log (w_db w') = audit_log (w_db w) @ new
    \<and> map au_OldValues new = map (\<lambda>e. Some (ev_EventID e))
        (filter (\<lambda>e. ev_EndTime e = None \<and> ev_StartTime e \<le> cutoff) (events (w_db w)))
    \<and> now = FormatRFC3339 (unix_sec (w_now (advance_clock w)))
    \<and> cutoff = FormatRFC3339 (unix_sec (w_now (advance_clock (advance_clock w)) - ttl))"
proof -
  let ?now = "FormatRFC3339 (unix_sec (w_now (advance_clock w)))"
  let ?cutoff = "FormatRFC3339 (unix_sec (w_now (advance_clock (advance_clock w)) - ttl))"
  let ?es = "map ev_EventID (filter (stale ?cutoff) (events (w_db w)))"
  obtain new where n: "closing_rows ?now ?es (audit_log (w_db w)) = audit_log (w_db w) @ new"
    "map au_OldValues new = map Some ?es"
    using closing_rows_new by blast
  have "wp (sweep ttl) (\<lambda>_ w'. w_db w' = w_db w\<lparr>events := update_where (stale ?cutoff) (auto_close ?now) (events (w_db w)),
      audit_log := audit_log (w_db w) @ new\<rparr>) w"
    unfolding wp_sweep [OF assms(1)] by (simp add: Let_def n)
  then have "w_db w' = w_db w\<lparr>events := update_where (stale ?cutoff) (auto_close ?now) (events (w_db w)),
      audit_log := audit_log (w_db w) @ new\<rparr>"
    using assms(2) by (simp add: wp_def)
  moreover have "map au_OldValues new = map (\<lambda>e. Some (ev_EventID e)) (filter (stale ?cutoff) (events (w_db w)))"
    using n(2) by (simp add: o_def)
  ultimately show ?thesis
    by - (rule exI [of _ ?now], rule exI [of _ ?cutoff], rule exI [of _ new], simp add: update_where_def stale_def [abs_def] auto_close_def)
qed

text \<open>An event that the sweeper closes does not end before it started, if the clock
  moves by at most the time to live between the two readings and the years have four digits.\<close>

theorem sweep_end_after_start:
  assumes "w_faults w = []" and "run_state (sweep ttl) w = ((), w')"
    and "w_now (advance_clock (advance_clock w)) - w_now (advance_clock w) \<le> ttl"
    and "four_digit_year (unix_sec (w_now (advance_clock w)))"
    and "four_digit_year (unix_sec (w_now (advance_clock (advance_clock w)) - ttl))"
    and "e \<in> set (events (w_db w'))" and "e \<notin> set (events (w_db w))"
  shows "\<exists>now. ev_EndTime e = Some now \<and> ev_StartTime e \<le> now \<and> ev_AutoClosed e = 1"
proof -
  let ?now = "FormatRFC3339 (unix_sec (w_now (advance_clock w)))"
  let ?cutoff = "FormatRFC3339 (unix_sec (w_now (advance_clock (advance_clock w)) - ttl))"
  have "wp (sweep ttl) (\<lambda>_ w'. events (w_db w') = update_where (stale ?cutoff) (auto_close ?now) (events (w_db w))) w"
    unfolding wp_sweep [OF assms(1)] by (simp add: Let_def)
  then have ev: "events (w_db w') = update_where (stale ?cutoff) (auto_close ?now) (events (w_db w))"
    using assms(2) by (simp add: wp_def)
  with assms(6,7) obtain e0 where "stale ?cutoff e0" "e = auto_close ?now e0"
    by (auto simp: set_update_where split: if_splits)
  moreover have "unix_sec (w_now (advance_clock (advance_clock w)) - ttl) \<le> unix_sec (w_now (advance_clock w))"
    using assms(3) unfolding unix_sec_def by (intro zdiv_mono1) auto
  then have "?cutoff \<le> ?now" using assms(4,5) by (simp add: FormatRFC3339_le)
  ultimately show ?thesis by (auto simp: stale_def auto_close_def)
qed

end
