(* ===== verification/Api_Base.thy ===== *)
theory Api_Base
  imports Go_Json Database_Facts
begin

text \<open>
  What the HTTP handlers share: roles and permissions (\<open>api/auth.go\<close>), the authentication and RBAC
  middleware and the audit log (\<open>api/middleware.go\<close>), errors with a status (\<open>api/core.go\<close>), and the
  rows as JSON for the audit log. A request reaches a handler decoded; a handler is a program that
  returns a reply: an error with its status and text, or a status with a payload.
\<close>

section \<open>Roles and permissions\<close>

datatype Permission = PermAdmin | PermPublish | PermRead

definition rolePermissions :: "string \<Rightarrow> Permission list" where
  "rolePermissions role =
     (if role = ''admin'' then [PermAdmin, PermPublish, PermRead]
      else if role = ''publisher'' then [PermPublish, PermRead]
      else if role = ''reader'' then [PermRead] else [])"

record User =
  us_Username :: string
  us_DN :: string
  us_Roles :: "string list"

text \<open>\<open>roleConfig\<close> is a Go map, listed in the order of one iteration over it.\<close>

definition resolveRoles :: "string list \<Rightarrow> (string \<times> string list) list \<Rightarrow> string list" where
  "resolveRoles groups roleConfig =
     map fst (filter (\<lambda>(role, groupList). \<exists>g \<in> set groupList. g \<in> set groups) roleConfig)"

definition hasPermission :: "string list \<Rightarrow> Permission \<Rightarrow> bool" where
  "hasPermission roles perm \<longleftrightarrow> (\<exists>role \<in> set roles. perm \<in> set (rolePermissions role))"

lemma hasPermission_iff:
  "hasPermission roles PermAdmin \<longleftrightarrow> ''admin'' \<in> set roles"
  "hasPermission roles PermPublish \<longleftrightarrow> ''admin'' \<in> set roles \<or> ''publisher'' \<in> set roles"
  "hasPermission roles PermRead \<longleftrightarrow>
     ''admin'' \<in> set roles \<or> ''publisher'' \<in> set roles \<or> ''reader'' \<in> set roles"
proof -
  have p: "PermAdmin \<in> set (rolePermissions role) \<longleftrightarrow> role = ''admin''"
    "PermPublish \<in> set (rolePermissions role) \<longleftrightarrow> role = ''admin'' \<or> role = ''publisher''"
    "PermRead \<in> set (rolePermissions role) \<longleftrightarrow> role = ''admin'' \<or> role = ''publisher'' \<or> role = ''reader''"
    for role
    by (simp_all add: rolePermissions_def)
  show "hasPermission roles PermAdmin \<longleftrightarrow> ''admin'' \<in> set roles"
    unfolding hasPermission_def p by simp
  show "hasPermission roles PermPublish \<longleftrightarrow> ''admin'' \<in> set roles \<or> ''publisher'' \<in> set roles"
    unfolding hasPermission_def p by (simp add: bex_disj_distrib conj_disj_distribL)
  show "hasPermission roles PermRead \<longleftrightarrow>
       ''admin'' \<in> set roles \<or> ''publisher'' \<in> set roles \<or> ''reader'' \<in> set roles"
    unfolding hasPermission_def p by (simp add: bex_disj_distrib)
qed

section \<open>Requests, replies, errors\<close>

datatype 'a reply = Fail nat string | Reply nat 'a

text \<open>\<open>coreError\<close>: the status and the message.\<close>

type_synonym coreError = "nat \<times> string"

definition writeCoreError :: "coreError \<Rightarrow> 'a reply" where
  "writeCoreError e = Fail (fst e) (snd e)"

definition internal_error :: coreError where
  "internal_error = (500, ''internal server error'')"

text \<open>The part of a request every handler sees: who sends it, and the proxy's \<open>X-Client-IP\<close>.\<close>

record Request =
  rq_User :: User
  rq_ClientIP :: string

section \<open>Audit log\<close>

definition auditLog :: "string \<Rightarrow> string \<Rightarrow> string \<Rightarrow> string \<Rightarrow> string \<Rightarrow> string \<Rightarrow> (world, unit) state" where
  "auditLog username ip action impactedTable oldJSON newJSON = do {
     now \<leftarrow> now_RFC3339;
     _ \<leftarrow> InsertAuditLog now username (nullString ip) action impactedTable (nullString oldJSON)
       (nullString newJSON);
     ret () }"

definition auditLogAction :: "Request \<Rightarrow> string \<Rightarrow> string \<Rightarrow> string \<Rightarrow> string \<Rightarrow> (world, unit) state" where
  "auditLogAction r action impactedTable oldJSON newJSON = do {
     now \<leftarrow> now_RFC3339;
     _ \<leftarrow> InsertAuditLog now (us_Username (rq_User r)) (nullString (rq_ClientIP r)) action
       impactedTable (nullString oldJSON) (nullString newJSON);
     ret () }"

section \<open>Authentication and authorization\<close>

text \<open>\<open>ldap.AuthResult\<close> and the outcome of \<open>AuthenticateUser\<close>.\<close>

record AuthResult =
  ar_UserDN :: string
  ar_Groups :: "string list"

datatype auth_error = ErrInvalidCredentials | ErrAuthOther string

type_synonym authenticator = "string \<Rightarrow> string \<Rightarrow> (world, auth_error + AuthResult) state"

definition login_failed :: "string \<Rightarrow> string \<Rightarrow> (world, unit) state" where
  "login_failed username ip = auditLog username ip ''login_failed'' ''auth'' [] []"

definition authenticate :: "authenticator \<Rightarrow> (string \<times> string list) list \<Rightarrow> (string \<times> string) option
    \<Rightarrow> string \<Rightarrow> (User \<Rightarrow> (world, 'a reply) state) \<Rightarrow> (world, 'a reply) state" where
  "authenticate auth roleConfig basicAuth ip nxt =
     (case basicAuth of
        None \<Rightarrow> ret (Fail 401 ''authentication required'')
      | Some (username, password) \<Rightarrow> do {
          r \<leftarrow> auth username password;
          (case r of
             Inl e \<Rightarrow> do {
               login_failed username ip;
               ret (if e = ErrInvalidCredentials then Fail 401 ''invalid credentials''
                    else Fail 500 ''authentication error'') }
           | Inr result \<Rightarrow>
               nxt \<lparr>us_Username = username, us_DN = ar_UserDN result,
                    us_Roles = resolveRoles (ar_Groups result) roleConfig\<rparr>) })"

definition requirePermissions :: "Permission list \<Rightarrow> (User \<Rightarrow> (world, 'a reply) state) \<Rightarrow> User
    \<Rightarrow> (world, 'a reply) state" where
  "requirePermissions perms nxt user =
     (if \<exists>perm \<in> set perms. \<not> hasPermission (us_Roles user) perm then ret (Fail 403 ''forbidden'')
      else nxt user)"

section \<open>Rows as JSON\<close>

definition null_json :: "null_string \<Rightarrow> json" where
  "null_json n = JObj [(''String'', JStr (ns_string n)), (''Valid'', JBool (n \<noteq> None))]"

definition int_json :: "int \<Rightarrow> json" where
  "int_json i = JNum (show_int i)"

definition event_json :: "Event \<Rightarrow> json" where
  "event_json e = JObj
     [(''id'', int_json (ev_ID e)), (''event_id'', JStr (ev_EventID e)),
      (''event_url'', null_json (ev_EventUrl e)), (''event_name'', null_json (ev_EventName e)),
      (''event_description'', null_json (ev_EventDescription e)),
      (''event_severity'', null_json (ev_EventSeverity e)), (''start_time'', JStr (ev_StartTime e)),
      (''end_time'', null_json (ev_EndTime e)), (''created_by'', null_json (ev_CreatedBy e)),
      (''created_at'', JStr (ev_CreatedAt e)), (''modified_by'', null_json (ev_ModifiedBy e)),
      (''modified_at'', null_json (ev_ModifiedAt e)), (''auto_closed'', int_json (ev_AutoClosed e))]"

definition notification_json :: "Notification \<Rightarrow> json" where
  "notification_json n = JObj
     [(''id'', int_json (nt_ID n)), (''notification_id'', JStr (nt_NotificationID n)),
      (''event_id'', JStr (nt_EventID n)), (''groups'', null_json (nt_Groups n)),
      (''destinations'', null_json (nt_Destinations n)), (''channels'', null_json (nt_Channels n)),
      (''message'', JStr (nt_Message n)), (''status'', JStr (nt_Status n)),
      (''error_message'', null_json (nt_ErrorMessage n)),
      (''member_count'', int_json (nt_MemberCount n)),
      (''email_template'', null_json (nt_EmailTemplate n)),
      (''email_vars'', null_json (nt_EmailVars n)), (''created_at'', JStr (nt_CreatedAt n)),
      (''created_by'', null_json (nt_CreatedBy n))]"

definition template_json :: "EmailTemplate \<Rightarrow> json" where
  "template_json t = JObj
     [(''id'', int_json (et_ID t)), (''template_name'', JStr (et_TemplateName t)),
      (''subject'', JStr (et_Subject t)), (''body'', JStr (et_Body t)),
      (''required_vars'', JStr (et_RequiredVars t)), (''description'', null_json (et_Description t))]"

definition sync_group_json :: "SyncGroup \<Rightarrow> json" where
  "sync_group_json g = JObj
     [(''id'', int_json (sg_ID g)), (''group_name'', JStr (sg_GroupName g)),
      (''created_at'', JStr (sg_CreatedAt g)), (''created_by'', JStr (sg_CreatedBy g))]"

definition subscription_json :: "SmsSubscription \<Rightarrow> json" where
  "subscription_json s = JObj
     [(''username'', JStr (sb_Username s)), (''phone'', JStr (sb_Phone s)),
      (''subscribed_at'', JStr (sb_SubscribedAt s))]"

definition marshalAuditJSON :: "json \<Rightarrow> string" where
  "marshalAuditJSON v = encode v"

section \<open>Lemmas\<close>

lemma audit_keeps_db_ok [keeps]:
  "preserves (on_db db_ok) (auditLog u ip a t old new)"
  "preserves (on_db db_ok) (auditLogAction r a t old new)"
  "preserves (on_db db_ok) (login_failed u ip)"
  unfolding auditLog_def auditLogAction_def login_failed_def by (intro keeps)+

text \<open>The audit log is appended to; nothing else changes.\<close>

definition audited :: "world \<Rightarrow> world \<Rightarrow> bool" where
  "audited w w' \<longleftrightarrow> (\<exists>new. w_db w' = w_db w\<lparr>audit_log := audit_log (w_db w) @ new\<rparr>)
     \<and> w_queue w' = w_queue w \<and> w_queue_cap w' = w_queue_cap w \<and> w_outbox w' = w_outbox w"

lemma audited_refl: "w_db w' = w_db w \<Longrightarrow> w_queue w' = w_queue w \<Longrightarrow> w_queue_cap w' = w_queue_cap w \<Longrightarrow>
    w_outbox w' = w_outbox w \<Longrightarrow> audited w w'"
  by (simp add: audited_def exI [of _ "[]"])

lemma audited_step:
  "audited w (sent (advance_clock w))"
  "audited w (sent (advance_clock w)\<lparr>w_db := w_db w\<lparr>audit_log := audit_log (w_db w) @ new\<rparr>\<rparr>)"
  by (auto simp: audited_def intro: exI [of _ "[]"])

lemma wp_audit_any:
  assumes "\<And>w'. audited w w' \<Longrightarrow> Q () w'"
  shows "wp (auditLog u ip a t old new) Q w" "wp (auditLogAction r a t old new) Q w"
  using assms
  by (simp_all add: auditLog_def auditLogAction_def InsertAuditLog_def wp_simps audited_step)

lemma resolveRoles_set:
  "set (resolveRoles groups rc) = {role. \<exists>gl. (role, gl) \<in> set rc \<and> set gl \<inter> set groups \<noteq> {}}"
  by (force simp: resolveRoles_def)

text \<open>What a user may do is decided by the groups alone: a permission is held
  exactly when a configured group of a role that grants it is among the user's groups, so the
  order of the configuration does not matter.\<close>

theorem permission_from_groups:
  "hasPermission (resolveRoles groups rc) perm \<longleftrightarrow>
     (\<exists>(role, gl) \<in> set rc. (\<exists>g \<in> set gl. g \<in> set groups) \<and> perm \<in> set (rolePermissions role))"
  unfolding hasPermission_def resolveRoles_set by (auto simp: disjoint_iff)

text \<open>C3 (safety): a handler behind the middleware runs only for a user whose credentials the
  authenticator accepted and whose groups grant every permission of the route; in every other case
  the reply is 401, 403 or 500 and the handler has no effect: the world is that of the
  authenticator, with at most audit rows added.\<close>

theorem protected_route:
  assumes "run_state (authenticate auth rc creds ip (requirePermissions perms handler)) w = (r, w')"
  shows "(\<exists>username password result w1.
       creds = Some (username, password) \<and> run_state (auth username password) w = (Inr result, w1)
     \<and> (\<forall>perm \<in> set perms. hasPermission (resolveRoles (ar_Groups result) rc) perm)
     \<and> run_state (handler \<lparr>us_Username = username, us_DN = ar_UserDN result,
          us_Roles = resolveRoles (ar_Groups result) rc\<rparr>) w1 = (r, w'))
   \<or> (\<exists>code msg. r = Fail code msg \<and> code \<in> {401, 403, 500}
     \<and> (creds = None \<and> w' = w
        \<or> (\<exists>username password a w1. creds = Some (username, password)
             \<and> run_state (auth username password) w = (a, w1) \<and> audited w1 w')))"
proof (cases creds)
  case None
  with assms show ?thesis by (auto simp: authenticate_def)
next
  case (Some up)
  obtain username password where up: "up = (username, password)" by fastforce
  obtain a w1 where a: "run_state (auth username password) w = (a, w1)" by fastforce
  show ?thesis
  proof (cases a)
    case (Inl e)
    have "wp (login_failed username ip) (\<lambda>_ w'. audited w1 w') w1"
      unfolding login_failed_def by (rule wp_audit_any)
    then have "audited w1 (snd (run_state (login_failed username ip) w1))" by (simp add: wp_def)
    with assms Some up a Inl show ?thesis
      by (auto simp: authenticate_def split: prod.splits if_splits)
  next
    case (Inr result)
    have "audited w1 w1" by (rule audited_refl) simp_all
    with assms Some up a Inr show ?thesis
      by (auto simp: authenticate_def requirePermissions_def split: if_splits)
  qed
qed

end
