(* ===== verification/Api_Events.thy ===== *)
theory Api_Events
  imports Api_Base
begin

text \<open>
  The handlers of events, notifications and deliveries (\<open>api/resources.go\<close>). Bodies arrive decoded
  (\<open>None\<close> where the JSON decoder fails); query parameters are a function from the name to the value,
  empty when absent, as \<open>url.Values.Get\<close> returns it.
\<close>

record Server =
  sv_eventSeverities :: "string list"
  sv_roleConfig :: "(string \<times> string list) list"

section \<open>Responses\<close>

record eventResponse =
  er_ID :: int
  er_EventID :: string
  er_EventURL :: string
  er_EventName :: string
  er_EventDescription :: string
  er_EventSeverity :: string
  er_StartTime :: string
  er_EndTime :: string
  er_CreatedBy :: string
  er_CreatedAt :: string
  er_ModifiedBy :: string
  er_ModifiedAt :: string
  er_AutoClosed :: bool

definition toEventResponse :: "Event \<Rightarrow> eventResponse" where
  "toEventResponse e = \<lparr>er_ID = ev_ID e, er_EventID = ev_EventID e, er_EventURL = ns_string (ev_EventUrl e),
     er_EventName = ns_string (ev_EventName e), er_EventDescription = ns_string (ev_EventDescription e),
     er_EventSeverity = ns_string (ev_EventSeverity e), er_StartTime = ev_StartTime e,
     er_EndTime = ns_string (ev_EndTime e), er_CreatedBy = ns_string (ev_CreatedBy e),
     er_CreatedAt = ev_CreatedAt e, er_ModifiedBy = ns_string (ev_ModifiedBy e),
     er_ModifiedAt = ns_string (ev_ModifiedAt e), er_AutoClosed = (ev_AutoClosed e \<noteq> 0)\<rparr>"

record notificationResponse =
  nr_ID :: int
  nr_NotificationID :: string
  nr_EventID :: string
  nr_Groups :: "string list"
  nr_Destinations :: "Destination list"
  nr_Channels :: "string list"
  nr_Message :: string
  nr_MemberCount :: int
  nr_Status :: string
  nr_ErrorMessage :: string
  nr_CreatedAt :: string
  nr_CreatedBy :: string

definition json_column :: "(string \<Rightarrow> 'a list option) \<Rightarrow> null_string \<Rightarrow> 'a list option" where
  "json_column f c = (if ns_present c then f (ns_string c) else Some [])"

text \<open>\<open>None\<close> is the error of a column that does not parse.\<close>

definition toNotificationResponse :: "Notification \<Rightarrow> notificationResponse option" where
  "toNotificationResponse n = (case json_column unmarshal_strings (nt_Groups n) of None \<Rightarrow> None
     | Some groups \<Rightarrow> (case json_column unmarshal_destinations (nt_Destinations n) of None \<Rightarrow> None
       | Some destinations \<Rightarrow> (case json_column unmarshal_strings (nt_Channels n) of None \<Rightarrow> None
         | Some channels \<Rightarrow> Some \<lparr>nr_ID = nt_ID n, nr_NotificationID = nt_NotificationID n,
             nr_EventID = nt_EventID n, nr_Groups = groups, nr_Destinations = destinations,
             nr_Channels = channels, nr_Message = nt_Message n, nr_MemberCount = nt_MemberCount n,
             nr_Status = nt_Status n, nr_ErrorMessage = ns_string (nt_ErrorMessage n),
             nr_CreatedAt = nt_CreatedAt n, nr_CreatedBy = ns_string (nt_CreatedBy n)\<rparr>)))"

record deliveryResponse =
  dr_ID :: int
  dr_DeliveryID :: string
  dr_NotificationID :: string
  dr_Group :: string
  dr_Member :: string
  dr_Destination :: string
  dr_Channel :: string
  dr_Status :: string
  dr_EmailTemplate :: string
  dr_EmailVars :: any_map
  dr_Attempt :: int
  dr_PollAttempts :: int
  dr_ErrorMessage :: string
  dr_SentAt :: string
  dr_CompletedAt :: string
  dr_TwilioSID :: string

definition toDeliveryResponse :: "Delivery \<Rightarrow> deliveryResponse option" where
  "toDeliveryResponse d =
     (case (case dl_EmailVars d of None \<Rightarrow> Some [] | Some v \<Rightarrow> unmarshal_map v) of None \<Rightarrow> None
      | Some vars \<Rightarrow> Some \<lparr>dr_ID = dl_ID d, dr_DeliveryID = dl_DeliveryID d,
          dr_NotificationID = dl_NotificationID d, dr_Group = ns_string (dl_Group d),
          dr_Member = ns_string (dl_Member d), dr_Destination = ns_string (dl_Destination d),
          dr_Channel = dl_Channel d, dr_Status = dl_Status d,
          dr_EmailTemplate = ns_string (dl_EmailTemplate d), dr_EmailVars = vars,
          dr_Attempt = dl_Attempt d, dr_PollAttempts = dl_PollAttempts d,
          dr_ErrorMessage = ns_string (dl_ErrorMessage d), dr_SentAt = dl_SentAt d,
          dr_CompletedAt = ns_string (dl_CompletedAt d), dr_TwilioSID = ns_string (dl_TwilioSid d)\<rparr>)"

section \<open>Severity and times of a request\<close>

text \<open>The loop over \<open>s.eventSeverities\<close>: the configured spelling of the severity.\<close>

definition match_severity :: "string list \<Rightarrow> string \<Rightarrow> string option" where
  "match_severity severities sev = find (\<lambda>s. ToLower s = ToLower sev) severities"

definition unknown_severity :: "string list \<Rightarrow> string \<Rightarrow> string" where
  "unknown_severity severities sev =
     ''unknown severity '' @ go_quote sev @ ''; valid values: '' @ Join severities '',''"

text \<open>An empty severity is not looked up.\<close>

definition canonical_severity :: "string list \<Rightarrow> string \<Rightarrow> string + string" where
  "canonical_severity severities sev = (if sev = [] then Inr []
     else case match_severity severities sev of None \<Rightarrow> Inl (unknown_severity severities sev)
       | Some s \<Rightarrow> Inr s)"

text \<open>The start time of a new event: now, or the caller's, normalised.\<close>

definition start_time_or_now :: "string \<Rightarrow> (world, string + string) state" where
  "start_time_or_now s = (if s = [] then do { now \<leftarrow> now_RFC3339; ret (Inr now) }
     else ret (parseTimeToRFC3339 s))"

section \<open>Events\<close>

record createEventRequest =
  ce_EventID :: string
  ce_EventURL :: string
  ce_EventName :: string
  ce_EventDescription :: string
  ce_EventSeverity :: string
  ce_StartTime :: string

definition handleCreateEvent :: "Server \<Rightarrow> Request \<Rightarrow> createEventRequest option
    \<Rightarrow> (world, eventResponse reply) state" where
  "handleCreateEvent s r body = (case body of None \<Rightarrow> ret (Fail 400 ''invalid JSON body'')
     | Some req \<Rightarrow> do {
         eventID \<leftarrow> (if ce_EventID req = [] then api_newUUIDV7 else ret (ce_EventID req));
         existing \<leftarrow> GetEventByEventID eventID;
         (case existing of
            Inr _ \<Rightarrow> ret (Fail 409 ''event already exists'')
          | Inl err \<Rightarrow> if err \<noteq> ErrNoRows then ret (Fail 500 ''internal server error'')
              else (case canonical_severity (sv_eventSeverities s) (ce_EventSeverity req) of
                Inl msg \<Rightarrow> ret (Fail 400 msg)
              | Inr severity \<Rightarrow> do {
                  st \<leftarrow> start_time_or_now (ce_StartTime req);
                  (case st of
                     Inl e \<Rightarrow> ret (Fail 400 (''invalid start_time: '' @ e))
                   | Inr startTime \<Rightarrow> do {
                       createdAt \<leftarrow> now_RFC3339;
                       ins \<leftarrow> InsertEvent eventID (nullString (ce_EventURL req))
                         (nullString (ce_EventName req)) (nullString (ce_EventDescription req))
                         (nullString severity) startTime None
                         (nullString (us_Username (rq_User r))) createdAt;
                       (case ins of
                          Inl e \<Rightarrow> ret (Fail 500 ''internal server error'')
                        | Inr event \<Rightarrow> do {
                            auditLogAction r ''create_event'' ''events'' [] (marshalAuditJSON (event_json event));
                            ret (Reply 201 (toEventResponse event)) }) }) })) })"

record updateEventRequest =
  ue_EventURL :: "string option"
  ue_EventName :: "string option"
  ue_EventDescription :: "string option"
  ue_EventSeverity :: "string option"

definition merge_field :: "string option \<Rightarrow> null_string \<Rightarrow> string" where
  "merge_field given old = (case given of None \<Rightarrow> ns_string old | Some v \<Rightarrow> v)"

text \<open>A severity that is given is always looked up, an empty one too.\<close>

definition update_severity :: "string list \<Rightarrow> string option \<Rightarrow> string + string option" where
  "update_severity severities given = (case given of None \<Rightarrow> Inr None
     | Some sev \<Rightarrow> (case match_severity severities sev of
         None \<Rightarrow> Inl (unknown_severity severities sev) | Some s \<Rightarrow> Inr (Some s)))"

definition handleUpdateEvent :: "Server \<Rightarrow> Request \<Rightarrow> string \<Rightarrow> updateEventRequest option
    \<Rightarrow> (world, eventResponse reply) state" where
  "handleUpdateEvent s r eventID body = do {
     old \<leftarrow> GetEventByEventID eventID;
     (case old of
        Inl e \<Rightarrow> ret (if e = ErrNoRows then Fail 404 ''event not found''
                   else Fail 500 ''internal server error'')
      | Inr oldEvent \<Rightarrow> (case body of None \<Rightarrow> ret (Fail 400 ''invalid JSON body'')
          | Some req \<Rightarrow> (case update_severity (sv_eventSeverities s) (ue_EventSeverity req) of
              Inl msg \<Rightarrow> ret (Fail 400 msg)
            | Inr severity \<Rightarrow> do {
                modifiedAt \<leftarrow> now_RFC3339;
                upd \<leftarrow> UpdateEvent
                  (nullString (merge_field (ue_EventURL req) (ev_EventUrl oldEvent)))
                  (nullString (merge_field (ue_EventName req) (ev_EventName oldEvent)))
                  (nullString (merge_field (ue_EventDescription req) (ev_EventDescription oldEvent)))
                  (nullString (merge_field severity (ev_EventSeverity oldEvent)))
                  (nullString (us_Username (rq_User r))) (nullString modifiedAt) eventID;
                (case upd of
                   Inl e \<Rightarrow> ret (Fail 500 ''internal server error'')
                 | Inr updated \<Rightarrow> do {
                     auditLogAction r ''update_event'' ''events'' (marshalAuditJSON (event_json oldEvent))
                       (marshalAuditJSON (event_json updated));
                     ret (Reply 200 (toEventResponse updated)) }) }))) }"

text \<open>The paging parameters, with their messages.\<close>

definition parse_limit :: "string \<Rightarrow> coreError + int" where
  "parse_limit v = (if v = [] then Inr 50 else (case ParseInt64 v of
      Some n \<Rightarrow> if n < 1 \<or> 200 < n then Inl (400, ''limit must be an integer between 1 and 200'') else Inr n
    | None \<Rightarrow> Inl (400, ''limit must be an integer between 1 and 200'')))"

definition parse_offset :: "string \<Rightarrow> coreError + int" where
  "parse_offset v = (if v = [] then Inr 0 else (case ParseInt64 v of
      Some n \<Rightarrow> if n < 0 then Inl (400, ''offset must be a non-negative integer'') else Inr n
    | None \<Rightarrow> Inl (400, ''offset must be a non-negative integer'')))"

definition parse_bound :: "string \<Rightarrow> string \<Rightarrow> coreError + string" where
  "parse_bound what v = (if v = [] then Inr [] else (case parseTimeToRFC3339 v of
      Inl e \<Rightarrow> Inl (400, ''invalid '' @ what @ '': '' @ e) | Inr t \<Rightarrow> Inr t))"

definition quote1 :: "string \<Rightarrow> string" where
  "quote1 s = CHR 0x27 # s @ [CHR 0x27]"

definition list_params :: "Server \<Rightarrow> (string \<Rightarrow> string) \<Rightarrow> coreError + ListEventsFilteredParams" where
  "list_params s get =
     (case parse_limit (get ''limit'') of Inl e \<Rightarrow> Inl e | Inr limit \<Rightarrow>
     (case parse_offset (get ''offset'') of Inl e \<Rightarrow> Inl e | Inr offset \<Rightarrow>
     (case parse_bound ''start_from'' (get ''start_from'') of Inl e \<Rightarrow> Inl e | Inr startFrom \<Rightarrow>
     (case parse_bound ''start_to'' (get ''start_to'') of Inl e \<Rightarrow> Inl e | Inr startTo \<Rightarrow>
     (case canonical_severity (sv_eventSeverities s) (get ''severity'') of Inl e \<Rightarrow> Inl (400, e) | Inr severity \<Rightarrow>
       if get ''status'' \<notin> {[], ''active'', ''ended''} then Inl (400, ''status must be '' @ quote1 ''active'' @ '' or '' @ quote1 ''ended'')
       else Inr \<lparr>lp_StartFrom = startFrom, lp_StartTo = startTo, lp_EventID = get ''event_id'',
         lp_EventName = get ''event_name'', lp_Description = get ''description'', lp_Severity = severity,
         lp_CreatedBy = get ''created_by'', lp_Status = get ''status'', lp_Offset = offset,
         lp_Limit = limit\<rparr>)))))"

definition listEventsCore :: "Server \<Rightarrow> (string \<Rightarrow> string)
    \<Rightarrow> (world, coreError + Event list \<times> int \<times> int) state" where
  "listEventsCore s get = (case list_params s get of Inl e \<Rightarrow> ret (Inl e)
     | Inr p \<Rightarrow> do {
         l \<leftarrow> ListEventsFiltered p;
         ret (case l of Inl e \<Rightarrow> Inl internal_error | Inr evs \<Rightarrow> Inr (evs, lp_Limit p, lp_Offset p)) })"

definition handleListEvents :: "Server \<Rightarrow> (string \<Rightarrow> string)
    \<Rightarrow> (world, (eventResponse list \<times> int \<times> int) reply) state" where
  "handleListEvents s get = do {
     x \<leftarrow> listEventsCore s get;
     ret (case x of Inl e \<Rightarrow> writeCoreError e
        | Inr (evs, limit, offset) \<Rightarrow> Reply 200 (map toEventResponse evs, limit, offset)) }"

definition getEventCore :: "string \<Rightarrow> (world, coreError + Event) state" where
  "getEventCore eventID = do {
     e \<leftarrow> GetEventByEventID eventID;
     ret (case e of Inl err \<Rightarrow> Inl (if err = ErrNoRows then (404, ''event not found'') else internal_error)
        | Inr event \<Rightarrow> Inr event) }"

definition handleGetEvent :: "string \<Rightarrow> (world, eventResponse reply) state" where
  "handleGetEvent eventID = do {
     x \<leftarrow> getEventCore eventID;
     ret (case x of Inl e \<Rightarrow> writeCoreError e | Inr event \<Rightarrow> Reply 200 (toEventResponse event)) }"

text \<open>
  \<open>handleEndEvent\<close>: the body is absent (\<open>ContentLength\<close> not positive), undecodable, or an \<open>end_time\<close>.
\<close>

datatype end_body = NoBody | BadBody | EndTimeBody string

definition end_time_of :: "string \<Rightarrow> Event \<Rightarrow> end_body \<Rightarrow> string + string" where
  "end_time_of now event body = (case body of
      NoBody \<Rightarrow> Inr now
    | BadBody \<Rightarrow> Inl ''invalid JSON body''
    | EndTimeBody v \<Rightarrow> if v = [] then Inr now
        else (case parseTimeToRFC3339 v of
            Inl e \<Rightarrow> Inl (''invalid end_time: '' @ e)
          | Inr endTime \<Rightarrow> if endTime < ev_StartTime event
              then Inl (''invalid end_time: cannot be before start_time ('' @ go_quote endTime @ '' < ''
                     @ go_quote (ev_StartTime event) @ '')'')
              else Inr endTime))"

definition handleEndEvent :: "Request \<Rightarrow> string \<Rightarrow> end_body \<Rightarrow> (world, eventResponse reply) state" where
  "handleEndEvent r eventID body = do {
     g \<leftarrow> GetEventByEventID eventID;
     (case g of
        Inl e \<Rightarrow> ret (if e = ErrNoRows then Fail 404 ''event not found''
                   else Fail 500 ''internal server error'')
      | Inr event \<Rightarrow>
          if ns_present (ev_EndTime event) then ret (Reply 200 (toEventResponse event))
          else do {
            now \<leftarrow> now_RFC3339;
            (case end_time_of now event body of
               Inl msg \<Rightarrow> ret (Fail 400 msg)
             | Inr endTime \<Rightarrow> do {
                 modifiedAt \<leftarrow> now_RFC3339;
                 u \<leftarrow> UpdateEventEndTime (Some endTime) (nullString modifiedAt)
                   (nullString (us_Username (rq_User r))) eventID;
                 (case u of
                    Inl e \<Rightarrow> ret (Fail 500 ''internal server error'')
                  | Inr _ \<Rightarrow> do {
                      auditLogAction r ''end_event'' ''events'' (marshalAuditJSON (event_json event))
                        (marshalAuditJSON (event_json (event\<lparr>ev_EndTime := Some endTime\<rparr>)));
                      ret (Reply 200 (toEventResponse (event\<lparr>ev_EndTime := Some endTime\<rparr>))) }) }) }) }"

section \<open>Notifications and deliveries\<close>

definition listEventNotificationsCore :: "string \<Rightarrow> (world, coreError + Notification list) state" where
  "listEventNotificationsCore eventID = do {
     e \<leftarrow> GetEventByEventID eventID;
     (case e of
        Inl err \<Rightarrow> ret (Inl (if err = ErrNoRows then (404, ''event not found'') else internal_error))
      | Inr _ \<Rightarrow> do {
          l \<leftarrow> ListNotificationsByEventID eventID;
          ret (case l of Inl _ \<Rightarrow> Inl internal_error | Inr ns \<Rightarrow> Inr ns) }) }"

definition handleListEventNotifications :: "string \<Rightarrow> (world, notificationResponse list reply) state" where
  "handleListEventNotifications eventID = do {
     x \<leftarrow> listEventNotificationsCore eventID;
     ret (case x of Inl e \<Rightarrow> writeCoreError e
        | Inr ns \<Rightarrow> (case those (map toNotificationResponse ns) of
            None \<Rightarrow> Fail 500 ''internal server error'' | Some rs \<Rightarrow> Reply 200 rs)) }"

definition handleGetNotification :: "string \<Rightarrow> (world, notificationResponse reply) state" where
  "handleGetNotification nid = do {
     n \<leftarrow> GetNotificationByNotificationID nid;
     ret (case n of
        Inl err \<Rightarrow> if err = ErrNoRows then Fail 404 ''notification not found''
                  else Fail 500 ''internal server error''
      | Inr notif \<Rightarrow> (case toNotificationResponse notif of
          None \<Rightarrow> Fail 500 ''internal server error'' | Some nr \<Rightarrow> Reply 200 nr)) }"

definition listNotificationDeliveriesCore :: "string \<Rightarrow> (world, coreError + Delivery list) state" where
  "listNotificationDeliveriesCore nid = do {
     n \<leftarrow> GetNotificationByNotificationID nid;
     (case n of
        Inl err \<Rightarrow> ret (Inl (if err = ErrNoRows then (404, ''notification not found'') else internal_error))
      | Inr _ \<Rightarrow> do {
          l \<leftarrow> ListDeliveriesByNotificationID nid;
          ret (case l of Inl _ \<Rightarrow> Inl internal_error | Inr ds \<Rightarrow> Inr ds) }) }"

definition handleListNotificationDeliveries :: "string \<Rightarrow> (world, deliveryResponse list reply) state" where
  "handleListNotificationDeliveries nid = do {
     x \<leftarrow> listNotificationDeliveriesCore nid;
     ret (case x of Inl e \<Rightarrow> writeCoreError e
        | Inr ds \<Rightarrow> (case those (map toDeliveryResponse ds) of
            None \<Rightarrow> Fail 500 ''internal server error'' | Some rs \<Rightarrow> Reply 200 rs)) }"

definition handleGetDelivery :: "string \<Rightarrow> (world, deliveryResponse reply) state" where
  "handleGetDelivery did = do {
     x \<leftarrow> GetDeliveryByDeliveryID did;
     ret (case x of
        Inl err \<Rightarrow> if err = ErrNoRows then Fail 404 ''delivery not found''
                  else Fail 500 ''internal server error''
      | Inr delivery \<Rightarrow> (case toDeliveryResponse delivery of
          None \<Rightarrow> Fail 500 ''internal server error'' | Some dr \<Rightarrow> Reply 200 dr)) }"

section \<open>Lemmas\<close>

lemma event_handlers_keep_db_ok [keeps]:
  "preserves (on_db db_ok) (handleCreateEvent s r body)"
  "preserves (on_db db_ok) (handleUpdateEvent s r eid upd)"
  "preserves (on_db db_ok) (handleEndEvent r eid ending)"
  unfolding handleCreateEvent_def handleUpdateEvent_def handleEndEvent_def start_time_or_now_def
  by (intro keeps)+

lemma reads_change_nothing [keeps]:
  "preserves (on_db J) (handleListEvents s get)" "preserves (on_db J) (handleGetEvent eid)"
  "preserves (on_db J) (handleListEventNotifications eid)" "preserves (on_db J) (handleGetNotification nid)"
  "preserves (on_db J) (handleListNotificationDeliveries nid)" "preserves (on_db J) (handleGetDelivery did)"
  unfolding handleListEvents_def listEventsCore_def handleGetEvent_def getEventCore_def
    handleListEventNotifications_def listEventNotificationsCore_def handleGetNotification_def
    handleListNotificationDeliveries_def listNotificationDeliveriesCore_def handleGetDelivery_def
  by (intro keeps)+

lemma list_params_ok:
  assumes "list_params s get = Inr p"
  shows "1 \<le> lp_Limit p \<and> lp_Limit p \<le> 200 \<and> 0 \<le> lp_Offset p
    \<and> lp_Status p \<in> {[], ''active'', ''ended''}
    \<and> (lp_Severity p = [] \<or> lp_Severity p \<in> set (sv_eventSeverities s))"
proof -
  have lim: "1 \<le> n \<and> n \<le> 200" if "parse_limit v = Inr n" for v n
    using that by (auto simp: parse_limit_def split: if_splits option.splits)
  have off: "0 \<le> n" if "parse_offset v = Inr n" for v n
    using that by (auto simp: parse_offset_def split: if_splits option.splits)
  have sev: "x = [] \<or> x \<in> set (sv_eventSeverities s)"
    if "canonical_severity (sv_eventSeverities s) v = Inr x" for v x
    using that by (auto simp: canonical_severity_def match_severity_def split: if_splits option.splits
        dest: find_Some_set)
  show ?thesis
    using assms unfolding list_params_def
    by (auto split: sum.splits if_splits dest: lim off sev)
qed


lemma FormatRFC3339_not_Nil [simp]: "FormatRFC3339 t \<noteq> []"
  by (simp add: FormatRFC3339_def fmt_civil_def Let_def split: prod.split)

lemma end_time_of_not_Nil: "end_time_of (FormatRFC3339 t) e body = Inr v \<Longrightarrow> v \<noteq> []"
  by (auto simp: end_time_of_def split: end_body.splits if_splits sum.splits
      dest!: parseTimeToRFC3339_normal)

text \<open>The event that is stored when a call succeeds, and what a later call finds.\<close>

lemma handleEndEvent_stores:
  assumes "w_faults w = []"
  shows "wp (handleEndEvent r eid body) (\<lambda>x w'. w_faults w' = [] \<and> (\<forall>resp. x = Reply 200 resp \<longrightarrow>
    (\<exists>e. find (\<lambda>e. ev_EventID e = eid) (events (w_db w')) = Some e \<and> ns_present (ev_EndTime e)
       \<and> ns_string (ev_EndTime e) = er_EndTime resp))) w"
proof (cases "find (\<lambda>e. ev_EventID e = eid) (events (w_db w))")
  case None
  with assms show ?thesis
    by (simp add: handleEndEvent_def GetEventByEventID_def wp_simps)
next
  case (Some e)
  have id: "ev_EventID e = eid" using find_Some_set [OF Some] by simp
  show ?thesis
    using assms Some id
    by (auto simp: handleEndEvent_def GetEventByEventID_def UpdateEventEndTime_def wp_simps
        auditLogAction_def InsertAuditLog_def find_update_where_key toEventResponse_def ns_present_def
        split: sum.split dest: end_time_of_not_Nil)
qed

text \<open>Ending an event is idempotent: after a successful call, any further call by
  anyone answers 200 with the same end time and leaves every table as it is.\<close>

theorem end_event_idempotent:
  assumes "run_state (handleEndEvent r eid body) w = (Reply 200 resp, w')" and "w_faults w = []"
  shows "\<exists>resp2 w''. run_state (handleEndEvent r2 eid body2) w' = (Reply 200 resp2, w'')
    \<and> er_EndTime resp2 = er_EndTime resp \<and> w_db w'' = w_db w'"
proof -
  obtain e where f: "w_faults w' = []"
    and e: "find (\<lambda>e. ev_EventID e = eid) (events (w_db w')) = Some e" "ns_present (ev_EndTime e)"
      "ns_string (ev_EndTime e) = er_EndTime resp"
    using wp_run [OF handleEndEvent_stores [OF assms(2)] assms(1)] by blast
  have "wp (handleEndEvent r2 eid body2)
    (\<lambda>x w''. x = Reply 200 (toEventResponse e) \<and> w_db w'' = w_db w') w'"
    using f e by (simp add: handleEndEvent_def GetEventByEventID_def wp_simps)
  with e(3) show ?thesis
    by (cases "run_state (handleEndEvent r2 eid body2) w'") (simp add: wp_def toEventResponse_def)
qed

text \<open>Ending an event without a time uses the current time and does not compare it with
  the start time: an event that starts in the future ends before it starts.\<close>

theorem end_event_before_start:
  assumes "w_faults w = []"
    and "find (\<lambda>e. ev_EventID e = eid) (events (w_db w)) = Some e" and "\<not> ns_present (ev_EndTime e)"
    and "FormatRFC3339 (unix_sec (w_now (advance_clock w))) < ev_StartTime e"
    and "run_state (handleEndEvent r eid NoBody) w = (x, w')"
  shows "\<exists>e'. find (\<lambda>e. ev_EventID e = eid) (events (w_db w')) = Some e'
    \<and> ns_string (ev_EndTime e') < ev_StartTime e' \<and> (\<exists>resp. x = Reply 200 resp)"
proof -
  let ?now = "FormatRFC3339 (unix_sec (w_now (advance_clock w)))"
  have id: "ev_EventID e = eid" using find_Some_set [OF assms(2)] by simp
  have "wp (handleEndEvent r eid NoBody) (\<lambda>x w'. (\<exists>e'. find (\<lambda>e. ev_EventID e = eid) (events (w_db w')) = Some e'
    \<and> ns_string (ev_EndTime e') < ev_StartTime e') \<and> (\<exists>resp. x = Reply 200 resp)) w"
    using assms(1-4) id
    by (simp add: handleEndEvent_def GetEventByEventID_def UpdateEventEndTime_def wp_simps end_time_of_def
        auditLogAction_def InsertAuditLog_def find_update_where_key)
  with assms(5) show ?thesis by (simp add: wp_def)
qed

end
