(* ===== verification/Publish.thy ===== *)
theory Publish
  imports Api_Events
begin

text \<open>
  The publish endpoint (\<open>handlePublishNotification\<close>, \<open>api/handlers.go\<close>): the checks in their order,
  the event that is found or created, its end time, the notification row with its JSON columns,
  and the job that is queued without blocking. The lemmas show that a refused request leaves the
  tables alone, that an accepted one is stored so that the dispatcher reads back exactly what was
  requested, and what the two late failures leave behind.
\<close>

definition validChannels :: "string \<Rightarrow> bool" where
  "validChannels c \<longleftrightarrow> c \<in> {''sms'', ''voice'', ''email''}"

text \<open>The class \<open>\s\<close> of RE2.\<close>

definition re_space :: "char \<Rightarrow> bool" where
  "re_space c \<longleftrightarrow> byte c = 32 \<or> byte c = 9 \<or> byte c = 10 \<or> byte c = 12 \<or> byte c = 13"

text \<open>\<open>^[^@\s]+@[^@\s]+\.[^@\s]+$\<close>: one at sign, and a dot inside the domain.\<close>

definition reEmail :: "string \<Rightarrow> bool" where
  "reEmail s \<longleftrightarrow> (\<forall>c \<in> set s. \<not> re_space c)
     \<and> (case cut_at CHR ''@'' s of None \<Rightarrow> False
        | Some (a, dmn) \<Rightarrow> a \<noteq> [] \<and> CHR ''@'' \<notin> set dmn \<and> CHR ''.'' \<in> set (butlast (tl dmn)))"

text \<open>\<open>^\+[1-9]\d{6,14}$\<close>\<close>

definition rePhone :: "string \<Rightarrow> bool" where
  "rePhone s \<longleftrightarrow> (case s of p # c # ds \<Rightarrow> p = CHR ''+'' \<and> is_digit c \<and> c \<noteq> CHR ''0''
       \<and> (\<forall>x \<in> set ds. is_digit x) \<and> 6 \<le> length ds \<and> length ds \<le> 14 | _ \<Rightarrow> False)"

record publishRequest =
  pr_EventID :: string
  pr_EventURL :: string
  pr_EventName :: string
  pr_EventDescription :: string
  pr_EventSeverity :: string
  pr_StartTime :: string
  pr_EndTime :: string
  pr_Groups :: "string list"
  pr_Destinations :: "Destination list"
  pr_Channels :: "string list"
  pr_Message :: string
  pr_EmailTemplate :: string
  pr_EmailVars :: any_map

record publishResponse =
  ps_NotificationID :: string
  ps_EventID :: string
  ps_Groups :: "string list"
  ps_Destinations :: "Destination list"
  ps_Channels :: "string list"
  ps_Message :: string
  ps_Status :: string

section \<open>Checks\<close>

definition check_channel :: "string \<Rightarrow> string option" where
  "check_channel ch = (if validChannels ch then None
     else Some (''unknown channel '' @ go_quote ch @ ''; valid values: sms, voice, email''))"

definition check_destination :: "nat \<Rightarrow> Destination \<Rightarrow> string option" where
  "check_destination i dest =
     (let at = ''destinations['' @ show_nat i @ '']: ''
      in if \<not> validChannels (ds_Channel dest) then
           Some (at @ ''unknown channel '' @ go_quote (ds_Channel dest) @ ''; valid values: sms, voice, email'')
         else if ds_Target dest = [] then Some (at @ ''target is required'')
         else if ds_Channel dest = ''email'' \<and> \<not> reEmail (ds_Target dest) then
           Some (at @ ''invalid email address'')
         else if (ds_Channel dest = ''sms'' \<or> ds_Channel dest = ''voice'') \<and> \<not> rePhone (ds_Target dest) then
           Some (at @ ''invalid phone number (E.164 format required, e.g. +12125551234)'')
         else None)"

fun first_error :: "string option list \<Rightarrow> string option" where
  "first_error [] = None"
| "first_error (e # es) = (case e of Some m \<Rightarrow> Some m | None \<Rightarrow> first_error es)"

definition has_email :: "publishRequest \<Rightarrow> bool" where
  "has_email req \<longleftrightarrow> ''email'' \<in> set (pr_Channels req)
     \<or> (\<exists>dest \<in> set (pr_Destinations req). ds_Channel dest = ''email'')"

definition check_publish :: "publishRequest \<Rightarrow> string option" where
  "check_publish req = first_error (
     [if pr_Groups req = [] \<and> pr_Destinations req = []
      then Some ''at least one group or destination is required'' else None,
      if pr_Groups req \<noteq> [] \<and> pr_Channels req = []
      then Some ''channels must be non-empty when groups are specified'' else None]
     @ map check_channel (pr_Channels req)
     @ map (\<lambda>(i, dest). check_destination i dest) (enumerate 0 (pr_Destinations req))
     @ [if pr_Message req = [] then Some ''message is required'' else None,
        if has_email req \<and> pr_EmailTemplate req = []
        then Some ''email_template is required when email channel is specified'' else None])"

section \<open>The handler\<close>

text \<open>The event: found, or created with the caller's start time.\<close>

definition find_or_create_event :: "Request \<Rightarrow> publishRequest \<Rightarrow> string \<Rightarrow> string
    \<Rightarrow> (world, coreError + Event) state" where
  "find_or_create_event r req eventID severity = do {
     g \<leftarrow> GetEventByEventID eventID;
     (case g of
        Inr event \<Rightarrow> ret (Inr event)
      | Inl err \<Rightarrow> if err \<noteq> ErrNoRows then ret (Inl internal_error)
          else do {
            st \<leftarrow> start_time_or_now (pr_StartTime req);
            (case st of
               Inl e \<Rightarrow> ret (Inl (400, ''invalid start_time: '' @ e))
             | Inr startTime \<Rightarrow> do {
                 createdAt \<leftarrow> now_RFC3339;
                 ins \<leftarrow> InsertEvent eventID (nullString (pr_EventURL req)) (nullString (pr_EventName req))
                   (nullString (pr_EventDescription req)) (nullString severity) startTime None
                   (nullString (us_Username (rq_User r))) createdAt;
                 (case ins of
                    Inl e \<Rightarrow> ret (Inl internal_error)
                  | Inr event \<Rightarrow> do {
                      auditLogAction r ''create_event'' ''events'' [] (marshalAuditJSON (event_json event));
                      ret (Inr event) }) }) }) }"

text \<open>The end time, when the request has one and the event has none.\<close>

definition publish_end_time :: "Request \<Rightarrow> publishRequest \<Rightarrow> Event \<Rightarrow> (world, coreError + Event) state" where
  "publish_end_time r req event =
     (if pr_EndTime req = [] \<or> ns_present (ev_EndTime event) then ret (Inr event)
      else (case parseTimeToRFC3339 (pr_EndTime req) of
          Inl e \<Rightarrow> ret (Inl (400, ''invalid end_time: '' @ e))
        | Inr endTime \<Rightarrow>
            if endTime < ev_StartTime event then
              ret (Inl (400, ''invalid end_time: cannot be before start_time ('' @ go_quote endTime
                @ '' < '' @ go_quote (ev_StartTime event) @ '')''))
            else do {
              modifiedAt \<leftarrow> now_RFC3339;
              u \<leftarrow> UpdateEventEndTime (nullString endTime) (nullString modifiedAt)
                (nullString (us_Username (rq_User r))) (ev_EventID event);
              (case u of
                 Inl e \<Rightarrow> ret (Inl internal_error)
               | Inr _ \<Rightarrow> do {
                   auditLogAction r ''end_event'' ''events'' (marshalAuditJSON (event_json event))
                     (marshalAuditJSON (event_json (event\<lparr>ev_EndTime := Some endTime\<rparr>)));
                   ret (Inr (event\<lparr>ev_EndTime := Some endTime\<rparr>)) }) }))"

definition column :: "('a list \<Rightarrow> string) \<Rightarrow> 'a list \<Rightarrow> null_string" where
  "column f xs = (if xs = [] then None else Some (f xs))"

definition store_notification :: "Request \<Rightarrow> publishRequest \<Rightarrow> string
    \<Rightarrow> (world, Notification db_result) state" where
  "store_notification r req eventID = do {
     nid \<leftarrow> api_newUUIDV7;
     createdAt \<leftarrow> now_RFC3339;
     InsertNotification nid eventID (column marshal_strings (pr_Groups req))
       (column marshal_destinations (pr_Destinations req)) (column marshal_strings (pr_Channels req))
       (pr_Message req) 0 (nullString (pr_EmailTemplate req)) (column marshal_map (pr_EmailVars req))
       createdAt (nullString (us_Username (rq_User r))) ''pending'' }"

text \<open>\<open>select { case s.queue <- job: default: ... }\<close>\<close>

definition try_enqueue :: "string \<Rightarrow> (world, bool) state" where
  "try_enqueue nid = do {
     w \<leftarrow> State_Monad.get;
     if length (w_queue w) < w_queue_cap w
     then do { modify (\<lambda>w. w\<lparr>w_queue := w_queue w @ [nid]\<rparr>); ret True }
     else ret False }"

text \<open>The part of the handler after the event is settled.\<close>

definition publish_event :: "Request \<Rightarrow> publishRequest \<Rightarrow> Event \<Rightarrow> (world, publishResponse reply) state" where
  "publish_event r req event = do {
     n \<leftarrow> store_notification r req (ev_EventID event);
     (case n of Inl e \<Rightarrow> ret (Fail 500 ''internal server error'')
      | Inr notif \<Rightarrow> do {
          auditLogAction r ''create_notification'' ''notifications'' []
            (marshalAuditJSON (notification_json notif));
          queued \<leftarrow> try_enqueue (nt_NotificationID notif);
          ret (if queued then Reply 202 \<lparr>ps_NotificationID = nt_NotificationID notif,
                 ps_EventID = ev_EventID event, ps_Groups = pr_Groups req,
                 ps_Destinations = pr_Destinations req, ps_Channels = pr_Channels req,
                 ps_Message = pr_Message req, ps_Status = nt_Status notif\<rparr>
               else Fail 503 ''server busy, try again later'') }) }"

definition publish_checked :: "Request \<Rightarrow> publishRequest \<Rightarrow> string \<Rightarrow> string
    \<Rightarrow> (world, publishResponse reply) state" where
  "publish_checked r req eventID severity = do {
     e1 \<leftarrow> find_or_create_event r req eventID severity;
     (case e1 of Inl e \<Rightarrow> ret (writeCoreError e)
      | Inr event1 \<Rightarrow> do {
          e2 \<leftarrow> publish_end_time r req event1;
          (case e2 of Inl e \<Rightarrow> ret (writeCoreError e) | Inr event \<Rightarrow> publish_event r req event) }) }"

definition handlePublishNotification :: "Server \<Rightarrow> Request \<Rightarrow> publishRequest option
    \<Rightarrow> (world, publishResponse reply) state" where
  "handlePublishNotification s r body = (case body of None \<Rightarrow> ret (Fail 400 ''invalid JSON body'')
     | Some req \<Rightarrow> do {
         eventID \<leftarrow> (if pr_EventID req = [] then api_newUUIDV7 else ret (pr_EventID req));
         (case check_publish req of Some msg \<Rightarrow> ret (Fail 400 msg)
          | None \<Rightarrow> (case canonical_severity (sv_eventSeverities s) (pr_EventSeverity req) of
              Inl msg \<Rightarrow> ret (Fail 400 msg)
            | Inr severity \<Rightarrow> publish_checked r req eventID severity)) })"

section \<open>What a valid request is\<close>

lemma first_error_None: "first_error es = None \<longleftrightarrow> (\<forall>e \<in> set es. e = None)"
  by (induction es) (auto split: option.split)

definition valid_destination :: "Destination \<Rightarrow> bool" where
  "valid_destination dest \<longleftrightarrow>
     (ds_Channel dest = ''email'' \<and> reEmail (ds_Target dest))
   \<or> (ds_Channel dest \<in> {''sms'', ''voice''} \<and> rePhone (ds_Target dest))"

lemma check_destination_None: "check_destination i dest = None \<longleftrightarrow> valid_destination dest"
proof -
  have "rePhone t \<Longrightarrow> t \<noteq> []" "reEmail t \<Longrightarrow> t \<noteq> []" for t
    by (auto simp: rePhone_def reEmail_def cut_at_def)
  then show ?thesis
    by (auto simp: check_destination_def Let_def validChannels_def valid_destination_def)
qed

lemma ball_enumerate: "(\<forall>x \<in> set (enumerate k xs). P (snd x)) \<longleftrightarrow> (\<forall>y \<in> set xs. P y)"
  by (induction xs arbitrary: k) auto

text \<open>The checks accept a request exactly when it names a group or a destination,
  has channels if it has groups, uses only the three channels, every destination is a well-formed
  address or E.164 number, there is a message, and a template if email is involved.\<close>

theorem check_publish_accepts:
  "check_publish req = None \<longleftrightarrow>
     (pr_Groups req \<noteq> [] \<or> pr_Destinations req \<noteq> [])
   \<and> (pr_Groups req \<noteq> [] \<longrightarrow> pr_Channels req \<noteq> [])
   \<and> set (pr_Channels req) \<subseteq> {''sms'', ''voice'', ''email''}
   \<and> (\<forall>dest \<in> set (pr_Destinations req). valid_destination dest)
   \<and> pr_Message req \<noteq> [] \<and> (has_email req \<longrightarrow> pr_EmailTemplate req \<noteq> [])"
proof -
  have "(\<forall>x \<in> set (enumerate 0 (pr_Destinations req)). check_destination (fst x) (snd x) = None)
      \<longleftrightarrow> (\<forall>dest \<in> set (pr_Destinations req). valid_destination dest)"
    by (simp add: check_destination_None ball_enumerate)
  moreover have "(\<forall>ch \<in> set (pr_Channels req). check_channel ch = None)
      \<longleftrightarrow> set (pr_Channels req) \<subseteq> {''sms'', ''voice'', ''email''}"
    by (auto simp: check_channel_def validChannels_def)
  ultimately show ?thesis
    unfolding check_publish_def first_error_None
    by (simp add: ball_Un case_prod_beta)
qed

text \<open>The email expression, as a statement about the text.\<close>

lemma reEmail_iff:
  "reEmail s \<longleftrightarrow> (\<exists>a b c. s = a @ ''@'' @ b @ ''.'' @ c \<and> a \<noteq> [] \<and> b \<noteq> [] \<and> c \<noteq> []
     \<and> (\<forall>x \<in> set (a @ b @ c). x \<noteq> CHR ''@'' \<and> \<not> re_space x))"
proof
  assume h: "reEmail s"
  then obtain a dmn where cut: "cut_at CHR ''@'' s = Some (a, dmn)" and a: "a \<noteq> []"
    and d: "CHR ''@'' \<notin> set dmn" "CHR ''.'' \<in> set (butlast (tl dmn))" and ws: "\<forall>c \<in> set s. \<not> re_space c"
    by (auto simp: reEmail_def split: option.splits)
  obtain x xs where dmn: "dmn = x # xs" using d(2) by (cases dmn) auto
  obtain ys y where xs: "xs = ys @ [y]" using d(2) dmn by (cases xs rule: rev_cases) auto
  have "CHR ''.'' \<in> set ys" using d(2) dmn xs by simp
  then obtain p q where ys: "ys = p @ CHR ''.'' # q" by (meson split_list)
  have s: "s = a @ ''@'' @ (x # p) @ ''.'' @ (q @ [y])" and an: "CHR ''@'' \<notin> set a"
    using cut dmn xs ys by (auto simp: cut_at_Some)
  have "\<forall>z \<in> set (a @ (x # p) @ (q @ [y])). z \<noteq> CHR ''@'' \<and> \<not> re_space z"
    using ws an d(1) unfolding s dmn xs ys by auto
  then obtain b c where "s = a @ ''@'' @ b @ ''.'' @ c" "b \<noteq> []" "c \<noteq> []"
    "\<forall>z \<in> set (a @ b @ c). z \<noteq> CHR ''@'' \<and> \<not> re_space z"
    using that [of "x # p" "q @ [y]"] s by simp
  with a show "\<exists>a b c. s = a @ ''@'' @ b @ ''.'' @ c \<and> a \<noteq> [] \<and> b \<noteq> [] \<and> c \<noteq> []
     \<and> (\<forall>x \<in> set (a @ b @ c). x \<noteq> CHR ''@'' \<and> \<not> re_space x)"
    by blast
next
  assume "\<exists>a b c. s = a @ ''@'' @ b @ ''.'' @ c \<and> a \<noteq> [] \<and> b \<noteq> [] \<and> c \<noteq> []
     \<and> (\<forall>x \<in> set (a @ b @ c). x \<noteq> CHR ''@'' \<and> \<not> re_space x)"
  then obtain a b c where s: "s = a @ ''@'' @ b @ ''.'' @ c" and ne: "a \<noteq> []" "b \<noteq> []" "c \<noteq> []"
    and ok: "\<forall>x \<in> set (a @ b @ c). x \<noteq> CHR ''@'' \<and> \<not> re_space x"
    by (elim exE conjE) (rule that)
  have "cut_at CHR ''@'' s = Some (a, b @ ''.'' @ c)" using s ok by (auto simp: cut_at_Some)
  moreover have "CHR ''.'' \<in> set (butlast (tl (b @ ''.'' @ c)))"
    using ne by (cases b) (auto simp: butlast_append)
  moreover have "\<not> re_space CHR ''@''" "\<not> re_space CHR ''.''" by (auto simp: re_space_def)
  ultimately show "reEmail s" using s ok ne by (auto simp: reEmail_def)
qed

section \<open>What an accepted request leaves behind\<close>

lemma publish_keeps_db_ok [keeps]:
  "preserves (on_db db_ok) (handlePublishNotification s r body)"
  unfolding handlePublishNotification_def publish_checked_def publish_event_def find_or_create_event_def
    publish_end_time_def store_notification_def try_enqueue_def start_time_or_now_def
  by (intro keeps) (auto intro!: preserves_modify)

text \<open>The columns that hold a request, as the dispatcher and the API read them back.\<close>

lemma column_strings: "json_column unmarshal_strings (column marshal_strings xs) = Some xs"
proof -
  have "marshal_strings xs \<noteq> []" by (simp add: marshal_strings_def)
  then show ?thesis
    by (simp add: json_column_def column_def ns_present_def unmarshal_marshal_strings)
qed

lemma column_destinations:
  "json_column unmarshal_destinations (column marshal_destinations xs) = Some xs"
proof -
  have "marshal_destinations xs \<noteq> []" by (simp add: marshal_destinations_def)
  then show ?thesis
    by (simp add: json_column_def column_def ns_present_def unmarshal_marshal_destinations)
qed

text \<open>A row that stores a request, still to be dispatched.\<close>

definition stores_request :: "publishRequest \<Rightarrow> Notification \<Rightarrow> bool" where
  "stores_request req n \<longleftrightarrow>
     json_column unmarshal_strings (nt_Groups n) = Some (pr_Groups req)
   \<and> json_column unmarshal_destinations (nt_Destinations n) = Some (pr_Destinations req)
   \<and> json_column unmarshal_strings (nt_Channels n) = Some (pr_Channels req)
   \<and> nt_Message n = pr_Message req \<and> nt_Status n = ''pending'' \<and> nt_MemberCount n = 0
   \<and> nt_EmailTemplate n = nullString (pr_EmailTemplate req)"

lemma wp_try_enqueue:
  "wp (try_enqueue nid) Q w = (if length (w_queue w) < w_queue_cap w
     then Q True (w\<lparr>w_queue := w_queue w @ [nid]\<rparr>) else Q False w)"
  by (simp add: try_enqueue_def wp_simps)

text \<open>The programs before the notification is stored touch neither the queue nor the notifications.\<close>

definition unpublished :: "world \<Rightarrow> world \<Rightarrow> bool" where
  "unpublished w0 w \<longleftrightarrow> w_queue w = w_queue w0 \<and> w_queue_cap w = w_queue_cap w0
     \<and> notifications (w_db w) = notifications (w_db w0)"

lemma unpublished_simps [simp]:
  "unpublished w w" "unpublished w0 (sent w) = unpublished w0 w"
  "unpublished w0 (advance_clock w) = unpublished w0 w" "unpublished w0 (after_uuid w) = unpublished w0 w"
  by (simp_all add: unpublished_def)

lemma event_statements_keep_unpublished [keeps]:
  "preserves (unpublished w0) now_RFC3339"
  "preserves (unpublished w0) (GetEventByEventID eid)"
  "preserves (unpublished w0) (InsertEvent eid url name desc sev start ending by at)"
  "preserves (unpublished w0) (UpdateEventEndTime ending at' by eid)"
  "preserves (unpublished w0) (InsertAuditLog at user ip action tab old new)"
  unfolding GetEventByEventID_def InsertEvent_def UpdateEventEndTime_def InsertAuditLog_def Let_def
  by (auto intro!: preservesI simp: wp_simps unpublished_def split: option.splits)

lemma event_steps_keep_unpublished:
  "preserves (unpublished w0) (find_or_create_event r req eid sev)"
  "preserves (unpublished w0) (publish_end_time r req e)"
  unfolding find_or_create_event_def publish_end_time_def start_time_or_now_def auditLogAction_def
  by (intro keeps)+

text \<open>What a reply says of the world after it, given the world before.\<close>

definition publish_outcome :: "publishRequest \<Rightarrow> world \<Rightarrow> publishResponse reply \<Rightarrow> world \<Rightarrow> bool" where
  "publish_outcome req w x w' \<longleftrightarrow> w_queue_cap w' = w_queue_cap w \<and> (case x of
     Reply code resp \<Rightarrow> code = 202 \<and> w_queue w' = w_queue w @ [ps_NotificationID resp]
       \<and> length (w_queue w') \<le> w_queue_cap w
       \<and> (\<exists>n. find (\<lambda>n. nt_NotificationID n = ps_NotificationID resp) (notifications (w_db w')) = Some n
            \<and> notifications (w_db w') = notifications (w_db w) @ [n]
            \<and> stores_request req n \<and> nt_EventID n = ps_EventID resp
            \<and> nt_EventID n \<in> ev_EventID ` set (events (w_db w')))
   | Fail code msg \<Rightarrow> w_queue w' = w_queue w
       \<and> (code \<noteq> 503 \<longrightarrow> notifications (w_db w') = notifications (w_db w))
       \<and> (code = 503 \<longrightarrow> w_queue_cap w \<le> length (w_queue w)
            \<and> (\<exists>n. notifications (w_db w') = notifications (w_db w) @ [n] \<and> stores_request req n)))"

lemma publish_event_outcome:
  assumes "unpublished w0 w"
  shows "wp (publish_event r req event) (publish_outcome req w0) w"
proof -
  have find: "find (\<lambda>x. nt_NotificationID x = nid) ns = None" if "nid \<notin> nt_NotificationID ` set ns" for nid ns
    using that by (auto simp: find_None)
  show ?thesis
    using assms
    apply (simp add: publish_event_def store_notification_def InsertNotification_def wp_simps Let_def)
    apply (intro conjI impI wp_audit_any)
      apply (auto simp: wp_simps wp_try_enqueue audited_def find_append find publish_outcome_def
        stores_request_def column_strings column_destinations unpublished_def)
    done
qed

lemma failed_outcome:
  "unpublished w0 w \<Longrightarrow> code \<noteq> 503 \<Longrightarrow> publish_outcome req w0 (Fail code msg) w"
  by (simp add: publish_outcome_def unpublished_def)

lemma event_errors_not_503:
  "wp (find_or_create_event r req eid sev) (\<lambda>x _. \<forall>e. x = Inl e \<longrightarrow> fst e \<noteq> 503) w"
  "wp (publish_end_time r req ev) (\<lambda>x _. \<forall>e. x = Inl e \<longrightarrow> fst e \<noteq> 503) w"
  by (simp_all add: find_or_create_event_def publish_end_time_def start_time_or_now_def wp_simps
      internal_error_def GetEventByEventID_def InsertEvent_def UpdateEventEndTime_def Let_def
      auditLogAction_def InsertAuditLog_def split: option.split sum.split)

lemma publish_checked_outcome:
  assumes "unpublished w0 w"
  shows "wp (publish_checked r req eventID severity) (publish_outcome req w0) w"
proof -
  have step2: "wp (case e1 of Inl e \<Rightarrow> ret (writeCoreError e)
      | Inr event1 \<Rightarrow> do {
          e2 \<leftarrow> publish_end_time r req event1;
          (case e2 of Inl e \<Rightarrow> ret (writeCoreError e) | Inr event \<Rightarrow> publish_event r req event) })
      (publish_outcome req w0) w1"
    if u: "unpublished w0 w1" and e1: "\<forall>e. e1 = Inl e \<longrightarrow> fst e \<noteq> 503" for e1 w1
  proof (cases e1)
    case (Inl e)
    with u e1 show ?thesis by (simp add: wp_simps writeCoreError_def failed_outcome)
  next
    case (Inr event1)
    have "wp (publish_end_time r req event1)
      (\<lambda>x w2. unpublished w0 w2 \<and> (\<forall>e. x = Inl e \<longrightarrow> fst e \<noteq> 503)) w1"
      unfolding wp_conj using preserves_wp [OF event_steps_keep_unpublished(2) u] event_errors_not_503(2) ..
    then show ?thesis
      unfolding Inr sum.case wp_bind
      by (rule wp_mono) (auto simp: wp_simps writeCoreError_def failed_outcome publish_event_outcome split: sum.split)
  qed
  have "wp (find_or_create_event r req eventID severity)
    (\<lambda>x w1. unpublished w0 w1 \<and> (\<forall>e. x = Inl e \<longrightarrow> fst e \<noteq> 503)) w"
    unfolding wp_conj using preserves_wp [OF event_steps_keep_unpublished(1) assms] event_errors_not_503(1) ..
  then show ?thesis unfolding publish_checked_def wp_bind by (rule wp_mono) (simp add: step2)
qed

lemma handlePublish_outcome:
  "wp (handlePublishNotification s r (Some req)) (publish_outcome req w) w"
proof -
  have tail: "wp (case check_publish req of Some msg \<Rightarrow> ret (Fail 400 msg)
      | None \<Rightarrow> (case canonical_severity (sv_eventSeverities s) (pr_EventSeverity req) of
          Inl msg \<Rightarrow> ret (Fail 400 msg)
        | Inr severity \<Rightarrow> publish_checked r req eid severity)) (publish_outcome req w) w1"
    if "unpublished w w1" for eid w1
    using publish_checked_outcome [OF that] that
    by (simp add: wp_simps failed_outcome split: option.split sum.split)
  have "unpublished w w" "unpublished w (after_uuid w)" by simp_all
  with tail show ?thesis by (simp add: handlePublishNotification_def wp_bind wp_ret wp_uuidV7)
qed


text \<open>C11 (error): a refused request queues nothing and stores no notification, with one exception: 503
  is answered exactly because the queue is full, and then a pending notification has been stored
  that no job refers to.\<close>

theorem publish_refused:
  assumes "run_state (handlePublishNotification s r (Some req)) w = (Fail code msg, w')"
  shows "w_queue w' = w_queue w
    \<and> (code \<noteq> 503 \<longrightarrow> notifications (w_db w') = notifications (w_db w))
    \<and> (code = 503 \<longrightarrow> w_queue_cap w \<le> length (w_queue w)
         \<and> (\<exists>n. notifications (w_db w') = notifications (w_db w) @ [n] \<and> stores_request req n))"
  using wp_run [OF handlePublish_outcome assms] by (simp add: publish_outcome_def)

end
