(* ===== verification/Samples.thy ===== *)
theory Samples
  imports Dispatcher_Facts Dispatcher_Retry Poller Sweeper Publish
begin

text \<open>
  A small world on which the theorems of the components are applied: one open event, one pending
  notification for the group \<open>ops\<close> by SMS, two members of whom only the first has subscribed, a
  provider that fails on the first call, and one delivery in flight.
\<close>

definition sample_event :: Event where
  "sample_event = \<lparr>ev_ID = 1, ev_EventID = ''E1'', ev_EventUrl = None, ev_EventName = Some ''disk'',
     ev_EventDescription = None, ev_EventSeverity = Some ''High'',
     ev_StartTime = ''2024-06-01T11:00:00Z'', ev_EndTime = None, ev_CreatedBy = Some ''carol'',
     ev_CreatedAt = ''2024-06-01T11:00:00Z'', ev_ModifiedBy = None, ev_ModifiedAt = None,
     ev_AutoClosed = 0\<rparr>"

definition sample_notification :: Notification where
  "sample_notification = \<lparr>nt_ID = 1, nt_NotificationID = ''N1'', nt_EventID = ''E1'',
     nt_Groups = Some (marshal_strings [''ops'']), nt_Destinations = None,
     nt_Channels = Some (marshal_strings [''sms'']), nt_Message = ''disk full'',
     nt_Status = ''pending'', nt_ErrorMessage = None, nt_MemberCount = 0, nt_EmailTemplate = None,
     nt_EmailVars = None, nt_CreatedAt = ''2024-06-01T11:30:00Z'', nt_CreatedBy = Some ''carol''\<rparr>"

definition sample_member :: "string \<Rightarrow> string \<Rightarrow> GroupMember" where
  "sample_member u phone = \<lparr>gm_GroupName = ''ops'', gm_Username = u, gm_DisplayName = None,
     gm_Email = None, gm_Mobile = Some phone, gm_Work = None, gm_SyncedAt = ''2024-06-01T00:00:00Z''\<rparr>"

definition sample_delivery :: Delivery where
  "sample_delivery = \<lparr>dl_ID = 1, dl_DeliveryID = ''D1'', dl_NotificationID = ''N1'',
     dl_Group = Some ''ops'', dl_Member = Some ''alice'', dl_Destination = None, dl_Channel = ''sms'',
     dl_Status = ''queued'', dl_EmailTemplate = None, dl_EmailVars = None, dl_Attempt = 1,
     dl_PollAttempts = 0, dl_ErrorMessage = None, dl_SentAt = ''2024-06-01T11:31:00Z'',
     dl_CompletedAt = None, dl_TwilioSid = Some ''SM1''\<rparr>"

definition sample_db :: database where
  "sample_db = empty_db\<lparr>events := [sample_event], notifications := [sample_notification],
     group_members := [sample_member ''alice'' ''+12125550101'', sample_member ''bob'' ''+12125550102''],
     sms_subscriptions := [\<lparr>sb_Username = ''alice'', sb_Phone = ''+12125550101'',
       sb_SubscribedAt = ''2024-01-01T00:00:00Z''\<rparr>]\<rparr>"

definition sample_world :: world where
  "sample_world = world0\<lparr>w_db := sample_db, w_now := 1717243200000000000, w_queue_cap := 2\<rparr>"

text \<open>The same world with the delivery in flight.\<close>

definition polled_world :: world where
  "polled_world = sample_world\<lparr>w_db := sample_db\<lparr>deliveries := [sample_delivery]\<rparr>\<rparr>"

definition done_world :: world where
  "done_world = sample_world\<lparr>w_db := sample_db\<lparr>deliveries :=
     [sample_delivery\<lparr>dl_Status := ''delivered''\<rparr>]\<rparr>\<rparr>"

text \<open>The same world with an event that has not started.\<close>

definition tomorrow :: world where
  "tomorrow = sample_world\<lparr>w_db := sample_db\<lparr>events :=
     [sample_event\<lparr>ev_StartTime := ''2024-06-02T00:00:00Z''\<rparr>]\<rparr>\<rparr>"

definition sample_engine :: template_engine where
  "sample_engine = \<lparr>te_parse = (\<lambda>_ _. None), te_execute = (\<lambda>_ src _. Inr src)\<rparr>"

definition sample_provider :: "nat \<Rightarrow> string \<Rightarrow> string \<Rightarrow> string \<times> string \<times> string option" where
  "sample_provider n recipient msg =
     (if n = 0 then ([], [], Some ''busy'') else (''SM1'', ''queued'', None))"

definition sample_dispatcher :: Dispatcher where
  "sample_dispatcher = \<lparr>dp_RetryLimit = 3, dp_RetryDelay = 15000000000,
     dp_sms = Some sample_provider,
     dp_voice = None, dp_email = None, dp_engine = sample_engine, dp_json_error = id, dp_order = rev\<rparr>"

lemma sample_order: "mset (dp_order sample_dispatcher ts) = mset ts"
  by (simp add: sample_dispatcher_def)

text \<open>The columns of the sample, as the dispatcher reads them.\<close>

lemma sample_columns [simp]:
  "parse_column unmarshal_strings (nt_Groups sample_notification) = Some [''ops'']"
  "parse_column unmarshal_strings (nt_Channels sample_notification) = Some [''sms'']"
  "parse_column unmarshal_destinations (nt_Destinations sample_notification) = Some []"
proof -
  have "marshal_strings xs \<noteq> []" for xs by (simp add: marshal_strings_def)
  then show "parse_column unmarshal_strings (nt_Groups sample_notification) = Some [''ops'']"
    "parse_column unmarshal_strings (nt_Channels sample_notification) = Some [''sms'']"
    "parse_column unmarshal_destinations (nt_Destinations sample_notification) = Some []"
    by (simp_all add: parse_column_def sample_notification_def ns_present_def unmarshal_marshal_strings)
qed

lemma sample_notification_fields [simp]:
  "nt_NotificationID sample_notification = ''N1''" "nt_EventID sample_notification = ''E1''"
  "nt_Message sample_notification = ''disk full''"
  by (simp_all add: sample_notification_def)

lemmas sample_defs = sample_world_def world0_def sample_db_def empty_db_def sample_dispatcher_def
  sample_member_def

text \<open>The job of the sample: the first call fails, the second succeeds; only alice is written to.\<close>

lemma sample_job:
  "wp (processJob sample_dispatcher ''N1'')
     (\<lambda>_ w'. w_outbox w' = replicate 2 (SmsTo ''+12125550101'' ''disk full'')) sample_world"
  by (simp add: processJob_def process_loaded_def dispatch_parsed_def wp_simps
    GetNotificationByNotificationID_def sample_defs setNotificationStatus_def UpdateNotificationStatus_def
    ListGroupMembers_def member_tasks_def GetSMSSubscription_def withheld_member_def insert_delivery_row_def
    InsertDelivery_def dispatchSMS_def dispatch_with_retry_def sms_send_def finish_job_def
    UpdateNotificationMemberCount_def ns_present_def Let_def order_by_def numeral_2_eq_2 numeral_3_eq_3
    EqualFold_def ToLower_def UpdateDeliveryError_def update_deliveries_def sample_provider_def)

section \<open>Evaluating a program\<close>

lemma wp_snd: "wp m (\<lambda>_. P) w \<Longrightarrow> P (snd (run_state m w))"
  by (simp add: wp_def)

lemma run_unit: "run_state m w = ((), snd (run_state m w))"
  by (rule prod_eqI) simp_all

lemma run_result: "wp m (\<lambda>a _. a = x) w \<Longrightarrow> run_state m w = (x, snd (run_state m w))"
  by (rule prod_eqI) (simp_all add: wp_def)

definition sample_after :: world where
  "sample_after = snd (run_state (processJob sample_dispatcher ''N1'') sample_world)"

lemma sample_run: "run_state (processJob sample_dispatcher ''N1'') sample_world = ((), sample_after)"
  unfolding sample_after_def by (rule run_unit)

lemma sample_outbox: "w_outbox sample_after = replicate 2 (SmsTo ''+12125550101'' ''disk full'')"
  unfolding sample_after_def by (rule wp_snd [OF sample_job])

lemma sample_found:
  "find (\<lambda>n. nt_NotificationID n = ''N1'') (notifications (w_db sample_world)) = Some sample_notification"
  by (simp add: sample_defs)

lemma sample_db_ok: "db_ok sample_db"
  by (simp add: db_ok_def unique_defs sample_defs member_key_def sample_event_def)

section \<open>The dispatcher\<close>



theorem sms_only_with_consent_witness:
  "w_outbox sample_after = replicate 2 (SmsTo ''+12125550101'' ''disk full'')
   \<and> consented sample_db sample_notification (requested_groups sample_notification)
       (requested_destinations sample_notification) ''+12125550101'' ''disk full''"
  using sms_only_with_consent [OF sample_order sample_run] sample_outbox sample_found
  by (auto simp: sample_world_def world0_def)

theorem processJob_status_witness:
  "\<exists>n. find (\<lambda>n. nt_NotificationID n = ''N1'') (notifications (w_db sample_after)) = Some n
     \<and> nt_MemberCount n = 2 \<and> nt_Status n = ''completed''"
proof -
  have "members_of (w_db sample_world) ''ops''
      = [sample_member ''alice'' ''+12125550101'', sample_member ''bob'' ''+12125550102'']"
    by (simp add: members_of_def sample_defs)
  moreover have "w_faults sample_world = []" by (simp add: sample_defs)
  ultimately show ?thesis
    using processJob_status [OF sample_order _ sample_found sample_columns sample_run]
    by (force split: if_splits)
qed

section \<open>One delivery with retries\<close>

abbreviation alice :: GroupMember where
  "alice \<equiv> sample_member ''alice'' ''+12125550101''"

definition sample_sms :: "Dispatcher \<Rightarrow> world" where
  "sample_sms d = snd (run_state (dispatchSMS d sample_notification ''ops'' alice) sample_world)"

lemma sample_sms_run:
  "run_state (dispatchSMS d sample_notification ''ops'' alice) sample_world = ((), sample_sms d)"
  unfolding sample_sms_def by (rule run_unit)

lemma sample_notified:
  "nt_NotificationID sample_notification \<in> nt_NotificationID ` set (notifications (w_db sample_world))"
  by (simp add: sample_defs)


theorem retry_bounds_witness:
  "\<exists>n. n \<le> 3 \<and> w_outbox (sample_sms sample_dispatcher) = replicate n (SmsTo ''+12125550101'' ''disk full'')"
proof -
  have a: "dp_sms sample_dispatcher = Some sample_provider"
    by (simp add: sample_defs)
  from retry_bounds [OF a sample_sms_run] show ?thesis
    by (auto simp: sample_defs)
qed

theorem no_attempt_is_recorded_without_error_witness:
  "w_outbox (sample_sms (sample_dispatcher\<lparr>dp_RetryLimit := 0\<rparr>)) = []
   \<and> map dl_Status (deliveries (w_db (sample_sms (sample_dispatcher\<lparr>dp_RetryLimit := 0\<rparr>)))) = [[]]"
proof -
  have a: "dp_RetryLimit (sample_dispatcher\<lparr>dp_RetryLimit := 0\<rparr>) \<le> 0" and b: "w_faults sample_world = []"
    by (simp_all add: sample_defs)
  from no_attempt_is_recorded_without_error [OF a b sample_notified sample_sms_run] show ?thesis
    by (auto simp: sample_defs)
qed

section \<open>The poller\<close>

definition sample_body :: "string \<Rightarrow> string" where
  "sample_body status = encode (JObj [(''sid'', JStr ''SM1''), (''status'', JStr status)])"

definition sample_poller :: "string \<Rightarrow> Poller" where
  "sample_poller status = \<lparr>pl_AccountSID = ''AC1'', pl_PollAttemptLimit = 3,
     pl_baseURL = ''https://api.twilio.com'', pl_get = (\<lambda>_. Inr (200, sample_body status)),
     pl_json_error = id\<rparr>"

lemma sample_answer:
  "twilioGet (pl_get (sample_poller status)) url = Inr (sample_body status)"
  "unmarshal_status (sample_body status)
     = Some \<lparr>tr_Sid = [], tr_Status = status, tr_ErrorCode = None, tr_ErrorMessage = []\<rparr>"
proof -
  have "json_parse (sample_body status) = Some (JObj [(''sid'', JStr ''SM1''), (''status'', JStr status)])"
    unfolding sample_body_def by (rule json_parse_encode) simp
  then show "unmarshal_status (sample_body status)
     = Some \<lparr>tr_Sid = [], tr_Status = status, tr_ErrorCode = None, tr_ErrorMessage = []\<rparr>"
    by (simp add: unmarshal_status_def response_field_def twilioResponse0_def EqualFold_def ToLower_def)
qed (simp add: twilioGet_def sample_poller_def)

theorem pollPending_frame_witness:
  "filter (\<lambda>y. dl_DeliveryID y = ''D1'')
       (deliveries (w_db (snd (run_state (pollPending (sample_poller ''sent'')) done_world))))
     = [sample_delivery\<lparr>dl_Status := ''delivered''\<rparr>]"
proof -
  have "deliveries (w_db done_world) = [sample_delivery\<lparr>dl_Status := ''delivered''\<rparr>]"
    by (simp add: done_world_def)
  then show ?thesis
    using pollPending_frame [OF run_unit, of done_world "''D1''" "sample_poller ''sent''"]
    by (simp add: in_flight_def voice_in_flight_def sms_in_flight_def sample_delivery_def)
qed

lemma sample_delivery_fields [simp]:
  "dl_DeliveryID sample_delivery = ''D1''" "dl_TwilioSid sample_delivery = Some ''SM1''"
  "dl_Channel sample_delivery = ''sms''"
  by (simp_all add: sample_delivery_def)


theorem poll_failed_stays_poll_failed_witness:
  "run_state (checkDelivery (sample_poller ''sent'') (sample_delivery\<lparr>dl_Status := ''poll_failed''\<rparr>)) polled_world
     = ((), polled_world)"
proof -
  let ?x = "sample_delivery\<lparr>dl_Status := ''poll_failed''\<rparr>"
  have "dl_Status ?x = ''poll_failed''" "ns_present (dl_TwilioSid ?x)"
    "\<not> snd (mapTwilioStatus (dl_Channel ?x) ''sent'')"
    by (simp_all add: sample_delivery_def ns_present_def mapTwilioStatus_def)
  then show ?thesis
    using poll_failed_stays_poll_failed [OF _ _ sample_answer, of ?x "''sent''" polled_world] by simp
qed

section \<open>The sweeper\<close>

definition swept :: world where
  "swept = snd (run_state (sweep 1800000000000) sample_world)"

lemma swept_run: "run_state (sweep 1800000000000) sample_world = ((), swept)"
  unfolding swept_def by (rule run_unit)

lemma sample_clock:
  "w_faults sample_world = []" "advance_clock sample_world = sample_world"
  "w_now sample_world = 1717243200000000000" "events (w_db sample_world) = [sample_event]"
  "audit_log (w_db sample_world) = []"
  by (simp_all add: sample_defs advance_clock_def)

lemma sample_civil: "civil_from_days 19875 = (2024, 6, 1)"
proof -
  have "year_yday 19875 = (2024, 152)" by code_simp
  moreover have "month_day True 1 11 152 = (6, 1)" by (simp add: eval_nat_numeral days_in_def)
  ultimately show ?thesis by (simp add: civil_from_days_def is_leap_def)
qed

lemma sample_times:
  "FormatRFC3339 1717243200 = ''2024-06-01T12:00:00Z''" "FormatRFC3339 1717241400 = ''2024-06-01T11:30:00Z''"
proof -
  have z: "zero_pad 4 2024 = ''2024''" "zero_pad 2 6 = ''06''" "zero_pad 2 1 = ''01''"
    "zero_pad 2 (Suc 0) = ''01''" "zero_pad 2 12 = ''12''" "zero_pad 2 0 = ''00''"
    "zero_pad 2 11 = ''11''" "zero_pad 2 30 = ''30''"
    by (simp_all add: zero_pad_def show_nat.simps digit_char_def char_of_def bit_0)
  show "FormatRFC3339 1717243200 = ''2024-06-01T12:00:00Z''" "FormatRFC3339 1717241400 = ''2024-06-01T11:30:00Z''"
    by (simp_all add: FormatRFC3339_def sample_civil fmt_civil_def fmt_year_def z)
qed

theorem sweep_effect_witness:
  "map ev_EndTime (events (w_db swept)) = [Some ''2024-06-01T12:00:00Z'']
   \<and> map au_OldValues (audit_log (w_db swept)) = [Some ''E1'']"
proof -
  have "ev_EndTime sample_event = None" "ev_StartTime sample_event = ''2024-06-01T11:00:00Z''"
    "ev_EventID sample_event = ''E1''" by (simp_all add: sample_event_def)
  moreover have "''2024-06-01T11:00:00Z'' \<le> ''2024-06-01T11:30:00Z''" by code_simp
  ultimately show ?thesis
    using sweep_effect [OF sample_clock(1) swept_run]
    by (simp add: sample_clock unix_sec_def sample_times)
qed

theorem sweep_end_after_start_witness:
  "\<exists>now. map ev_EndTime (events (w_db swept)) = [Some now] \<and> ev_StartTime sample_event \<le> now"
proof -
  have stale: "ev_EndTime sample_event = None" "ev_StartTime sample_event = ''2024-06-01T11:00:00Z''"
    by (simp_all add: sample_event_def)
  have "''2024-06-01T11:00:00Z'' \<le> ''2024-06-01T11:30:00Z''" by code_simp
  with stale have "wp (sweep 1800000000000) (\<lambda>_ w'. \<exists>e. events (w_db w') = [e] \<and> e \<noteq> sample_event
      \<and> ev_StartTime e = ev_StartTime sample_event) sample_world"
    unfolding wp_sweep [OF sample_clock(1)]
    by (auto simp: Let_def sample_clock unix_sec_def sample_times stale_def auto_close_def
        dest: arg_cong [of _ _ ev_EndTime])
  then obtain e where e: "events (w_db swept) = [e]" "e \<noteq> sample_event" "ev_StartTime e = ev_StartTime sample_event"
    unfolding swept_def wp_def by blast
  have "\<exists>now. ev_EndTime e = Some now \<and> ev_StartTime e \<le> now \<and> ev_AutoClosed e = 1"
    by (rule sweep_end_after_start [OF sample_clock(1) swept_run])
      (use e in \<open>simp_all add: sample_clock unix_sec_def four_digit_year_def\<close>)
  with e show ?thesis by auto
qed

section \<open>The endpoints\<close>

definition sample_auth :: authenticator where
  "sample_auth username password = ret (if password = ''secret''
     then Inr \<lparr>ar_UserDN = ''uid=alice'', ar_Groups = [''writers'']\<rparr> else Inl ErrInvalidCredentials)"

theorem protected_route_witness:
  "hasPermission (resolveRoles [''writers''] [(''publisher'', [''writers''])]) PermPublish"
proof -
  have "run_state (authenticate sample_auth [(''publisher'', [''writers''])] (Some (''alice'', ''secret'')) []
      (requirePermissions [PermPublish] (\<lambda>u. ret (Reply 200 (us_Username u))))) sample_world
    = (Reply 200 ''alice'', sample_world)"
    by (simp add: authenticate_def sample_auth_def requirePermissions_def resolveRoles_def
        hasPermission_def rolePermissions_def)
  from protected_route [OF this] show ?thesis by (auto simp: sample_auth_def)
qed

definition sample_server :: Server where
  "sample_server = \<lparr>sv_eventSeverities = [''Low'', ''High''], sv_roleConfig = []\<rparr>"

definition sample_request :: Request where
  "sample_request = \<lparr>rq_User = \<lparr>us_Username = ''carol'', us_DN = [], us_Roles = [''publisher'']\<rparr>,
     rq_ClientIP = ''10.0.0.1''\<rparr>"


text \<open>Ending the event of the sample, and an event that starts tomorrow.\<close>

lemma sample_now:
  "FormatRFC3339 (unix_sec (w_now (advance_clock sample_world))) = ''2024-06-01T12:00:00Z''"
  by (simp add: sample_clock unix_sec_def sample_times)

lemma sample_event_fields [simp]: "ev_EventID sample_event = ''E1''" "ev_EndTime sample_event = None"
  by (simp_all add: sample_event_def)

theorem end_event_idempotent_witness:
  "\<exists>resp2 w''. run_state (handleEndEvent sample_request ''E1'' (EndTimeBody ''2030-01-01T00:00:00Z''))
       (snd (run_state (handleEndEvent sample_request ''E1'' NoBody) sample_world)) = (Reply 200 resp2, w'')
     \<and> er_EndTime resp2 = ''2024-06-01T12:00:00Z''"
proof -
  let ?resp = "toEventResponse (sample_event\<lparr>ev_EndTime := Some ''2024-06-01T12:00:00Z''\<rparr>)"
  have "wp (handleEndEvent sample_request ''E1'' NoBody) (\<lambda>x _. x = Reply 200 ?resp) sample_world"
    by (simp add: handleEndEvent_def GetEventByEventID_def UpdateEventEndTime_def end_time_of_def
        auditLogAction_def InsertAuditLog_def wp_simps sample_clock unix_sec_def sample_times ns_present_def)
  from end_event_idempotent [OF run_result [OF this] sample_clock(1)] show ?thesis
    by (force simp: toEventResponse_def)
qed

theorem end_event_before_start_witness:
  "\<exists>e'. find (\<lambda>e. ev_EventID e = ''E1'')
       (events (w_db (snd (run_state (handleEndEvent sample_request ''E1'' NoBody) tomorrow)))) = Some e'
     \<and> ns_string (ev_EndTime e') < ev_StartTime e'"
proof -
  let ?e = "sample_event\<lparr>ev_StartTime := ''2024-06-02T00:00:00Z''\<rparr>"
  have f: "w_faults tomorrow = []" and e: "find (\<lambda>e. ev_EventID e = ''E1'') (events (w_db tomorrow)) = Some ?e"
    and n: "w_now (advance_clock tomorrow) = 1717243200000000000"
    by (simp_all add: tomorrow_def sample_defs advance_clock_def)
  have o: "\<not> ns_present (ev_EndTime ?e)" by (simp add: ns_present_def)
  have "''2024-06-01T12:00:00Z'' < ''2024-06-02T00:00:00Z''" by code_simp
  then have l: "FormatRFC3339 (unix_sec (w_now (advance_clock tomorrow))) < ev_StartTime ?e"
    by (simp add: n unix_sec_def sample_times)
  show ?thesis
    using end_event_before_start [OF f e o l prod.collapse [symmetric]] by blast
qed

section \<open>Publishing\<close>

definition sample_publish :: publishRequest where
  "sample_publish = \<lparr>pr_EventID = ''E1'', pr_EventURL = [], pr_EventName = [], pr_EventDescription = [],
     pr_EventSeverity = ''high'', pr_StartTime = [], pr_EndTime = [], pr_Groups = [''ops''],
     pr_Destinations = [\<lparr>ds_Channel = ''sms'', ds_Target = ''+12125550101''\<rparr>], pr_Channels = [''sms''],
     pr_Message = ''disk full'', pr_EmailTemplate = [], pr_EmailVars = []\<rparr>"

lemma sample_phone: "rePhone ''+12125550101''"
  by code_simp

theorem check_publish_accepts_witness: "check_publish sample_publish = None"
  unfolding check_publish_accepts
  by (simp add: sample_publish_def valid_destination_def sample_phone has_email_def)

lemma sample_severity: "canonical_severity (sv_eventSeverities sample_server) ''high'' = Inr ''High''"
  by code_simp

lemma sample_checked: "check_publish sample_publish = None"
  by code_simp

lemma sample_publish_fields [simp]:
  "pr_EventID sample_publish = ''E1''" "pr_EventSeverity sample_publish = ''high''"
  "pr_EndTime sample_publish = []"
  by (simp_all add: sample_publish_def)

lemma next_uuid_not_N1 [simp]: "next_uuid w \<noteq> ''N1''"
proof
  assume "next_uuid w = ''N1''"
  then have "length (next_uuid w) = 2" by simp
  then show False by (simp add: next_uuid_def length_format_uuid)
qed

definition published_world :: "nat \<Rightarrow> world" where
  "published_world cap = snd (run_state (handlePublishNotification sample_server sample_request
     (Some sample_publish)) (sample_world\<lparr>w_queue_cap := cap\<rparr>))"

lemma publish_run:
  "wp (handlePublishNotification sample_server sample_request (Some sample_publish))
    (\<lambda>x _. if cap = 0 then x = Fail 503 ''server busy, try again later'' else (\<exists>resp. x = Reply 202 resp))
    (sample_world\<lparr>w_queue_cap := cap\<rparr>)"
  by (simp add: handlePublishNotification_def sample_checked publish_checked_def publish_event_def
      find_or_create_event_def publish_end_time_def store_notification_def wp_try_enqueue
      GetEventByEventID_def InsertNotification_def auditLogAction_def InsertAuditLog_def wp_simps
      sample_defs sample_severity Let_def)

lemma published_run:
  "\<exists>resp. run_state (handlePublishNotification sample_server sample_request (Some sample_publish))
     (sample_world\<lparr>w_queue_cap := cap\<rparr>)
   = (if cap = 0 then Fail 503 ''server busy, try again later'' else Reply 202 resp, published_world cap)"
  using publish_run [of cap] unfolding wp_def published_world_def
  by (cases "cap = 0") (auto intro!: prod_eqI)


theorem publish_refused_witness:
  "w_queue (published_world 0) = []
   \<and> (\<exists>n. notifications (w_db (published_world 0)) = [sample_notification, n] \<and> stores_request sample_publish n)"
proof -
  have "run_state (handlePublishNotification sample_server sample_request (Some sample_publish))
      (sample_world\<lparr>w_queue_cap := 0\<rparr>) = (Fail 503 ''server busy, try again later'', published_world 0)"
    using published_run [of 0] by auto
  from publish_refused [OF this] show ?thesis by (auto simp: sample_world_def sample_db_def world0_def)
qed

end
