(* ===== verification/Ldap.thy ===== *)
theory Ldap
  imports Api_Base
begin

text \<open>
  The LDAP side: \<open>ldap/dial.go\<close>, \<open>auth.go\<close>, \<open>lookup.go\<close>, \<open>verify.go\<close> and \<open>client.go\<close>. The library
  \<open>go-ldap\<close> and the servers behind it are the parameter \<open>goldap\<close>: what dialing, binding and
  searching answer at one moment. Everything the program decides is defined here: which server is
  asked, as whom, with which filter, and what becomes of each answer. The lemmas show that the
  backup is asked only when the primary fails, that an unknown user and a wrong password are the
  same answer, and which groups a user is credited with.
\<close>

section \<open>The library\<close>

text \<open>
  An entry: its DN, \<open>GetAttributeValue\<close> and \<open>GetAttributeValues\<close>. A dial is given the TLS option
  (\<open>Some skip\<close> for \<open>ldaps\<close>); dial and bind answer their error, a bind also whether it has the code
  \<open>LDAPResultInvalidCredentials\<close>. A search is given the server, the base, the size limit, the filter
  and the attributes. A parsed DN is its RDNs, each a list of types and values.
\<close>

record ldap_entry =
  en_DN :: string
  en_value :: "string \<Rightarrow> string"
  en_values :: "string \<Rightarrow> string list"

record goldap =
  go_dial :: "string \<Rightarrow> bool option \<Rightarrow> string option"
  go_bind :: "string \<Rightarrow> string \<Rightarrow> string \<Rightarrow> (bool \<times> string) option"
  go_search :: "string \<Rightarrow> string \<Rightarrow> nat \<Rightarrow> string \<Rightarrow> string list \<Rightarrow> string + ldap_entry list"
  go_search_paged :: "string \<Rightarrow> string \<Rightarrow> nat \<Rightarrow> string \<Rightarrow> string list \<Rightarrow> nat \<Rightarrow> string + ldap_entry list"
  go_escape :: "string \<Rightarrow> string"
  go_parse_dn :: "string \<Rightarrow> (string \<times> string) list list option"

record ldap_conf =
  lc_primaryURL :: string
  lc_backupURL :: string
  lc_bindDN :: string
  lc_bindPassword :: string
  lc_userBaseDN :: string
  lc_groupBaseDN :: string
  lc_groupFilter :: string
  lc_tlsSkipVerify :: bool

section \<open>Connections\<close>

text \<open>A connection is known by the address it was opened to.\<close>

definition dialAndBind :: "goldap \<Rightarrow> string \<Rightarrow> string \<Rightarrow> string \<Rightarrow> bool \<Rightarrow> string + string" where
  "dialAndBind l url bindDN bindPassword tlsSkipVerify =
     (case go_dial l url (if HasPrefix url ''ldaps://'' then Some tlsSkipVerify else None) of
        Some e \<Rightarrow> Inl (''dial '' @ url @ '': '' @ e)
      | None \<Rightarrow> (case go_bind l url bindDN bindPassword of
          Some (_, e) \<Rightarrow> Inl (''bind on '' @ url @ '' as '' @ bindDN @ '': '' @ e)
        | None \<Rightarrow> Inr url))"

text \<open>The primary, then the backup if there is one; the errors of both.\<close>

definition open_either :: "goldap \<Rightarrow> ldap_conf \<Rightarrow> (string + string \<times> string) + string" where
  "open_either l c =
     (case dialAndBind l (lc_primaryURL c) (lc_bindDN c) (lc_bindPassword c) (lc_tlsSkipVerify c) of
        Inr conn \<Rightarrow> Inr conn
      | Inl primaryErr \<Rightarrow> if lc_backupURL c = [] then Inl (Inl primaryErr)
          else (case dialAndBind l (lc_backupURL c) (lc_bindDN c) (lc_bindPassword c) (lc_tlsSkipVerify c) of
              Inr conn \<Rightarrow> Inr conn
            | Inl e \<Rightarrow> Inl (Inr (primaryErr, e))))"

definition both_failed :: "string + string \<times> string \<Rightarrow> string" where
  "both_failed e = (case e of Inl primaryErr \<Rightarrow> primaryErr
     | Inr (primaryErr, err) \<Rightarrow> ''primary: '' @ primaryErr @ ''; backup: '' @ err)"

text \<open>The form shared by the authenticator, the lookup and the verifier.\<close>

definition ldap_connect :: "goldap \<Rightarrow> ldap_conf \<Rightarrow> string + string" where
  "ldap_connect l c = (case open_either l c of Inr conn \<Rightarrow> Inr conn
     | Inl e \<Rightarrow> Inl (''ldap connect: '' @ both_failed e))"

section \<open>Authentication\<close>

fun parseCNs :: "goldap \<Rightarrow> string list \<Rightarrow> string list" where
  "parseCNs l [] = []"
| "parseCNs l (dn # dns) =
     (case go_parse_dn l dn of
        Some ((attr # _) # _) \<Rightarrow>
          if EqualFold (fst attr) ''CN'' then snd attr # parseCNs l dns else parseCNs l dns
      | _ \<Rightarrow> parseCNs l dns)"

definition user_filter :: "goldap \<Rightarrow> string \<Rightarrow> string" where
  "user_filter l username = ''(sAMAccountName='' @ go_escape l username @ '')''"

definition AuthenticateUser :: "goldap \<Rightarrow> ldap_conf \<Rightarrow> string \<Rightarrow> string \<Rightarrow> auth_error + AuthResult" where
  "AuthenticateUser l c username password =
     (case ldap_connect l c of
        Inl e \<Rightarrow> Inl (ErrAuthOther e)
      | Inr conn \<Rightarrow>
          (case go_search l conn (lc_userBaseDN c) 1 (user_filter l username) [''dn'', ''memberOf''] of
             Inl e \<Rightarrow> Inl (ErrAuthOther (''user search: '' @ e))
           | Inr [] \<Rightarrow> Inl ErrInvalidCredentials
           | Inr (entry # _) \<Rightarrow>
               (case go_bind l conn (en_DN entry) password of
                  Some (invalid, e) \<Rightarrow> if invalid then Inl ErrInvalidCredentials
                    else Inl (ErrAuthOther (''user bind: '' @ e))
                | None \<Rightarrow> Inr \<lparr>ar_UserDN = en_DN entry,
                    ar_Groups = parseCNs l (en_values entry ''memberOf'')\<rparr>)))"

text \<open>The authenticator of the server: LDAP as it is at the time of the call.\<close>

definition ldapAuthenticator :: "(int \<Rightarrow> goldap) \<Rightarrow> ldap_conf \<Rightarrow> authenticator" where
  "ldapAuthenticator ldap c username password = do {
     now \<leftarrow> gets w_now;
     ret (AuthenticateUser (ldap now) c username password) }"

section \<open>Users and groups\<close>

record Member =
  mb_Username :: string
  mb_DisplayName :: string
  mb_Email :: string
  mb_Mobile :: string
  mb_Work :: string

definition memberAttrs :: "string list" where
  "memberAttrs = [''sAMAccountName'', ''displayName'', ''mail'', ''mobile'', ''telephoneNumber'']"

definition entry_member :: "ldap_entry \<Rightarrow> Member" where
  "entry_member e = \<lparr>mb_Username = en_value e ''sAMAccountName'', mb_DisplayName = en_value e ''displayName'',
     mb_Email = en_value e ''mail'', mb_Mobile = en_value e ''mobile'',
     mb_Work = en_value e ''telephoneNumber''\<rparr>"

datatype lookup_error = ErrUserNotFound | ErrLookupOther string

definition LookupUser :: "goldap \<Rightarrow> ldap_conf \<Rightarrow> string \<Rightarrow> lookup_error + Member" where
  "LookupUser l c username =
     (case ldap_connect l c of
        Inl e \<Rightarrow> Inl (ErrLookupOther e)
      | Inr conn \<Rightarrow> (case go_search l conn (lc_userBaseDN c) 1 (user_filter l username) memberAttrs of
          Inl e \<Rightarrow> Inl (ErrLookupOther (''user search: '' @ e))
        | Inr [] \<Rightarrow> Inl ErrUserNotFound
        | Inr (entry # _) \<Rightarrow> Inr (entry_member entry)))"

definition group_cn_filter :: "goldap \<Rightarrow> ldap_conf \<Rightarrow> string \<Rightarrow> string" where
  "group_cn_filter l c groupName =
     ''(&'' @ lc_groupFilter c @ ''(cn='' @ go_escape l groupName @ ''))''"

text \<open>The result is the error, \<open>None\<close> for success.\<close>

definition VerifyGroup :: "goldap \<Rightarrow> ldap_conf \<Rightarrow> string \<Rightarrow> string option" where
  "VerifyGroup l c groupName =
     (case ldap_connect l c of
        Inl e \<Rightarrow> Some e
      | Inr conn \<Rightarrow> (case go_search l conn (lc_groupBaseDN c) 1 (group_cn_filter l c groupName) [''dn''] of
          Inl e \<Rightarrow> Some (''ldap group search: '' @ e)
        | Inr [] \<Rightarrow> Some (''group '' @ go_quote groupName @ '' not found in LDAP'')
        | Inr _ \<Rightarrow> None))"

definition Connect :: "goldap \<Rightarrow> ldap_conf \<Rightarrow> string + string" where
  "Connect l c = (case open_either l c of Inr conn \<Rightarrow> Inr conn | Inl e \<Rightarrow> Inl (both_failed e))"

definition resolveGroupDN :: "goldap \<Rightarrow> ldap_conf \<Rightarrow> string \<Rightarrow> string \<Rightarrow> string + string" where
  "resolveGroupDN l c conn groupName =
     (case go_search l conn (lc_groupBaseDN c) 1 (group_cn_filter l c groupName) [''dn''] of
        Inl e \<Rightarrow> Inl e
      | Inr [] \<Rightarrow> Inl (''group '' @ go_quote groupName @ '' not found in LDAP'')
      | Inr (entry # _) \<Rightarrow> Inr (en_DN entry))"

text \<open>\<open>conn\<close> is \<open>None\<close> before \<open>Connect\<close> and after \<open>Close\<close>.\<close>

definition SearchGroupMembers :: "goldap \<Rightarrow> ldap_conf \<Rightarrow> string option \<Rightarrow> string \<Rightarrow> nat
    \<Rightarrow> string + Member list" where
  "SearchGroupMembers l c conn groupName pageSize =
     (case conn of None \<Rightarrow> Inl ''not connected: call Connect first''
      | Some cn \<Rightarrow> (case resolveGroupDN l c cn groupName of
          Inl e \<Rightarrow> Inl (''resolve group DN for '' @ go_quote groupName @ '': '' @ e)
        | Inr groupDN \<Rightarrow>
            (case go_search_paged l cn (lc_userBaseDN c) 0
                 (''(&(objectClass=user)(memberOf='' @ go_escape l groupDN @ ''))'') memberAttrs pageSize of
               Inl e \<Rightarrow> Inl (''search members of '' @ go_quote groupName @ '': '' @ e)
             | Inr entries \<Rightarrow> Inr (map entry_member entries))))"

section \<open>Lemmas\<close>

lemma dialAndBind_conn: "dialAndBind l url dn pw skip = Inr conn \<Longrightarrow> conn = url"
  by (auto simp: dialAndBind_def split: option.splits prod.splits)

lemma open_either_conn:
  "open_either l c = Inr conn \<Longrightarrow> conn \<in> {lc_primaryURL c, lc_backupURL c}"
  by (auto simp: open_either_def split: sum.splits if_splits dest: dialAndBind_conn)

text \<open>The primary has precedence: while it answers, the backup is never asked.\<close>

lemma primary_first:
  assumes "dialAndBind l (lc_primaryURL c) (lc_bindDN c) (lc_bindPassword c) (lc_tlsSkipVerify c) = Inr conn"
  shows "ldap_connect l c = Inr (lc_primaryURL c)" "Connect l c = Inr (lc_primaryURL c)"
  using assms dialAndBind_conn [OF assms]
  by (simp_all add: ldap_connect_def Connect_def open_either_def)

lemma set_parseCNs:
  "set (parseCNs l dns) = {v. \<exists>dn \<in> set dns. \<exists>t rdn rest. go_parse_dn l dn = Some (((t, v) # rdn) # rest)
     \<and> EqualFold t ''CN''}"
proof (induction dns)
  case (Cons dn dns)
  have "{v. \<exists>t rdn rest. go_parse_dn l dn = Some (((t, v) # rdn) # rest) \<and> EqualFold t ''CN''}
      = (case go_parse_dn l dn of Some ((attr # _) # _) \<Rightarrow> if EqualFold (fst attr) ''CN'' then {snd attr} else {}
         | _ \<Rightarrow> {})"
    by (auto split: option.splits list.splits)
  then show ?case using Cons.IH
    by (auto split: option.splits list.splits if_splits)
qed simp

lemma AuthenticateUser_Inr:
  assumes "AuthenticateUser l c username password = Inr r"
  shows "\<exists>conn entry rest. conn \<in> {lc_primaryURL c, lc_backupURL c}
    \<and> go_search l conn (lc_userBaseDN c) 1 (user_filter l username) [''dn'', ''memberOf''] = Inr (entry # rest)
    \<and> go_bind l conn (en_DN entry) password = None
    \<and> r = \<lparr>ar_UserDN = en_DN entry, ar_Groups = parseCNs l (en_values entry ''memberOf'')\<rparr>"
proof -
  have "conn \<in> {lc_primaryURL c, lc_backupURL c}" if "ldap_connect l c = Inr conn" for conn
    using that open_either_conn [of l c] by (auto simp: ldap_connect_def split: sum.splits)
  with assms show ?thesis
    by (fastforce simp: AuthenticateUser_def split: sum.splits list.splits option.splits prod.splits if_splits)
qed

text \<open>C7 (safety): a login is accepted only if a configured server returned an entry for the name and
  then took the password in a bind as that entry; the groups credited are exactly the values of the
  leading CN components of the entry's \<open>memberOf\<close> values.\<close>

theorem login_needs_bind:
  assumes "AuthenticateUser l c username password = Inr r"
  shows "\<exists>conn entry rest. conn \<in> {lc_primaryURL c, lc_backupURL c}
    \<and> go_search l conn (lc_userBaseDN c) 1 (user_filter l username) [''dn'', ''memberOf''] = Inr (entry # rest)
    \<and> go_bind l conn (en_DN entry) password = None \<and> ar_UserDN r = en_DN entry
    \<and> set (ar_Groups r) = {v. \<exists>dn \<in> set (en_values entry ''memberOf''). \<exists>t rdn more.
         go_parse_dn l dn = Some (((t, v) # rdn) # more) \<and> EqualFold t ''CN''}"
  using AuthenticateUser_Inr [OF assms] by (auto simp: set_parseCNs)

text \<open>An unknown name and a wrong password give the same answer.\<close>

lemma unknown_user_or_wrong_password:
  assumes "ldap_connect l c = Inr conn"
    and "go_search l conn (lc_userBaseDN c) 1 (user_filter l username) [''dn'', ''memberOf''] = Inr entries"
    and "entries = [] \<or> (\<exists>e. go_bind l conn (en_DN (hd entries)) password = Some (True, e))"
  shows "AuthenticateUser l c username password = Inl ErrInvalidCredentials"
  using assms by (auto simp: AuthenticateUser_def split: list.splits)

end
