(* ===== verification/Ldap_Cache.thy ===== *)
theory Ldap_Cache
  imports Ldap
begin

text \<open>
  The credential cache (\<open>ldap/cache.go\<close>): a doubly linked list of entries in the order of use and an
  index from keys to list elements. An element is a pointer: a number that the list carries beside
  the entry and that the index holds. \<open>cache_ok\<close> is what keeps the two in step; \<open>contents\<close> forgets
  pointers and order and leaves a finite map from keys to results with their expiry, which the
  operations implement. The hash of a key (\<open>crypto/sha256\<close>, in hexadecimal) is a parameter.
\<close>

record cacheEntry =
  ce_key :: string
  ce_result :: AuthResult
  ce_expiresAt :: int

record cache =
  ca_lru :: "(nat \<times> cacheEntry) list"
  ca_index :: "(string \<times> nat) list"
  ca_next :: nat

definition new_cache :: cache where
  "new_cache = \<lparr>ca_lru = [], ca_index = [], ca_next = 0\<rparr>"

section \<open>The list and the index\<close>

definition list_Remove :: "nat \<Rightarrow> cache \<Rightarrow> cache" where
  "list_Remove el c = c\<lparr>ca_lru := filter (\<lambda>x. fst x \<noteq> el) (ca_lru c)\<rparr>"

definition list_MoveToFront :: "nat \<Rightarrow> cache \<Rightarrow> cache" where
  "list_MoveToFront el c = (case find (\<lambda>x. fst x = el) (ca_lru c) of None \<Rightarrow> c
     | Some x \<Rightarrow> c\<lparr>ca_lru := x # filter (\<lambda>x. fst x \<noteq> el) (ca_lru c)\<rparr>)"

definition index_delete :: "string \<Rightarrow> cache \<Rightarrow> cache" where
  "index_delete key c = c\<lparr>ca_index := filter (\<lambda>x. fst x \<noteq> key) (ca_index c)\<rparr>"

text \<open>The entry that an element of the index points to.\<close>

definition element :: "cache \<Rightarrow> string \<Rightarrow> (nat \<times> cacheEntry) option" where
  "element c key = (case map_of (ca_index c) key of None \<Rightarrow> None
     | Some el \<Rightarrow> find (\<lambda>x. fst x = el) (ca_lru c))"

definition get_at :: "string \<Rightarrow> int \<Rightarrow> cache \<Rightarrow> AuthResult option \<times> cache" where
  "get_at key now c =
     (case element c key of None \<Rightarrow> (None, c)
      | Some (el, entry) \<Rightarrow>
          if ce_expiresAt entry < now then (None, index_delete key (list_Remove el c))
          else (Some (ce_result entry), list_MoveToFront el c))"

definition evict :: "int \<Rightarrow> cache \<Rightarrow> cache" where
  "evict maxSize c =
     (if int (length (ca_lru c)) < maxSize \<or> ca_lru c = [] then c
      else let (back, evicted) = last (ca_lru c)
           in list_Remove back (index_delete (ce_key evicted) c))"

definition push_front :: "cacheEntry \<Rightarrow> cache \<Rightarrow> cache" where
  "push_front entry c = \<lparr>ca_lru = (ca_next c, entry) # ca_lru c,
     ca_index = (ce_key entry, ca_next c) # filter (\<lambda>x. fst x \<noteq> ce_key entry) (ca_index c),
     ca_next = Suc (ca_next c)\<rparr>"

definition put_at :: "int \<Rightarrow> string \<Rightarrow> AuthResult \<Rightarrow> int \<Rightarrow> cache \<Rightarrow> cache" where
  "put_at maxSize key result expiresAt c =
     (case element c key of
        Some (el, entry) \<Rightarrow>
          list_MoveToFront el (c\<lparr>ca_lru := map (\<lambda>x. if fst x = el
            then (el, entry\<lparr>ce_result := result, ce_expiresAt := expiresAt\<rparr>) else x) (ca_lru c)\<rparr>)
      | None \<Rightarrow> push_front \<lparr>ce_key = key, ce_result = result, ce_expiresAt = expiresAt\<rparr> (evict maxSize c))"

section \<open>The authenticator\<close>

definition authCacheKey :: "(string \<Rightarrow> string) \<Rightarrow> string \<Rightarrow> string \<Rightarrow> string" where
  "authCacheKey sha username password = sha (username @ '':'' @ password)"

text \<open>A program of the world, run beside the cache.\<close>

definition beside :: "(world, 'a) state \<Rightarrow> (world \<times> cache, 'a) state" where
  "beside m = State (\<lambda>(w, c). let (a, w') = run_state m w in (a, (w', c)))"

text \<open>The clock is read only when there is an entry.\<close>

definition cacheGet :: "string \<Rightarrow> (world \<times> cache, AuthResult option) state" where
  "cacheGet key = do {
     c \<leftarrow> gets snd;
     if element c key = None then ret None
     else do {
       now \<leftarrow> beside time_Now;
       State (\<lambda>(w, c). let (r, c') = get_at key now c in (r, (w, c'))) } }"

definition cachePut :: "int \<Rightarrow> int \<Rightarrow> string \<Rightarrow> AuthResult \<Rightarrow> (world \<times> cache, unit) state" where
  "cachePut maxSize ttl key result = do {
     now \<leftarrow> beside time_Now;
     modify (\<lambda>(w, c). (w, put_at maxSize key result (now + ttl) c)) }"

definition cached_AuthenticateUser :: "(string \<Rightarrow> string) \<Rightarrow> int \<Rightarrow> int \<Rightarrow> authenticator
    \<Rightarrow> string \<Rightarrow> string \<Rightarrow> (world \<times> cache, auth_error + AuthResult) state" where
  "cached_AuthenticateUser sha maxSize ttl inner username password = do {
     hit \<leftarrow> cacheGet (authCacheKey sha username password);
     (case hit of Some result \<Rightarrow> ret (Inr result)
      | None \<Rightarrow> do {
          r \<leftarrow> beside (inner username password);
          (case r of Inl e \<Rightarrow> ret (Inl e)
           | Inr result \<Rightarrow> do {
               cachePut maxSize ttl (authCacheKey sha username password) result;
               ret (Inr result) }) }) }"

text \<open>A size of zero or less leaves the inner authenticator as it is.\<close>

definition NewCachedAuthenticator :: "(string \<Rightarrow> string) \<Rightarrow> int \<Rightarrow> int \<Rightarrow> authenticator
    \<Rightarrow> string \<Rightarrow> string \<Rightarrow> (world \<times> cache, auth_error + AuthResult) state" where
  "NewCachedAuthenticator sha maxSize ttl inner =
     (if maxSize \<le> 0 then (\<lambda>username password. beside (inner username password))
      else cached_AuthenticateUser sha maxSize ttl inner)"

section \<open>The list and the index agree\<close>

definition cache_ok :: "cache \<Rightarrow> bool" where
  "cache_ok c \<longleftrightarrow> distinct (map fst (ca_lru c)) \<and> distinct (map (ce_key \<circ> snd) (ca_lru c))
     \<and> distinct (map fst (ca_index c)) \<and> (\<forall>x \<in> set (ca_lru c). fst x < ca_next c)
     \<and> set (ca_index c) = (\<lambda>x. (ce_key (snd x), fst x)) ` set (ca_lru c)"

lemma cache_ok_new: "cache_ok new_cache"
  by (simp add: cache_ok_def new_cache_def)

lemma element_find:
  assumes "cache_ok c"
  shows "element c key = find (\<lambda>x. ce_key (snd x) = key) (ca_lru c)"
proof (cases "find (\<lambda>x. ce_key (snd x) = key) (ca_lru c)")
  case None
  then have "key \<notin> fst ` set (ca_index c)"
    using assms by (auto simp: cache_ok_def find_None)
  then have "map_of (ca_index c) key = None" by (simp add: map_of_eq_None_iff)
  with None show ?thesis by (simp add: element_def)
next
  case (Some x)
  then have x: "x \<in> set (ca_lru c)" "ce_key (snd x) = key" using find_Some_set [OF Some] by auto
  then have "(key, fst x) \<in> set (ca_index c)" using assms by (auto simp: cache_ok_def)
  then have "map_of (ca_index c) key = Some (fst x)" using assms by (simp add: cache_ok_def)
  moreover have "find (\<lambda>y. fst y = fst x) (ca_lru c) = Some x"
    using assms x(1) by (intro find_unique_key) (simp_all add: cache_ok_def)
  ultimately show ?thesis using Some by (simp add: element_def)
qed

text \<open>Removing by pointer and removing by key are the same.\<close>

lemma filter_pointer_key:
  assumes "cache_ok c" and "(el, entry) \<in> set (ca_lru c)"
  shows "filter (\<lambda>x. fst x \<noteq> el) (ca_lru c) = filter (\<lambda>x. ce_key (snd x) \<noteq> ce_key entry) (ca_lru c)"
proof (rule filter_cong [OF refl])
  fix x assume x: "x \<in> set (ca_lru c)"
  have "inj_on fst (set (ca_lru c))" "inj_on (ce_key \<circ> snd) (set (ca_lru c))"
    using assms(1) by (simp_all add: cache_ok_def distinct_map)
  from inj_onD [OF this(1) _ x assms(2)] inj_onD [OF this(2) _ x assms(2)]
  show "(fst x \<noteq> el) = (ce_key (snd x) \<noteq> ce_key entry)" by (cases x) auto
qed

section \<open>The abstract cache\<close>

text \<open>The keys with their results and expiries, in the order of use.\<close>

type_synonym entries = "(string \<times> AuthResult \<times> int) list"

definition entry_pair :: "nat \<times> cacheEntry \<Rightarrow> string \<times> AuthResult \<times> int" where
  "entry_pair x = (ce_key (snd x), ce_result (snd x), ce_expiresAt (snd x))"

definition entries :: "cache \<Rightarrow> entries" where
  "entries c = map entry_pair (ca_lru c)"

definition without :: "string \<Rightarrow> entries \<Rightarrow> entries" where
  "without key es = filter (\<lambda>p. fst p \<noteq> key) es"

definition spec_get :: "string \<Rightarrow> int \<Rightarrow> entries \<Rightarrow> AuthResult option \<times> entries" where
  "spec_get key now es = (case map_of es key of None \<Rightarrow> (None, es)
     | Some (r, expiry) \<Rightarrow> if expiry < now then (None, without key es)
         else (Some r, (key, r, expiry) # without key es))"

definition spec_put :: "int \<Rightarrow> string \<Rightarrow> AuthResult \<Rightarrow> int \<Rightarrow> entries \<Rightarrow> entries" where
  "spec_put maxSize key r expiry es =
     (if key \<in> fst ` set es then (key, r, expiry) # without key es
      else (key, r, expiry) # (if int (length es) < maxSize then es else butlast es))"

lemma entries_without:
  "map entry_pair (filter (\<lambda>x. ce_key (snd x) \<noteq> key) xs) = without key (map entry_pair xs)"
  by (induction xs) (simp_all add: without_def entry_pair_def)

lemma map_of_entries:
  "map_of (map entry_pair xs) key = map_option (\<lambda>x. (ce_result (snd x), ce_expiresAt (snd x)))
     (find (\<lambda>x. ce_key (snd x) = key) xs)"
  by (induction xs) (auto simp: entry_pair_def)

section \<open>The operations keep the invariant\<close>

lemma same_key:
  "cache_ok c \<Longrightarrow> x \<in> set (ca_lru c) \<Longrightarrow> y \<in> set (ca_lru c) \<Longrightarrow>
   ce_key (snd x) = ce_key (snd y) \<Longrightarrow> x = y"
  using inj_onD [of "ce_key \<circ> snd" "set (ca_lru c)" x y] by (simp add: cache_ok_def distinct_map)

lemma same_pointer:
  "cache_ok c \<Longrightarrow> x \<in> set (ca_lru c) \<Longrightarrow> y \<in> set (ca_lru c) \<Longrightarrow> fst x = fst y \<Longrightarrow> x = y"
  using inj_onD [of fst "set (ca_lru c)" x y] by (simp add: cache_ok_def distinct_map)

lemma find_pointer:
  "cache_ok c \<Longrightarrow> (el, entry) \<in> set (ca_lru c) \<Longrightarrow> find (\<lambda>x. fst x = el) (ca_lru c) = Some (el, entry)"
  using find_unique_key [of fst "ca_lru c" "(el, entry)"] by (simp add: cache_ok_def)

lemma distinct_map_Cons_filter:
  "distinct (map f xs) \<Longrightarrow> distinct (f x # map f (filter (\<lambda>y. f y \<noteq> f x) xs))"
  by (auto simp: distinct_map inj_on_def)

lemma cache_ok_MoveToFront:
  assumes ok: "cache_ok c" and x: "(el, entry) \<in> set (ca_lru c)"
  shows "cache_ok (list_MoveToFront el c)"
    and "ca_lru (list_MoveToFront el c) = (el, entry) # filter (\<lambda>x. ce_key (snd x) \<noteq> ce_key entry) (ca_lru c)"
proof -
  let ?f = "filter (\<lambda>x. ce_key (snd x) \<noteq> ce_key entry) (ca_lru c)"
  have f: "filter (\<lambda>x. fst x \<noteq> el) (ca_lru c) = ?f" by (rule filter_pointer_key [OF ok x])
  show lru: "ca_lru (list_MoveToFront el c) = (el, entry) # ?f"
    by (simp add: list_MoveToFront_def find_pointer [OF ok x] f)
  have "y \<in> set ((el, entry) # ?f) \<longleftrightarrow> y \<in> set (ca_lru c)" for y
  proof (cases "ce_key (snd y) = ce_key entry")
    case True
    then have "y \<in> set (ca_lru c) \<longleftrightarrow> y = (el, entry)" using same_key [OF ok _ x, of y] x by auto
    then show ?thesis using True by simp
  next
    case False
    then show ?thesis by auto
  qed
  then have "set ((el, entry) # ?f) = set (ca_lru c)" by (intro set_eqI)
  moreover have "distinct (map fst ((el, entry) # ?f))"
    using distinct_map_Cons_filter [of fst "ca_lru c" "(el, entry)"] ok
    unfolding f [symmetric] by (simp add: cache_ok_def)
  moreover have "distinct (map (ce_key \<circ> snd) ((el, entry) # ?f))"
    using distinct_map_Cons_filter [of "ce_key \<circ> snd" "ca_lru c" "(el, entry)"] ok
    by (simp add: cache_ok_def)
  ultimately show "cache_ok (list_MoveToFront el c)"
    using ok unfolding cache_ok_def lru
    by (simp add: list_MoveToFront_def find_pointer [OF ok x] f del: set_filter)
qed

lemma cache_ok_Remove:
  assumes ok: "cache_ok c" and x: "(el, entry) \<in> set (ca_lru c)"
  shows "cache_ok (index_delete (ce_key entry) (list_Remove el c))"
    and "ca_lru (index_delete (ce_key entry) (list_Remove el c))
      = filter (\<lambda>x. ce_key (snd x) \<noteq> ce_key entry) (ca_lru c)"
proof -
  show lru: "ca_lru (index_delete (ce_key entry) (list_Remove el c))
      = filter (\<lambda>x. ce_key (snd x) \<noteq> ce_key entry) (ca_lru c)"
    by (simp add: index_delete_def list_Remove_def filter_pointer_key [OF ok x])
  show "cache_ok (index_delete (ce_key entry) (list_Remove el c))"
    using ok unfolding cache_ok_def lru
    by (auto simp: index_delete_def list_Remove_def distinct_map_filter)
qed

lemma Remove_delete_commute: "list_Remove el (index_delete key c) = index_delete key (list_Remove el c)"
  by (simp add: list_Remove_def index_delete_def)

lemma filter_last:
  "distinct (map f xs) \<Longrightarrow> xs \<noteq> [] \<Longrightarrow> filter (\<lambda>x. f x \<noteq> f (last xs)) xs = butlast xs"
proof (induction xs rule: rev_induct)
  case (snoc x xs)
  have "filter (\<lambda>y. f y \<noteq> f x) xs = xs" using snoc.prems by (auto simp: filter_id_conv intro: rev_image_eqI)
  then show ?case by simp
qed simp

lemma cache_ok_evict:
  assumes ok: "cache_ok c"
  shows "cache_ok (evict maxSize c)"
    and "ca_lru (evict maxSize c) = (if int (length (ca_lru c)) < maxSize then ca_lru c else butlast (ca_lru c))"
proof -
  have "cache_ok (evict maxSize c) \<and>
    ca_lru (evict maxSize c) = (if int (length (ca_lru c)) < maxSize then ca_lru c else butlast (ca_lru c))"
  proof (cases "int (length (ca_lru c)) < maxSize \<or> ca_lru c = []")
    case True
    then show ?thesis using ok by (auto simp: evict_def)
  next
    case False
    obtain el entry where l: "last (ca_lru c) = (el, entry)" by fastforce
    with False have x: "(el, entry) \<in> set (ca_lru c)" by (metis last_in_set)
    have e: "evict maxSize c = index_delete (ce_key entry) (list_Remove el c)"
      using False l by (auto simp: evict_def Remove_delete_commute)
    have "filter (\<lambda>x. ce_key (snd x) \<noteq> ce_key entry) (ca_lru c) = butlast (ca_lru c)"
      using filter_last [of "ce_key \<circ> snd" "ca_lru c"] ok False l by (simp add: cache_ok_def)
    then show ?thesis using False unfolding e using cache_ok_Remove [OF ok x] by auto
  qed
  then show "cache_ok (evict maxSize c)"
    and "ca_lru (evict maxSize c) = (if int (length (ca_lru c)) < maxSize then ca_lru c else butlast (ca_lru c))"
    by blast+
qed

lemma cache_ok_push_front:
  assumes ok: "cache_ok c" and new: "\<forall>x \<in> set (ca_lru c). ce_key (snd x) \<noteq> ce_key entry"
  shows "cache_ok (push_front entry c)"
proof -
  have "filter (\<lambda>x. fst x \<noteq> ce_key entry) (ca_index c) = ca_index c"
    using ok new by (auto simp: filter_id_conv cache_ok_def)
  then show ?thesis
    using ok new by (auto simp: cache_ok_def push_front_def)
qed

text \<open>The update of an entry through its pointer.\<close>

lemma cache_ok_update:
  assumes ok: "cache_ok c" and x: "(el, entry) \<in> set (ca_lru c)" and k: "ce_key entry' = ce_key entry"
  shows "cache_ok (c\<lparr>ca_lru := map (\<lambda>x. if fst x = el then (el, entry') else x) (ca_lru c)\<rparr>)"
proof -
  have u: "ce_key (snd y) = ce_key entry" if "y \<in> set (ca_lru c)" "fst y = el" for y
    using ok x that find_pointer [OF ok x] by (metis cache_ok_def eq_key_imp_eq_value prod.collapse snd_conv)
  have "map (ce_key \<circ> snd) (map (\<lambda>x. if fst x = el then (el, entry') else x) (ca_lru c))
      = map (ce_key \<circ> snd) (ca_lru c)"
    using u k by (auto simp: o_def)
  moreover have "map fst (map (\<lambda>x. if fst x = el then (el, entry') else x) (ca_lru c)) = map fst (ca_lru c)"
    by (auto simp: o_def)
  moreover have "(\<lambda>x. (ce_key (snd x), fst x)) ` set (map (\<lambda>x. if fst x = el then (el, entry') else x) (ca_lru c))
      = (\<lambda>x. (ce_key (snd x), fst x)) ` set (ca_lru c)"
    unfolding set_map image_image by (rule image_cong) (use u k in auto)
  moreover have "\<forall>y \<in> set (map (\<lambda>x. if fst x = el then (el, entry') else x) (ca_lru c)). fst y < ca_next c"
    using ok x by (auto simp: cache_ok_def)
  ultimately show ?thesis
    using ok unfolding cache_ok_def by (simp del: map_map set_map)
qed

section \<open>The cache implements its specification\<close>

lemma map_of_entries_element:
  "cache_ok c \<Longrightarrow> map_of (entries c) key
     = map_option (\<lambda>x. (ce_result (snd x), ce_expiresAt (snd x))) (element c key)"
  by (simp add: entries_def map_of_entries element_find)

lemma keys_entries: "fst ` set (entries c) = (\<lambda>x. ce_key (snd x)) ` set (ca_lru c)"
  by (simp add: entries_def entry_pair_def image_image)

lemma element_Some:
  "cache_ok c \<Longrightarrow> element c key = Some (el, entry) \<Longrightarrow> (el, entry) \<in> set (ca_lru c) \<and> ce_key entry = key"
  using find_Some_set [of "\<lambda>x. ce_key (snd x) = key" "ca_lru c"] by (simp add: element_find)

lemma get_at_refines:
  assumes ok: "cache_ok c"
  shows "cache_ok (snd (get_at key now c))"
    and "fst (get_at key now c) = fst (spec_get key now (entries c))"
    and "entries (snd (get_at key now c)) = snd (spec_get key now (entries c))"
proof -
  have "cache_ok (snd (get_at key now c))
    \<and> fst (get_at key now c) = fst (spec_get key now (entries c))
    \<and> entries (snd (get_at key now c)) = snd (spec_get key now (entries c))"
  proof (cases "element c key")
    case None
    then show ?thesis using ok by (simp add: get_at_def spec_get_def map_of_entries_element)
  next
    case (Some x)
    obtain el entry where x: "x = (el, entry)" by fastforce
    have e: "(el, entry) \<in> set (ca_lru c)" "ce_key entry = key" using element_Some [OF ok] Some x by auto
    have m: "map_of (entries c) key = Some (ce_result entry, ce_expiresAt entry)"
      using Some x ok by (simp add: map_of_entries_element)
    have r: "entries (list_MoveToFront el c) = (key, ce_result entry, ce_expiresAt entry) # without key (entries c)"
      using cache_ok_MoveToFront(2) [OF ok e(1)] e(2)
      by (simp add: entries_def entries_without) (simp add: entry_pair_def)
    have d: "entries (index_delete key (list_Remove el c)) = without key (entries c)"
      using cache_ok_Remove(2) [OF ok e(1)] e(2) by (simp add: entries_def entries_without)
    show ?thesis
      using cache_ok_MoveToFront(1) [OF ok e(1)] cache_ok_Remove(1) [OF ok e(1)] e(2)
      by (simp add: get_at_def Some x spec_get_def m r d)
  qed
  then show "cache_ok (snd (get_at key now c))"
    and "fst (get_at key now c) = fst (spec_get key now (entries c))"
    and "entries (snd (get_at key now c)) = snd (spec_get key now (entries c))"
    by blast+
qed

lemma put_at_refines:
  assumes ok: "cache_ok c"
  shows "cache_ok (put_at maxSize key r expiry c)
    \<and> entries (put_at maxSize key r expiry c) = spec_put maxSize key r expiry (entries c)"
proof (cases "element c key")
  case None
  have n: "key \<notin> fst ` set (entries c)"
    using map_of_entries_element [OF ok, of key] None by (simp add: map_of_eq_None_iff)
  let ?entry = "\<lparr>ce_key = key, ce_result = r, ce_expiresAt = expiry\<rparr>"
  have sub: "set (ca_lru (evict maxSize c)) \<subseteq> set (ca_lru c)"
    by (auto simp: cache_ok_evict(2) [OF ok] dest: in_set_butlastD)
  have "\<forall>x \<in> set (ca_lru c). ce_key (snd x) \<noteq> key" using n by (auto simp: keys_entries)
  with sub have "cache_ok (push_front ?entry (evict maxSize c))"
    by (intro cache_ok_push_front [OF cache_ok_evict(1) [OF ok]]) auto
  moreover have "entries (push_front ?entry (evict maxSize c)) = spec_put maxSize key r expiry (entries c)"
    using n by (simp add: entries_def push_front_def spec_put_def cache_ok_evict(2) [OF ok] map_butlast)
      (simp add: entry_pair_def)
  ultimately show ?thesis by (simp add: put_at_def None)
next
  case (Some x)
  obtain el entry where x: "x = (el, entry)" by fastforce
  have e: "(el, entry) \<in> set (ca_lru c)" "ce_key entry = key" using element_Some [OF ok] Some x by auto
  have i: "key \<in> fst ` set (entries c)" using e by (force simp: entries_def entry_pair_def)
  let ?entry = "entry\<lparr>ce_result := r, ce_expiresAt := expiry\<rparr>"
  let ?upd = "\<lambda>x. if fst x = el then (el, ?entry) else x"
  let ?c = "c\<lparr>ca_lru := map ?upd (ca_lru c)\<rparr>"
  have ok': "cache_ok ?c" by (rule cache_ok_update [OF ok e(1)]) simp
  have e': "(el, ?entry) \<in> set (ca_lru ?c)" using e(1) by (force simp: image_iff)
  have "map entry_pair (filter (\<lambda>x. ce_key (snd x) \<noteq> key) (map ?upd xs)) = without key (map entry_pair xs)"
    if "set xs \<subseteq> set (ca_lru c)" for xs
    using that
  proof (induction xs)
    case (Cons y ys)
    have "ce_key (snd y) = key" if "fst y = el" using same_pointer [OF ok _ e(1), of y] Cons.prems that e(2) by simp
    with Cons show ?case using e(2) by (auto simp: without_def entry_pair_def)
  qed (simp add: without_def)
  then have "entries (list_MoveToFront el ?c) = (key, r, expiry) # without key (entries c)"
    using cache_ok_MoveToFront(2) [OF ok' e'] e(2)
    by (simp add: entries_def) (simp add: entry_pair_def)
  then show ?thesis
    using cache_ok_MoveToFront(1) [OF ok' e'] i by (simp add: put_at_def Some x spec_put_def)
qed

lemma spec_put_length:
  "0 < maxSize \<Longrightarrow> int (length es) \<le> maxSize \<Longrightarrow> int (length (spec_put maxSize key r expiry es)) \<le> maxSize"
proof -
  assume m: "0 < maxSize" "int (length es) \<le> maxSize"
  have "length (without key es) < length es" if "key \<in> fst ` set es"
    unfolding without_def using that by (auto intro!: length_filter_less)
  with m show ?thesis by (cases "key \<in> fst ` set es") (auto simp: spec_put_def)
qed

text \<open>C10 (refinement): on a consistent cache the pointer structure does what the specification says on
  the list of keys in the order of use: a lookup answers an entry that has not expired and moves it
  to the front or drops an expired one; a store replaces the entry or, when the cache is full, drops
  the least recently used one; both keep the list and the index in step and the size bounded.\<close>

theorem cache_refines:
  assumes "cache_ok c"
  shows "map_prod id entries (get_at key now c) = spec_get key now (entries c)
    \<and> entries (put_at maxSize key r expiry c) = spec_put maxSize key r expiry (entries c)
    \<and> cache_ok (snd (get_at key now c)) \<and> cache_ok (put_at maxSize key r expiry c)
    \<and> (0 < maxSize \<and> int (length (ca_lru c)) \<le> maxSize \<longrightarrow>
         int (length (ca_lru (put_at maxSize key r expiry c))) \<le> maxSize)"
proof -
  have l: "length (ca_lru c) = length (entries c)" for c by (simp add: entries_def)
  show ?thesis
    using get_at_refines [OF assms, of key now] put_at_refines [OF assms, of maxSize key r expiry]
      spec_put_length [of maxSize "entries c" key r expiry]
    by (simp add: l map_prod_def prod_eq_iff case_prod_beta)
qed

section \<open>What a cached login means\<close>

lemma wp_beside [wp_simps]: "wp (beside m) Q s = wp m (\<lambda>a w'. Q a (w', snd s)) (fst s)"
  by (simp add: wp_def beside_def split: prod.split)

lemma wp_State [wp_simps]: "wp (State f) Q s = Q (fst (f s)) (snd (f s))"
  by (simp add: wp_def)

lemma set_spec_get: "map_of es key = None \<or> (\<exists>v. map_of es key = Some v) \<Longrightarrow>
   set (snd (spec_get key now es)) \<subseteq> set es"
  by (auto simp: spec_get_def without_def split: option.splits dest: map_of_SomeD)

lemma set_spec_put: "set (spec_put maxSize key r expiry es) \<subseteq> insert (key, r, expiry) (set es)"
  by (auto simp: spec_put_def without_def dest: in_set_butlastD)

text \<open>Every entry was answered by the inner authenticator to somebody with its key.\<close>

definition honest :: "(string \<Rightarrow> string) \<Rightarrow> (string \<Rightarrow> string \<Rightarrow> AuthResult \<Rightarrow> bool) \<Rightarrow> cache \<Rightarrow> bool" where
  "honest sha accepts c \<longleftrightarrow> cache_ok c \<and> (\<forall>(key, r, expiry) \<in> set (entries c).
     \<exists>u p. CHR '':'' \<notin> set u \<and> key = authCacheKey sha u p \<and> accepts u p r)"

locale credential_check =
  fixes auth :: authenticator
    and accepts :: "string \<Rightarrow> string \<Rightarrow> AuthResult \<Rightarrow> bool"
  assumes sound: "wp (auth u p) (\<lambda>x _. \<forall>r. x = Inr r \<longrightarrow> accepts u p r) w"
begin

lemma honest_get:
  assumes "honest sha accepts c"
  shows "honest sha accepts (snd (get_at key now c))"
    and "fst (get_at key now c) = Some r \<Longrightarrow> \<exists>u p. CHR '':'' \<notin> set u \<and> key = authCacheKey sha u p \<and> accepts u p r"
proof -
  have ok: "cache_ok c" using assms by (simp add: honest_def)
  have "set (entries (snd (get_at key now c))) \<subseteq> set (entries c)"
    using set_spec_get [of "entries c" key now] get_at_refines(3) [OF ok, of key now]
    by (cases "map_of (entries c) key") simp_all
  then show "honest sha accepts (snd (get_at key now c))"
    using assms get_at_refines(1) [OF ok, of key now] unfolding honest_def by blast
  assume "fst (get_at key now c) = Some r"
  then obtain expiry where "map_of (entries c) key = Some (r, expiry)"
    by (auto simp: get_at_refines(2) [OF ok] spec_get_def split: option.splits if_splits)
  then have "(key, r, expiry) \<in> set (entries c)" by (rule map_of_SomeD)
  then show "\<exists>u p. CHR '':'' \<notin> set u \<and> key = authCacheKey sha u p \<and> accepts u p r"
    using assms unfolding honest_def by blast
qed

lemma honest_put:
  assumes "honest sha accepts c" and "CHR '':'' \<notin> set u" and "accepts u p r"
  shows "honest sha accepts (put_at maxSize (authCacheKey sha u p) r expiry c)"
proof -
  have ok: "cache_ok c" using assms(1) by (simp add: honest_def)
  let ?c = "put_at maxSize (authCacheKey sha u p) r expiry c"
  have "set (entries ?c) \<subseteq> insert (authCacheKey sha u p, r, expiry) (set (entries c))"
    using put_at_refines [OF ok, of maxSize "authCacheKey sha u p" r expiry] set_spec_put by simp
  moreover have "\<exists>u' p'. CHR '':'' \<notin> set u' \<and> authCacheKey sha u p = authCacheKey sha u' p' \<and> accepts u' p' r"
    using assms(2,3) by blast
  ultimately show ?thesis
    using assms(1) put_at_refines [OF ok, of maxSize "authCacheKey sha u p" r expiry]
    unfolding honest_def by (auto dest!: subsetD)
qed

lemma cached_login:
  assumes h: "honest sha accepts c" and u: "CHR '':'' \<notin> set u"
  shows "wp (cached_AuthenticateUser sha maxSize ttl auth u p)
    (\<lambda>x (w', c'). honest sha accepts c' \<and> (\<forall>r. x = Inr r \<longrightarrow>
       (\<exists>u' p'. CHR '':'' \<notin> set u' \<and> authCacheKey sha u p = authCacheKey sha u' p' \<and> accepts u' p' r))) (w, c)"
proof -
  let ?Q = "\<lambda>x (w', c'). honest sha accepts c' \<and> (\<forall>r. x = Inr r \<longrightarrow>
       (\<exists>u' p'. CHR '':'' \<notin> set u' \<and> authCacheKey sha u p = authCacheKey sha u' p' \<and> accepts u' p' r))"
  have miss: "wp (do {
      r \<leftarrow> beside (auth u p);
      (case r of Inl e \<Rightarrow> ret (Inl e)
       | Inr result \<Rightarrow> do { cachePut maxSize ttl (authCacheKey sha u p) result; ret (Inr result) }) }) ?Q (w1, c1)"
    if "honest sha accepts c1" for w1 c1
    unfolding wp_bind [of "beside (auth u p)"] wp_beside fst_conv snd_conv
  proof (rule wp_mono [OF sound])
    fix x w2 assume a: "\<forall>r. x = Inr r \<longrightarrow> accepts u p r"
    show "wp (case x of Inl e \<Rightarrow> ret (Inl e)
       | Inr result \<Rightarrow> do { cachePut maxSize ttl (authCacheKey sha u p) result; ret (Inr result) }) ?Q (w2, c1)"
      using a honest_put [OF that u] that u
      by (auto simp: wp_simps cachePut_def split: sum.split)
  qed
  have get: "wp (cacheGet key) (\<lambda>x (w', c'). honest sha accepts c' \<and>
      (\<forall>r. x = Some r \<longrightarrow> fst (get_at key (w_now (advance_clock w)) c) = Some r)) (w, c)" for key
    using h honest_get(1) [OF h] by (simp add: cacheGet_def wp_simps Let_def case_prod_beta)
  show ?thesis
    unfolding cached_AuthenticateUser_def wp_bind [of "cacheGet _"]
  proof (rule wp_mono [OF get], clarify)
    fix x w1 c1 assume hit: "honest sha accepts c1"
      "\<forall>r. x = Some r \<longrightarrow> fst (get_at (authCacheKey sha u p) (w_now (advance_clock w)) c) = Some r"
    show "wp (case x of Some result \<Rightarrow> ret (Inr result)
        | None \<Rightarrow> do {
            r \<leftarrow> beside (auth u p);
            (case r of Inl e \<Rightarrow> ret (Inl e)
             | Inr result \<Rightarrow> do { cachePut maxSize ttl (authCacheKey sha u p) result; ret (Inr result) }) })
        ?Q (w1, c1)"
    proof (cases x)
      case None
      with miss [OF hit(1)] show ?thesis by simp
    next
      case (Some r)
      with hit honest_get(2) [OF h, of "authCacheKey sha u p" "w_now (advance_clock w)" r] show ?thesis
        by (simp add: wp_simps)
    qed
  qed
qed

end

interpretation ldap_login: credential_check "ldapAuthenticator ldap conf"
    "\<lambda>u p r. \<exists>now. AuthenticateUser (ldap now) conf u p = Inr r" for ldap conf
  by unfold_locales (auto simp: ldapAuthenticator_def wp_simps)

lemma authCacheKey_inj:
  assumes "inj sha" and "CHR '':'' \<notin> set u" and "CHR '':'' \<notin> set u'"
    and "authCacheKey sha u p = authCacheKey sha u' p'"
  shows "u = u' \<and> p = p'"
proof -
  have "u @ CHR '':'' # p = u' @ CHR '':'' # p'"
    using assms(1,4) by (simp add: authCacheKey_def inj_eq)
  then show ?thesis
    using assms(2,3) cut_at_Some [of "CHR '':''" "u @ CHR '':'' # p" u p]
      cut_at_Some [of "CHR '':''" "u' @ CHR '':'' # p'" u' p'] by simp
qed


text \<open>The key joins name and password with a colon, so it does not separate them: while the
  login of \<open>u\<close> with \<open>p:q\<close> is cached, the name \<open>u:p\<close> with the password \<open>q\<close> is let in as \<open>u\<close>, and
  LDAP is not asked.\<close>

theorem cached_login_confuses:
  assumes "cache_ok c" and "map_of (entries c) (authCacheKey sha u (p @ '':'' @ q)) = Some (r, expiry)"
    and "w_now (advance_clock w) \<le> expiry"
  shows "fst (run_state (cached_AuthenticateUser sha maxSize ttl inner (u @ '':'' @ p) q) (w, c)) = Inr r"
proof -
  let ?key = "authCacheKey sha (u @ '':'' @ p) q"
  have key: "authCacheKey sha u (p @ '':'' @ q) = ?key" by (simp add: authCacheKey_def)
  obtain x where x: "element c ?key = Some x"
    using assms(2) map_of_entries_element [OF assms(1), of ?key] unfolding key by (cases "element c ?key") simp_all
  have "fst (get_at ?key (w_now (advance_clock w)) c) = Some r"
    using assms(2,3) unfolding key by (simp add: get_at_refines(2) [OF assms(1)] spec_get_def)
  then have "wp (cached_AuthenticateUser sha maxSize ttl inner (u @ '':'' @ p) q) (\<lambda>x _. x = Inr r) (w, c)"
    using x by (simp add: cached_AuthenticateUser_def cacheGet_def wp_simps Let_def case_prod_beta)
  then show ?thesis by (simp add: wp_def)
qed

end
