(* ===== verification/Ldap_Sync.thy ===== *)
theory Ldap_Sync
  imports Ldap
begin

text \<open>
  The LDAP syncer (\<open>ldap/sync.go\<close>): on every cycle the rows of groups that are no longer configured
  are deleted, and for each configured group its rows are replaced by LDAP's members inside one
  transaction. The writer has a single connection, so a rollback restores the tables as they were
  at its begin. The lemmas show that the replacement of a group is all or nothing, and what a whole
  cycle leaves in \<open>group_members\<close>.
\<close>

datatype sync_error = SearchError string | BeginError | DeleteError | InsertError string | CommitError

text \<open>\<open>BeginTx\<close>, the body, then \<open>Commit\<close>, or \<open>Rollback\<close> after an error.\<close>

definition transaction :: "(world, sync_error + 'a) state \<Rightarrow> (world, sync_error + 'a) state" where
  "transaction body = do {
     b \<leftarrow> statement (\<lambda>d. Inr ((), d));
     (case b of Inl e \<Rightarrow> ret (Inl BeginError)
      | Inr _ \<Rightarrow> do {
          before \<leftarrow> gets w_db;
          r \<leftarrow> body;
          (case r of
             Inl e \<Rightarrow> do { modify (\<lambda>w. w\<lparr>w_db := before\<rparr>); ret (Inl e) }
           | Inr a \<Rightarrow> do {
               c \<leftarrow> statement (\<lambda>d. Inr ((), d));
               (case c of
                  Inl e \<Rightarrow> do { modify (\<lambda>w. w\<lparr>w_db := before\<rparr>); ret (Inl CommitError) }
                | Inr _ \<Rightarrow> ret (Inr a)) }) }) }"

definition toNullableString :: "string \<Rightarrow> null_string" where
  "toNullableString s = (if s = [] then None else Some s)"

definition member_row :: "string \<Rightarrow> string \<Rightarrow> Member \<Rightarrow> GroupMember" where
  "member_row groupName syncedAt m = \<lparr>gm_GroupName = groupName, gm_Username = mb_Username m,
     gm_DisplayName = toNullableString (mb_DisplayName m), gm_Email = toNullableString (mb_Email m),
     gm_Mobile = toNullableString (mb_Mobile m), gm_Work = toNullableString (mb_Work m),
     gm_SyncedAt = syncedAt\<rparr>"

text \<open>The loop over the members; one without a name is skipped.\<close>

fun insert_members :: "string \<Rightarrow> string \<Rightarrow> Member list \<Rightarrow> (world, sync_error + unit) state" where
  "insert_members groupName syncedAt [] = ret (Inr ())"
| "insert_members groupName syncedAt (m # ms) =
     (if mb_Username m = [] then insert_members groupName syncedAt ms
      else do {
        r \<leftarrow> InsertGroupMember (member_row groupName syncedAt m);
        (case r of Inl e \<Rightarrow> ret (Inl (InsertError (mb_Username m)))
         | Inr _ \<Rightarrow> insert_members groupName syncedAt ms) })"

definition replace_members :: "string \<Rightarrow> Member list \<Rightarrow> (world, sync_error + nat) state" where
  "replace_members groupName members = do {
     r \<leftarrow> DeleteGroupMembers groupName;
     (case r of Inl e \<Rightarrow> ret (Inl DeleteError)
      | Inr _ \<Rightarrow> do {
          syncedAt \<leftarrow> now_RFC3339;
          x \<leftarrow> insert_members groupName syncedAt members;
          ret (case x of Inl e \<Rightarrow> Inl e | Inr _ \<Rightarrow> Inr (length members)) }) }"

definition syncGroup :: "(int \<Rightarrow> goldap) \<Rightarrow> ldap_conf \<Rightarrow> nat \<Rightarrow> string option \<Rightarrow> string
    \<Rightarrow> (world, sync_error + nat) state" where
  "syncGroup ldap c pageSize conn groupName = do {
     now \<leftarrow> gets w_now;
     (case SearchGroupMembers (ldap now) c conn groupName pageSize of
        Inl e \<Rightarrow> ret (Inl (SearchError e))
      | Inr members \<Rightarrow> transaction (replace_members groupName members)) }"

definition cleanupGroups :: "SyncGroup list \<Rightarrow> (world, unit) state" where
  "cleanupGroups activeSyncGroups = do {
     r \<leftarrow> ListDistinctGroupNames;
     (case r of Inl e \<Rightarrow> ret ()
      | Inr names \<Rightarrow> for_each (\<lambda>name. if name \<in> set (map sg_GroupName activeSyncGroups) then ret ()
          else do { _ \<leftarrow> DeleteGroupMembers name; ret () }) names) }"

definition sync_each :: "(int \<Rightarrow> goldap) \<Rightarrow> ldap_conf \<Rightarrow> nat \<Rightarrow> string \<Rightarrow> SyncGroup list \<Rightarrow> (world, unit) state" where
  "sync_each ldap c pageSize conn groups =
     for_each (\<lambda>g. do { _ \<leftarrow> syncGroup ldap c pageSize (Some conn) (sg_GroupName g); ret () }) groups"

definition syncOnce :: "(int \<Rightarrow> goldap) \<Rightarrow> ldap_conf \<Rightarrow> nat \<Rightarrow> (world, unit) state" where
  "syncOnce ldap c pageSize = do {
     l \<leftarrow> ListSyncGroups;
     (case l of Inl e \<Rightarrow> ret ()
      | Inr syncGroups \<Rightarrow> do {
          cleanupGroups syncGroups;
          if syncGroups = [] then ret ()
          else do {
            _ \<leftarrow> time_Now;
            now \<leftarrow> gets w_now;
            (case Connect (ldap now) c of
               Inl e \<Rightarrow> ret ()
             | Inr conn \<Rightarrow> sync_each ldap c pageSize conn syncGroups) } }) }"

text \<open>The loop of \<open>Run\<close>: once at the start, then at each tick until the context is done.\<close>

primrec sync_ticks :: "(int \<Rightarrow> goldap) \<Rightarrow> ldap_conf \<Rightarrow> nat \<Rightarrow> int \<Rightarrow> nat \<Rightarrow> (world, unit) state" where
  "sync_ticks ldap c pageSize interval 0 = ret ()"
| "sync_ticks ldap c pageSize interval (Suc n) = do {
     stopped \<leftarrow> sleep_or_done interval;
     if stopped then ret ()
     else do { syncOnce ldap c pageSize; sync_ticks ldap c pageSize interval n } }"

definition syncer_Run :: "(int \<Rightarrow> goldap) \<Rightarrow> ldap_conf \<Rightarrow> nat \<Rightarrow> int \<Rightarrow> nat \<Rightarrow> (world, unit) state" where
  "syncer_Run ldap c pageSize interval n = do {
     syncOnce ldap c pageSize;
     sync_ticks ldap c pageSize interval n }"

section \<open>The replacement of a group is all or nothing\<close>

lemma sent_same_db: "w_db_update (\<lambda>_. w_db w) (sent w) = sent w"
  by (cases w) (simp add: sent_def)

lemma wp_transaction_db:
  assumes "wp body (\<lambda>r w'. \<forall>a. r = Inr a \<longrightarrow> P a (w_db w')) (sent w)"
  shows "wp (transaction body) (\<lambda>r w'. (\<exists>e. r = Inl e) \<and> w_db w' = w_db w
    \<or> (\<exists>a. r = Inr a \<and> P a (w_db w'))) w"
proof (cases "faulty w")
  case True
  then show ?thesis by (simp add: transaction_def wp_simps)
next
  case False
  from assms have "wp body (\<lambda>r w'. wp (case r of
        Inl e \<Rightarrow> do { modify (\<lambda>v. v\<lparr>w_db := w_db w\<rparr>); ret (Inl e) }
      | Inr a \<Rightarrow> do {
          c \<leftarrow> statement (\<lambda>d. Inr ((), d));
          (case c of
             Inl e \<Rightarrow> do { modify (\<lambda>v. v\<lparr>w_db := w_db w\<rparr>); ret (Inl CommitError) }
           | Inr _ \<Rightarrow> ret (Inr a)) })
      (\<lambda>r w'. (\<exists>e. r = Inl e) \<and> w_db w' = w_db w \<or> (\<exists>a. r = Inr a \<and> P a (w_db w'))) w') (sent w)"
    by (rule wp_mono) (auto simp: wp_simps split: sum.split)
  then show ?thesis
    unfolding transaction_def using False
    by (simp add: wp_bind wp_statement wp_gets sent_same_db cong: sum.case_cong)
qed

lemma preserves_transaction [keeps]:
  assumes "preserves (on_db J) body"
  shows "preserves (on_db J) (transaction body)"
proof (rule preservesI)
  fix w assume J: "on_db J w"
  with assms have "wp body (\<lambda>_. on_db J) (sent w)" by (simp add: preserves_wp)
  then have "wp body (\<lambda>r w'. \<forall>a. r = Inr a \<longrightarrow> J (w_db w')) (sent w)"
    by (rule wp_mono) (simp add: on_db_def)
  then have "wp (transaction body) (\<lambda>r w'. (\<exists>e. r = Inl e) \<and> w_db w' = w_db w
      \<or> (\<exists>a. r = Inr a \<and> J (w_db w'))) w" by (rule wp_transaction_db)
  then show "wp (transaction body) (\<lambda>_. on_db J) w"
    by (rule wp_mono) (use J in \<open>auto simp: on_db_def\<close>)
qed

lemma insert_members_keeps_db_ok [keeps]: "preserves (on_db db_ok) (insert_members g at ms)"
  by (induction ms) (auto intro!: keeps)

lemma syncer_keeps_db_ok [keeps]:
  "preserves (on_db db_ok) (syncGroup ldap c pageSize conn g)"
  "preserves (on_db db_ok) (cleanupGroups gs)"
  "preserves (on_db db_ok) (syncOnce ldap c pageSize)"
  unfolding syncGroup_def replace_members_def cleanupGroups_def syncOnce_def sync_each_def
  by (intro keeps)+

definition member_rows :: "string \<Rightarrow> string \<Rightarrow> Member list \<Rightarrow> GroupMember list" where
  "member_rows g at ms = map (member_row g at) (filter (\<lambda>m. mb_Username m \<noteq> []) ms)"

lemma insert_members_rows:
  "wp (insert_members g at ms) (\<lambda>x w'. \<forall>u. x = Inr u \<longrightarrow>
     w_db w' = w_db w\<lparr>group_members := group_members (w_db w) @ member_rows g at ms\<rparr>) w"
proof (induction ms arbitrary: w)
  case Nil
  then show ?case by (simp add: wp_simps member_rows_def)
next
  case (Cons m ms)
  show ?case
  proof (cases "mb_Username m = []")
    case True
    then show ?thesis using Cons.IH by (simp add: member_rows_def)
  next
    case False
    let ?w = "sent w\<lparr>w_db := w_db w\<lparr>group_members := group_members (w_db w) @ [member_row g at m]\<rparr>\<rparr>"
    from False Cons.IH [of ?w] show ?thesis
      by (simp add: wp_simps InsertGroupMember_def member_rows_def)
  qed
qed

lemma replace_members_rows:
  "wp (replace_members g ms) (\<lambda>r w'. \<forall>n. r = Inr n \<longrightarrow> n = length ms
     \<and> (\<exists>at. w_db w' = w_db w\<lparr>group_members :=
          filter (\<lambda>m. gm_GroupName m \<noteq> g) (group_members (w_db w)) @ member_rows g at ms\<rparr>)) w"
proof (cases "faulty w")
  case True
  then show ?thesis by (simp add: replace_members_def DeleteGroupMembers_def wp_simps)
next
  case False
  let ?d = "w_db w\<lparr>group_members := filter (\<lambda>m. gm_GroupName m \<noteq> g) (group_members (w_db w))\<rparr>"
  have "wp (insert_members g at ms) (\<lambda>x w'. \<forall>n. (case x of Inl e \<Rightarrow> Inl e | Inr _ \<Rightarrow> Inr (length ms)) = Inr n
      \<longrightarrow> n = length ms \<and> (\<exists>at. w_db w' = w_db w\<lparr>group_members :=
          filter (\<lambda>m. gm_GroupName m \<noteq> g) (group_members (w_db w)) @ member_rows g at ms\<rparr>)) v"
    if "w_db v = ?d" for at v
    by (rule insert_members_rows [THEN wp_mono]) (use that in \<open>auto split: sum.splits\<close>)
  with False show ?thesis
    by (simp add: replace_members_def DeleteGroupMembers_def wp_bind wp_exec wp_now_RFC3339 wp_ret)
qed

lemma syncGroup_effect:
  assumes "run_state (syncGroup ldap c pageSize conn g) w = (r, w')"
  shows "(\<exists>e. r = Inl e \<and> w_db w' = w_db w)
    \<or> (\<exists>ms at. r = Inr (length ms) \<and> SearchGroupMembers (ldap (w_now w)) c conn g pageSize = Inr ms
         \<and> w_db w' = w_db w\<lparr>group_members :=
             filter (\<lambda>m. gm_GroupName m \<noteq> g) (group_members (w_db w)) @ member_rows g at ms\<rparr>)"
proof (cases "SearchGroupMembers (ldap (w_now w)) c conn g pageSize")
  case (Inl e)
  have "w_db w' = w_db w \<and> r = Inl (SearchError e)"
    using assms by (auto simp: syncGroup_def Inl)
  then show ?thesis by auto
next
  case (Inr ms)
  let ?P = "\<lambda>n d. n = length ms \<and> (\<exists>at. d = w_db w\<lparr>group_members :=
    filter (\<lambda>m. gm_GroupName m \<noteq> g) (group_members (w_db w)) @ member_rows g at ms\<rparr>)"
  have "wp (replace_members g ms) (\<lambda>r w'. \<forall>n. r = Inr n \<longrightarrow> ?P n (w_db w')) (sent w)"
    by (rule replace_members_rows [THEN wp_mono]) auto
  then have "wp (transaction (replace_members g ms))
      (\<lambda>r w'. (\<exists>e. r = Inl e) \<and> w_db w' = w_db w \<or> (\<exists>n. r = Inr n \<and> ?P n (w_db w'))) w"
    by (rule wp_transaction_db)
  moreover have "run_state (transaction (replace_members g ms)) w = (r, w')"
    using assms by (simp add: syncGroup_def Inr)
  ultimately have "(\<exists>e. r = Inl e) \<and> w_db w' = w_db w \<or> (\<exists>n. r = Inr n \<and> ?P n (w_db w'))"
    by (rule wp_run)
  then show ?thesis using Inr by auto
qed

text \<open>The members of a group are replaced as a whole or not at all: after an error the
  tables are as before; after a success only the rows of this group differ, and they are exactly
  LDAP's members that have a name.\<close>

theorem syncGroup_atomic:
  assumes "run_state (syncGroup ldap c pageSize conn g) w = (r, w')"
  shows "(\<exists>e. r = Inl e \<and> w_db w' = w_db w)
    \<or> (\<exists>ms at. r = Inr (length ms) \<and> SearchGroupMembers (ldap (w_now w)) c conn g pageSize = Inr ms
         \<and> w_db w' = w_db w\<lparr>group_members :=
             filter (\<lambda>m. gm_GroupName m \<noteq> g) (group_members (w_db w)) @ member_rows g at ms\<rparr>)"
  using assms by (rule syncGroup_effect)

section \<open>What a cycle leaves\<close>

definition configured :: "database \<Rightarrow> string set" where
  "configured d = sg_GroupName ` set (sync_groups d)"

text \<open>\<open>d'\<close> differs from \<open>d\<close> in members only; a configured group has its old rows or the members of
  one answer of LDAP, another group its old rows or none.\<close>

definition group_synced :: "(int \<Rightarrow> goldap) \<Rightarrow> ldap_conf \<Rightarrow> nat \<Rightarrow> bool \<Rightarrow> string \<Rightarrow> GroupMember list
    \<Rightarrow> GroupMember list \<Rightarrow> bool" where
  "group_synced ldap c pageSize conf g old new \<longleftrightarrow> new = old \<or> \<not> conf \<and> new = []
   \<or> conf \<and> (\<exists>t conn ms at. SearchGroupMembers (ldap t) c conn g pageSize = Inr ms \<and> new = member_rows g at ms)"

definition synced :: "(int \<Rightarrow> goldap) \<Rightarrow> ldap_conf \<Rightarrow> nat \<Rightarrow> database \<Rightarrow> database \<Rightarrow> bool" where
  "synced ldap c pageSize d d' \<longleftrightarrow> (\<exists>gm. d' = d\<lparr>group_members := gm\<rparr>)
   \<and> (\<forall>g. group_synced ldap c pageSize (g \<in> configured d) g (members_of d g) (members_of d' g))"

lemma group_synced_simps [simp]:
  "group_synced ldap c pageSize conf g old old"
  "group_synced ldap c pageSize False g old []"
  by (simp_all add: group_synced_def)

lemma group_synced_answer:
  "SearchGroupMembers (ldap t) c conn g pageSize = Inr ms \<Longrightarrow>
   group_synced ldap c pageSize True g old (member_rows g at ms)"
  by (auto simp: group_synced_def)

lemma members_of_simps [simp]:
  "members_of (d\<lparr>group_members := filter (\<lambda>m. gm_GroupName m \<noteq> g) gm @ rows\<rparr>) h
     = (if h = g then [] else members_of (d\<lparr>group_members := gm\<rparr>) h)
       @ filter (\<lambda>m. gm_GroupName m = h) rows"
  "members_of (d\<lparr>group_members := filter (\<lambda>m. gm_GroupName m \<noteq> g) gm\<rparr>) h
     = (if h = g then [] else members_of (d\<lparr>group_members := gm\<rparr>) h)"
  "members_of (d\<lparr>group_members := group_members d\<rparr>) h = members_of d h"
  by (auto simp: members_of_def intro!: filter_cong)

lemma filter_member_rows [simp]:
  "filter (\<lambda>m. gm_GroupName m = h) (member_rows g at ms) = (if h = g then member_rows g at ms else [])"
  by (simp add: member_rows_def filter_map o_def member_row_def)

lemma synced_refl: "synced ldap c pageSize d d"
  by (simp add: synced_def exI [of _ "group_members d"])

lemma synced_group:
  assumes "synced ldap c pageSize d d'" and "g \<in> configured d"
    and "SearchGroupMembers (ldap t) c conn g pageSize = Inr ms"
  shows "synced ldap c pageSize d (d'\<lparr>group_members :=
    filter (\<lambda>m. gm_GroupName m \<noteq> g) (group_members d') @ member_rows g at ms\<rparr>)"
proof -
  from assms(1) obtain gm where d': "d' = d\<lparr>group_members := gm\<rparr>" by (auto simp: synced_def)
  with assms show ?thesis by (auto simp: synced_def intro: group_synced_answer)
qed

lemma synced_delete:
  assumes "synced ldap c pageSize d d'" and "g \<notin> configured d"
  shows "synced ldap c pageSize d (d'\<lparr>group_members :=
    filter (\<lambda>m. gm_GroupName m \<noteq> g) (group_members d')\<rparr>)"
proof -
  from assms(1) obtain gm where d': "d' = d\<lparr>group_members := gm\<rparr>" by (auto simp: synced_def)
  with assms show ?thesis by (auto simp: synced_def)
qed

lemma syncGroup_cases:
  assumes "J (w_db w)"
    and "\<And>t ms at. SearchGroupMembers (ldap t) c conn g pageSize = Inr ms \<Longrightarrow> J (w_db w\<lparr>group_members :=
      filter (\<lambda>m. gm_GroupName m \<noteq> g) (group_members (w_db w)) @ member_rows g at ms\<rparr>)"
  shows "on_db J (snd (run_state (syncGroup ldap c pageSize conn g) w))"
proof -
  let ?r = "run_state (syncGroup ldap c pageSize conn g) w"
  have run: "run_state (syncGroup ldap c pageSize conn g) w = (fst ?r, snd ?r)" by simp
  show ?thesis using syncGroup_effect [OF run] assms by (auto simp: on_db_def)
qed

lemma sync_each_keeps:
  assumes "\<And>g d t ms at. g \<in> sg_GroupName ` set gs \<Longrightarrow> J d \<Longrightarrow>
    SearchGroupMembers (ldap t) c (Some conn) g pageSize = Inr ms \<Longrightarrow>
    J (d\<lparr>group_members := filter (\<lambda>m. gm_GroupName m \<noteq> g) (group_members d) @ member_rows g at ms\<rparr>)"
  shows "preserves (on_db J) (sync_each ldap c pageSize conn gs)"
  unfolding sync_each_def
proof (rule preserves_for_each_set, intro keeps)
  fix g assume g: "g \<in> set gs"
  show "preserves (on_db J) (syncGroup ldap c pageSize (Some conn) (sg_GroupName g))"
    unfolding preserves_def
    by (intro allI impI syncGroup_cases) (use assms g in \<open>auto simp: on_db_def\<close>)
qed

lemma cleanupGroups_keeps:
  assumes "\<And>g d. g \<notin> sg_GroupName ` set gs \<Longrightarrow> J d \<Longrightarrow>
    J (d\<lparr>group_members := filter (\<lambda>m. gm_GroupName m \<noteq> g) (group_members d)\<rparr>)"
  shows "preserves (on_db J) (cleanupGroups gs)"
  unfolding cleanupGroups_def
proof (intro preserves_bind preserves_case_sum preserves_ret preserves_for_each reads_keep)
  fix name
  show "preserves (on_db J) (if name \<in> set (map sg_GroupName gs) then ret ()
      else do { _ \<leftarrow> DeleteGroupMembers name; ret () })"
  proof (cases "name \<in> set (map sg_GroupName gs)")
    case True
    then show ?thesis by (simp add: keeps)
  next
    case False
    have "preserves (on_db J) (DeleteGroupMembers name)"
      unfolding DeleteGroupMembers_def by (rule preserves_exec) (use assms False in simp)
    with False show ?thesis by (simp add: keeps)
  qed
qed

lemma syncOnce_keeps:
  assumes J: "J (w_db w)"
    and delete: "\<And>g d. g \<notin> configured (w_db w) \<Longrightarrow> J d \<Longrightarrow>
      J (d\<lparr>group_members := filter (\<lambda>m. gm_GroupName m \<noteq> g) (group_members d)\<rparr>)"
    and replace: "\<And>g d t conn ms at. g \<in> configured (w_db w) \<Longrightarrow> J d \<Longrightarrow>
      SearchGroupMembers (ldap t) c conn g pageSize = Inr ms \<Longrightarrow>
      J (d\<lparr>group_members := filter (\<lambda>m. gm_GroupName m \<noteq> g) (group_members d) @ member_rows g at ms\<rparr>)"
  shows "wp (syncOnce ldap c pageSize) (\<lambda>_. on_db J) w"
proof -
  let ?gs = "order_by sg_GroupName (sync_groups (w_db w))"
  have gs: "sg_GroupName ` set ?gs = configured (w_db w)" by (simp add: configured_def)
  have each: "preserves (on_db J) (sync_each ldap c pageSize conn ?gs)" for conn
    by (rule sync_each_keeps) (use replace gs in blast)
  have clean: "preserves (on_db J) (cleanupGroups ?gs)"
    by (rule cleanupGroups_keeps) (use delete gs in blast)
  have "preserves (on_db J) (do {
          cleanupGroups ?gs;
          if ?gs = [] then ret ()
          else do {
            _ \<leftarrow> time_Now;
            now \<leftarrow> gets w_now;
            (case Connect (ldap now) c of
               Inl e \<Rightarrow> ret ()
             | Inr conn \<Rightarrow> sync_each ldap c pageSize conn ?gs) } })"
    by (intro keeps clean each)
  then have "wp (do {
          cleanupGroups ?gs;
          if ?gs = [] then ret ()
          else do {
            _ \<leftarrow> time_Now;
            now \<leftarrow> gets w_now;
            (case Connect (ldap now) c of
               Inl e \<Rightarrow> ret ()
             | Inr conn \<Rightarrow> sync_each ldap c pageSize conn ?gs) } }) (\<lambda>_. on_db J) (sent w)"
    by (rule preserves_wp) (use J in \<open>simp add: on_db_def\<close>)
  moreover have "on_db J (sent w)" using J by (simp add: on_db_def)
  ultimately show ?thesis
    unfolding syncOnce_def ListSyncGroups_def
    by (simp only: wp_bind [of "query_many _"] wp_query_many sum.case wp_ret if_split) simp
qed

text \<open>C26 (functional): one cycle, whatever fails in it, changes only group members; each configured
  group has afterwards its rows of before or exactly the named members of one answer of LDAP, and
  every other group its rows of before or none.\<close>

theorem syncOnce_synced:
  assumes "run_state (syncOnce ldap c pageSize) w = (u, w')"
  shows "synced ldap c pageSize (w_db w) (w_db w')"
proof -
  have "wp (syncOnce ldap c pageSize) (\<lambda>_. on_db (synced ldap c pageSize (w_db w))) w"
    by (rule syncOnce_keeps) (use synced_refl synced_delete synced_group in blast)+
  then show ?thesis using assms by (simp add: wp_def on_db_def)
qed

text \<open>Without a failure of the database the members of every group that is not configured are gone.\<close>

lemma wp_cleanup_loop:
  assumes "w_faults w = []"
  shows "wp (for_each (\<lambda>name. if name \<in> G then ret () else do { _ \<leftarrow> DeleteGroupMembers name; ret () }) names)
    (\<lambda>_ w'. w_faults w' = [] \<and> w_db w' = w_db w\<lparr>group_members :=
       filter (\<lambda>m. gm_GroupName m \<in> G \<or> gm_GroupName m \<notin> set names) (group_members (w_db w))\<rparr>) w"
  using assms
proof (induction names arbitrary: w)
  case Nil
  then show ?case by (simp add: wp_simps)
next
  case (Cons name names)
  show ?case
  proof (cases "name \<in> G")
    case True
    have eq: "filter (\<lambda>m. gm_GroupName m \<in> G \<or> gm_GroupName m \<notin> set names) ms
        = filter (\<lambda>m. gm_GroupName m \<in> G \<or> gm_GroupName m \<notin> set (name # names)) ms" for ms
      using True by (intro filter_cong) auto
    show ?thesis using Cons.IH [OF Cons.prems, unfolded eq] True by (simp add: wp_for_each_Cons wp_ret)
  next
    case False
    let ?w = "w\<lparr>w_db := w_db w\<lparr>group_members :=
      filter (\<lambda>m. gm_GroupName m \<noteq> name) (group_members (w_db w))\<rparr>\<rparr>"
    have eq: "filter (\<lambda>m. gm_GroupName m \<in> G \<or> gm_GroupName m \<notin> set names)
          (filter (\<lambda>m. gm_GroupName m \<noteq> name) ms)
        = filter (\<lambda>m. gm_GroupName m \<in> G \<or> gm_GroupName m \<notin> set (name # names)) ms" for ms
      using False by (auto simp: filter_filter intro!: filter_cong)
    have "w_faults ?w = []" using Cons.prems by simp
    from Cons.IH [OF this] have "wp (for_each (\<lambda>name. if name \<in> G then ret ()
          else do { _ \<leftarrow> DeleteGroupMembers name; ret () }) names)
        (\<lambda>_ w'. w_faults w' = [] \<and> w_db w' = w_db w\<lparr>group_members :=
           filter (\<lambda>m. gm_GroupName m \<in> G \<or> gm_GroupName m \<notin> set (name # names)) (group_members (w_db w))\<rparr>) ?w"
      by (rule wp_mono) (simp add: eq [simplified])
    with False Cons.prems show ?thesis
      by (simp add: wp_for_each_Cons wp_bind wp_ret DeleteGroupMembers_def wp_exec)
  qed
qed

lemma wp_cleanupGroups:
  assumes "w_faults w = []"
  shows "wp (cleanupGroups gs) (\<lambda>_ w'. w_faults w' = [] \<and> w_db w' = w_db w\<lparr>group_members :=
    filter (\<lambda>m. gm_GroupName m \<in> sg_GroupName ` set gs) (group_members (w_db w))\<rparr>) w"
proof -
  let ?names = "remdups (order_by id (map gm_GroupName (group_members (w_db w))))"
  have eq: "filter (\<lambda>m. gm_GroupName m \<in> G \<or> gm_GroupName m \<notin> set ?names) (group_members (w_db w))
      = filter (\<lambda>m. gm_GroupName m \<in> G) (group_members (w_db w))" for G
    by (intro filter_cong) auto
  have "wp (for_each (\<lambda>name. if name \<in> set (map sg_GroupName gs) then ret ()
        else do { _ \<leftarrow> DeleteGroupMembers name; ret () }) ?names)
      (\<lambda>_ w'. w_faults w' = [] \<and> w_db w' = w_db w\<lparr>group_members :=
        filter (\<lambda>m. gm_GroupName m \<in> sg_GroupName ` set gs) (group_members (w_db w))\<rparr>) w"
    by (rule wp_cleanup_loop [OF assms, THEN wp_mono]) (simp add: eq [simplified])
  with assms show ?thesis
    by (simp add: cleanupGroups_def ListDistinctGroupNames_def wp_bind wp_query_many)
qed

text \<open>With a database that answers, the members of a group are replaced unless LDAP fails or names one
  of them twice.\<close>

definition mirrored :: "goldap \<Rightarrow> ldap_conf \<Rightarrow> nat \<Rightarrow> string \<Rightarrow> string \<Rightarrow> GroupMember list \<Rightarrow> GroupMember list \<Rightarrow> bool" where
  "mirrored l c pageSize conn g old new \<longleftrightarrow> (case SearchGroupMembers l c (Some conn) g pageSize of
     Inl e \<Rightarrow> new = old
   | Inr ms \<Rightarrow> if distinct (filter (\<lambda>u. u \<noteq> []) (map mb_Username ms)) then \<exists>at. new = member_rows g at ms
       else new = old)"

lemma insert_members_result:
  assumes "w_faults w = []" and "\<forall>m \<in> set (group_members (w_db w)). gm_GroupName m = g \<longrightarrow> gm_Username m \<in> U"
    and "\<forall>u \<in> U. (g, u) \<in> member_key ` set (group_members (w_db w))"
  shows "wp (insert_members g at ms) (\<lambda>x w'. w_faults w' = []
    \<and> ((\<exists>u. x = Inr u) \<longleftrightarrow> distinct (filter (\<lambda>u. u \<noteq> []) (map mb_Username ms))
          \<and> U \<inter> set (filter (\<lambda>u. u \<noteq> []) (map mb_Username ms)) = {})) w"
  using assms
proof (induction ms arbitrary: w U)
  case Nil
  then show ?case by (simp add: wp_ret)
next
  case (Cons m ms)
  show ?case
  proof (cases "mb_Username m = []")
    case True
    then show ?thesis using Cons.IH [OF Cons.prems] by simp
  next
    case named: False
    show ?thesis
    proof (cases "mb_Username m \<in> U")
      case True
      with Cons.prems(1,3) named show ?thesis
        by (simp add: InsertGroupMember_def wp_simps member_row_def member_key_def)
    next
      case False
      then have free: "member_key (member_row g at m) \<notin> member_key ` set (group_members (w_db w))"
        using Cons.prems(2) by (auto simp: member_key_def member_row_def)
      let ?w = "w\<lparr>w_db := w_db w\<lparr>group_members := group_members (w_db w) @ [member_row g at m]\<rparr>\<rparr>"
      have "wp (insert_members g at ms) (\<lambda>x w'. w_faults w' = []
          \<and> ((\<exists>u. x = Inr u) \<longleftrightarrow> distinct (filter (\<lambda>u. u \<noteq> []) (map mb_Username ms))
            \<and> insert (mb_Username m) U \<inter> set (filter (\<lambda>u. u \<noteq> []) (map mb_Username ms)) = {})) ?w"
        using Cons.prems by (intro Cons.IH) (auto simp: member_row_def member_key_def)
      then have "wp (insert_members g at ms) (\<lambda>x w'. w_faults w' = []
          \<and> ((\<exists>u. x = Inr u) \<longleftrightarrow> distinct (filter (\<lambda>u. u \<noteq> []) (map mb_Username (m # ms)))
            \<and> U \<inter> set (filter (\<lambda>u. u \<noteq> []) (map mb_Username (m # ms))) = {})) ?w"
        by (rule wp_mono) (use named False in auto)
      with free named Cons.prems(1) show ?thesis
        by (simp add: InsertGroupMember_def wp_simps)
    qed
  qed
qed

lemma wp_transaction_result:
  assumes "w_faults w = []" and "wp body (\<lambda>r w'. w_faults w' = [] \<and> ((\<exists>n. r = Inr n) \<longleftrightarrow> P)) w"
  shows "wp (transaction body) (\<lambda>r w'. w_faults w' = [] \<and> ((\<exists>n. r = Inr n) \<longleftrightarrow> P)) w"
proof -
  from assms(2) have "wp body (\<lambda>r w'. wp (case r of
        Inl e \<Rightarrow> do { modify (\<lambda>v. v\<lparr>w_db := w_db w\<rparr>); ret (Inl e) }
      | Inr a \<Rightarrow> do {
          c \<leftarrow> statement (\<lambda>d. Inr ((), d));
          (case c of
             Inl e \<Rightarrow> do { modify (\<lambda>v. v\<lparr>w_db := w_db w\<rparr>); ret (Inl CommitError) }
           | Inr _ \<Rightarrow> ret (Inr a)) })
      (\<lambda>r w'. w_faults w' = [] \<and> ((\<exists>n. r = Inr n) \<longleftrightarrow> P)) w') w"
    by (rule wp_mono) (auto simp: wp_simps split: sum.split)
  with assms(1) show ?thesis
    unfolding transaction_def by (simp add: wp_bind wp_statement wp_gets sent_same_db cong: sum.case_cong)
qed

lemma syncGroup_result:
  assumes "w_faults w = []"
  shows "wp (syncGroup (\<lambda>_. l) c pageSize (Some conn) g) (\<lambda>_ w'. w_faults w' = []
    \<and> mirrored l c pageSize conn g (members_of (w_db w) g) (members_of (w_db w') g)
    \<and> (\<forall>h. h \<noteq> g \<longrightarrow> members_of (w_db w') h = members_of (w_db w) h)) w"
proof (cases "SearchGroupMembers l c (Some conn) g pageSize")
  case (Inl e)
  with assms show ?thesis by (simp add: syncGroup_def wp_simps mirrored_def)
next
  case (Inr ms)
  let ?names = "filter (\<lambda>u. u \<noteq> []) (map mb_Username ms)"
  have added: "wp (insert_members g at ms) (\<lambda>x w'. w_faults w' = [] \<and> ((\<exists>u. x = Inr u) \<longleftrightarrow> distinct ?names)) v"
    if "w_faults v = []" "group_members (w_db v) = filter (\<lambda>m. gm_GroupName m \<noteq> g) (group_members (w_db w))" for at v
    using insert_members_result [of v g "{}" at ms] that by auto
  have ins: "wp (insert_members g at ms) (\<lambda>x w'. w_faults w' = [] \<and> ((\<exists>n. (case x of Inl e \<Rightarrow> Inl e
      | Inr _ \<Rightarrow> Inr (length ms)) = Inr n) \<longleftrightarrow> distinct ?names)) v"
    if "w_faults v = []" "group_members (w_db v) = filter (\<lambda>m. gm_GroupName m \<noteq> g) (group_members (w_db w))" for at v
    by (rule added [OF that, THEN wp_mono]) (auto split: sum.splits)
  have "wp (replace_members g ms) (\<lambda>r w'. w_faults w' = [] \<and> ((\<exists>n. r = Inr n) \<longleftrightarrow> distinct ?names)) w"
    using assms ins by (simp add: replace_members_def DeleteGroupMembers_def wp_bind wp_exec wp_now_RFC3339 wp_ret)
  from wp_transaction_result [OF assms this]
  have "wp (syncGroup (\<lambda>_. l) c pageSize (Some conn) g)
      (\<lambda>r w'. w_faults w' = [] \<and> ((\<exists>n. r = Inr n) \<longleftrightarrow> distinct ?names)) w"
    by (simp add: syncGroup_def Inr wp_bind [of "gets _"] wp_gets)
  moreover have "wp (syncGroup (\<lambda>_. l) c pageSize (Some conn) g) (\<lambda>r w'. (\<exists>e. r = Inl e) \<and> w_db w' = w_db w
    \<or> (\<exists>at. (\<exists>n. r = Inr n) \<and> w_db w' = w_db w\<lparr>group_members :=
             filter (\<lambda>m. gm_GroupName m \<noteq> g) (group_members (w_db w)) @ member_rows g at ms\<rparr>)) w"
    using syncGroup_effect [OF prod.collapse [symmetric], of "\<lambda>_. l" c pageSize "Some conn" g w] Inr
    unfolding wp_def by auto
  ultimately have "wp (syncGroup (\<lambda>_. l) c pageSize (Some conn) g)
      (\<lambda>r w'. (w_faults w' = [] \<and> ((\<exists>n. r = Inr n) \<longleftrightarrow> distinct ?names))
        \<and> ((\<exists>e. r = Inl e) \<and> w_db w' = w_db w \<or> (\<exists>at. (\<exists>n. r = Inr n) \<and> w_db w' = w_db w\<lparr>group_members :=
             filter (\<lambda>m. gm_GroupName m \<noteq> g) (group_members (w_db w)) @ member_rows g at ms\<rparr>))) w"
    by (simp only: wp_conj)
  then show ?thesis
    by (rule wp_mono) (auto simp: mirrored_def Inr)
qed

lemma sync_each_result:
  assumes "w_faults w = []" and "distinct (map sg_GroupName gs)"
  shows "wp (sync_each (\<lambda>_. l) c pageSize conn gs) (\<lambda>_ w'. w_faults w' = []
    \<and> (\<forall>g. if g \<in> sg_GroupName ` set gs
         then mirrored l c pageSize conn g (members_of (w_db w) g) (members_of (w_db w') g)
         else members_of (w_db w') g = members_of (w_db w) g)) w"
  using assms
proof (induction gs arbitrary: w)
  case Nil
  then show ?case by (simp add: sync_each_def wp_ret)
next
  case (Cons x gs)
  let ?M = "\<lambda>v v' g. mirrored l c pageSize conn g (members_of (w_db v) g) (members_of (w_db v') g)"
  have rest: "wp (sync_each (\<lambda>_. l) c pageSize conn gs) (\<lambda>_ w'. w_faults w' = []
      \<and> (\<forall>g. if g \<in> sg_GroupName ` set (x # gs) then ?M w w' g
           else members_of (w_db w') g = members_of (w_db w) g)) v"
    if "w_faults v = [] \<and> ?M w v (sg_GroupName x)
      \<and> (\<forall>h. h \<noteq> sg_GroupName x \<longrightarrow> members_of (w_db v) h = members_of (w_db w) h)" for v
  proof (rule Cons.IH [THEN wp_mono])
    show "w_faults v = []" "distinct (map sg_GroupName gs)" using that Cons.prems(2) by simp_all
    fix u v' assume a: "w_faults v' = [] \<and> (\<forall>g. if g \<in> sg_GroupName ` set gs then ?M v v' g
           else members_of (w_db v') g = members_of (w_db v) g)"
    have "if g \<in> sg_GroupName ` set (x # gs) then ?M w v' g
        else members_of (w_db v') g = members_of (w_db w) g" for g
      using a [THEN conjunct2, rule_format, of g] that Cons.prems(2) by (cases "g = sg_GroupName x") auto
    with a show "w_faults v' = [] \<and> (\<forall>g. if g \<in> sg_GroupName ` set (x # gs) then ?M w v' g
           else members_of (w_db v') g = members_of (w_db w) g)" by blast
  qed
  have "wp (syncGroup (\<lambda>_. l) c pageSize (Some conn) (sg_GroupName x)) (\<lambda>_. wp (sync_each (\<lambda>_. l) c pageSize conn gs)
      (\<lambda>_ w'. w_faults w' = [] \<and> (\<forall>g. if g \<in> sg_GroupName ` set (x # gs) then ?M w w' g
           else members_of (w_db w') g = members_of (w_db w) g))) w"
    by (rule syncGroup_result [OF Cons.prems(1), THEN wp_mono]) (rule rest)
  then show ?case by (simp only: sync_each_def for_each.simps wp_bind wp_ret)
qed

text \<open>What a cycle leaves of a group: the answer of LDAP, or nothing.\<close>

definition cycle_result :: "goldap \<Rightarrow> ldap_conf \<Rightarrow> nat \<Rightarrow> database \<Rightarrow> database \<Rightarrow> string \<Rightarrow> bool" where
  "cycle_result l c pageSize d d' g \<longleftrightarrow> (if g \<in> configured d
    then (case Connect l c of Inl e \<Rightarrow> members_of d' g = members_of d g
      | Inr conn \<Rightarrow> mirrored l c pageSize conn g (members_of d g) (members_of d' g))
    else members_of d' g = [])"

text \<open>The part of the cycle after the cleanup, from a state without other groups.\<close>

lemma sync_after_cleanup:
  fixes gs l c pageSize
  defines "rest \<equiv> (if gs = [] then ret ()
       else do {
         _ \<leftarrow> time_Now;
         now \<leftarrow> gets w_now;
         (case Connect l c of
            Inl e \<Rightarrow> ret ()
          | Inr conn \<Rightarrow> sync_each (\<lambda>_. l) c pageSize conn gs) })"
  assumes "sg_GroupName ` set gs = configured d" and "distinct (map sg_GroupName gs)" and "w_faults v = []"
    and old: "members_of (w_db v) g = (if g \<in> configured d then members_of d g else [])"
  shows "wp rest (\<lambda>_ w'. cycle_result l c pageSize d (w_db w') g) v"
proof (cases "gs = []")
  case True
  then have "configured d = {}" using assms(2) by simp
  with True old show ?thesis by (simp add: rest_def cycle_result_def wp_ret)
next
  case False
  show ?thesis
  proof (cases "Connect l c")
    case (Inl e)
    with False old show ?thesis by (simp add: rest_def cycle_result_def wp_bind wp_time_Now wp_gets wp_ret)
  next
    case (Inr conn)
    have "wp (sync_each (\<lambda>_. l) c pageSize conn gs) (\<lambda>_ w'. cycle_result l c pageSize d (w_db w') g) (advance_clock v)"
    proof (rule sync_each_result [OF _ assms(3), THEN wp_mono])
      show "w_faults (advance_clock v) = []" using assms(4) by simp
      fix u v' assume "w_faults v' = [] \<and> (\<forall>g. if g \<in> sg_GroupName ` set gs
        then mirrored l c pageSize conn g (members_of (w_db (advance_clock v)) g) (members_of (w_db v') g)
        else members_of (w_db v') g = members_of (w_db (advance_clock v)) g)"
      from this [THEN conjunct2, rule_format, of g] show "cycle_result l c pageSize d (w_db v') g"
        unfolding assms(2) advance_clock_simps(1) old cycle_result_def using Inr by (simp split: if_splits)
    qed
    with False Inr show ?thesis by (simp add: rest_def wp_bind wp_time_Now wp_gets)
  qed
qed

text \<open>C6 (liveness): a cycle mirrors LDAP. When the database answers and the directory stays the same
  during the cycle, no group that is not configured has members afterwards, so nobody is notified
  through a group that was removed; and when a server can be reached each configured group has
  exactly the named members LDAP gives (its rows of before if the search fails or names a member
  twice).\<close>

theorem cycle_mirrors_ldap:
  assumes "run_state (syncOnce (\<lambda>_. l) c pageSize) w = (u, w')" and "w_faults w = []"
    and "distinct (map sg_GroupName (sync_groups (w_db w)))"
  shows "if g \<in> configured (w_db w)
    then (case Connect l c of Inl e \<Rightarrow> members_of (w_db w') g = members_of (w_db w) g
      | Inr conn \<Rightarrow> mirrored l c pageSize conn g (members_of (w_db w) g) (members_of (w_db w') g))
    else members_of (w_db w') g = []"
proof -
  let ?gs = "order_by sg_GroupName (sync_groups (w_db w))"
  let ?Q = "\<lambda>_ w'. cycle_result l c pageSize (w_db w) (w_db w') g"
  have gs: "sg_GroupName ` set ?gs = configured (w_db w)" by (simp add: configured_def)
  have dist: "distinct (map sg_GroupName ?gs)"
    using assms(3) by (simp add: order_by_def distinct_map)
  have old: "members_of (w_db v) g = (if g \<in> configured (w_db w) then members_of (w_db w) g else [])"
    if "w_db v = w_db w\<lparr>group_members := filter (\<lambda>m. gm_GroupName m \<in> sg_GroupName ` set ?gs) (group_members (w_db w))\<rparr>" for v
    using that gs by (auto simp: members_of_def filter_empty_conv intro!: filter_cong)
  have "wp (syncOnce (\<lambda>_. l) c pageSize) ?Q w"
    unfolding syncOnce_def ListSyncGroups_def using assms(2)
    by (simp only: wp_bind [of "query_many _"] wp_query_many no_faults if_False sum.case)
      (simp only: wp_bind [of "cleanupGroups _"],
        rule wp_cleanupGroups [OF assms(2), THEN wp_mono], rule sync_after_cleanup [OF gs dist],
        erule conjunct1, rule old, erule conjunct2)
  then show ?thesis using assms(1) by (simp add: wp_def cycle_result_def)
qed

end
