(* ===== verification/Subscriptions.thy ===== *)
theory Subscriptions
  imports Publish Ldap
begin

text \<open>
  SMS consent: the subscription endpoints (\<open>api/subscriptions.go\<close>) and the two self-service forms
  (\<open>api/subscribe.go\<close>). A subscription is the permission to send SMS to a number; its number comes
  from LDAP only. The lemmas show who can create a row and with which number, what a removal
  does, and how the welcome message is queued.
\<close>

section \<open>Subscribing\<close>

text \<open>\<open>UserLookup\<close>, the interface the server is given.\<close>

type_synonym user_lookup = "string \<Rightarrow> (world, lookup_error + Member) state"

definition ldapUserLookup :: "(int \<Rightarrow> goldap) \<Rightarrow> ldap_conf \<Rightarrow> user_lookup" where
  "ldapUserLookup ldap c username = do {
     now \<leftarrow> gets w_now;
     ret (LookupUser (ldap now) c username) }"

record smsSubscriptionResponse =
  ss_Username :: string
  ss_Phone :: string
  ss_SubscribedAt :: string

definition toSMSSubscriptionResponse :: "SmsSubscription \<Rightarrow> smsSubscriptionResponse" where
  "toSMSSubscriptionResponse s = \<lparr>ss_Username = sb_Username s, ss_Phone = sb_Phone s,
     ss_SubscribedAt = sb_SubscribedAt s\<rparr>"

definition no_subscription :: SmsSubscription where
  "no_subscription = \<lparr>sb_Username = [], sb_Phone = [], sb_SubscribedAt = []\<rparr>"

text \<open>A \<open>map[string]string\<close> is marshalled in the order of its keys.\<close>

definition subscription_audit :: "string \<Rightarrow> string \<Rightarrow> string" where
  "subscription_audit username phone =
     marshalAuditJSON (JObj [(''phone'', JStr phone), (''username'', JStr username)])"

definition subscribeWelcomeMsg :: string where
  "subscribeWelcomeMsg = ''You'' @ [CHR 0x27] @ ''ve been registered for SMS alerts. ''
     @ ''Msg frequency varies. Msg & data rates may apply.''"

definition sendWelcomeSMS :: "string \<Rightarrow> string \<Rightarrow> (world, unit) state" where
  "sendWelcomeSMS username phone = do {
     now \<leftarrow> now_RFC3339;
     welcomeNotifID \<leftarrow> api_newUUIDV7;
     welcomeEventID \<leftarrow> api_newUUIDV7;
     _ \<leftarrow> InsertEvent welcomeEventID None (nullString (''SMS Welcome: '' @ username)) None None now None
       (nullString ''system'') now;
     n \<leftarrow> InsertNotification welcomeNotifID welcomeEventID None
       (Some (marshal_destinations [\<lparr>ds_Channel = ''sms'', ds_Target = phone\<rparr>])) None subscribeWelcomeMsg
       0 None None now (nullString ''system'') ''pending'';
     (case n of Inl e \<Rightarrow> ret () | Inr _ \<Rightarrow> do { _ \<leftarrow> try_enqueue welcomeNotifID; ret () }) }"

text \<open>The insert, its audit row by \<open>audit\<close>, and the welcome; whether the insert succeeded.\<close>

definition store_subscription :: "(string \<Rightarrow> (world, unit) state) \<Rightarrow> string \<Rightarrow> string \<Rightarrow> (world, bool) state" where
  "store_subscription audit username phone = do {
     now \<leftarrow> now_RFC3339;
     i \<leftarrow> InsertSMSSubscription username phone now;
     (case i of Inl e \<Rightarrow> ret False
      | Inr _ \<Rightarrow> do {
          audit (subscription_audit username phone);
          sendWelcomeSMS username phone;
          ret True }) }"

text \<open>The two endpoints differ in whom they subscribe and in one message.\<close>

definition subscribe_user :: "user_lookup \<Rightarrow> Request \<Rightarrow> string \<Rightarrow> string
    \<Rightarrow> (world, smsSubscriptionResponse reply) state" where
  "subscribe_user look r noMobile username = do {
     m \<leftarrow> look username;
     (case m of
        Inl e \<Rightarrow> ret (if e = ErrUserNotFound then Fail 404 ''user not found'' else writeCoreError internal_error)
      | Inr member \<Rightarrow>
          if mb_Mobile member = [] then ret (Fail 422 noMobile)
          else if \<not> rePhone (mb_Mobile member) then
            ret (Fail 422 ''mobile number is not in expected format'')
          else do {
            g \<leftarrow> GetSMSSubscription username;
            (case g of
               Inr existing \<Rightarrow> ret (Reply 200 (toSMSSubscriptionResponse existing))
             | Inl _ \<Rightarrow> do {
                 ok \<leftarrow> store_subscription (auditLogAction r ''sms_subscribe'' ''sms_subscriptions'' [])
                   username (mb_Mobile member);
                 if \<not> ok then ret (writeCoreError internal_error)
                 else do {
                   sub \<leftarrow> GetSMSSubscription username;
                   ret (Reply 201 (toSMSSubscriptionResponse
                     (case sub of Inr row \<Rightarrow> row | Inl _ \<Rightarrow> no_subscription))) } }) }) }"

definition handleAdminSubscribe :: "user_lookup \<Rightarrow> Request \<Rightarrow> string option
    \<Rightarrow> (world, smsSubscriptionResponse reply) state" where
  "handleAdminSubscribe look r body = (case body of None \<Rightarrow> ret (Fail 400 ''invalid JSON body'')
     | Some username \<Rightarrow> if username = [] then ret (Fail 400 ''username is required'')
         else subscribe_user look r ''user has no mobile phone number on record'' username)"

definition handleSelfSubscribe :: "user_lookup \<Rightarrow> Request \<Rightarrow> (world, smsSubscriptionResponse reply) state" where
  "handleSelfSubscribe look r =
     subscribe_user look r ''no mobile phone number on record for your account'' (us_Username (rq_User r))"

definition handleListSMSSubscriptions :: "(world, smsSubscriptionResponse list reply) state" where
  "handleListSMSSubscriptions = do {
     l \<leftarrow> ListSMSSubscriptions;
     ret (case l of Inl e \<Rightarrow> writeCoreError internal_error
       | Inr subs \<Rightarrow> Reply 200 (map toSMSSubscriptionResponse subs)) }"

section \<open>Unsubscribing\<close>

definition remove_subscription :: "Request \<Rightarrow> string \<Rightarrow> string \<Rightarrow> (world, unit reply) state" where
  "remove_subscription r action username = do {
     g \<leftarrow> GetSMSSubscription username;
     (case g of
        Inl _ \<Rightarrow> ret (Fail 404 ''subscription not found'')
      | Inr existing \<Rightarrow> do {
          x \<leftarrow> DeleteSMSSubscription username;
          (case x of
             Inl e \<Rightarrow> ret (writeCoreError internal_error)
           | Inr _ \<Rightarrow> do {
               auditLogAction r action ''sms_subscriptions''
                 (subscription_audit (sb_Username existing) (sb_Phone existing)) [];
               ret (Reply 204 ()) }) }) }"

definition handleDeleteSMSSubscription :: "Request \<Rightarrow> string \<Rightarrow> (world, unit reply) state" where
  "handleDeleteSMSSubscription r username =
     (if username = [] then ret (Fail 400 ''username is required'')
      else remove_subscription r ''sms_subscription_deleted'' username)"

definition handleSelfUnsubscribe :: "Request \<Rightarrow> (world, unit reply) state" where
  "handleSelfUnsubscribe r = remove_subscription r ''sms_unsubscribe'' (us_Username (rq_User r))"

section \<open>The forms\<close>

text \<open>The prefix is the server's; \<open>renderPage\<close> puts it into the links of the page.\<close>

record formPageData =
  fp_Flash :: string
  fp_FlashClass :: string
  fp_Done :: bool

definition form_error :: "string \<Rightarrow> formPageData" where
  "form_error text = \<lparr>fp_Flash = text, fp_FlashClass = ''error'', fp_Done = False\<rparr>"

definition form_done :: "string \<Rightarrow> string \<Rightarrow> formPageData" where
  "form_done class text = \<lparr>fp_Flash = text, fp_FlashClass = class, fp_Done = True\<rparr>"

text \<open>A form is \<open>None\<close> when it does not parse; the common start of both submits.\<close>

definition form_login :: "authenticator \<Rightarrow> string \<Rightarrow> string \<Rightarrow> (string \<times> string) option
    \<Rightarrow> (string \<Rightarrow> (world, formPageData) state) \<Rightarrow> (world, formPageData) state" where
  "form_login auth ip failedAction form next =
     (case form of None \<Rightarrow> ret (form_error ''Invalid form submission.'')
      | Some (username, password) \<Rightarrow>
          if username = [] \<or> password = [] then ret (form_error ''Username and password are required.'')
          else do {
            a \<leftarrow> auth username password;
            (case a of
               Inl e \<Rightarrow> do {
                 auditLog username ip failedAction ''auth'' [] [];
                 ret (form_error (if e = ErrInvalidCredentials then ''Invalid credentials.''
                   else ''Authentication error. Please try again later.'')) }
             | Inr _ \<Rightarrow> next username) })"

definition handleSubscribeSubmit :: "authenticator \<Rightarrow> user_lookup \<Rightarrow> string \<Rightarrow> (string \<times> string) option
    \<Rightarrow> (world, formPageData) state" where
  "handleSubscribeSubmit auth look ip form =
     form_login auth ip ''sms_subscribe_failed_invalid_credentials'' form (\<lambda>username. do {
       m \<leftarrow> look username;
       (case m of
          Inl e \<Rightarrow> ret (form_error ''Could not retrieve account details. Please try again later.'')
        | Inr member \<Rightarrow>
            if mb_Mobile member = [] then do {
              auditLog username ip ''sms_subscribe_no_phone'' ''auth'' [] [];
              ret (form_error (''No company mobile phone number is on record for your account. ''
                @ ''Contact IT to have your mobile number added before registering.'')) }
            else if \<not> rePhone (mb_Mobile member) then
              ret (form_error (''Your company mobile number is not in the expected format. ''
                @ ''Contact IT to correct your mobile number.''))
            else do {
              g \<leftarrow> GetSMSSubscription username;
              (case g of
                 Inr _ \<Rightarrow> ret (form_done ''info'' ''You are already registered for SMS notifications.'')
               | Inl _ \<Rightarrow> do {
                   ok \<leftarrow> store_subscription (auditLog username ip ''sms_subscribe'' ''sms_subscriptions'' [])
                     username (mb_Mobile member);
                   ret (if ok then form_done ''ok'' ''You have been successfully registered for SMS notifications.''
                     else form_error ''Registration failed. Please try again later.'') }) }) })"

definition handleUnsubscribeSubmit :: "authenticator \<Rightarrow> string \<Rightarrow> (string \<times> string) option
    \<Rightarrow> (world, formPageData) state" where
  "handleUnsubscribeSubmit auth ip form =
     form_login auth ip ''sms_unsubscribe_failed_invalid_credentials'' form (\<lambda>username. do {
       g \<leftarrow> GetSMSSubscription username;
       (case g of
          Inl _ \<Rightarrow> ret (form_done ''info'' ''You are not currently registered for SMS notifications.'')
        | Inr existing \<Rightarrow> do {
            x \<leftarrow> DeleteSMSSubscription username;
            (case x of
               Inl e \<Rightarrow> ret (form_error ''Unsubscribe failed. Please try again later.'')
             | Inr _ \<Rightarrow> do {
                 auditLog username ip ''sms_unsubscribe'' ''sms_subscriptions''
                   (subscription_audit username (sb_Phone existing)) [];
                 ret (form_done ''ok'' ''You have been successfully unsubscribed from SMS notifications.'') }) }) })"

section \<open>The schema and the numbers\<close>

text \<open>A lookup in LDAP, or any other that leaves the tables alone.\<close>

lemma ldap_leaves_db [keeps]:
  "preserves (on_db J) (ldapUserLookup ldap c u)" "preserves (on_db J) (ldapAuthenticator ldap c u p)"
  by (simp_all add: ldapUserLookup_def ldapAuthenticator_def keeps)

lemma preserves_try_enqueue [keeps]: "preserves (on_db J) (try_enqueue nid)"
  unfolding try_enqueue_def by (intro keeps) (auto intro!: preserves_modify)

lemma welcome_keeps_db_ok [keeps]: "preserves (on_db db_ok) (sendWelcomeSMS u p)"
  unfolding sendWelcomeSMS_def by (intro keeps)

lemma store_keeps_db_ok:
  "(\<And>t. preserves (on_db db_ok) (audit t)) \<Longrightarrow> preserves (on_db db_ok) (store_subscription audit u p)"
  unfolding store_subscription_def by (intro keeps)

text \<open>Endpoints and forms keep the keys and foreign keys of the schema, whatever fails.\<close>

lemma subscriptions_keep_db_ok [keeps]:
  assumes "\<And>u p. preserves (on_db db_ok) (auth u p)" and "\<And>u. preserves (on_db db_ok) (look u)"
  shows "preserves (on_db db_ok) (handleAdminSubscribe look r body)"
    and "preserves (on_db db_ok) (handleSelfSubscribe look r)"
    and "preserves (on_db db_ok) (handleDeleteSMSSubscription r u)"
    and "preserves (on_db db_ok) (handleSelfUnsubscribe r)"
    and "preserves (on_db db_ok) (handleSubscribeSubmit auth look ip form)"
    and "preserves (on_db db_ok) (handleUnsubscribeSubmit auth ip form)"
  unfolding handleAdminSubscribe_def handleSelfSubscribe_def subscribe_user_def
    handleDeleteSMSSubscription_def handleSelfUnsubscribe_def remove_subscription_def
    handleSubscribeSubmit_def handleUnsubscribeSubmit_def form_login_def
  by (intro keeps assms store_keeps_db_ok)+

section \<open>Whose number is subscribed\<close>

abbreviation has_subs :: "SmsSubscription list \<Rightarrow> database \<Rightarrow> bool" where
  "has_subs subs d \<equiv> sms_subscriptions d = subs"

lemma audit_keeps_subs [keeps]:
  "preserves (on_db (\<lambda>d. P (sms_subscriptions d))) (auditLog u ip a t old new)"
  "preserves (on_db (\<lambda>d. P (sms_subscriptions d))) (auditLogAction r a t old new)"
  unfolding auditLog_def auditLogAction_def InsertAuditLog_def
  by (intro keeps preserves_exec; simp)+

lemma welcome_keeps_subs [keeps]:
  "preserves (on_db (\<lambda>d. P (sms_subscriptions d))) (sendWelcomeSMS u p)"
  unfolding sendWelcomeSMS_def InsertEvent_def InsertNotification_def Let_def
  by (intro keeps preserves_insert_unless; simp)

text \<open>The table after a subscription of \<open>u\<close> with the number \<open>phone\<close>, if any was made.\<close>

definition subscribed_from :: "user_lookup \<Rightarrow> string \<Rightarrow> SmsSubscription list \<Rightarrow> SmsSubscription list \<Rightarrow> bool" where
  "subscribed_from look u old new \<longleftrightarrow> new = old \<or>
     (\<exists>at m w w'. run_state (look u) w = (Inr m, w') \<and> rePhone (mb_Mobile m) \<and> u \<notin> sb_Username ` set old
        \<and> new = old @ [\<lparr>sb_Username = u, sb_Phone = mb_Mobile m, sb_SubscribedAt = at\<rparr>])"

lemma subscribed_from_refl [simp]: "subscribed_from look u old old"
  by (simp add: subscribed_from_def)

lemma subscribed_fromI:
  "run_state (look u) w = (Inr m, w') \<Longrightarrow> rePhone (mb_Mobile m) \<Longrightarrow> u \<notin> sb_Username ` set old \<Longrightarrow>
   subscribed_from look u old (old @ [\<lparr>sb_Username = u, sb_Phone = mb_Mobile m, sb_SubscribedAt = at\<rparr>])"
  by (auto simp: subscribed_from_def)

lemma store_subscription_table:
  assumes "run_state (look u) v = (Inr m, v')" and "rePhone (mb_Mobile m)"
    and audit: "\<And>t P. preserves (on_db (\<lambda>d. P (sms_subscriptions d))) (audit t)"
    and w: "sms_subscriptions (w_db w) = old"
  shows "wp (store_subscription audit u (mb_Mobile m))
    (\<lambda>_. on_db (\<lambda>d. subscribed_from look u old (sms_subscriptions d))) w"
proof -
  let ?J = "\<lambda>d. subscribed_from look u old (sms_subscriptions d)"
  have "wp (InsertSMSSubscription u (mb_Mobile m) now) (\<lambda>_. on_db ?J) v"
    if "sms_subscriptions (w_db v) = old" for now v
    using that subscribed_fromI [where look = look, OF assms(1,2)]
    by (simp add: InsertSMSSubscription_def wp_insert_unless on_db_def)
  then have "wp (do {
      i \<leftarrow> InsertSMSSubscription u (mb_Mobile m) now;
      (case i of Inl e \<Rightarrow> ret False
       | Inr _ \<Rightarrow> do { audit (subscription_audit u (mb_Mobile m)); sendWelcomeSMS u (mb_Mobile m); ret True }) })
      (\<lambda>_. on_db ?J) v" if "sms_subscriptions (w_db v) = old" for now v
    using that by (intro wp_bind_keeps keeps audit audit [where P = "subscribed_from look u old"]) auto
  then show ?thesis
    using w unfolding store_subscription_def by (simp add: wp_bind [of now_RFC3339] wp_now_RFC3339)
qed

lemma wp_GetSMSSubscription:
  "wp (GetSMSSubscription u) Q w =
    (if faulty w then Q (Inl ErrDriver) (sent w)
     else case find (\<lambda>r. ToLower (sb_Username r) = ToLower u) (sms_subscriptions (w_db w)) of
            None \<Rightarrow> Q (Inl ErrNoRows) (sent w) | Some r \<Rightarrow> Q (Inr r) (sent w))"
  by (simp add: GetSMSSubscription_def wp_query_one)

text \<open>The branches after the lookup, for the endpoints and for the form.\<close>

lemma registration_table:
  assumes look: "\<And>P. preserves (on_db (\<lambda>d. P (sms_subscriptions d))) (look u)"
    and audit: "\<And>t P. preserves (on_db (\<lambda>d. P (sms_subscriptions d))) (audit t)"
    and missing: "\<And>P. preserves (on_db (\<lambda>d. P (sms_subscriptions d))) missing"
    and finish: "\<And>ok P. preserves (on_db (\<lambda>d. P (sms_subscriptions d))) (finish ok)"
  shows "wp (do {
       m \<leftarrow> look u;
       (case m of
          Inl e \<Rightarrow> ret (failed e)
        | Inr member \<Rightarrow>
            if mb_Mobile member = [] then missing
            else if \<not> rePhone (mb_Mobile member) then ret malformed
            else do {
              g \<leftarrow> GetSMSSubscription u;
              (case g of
                 Inr existing \<Rightarrow> ret (known existing)
               | Inl _ \<Rightarrow> do { ok \<leftarrow> store_subscription audit u (mb_Mobile member); finish ok }) }) })
    (\<lambda>_. on_db (\<lambda>d. subscribed_from look u (sms_subscriptions (w_db w)) (sms_subscriptions d))) w"
proof -
  let ?old = "sms_subscriptions (w_db w)"
  let ?J = "\<lambda>d. subscribed_from look u ?old (sms_subscriptions d)"
  obtain m w1 where m: "run_state (look u) w = (m, w1)" by fastforce
  have w1: "sms_subscriptions (w_db w1) = ?old"
    using preservesD [OF look [where P = "\<lambda>x. x = ?old"], of w] m by (simp add: on_db_def)
  show ?thesis
  proof (cases m)
    case (Inl e)
    with m w1 show ?thesis by (simp add: wp_def on_db_def)
  next
    case (Inr member)
    have J1: "on_db ?J w1" using w1 by (simp add: on_db_def)
    have store: "wp (do { ok \<leftarrow> store_subscription audit u (mb_Mobile member); finish ok }) (\<lambda>_. on_db ?J) v"
      if "rePhone (mb_Mobile member)" and "sms_subscriptions (w_db v) = ?old" for v
      using m Inr that
      by (intro wp_bind_keeps store_subscription_table audit finish [where P = "subscribed_from look u ?old"]) auto
    have "wp missing (\<lambda>_. on_db ?J) w1"
      by (rule preserves_wp [OF missing [where P = "subscribed_from look u ?old"] J1])
    then have "wp (if mb_Mobile member = [] then missing
        else if \<not> rePhone (mb_Mobile member) then ret malformed
        else do {
          g \<leftarrow> GetSMSSubscription u;
          (case g of
             Inr existing \<Rightarrow> ret (known existing)
           | Inl _ \<Rightarrow> do { ok \<leftarrow> store_subscription audit u (mb_Mobile member); finish ok }) }) (\<lambda>_. on_db ?J) w1"
      using J1 store w1
      by (simp add: wp_ret wp_bind [of "GetSMSSubscription u"] wp_GetSMSSubscription split: option.split)
    with m Inr show ?thesis by (simp add: wp_def)
  qed
qed

lemma subscribe_user_table:
  assumes "\<And>P. preserves (on_db (\<lambda>d. P (sms_subscriptions d))) (look u)"
  shows "wp (subscribe_user look r noMobile u)
    (\<lambda>_. on_db (\<lambda>d. subscribed_from look u (sms_subscriptions (w_db w)) (sms_subscriptions d))) w"
  unfolding subscribe_user_def by (rule registration_table) (intro assms keeps)+

text \<open>C18 (safety): whatever fails, an endpoint adds at most one row, for the name it was asked to
  subscribe and not yet in the table; the number in it is the mobile number LDAP gave for that
  name, and it is a well-formed E.164 number. No other row is changed or lost.\<close>

theorem endpoint_subscribes_from_ldap:
  assumes "\<And>u P. preserves (on_db (\<lambda>d. P (sms_subscriptions d))) (look u)"
    and "run_state (handleAdminSubscribe look r (Some u)) w = (x, w')
       \<or> u = us_Username (rq_User r) \<and> run_state (handleSelfSubscribe look r) w = (x, w')"
  shows "subscribed_from look u (sms_subscriptions (w_db w)) (sms_subscriptions (w_db w'))"
proof (cases "run_state (handleAdminSubscribe look r (Some u)) w = (x, w') \<and> u = []")
  case True
  then show ?thesis by (auto simp: handleAdminSubscribe_def)
next
  case False
  then obtain msg where "run_state (subscribe_user look r msg u) w = (x, w')"
    using assms(2) by (auto simp: handleAdminSubscribe_def handleSelfSubscribe_def)
  from wp_run [OF subscribe_user_table this] assms(1) show ?thesis by (simp add: on_db_def)
qed

text \<open>The form checks the password first.\<close>

lemma form_login_cases:
  assumes "run_state (form_login auth ip act form next) w = (page, w')"
    and auth: "\<And>u p P. preserves (on_db (\<lambda>d. P (sms_subscriptions d))) (auth u p)"
  shows "sms_subscriptions (w_db w') = sms_subscriptions (w_db w)
    \<or> (\<exists>u p res w1. form = Some (u, p) \<and> run_state (auth u p) w = (Inr res, w1)
         \<and> sms_subscriptions (w_db w1) = sms_subscriptions (w_db w) \<and> run_state (next u) w1 = (page, w'))"
proof (cases form)
  case None
  with assms(1) show ?thesis by (auto simp: form_login_def)
next
  case (Some up)
  obtain u p where up: "up = (u, p)" by fastforce
  obtain a w1 where a: "run_state (auth u p) w = (a, w1)" by fastforce
  have w1: "sms_subscriptions (w_db w1) = sms_subscriptions (w_db w)"
    using preservesD [OF auth [of "\<lambda>x. x = sms_subscriptions (w_db w)" u p], of w] a
    by (simp add: on_db_def)
  show ?thesis
  proof (cases a)
    case (Inl e)
    have "preserves (on_db (\<lambda>d. sms_subscriptions d = sms_subscriptions (w_db w))) (auditLog u ip act ''auth'' [] [])"
      by (rule audit_keeps_subs)
    from preservesD [OF this, of w1] w1 Inl a assms(1) Some up show ?thesis
      by (auto simp: form_login_def on_db_def split: if_splits prod.splits)
  next
    case (Inr res)
    with a w1 assms(1) Some up show ?thesis
      by (auto simp: form_login_def split: if_splits)
  qed
qed

text \<open>C32 (safety): the form subscribes nobody else: a row is added only for the name whose password
  the authenticator accepted, with LDAP's E.164 mobile number for it; no other row changes.\<close>

theorem form_subscribes_self:
  assumes "run_state (handleSubscribeSubmit auth look ip form) w = (page, w')"
    and auth: "\<And>u p P. preserves (on_db (\<lambda>d. P (sms_subscriptions d))) (auth u p)"
    and look: "\<And>u P. preserves (on_db (\<lambda>d. P (sms_subscriptions d))) (look u)"
  shows "sms_subscriptions (w_db w') = sms_subscriptions (w_db w)
    \<or> (\<exists>u p res w1. form = Some (u, p) \<and> run_state (auth u p) w = (Inr res, w1)
         \<and> subscribed_from look u (sms_subscriptions (w_db w)) (sms_subscriptions (w_db w')))"
proof -
  define body where "body u = (do {
       m \<leftarrow> look u;
       (case m of
          Inl e \<Rightarrow> ret (form_error ''Could not retrieve account details. Please try again later.'')
        | Inr member \<Rightarrow>
            if mb_Mobile member = [] then do {
              auditLog u ip ''sms_subscribe_no_phone'' ''auth'' [] [];
              ret (form_error (''No company mobile phone number is on record for your account. ''
                @ ''Contact IT to have your mobile number added before registering.'')) }
            else if \<not> rePhone (mb_Mobile member) then
              ret (form_error (''Your company mobile number is not in the expected format. ''
                @ ''Contact IT to correct your mobile number.''))
            else do {
              g \<leftarrow> GetSMSSubscription u;
              (case g of
                 Inr _ \<Rightarrow> ret (form_done ''info'' ''You are already registered for SMS notifications.'')
               | Inl _ \<Rightarrow> do {
                   ok \<leftarrow> store_subscription (auditLog u ip ''sms_subscribe'' ''sms_subscriptions'' [])
                     u (mb_Mobile member);
                   ret (if ok then form_done ''ok'' ''You have been successfully registered for SMS notifications.''
                     else form_error ''Registration failed. Please try again later.'') }) }) })" for u
  have table: "wp (body u) (\<lambda>_. on_db (\<lambda>d. subscribed_from look u (sms_subscriptions (w_db v)) (sms_subscriptions d))) v"
    for u v unfolding body_def by (rule registration_table) (intro look keeps)+
  have "run_state (form_login auth ip ''sms_subscribe_failed_invalid_credentials'' form body) w = (page, w')"
    using assms(1) unfolding handleSubscribeSubmit_def body_def .
  from form_login_cases [OF this auth] wp_run [OF table] show ?thesis
    by (fastforce simp: on_db_def)
qed

section \<open>Removing a subscription\<close>

lemma wp_audit_subs:
  assumes "\<And>w'. sms_subscriptions (w_db w') = sms_subscriptions (w_db w) \<Longrightarrow> Q () w'"
  shows "wp (auditLog u ip a t old new) Q w" "wp (auditLogAction r a t old new) Q w"
  by (rule wp_audit_any, rule assms, auto simp: audited_def)+

lemma remove_subscription_effect:
  "wp (remove_subscription r act u) (\<lambda>x w'. if x = Reply 204 ()
     then (\<exists>s \<in> set (sms_subscriptions (w_db w)). ToLower (sb_Username s) = ToLower u)
        \<and> sms_subscriptions (w_db w') = filter (\<lambda>s. sb_Username s \<noteq> u) (sms_subscriptions (w_db w))
     else sms_subscriptions (w_db w') = sms_subscriptions (w_db w)) w"
proof (cases "find (\<lambda>s. ToLower (sb_Username s) = ToLower u) (sms_subscriptions (w_db w))")
  case None
  then show ?thesis
    by (simp add: remove_subscription_def wp_simps wp_GetSMSSubscription)
next
  case (Some s)
  from find_Some_set [OF this] show ?thesis
    by (auto simp: Some remove_subscription_def wp_bind wp_ret wp_GetSMSSubscription DeleteSMSSubscription_def
        wp_exec writeCoreError_def intro!: wp_audit_subs)
qed

text \<open>C28 (functional): an unsubscription that is answered 204 removes exactly the row of the name as it
  was spelled, when there is a subscription for the name in any spelling; every other answer
  leaves the table as it was.\<close>

theorem unsubscribe_effect:
  assumes "run_state (handleDeleteSMSSubscription r u) w = (x, w')
    \<or> u = us_Username (rq_User r) \<and> run_state (handleSelfUnsubscribe r) w = (x, w')"
  shows "(if x = Reply 204 ()
     then (\<exists>s \<in> set (sms_subscriptions (w_db w)). ToLower (sb_Username s) = ToLower u)
        \<and> sms_subscriptions (w_db w') = filter (\<lambda>s. sb_Username s \<noteq> u) (sms_subscriptions (w_db w))
     else sms_subscriptions (w_db w') = sms_subscriptions (w_db w))"
proof (cases "run_state (handleDeleteSMSSubscription r u) w = (x, w') \<and> u = []")
  case True
  then show ?thesis by (auto simp: handleDeleteSMSSubscription_def)
next
  case False
  then obtain act where "run_state (remove_subscription r act u) w = (x, w')"
    using assms by (auto simp: handleDeleteSMSSubscription_def handleSelfUnsubscribe_def)
  from wp_run [OF remove_subscription_effect this] show ?thesis by (simp split: if_splits)
qed

text \<open>Somebody who unsubscribes under another spelling of the name than the stored one is
  told that it worked, and stays subscribed.\<close>

theorem unsubscribe_other_spelling:
  assumes "w_faults w = []" and "s \<in> set (sms_subscriptions (w_db w))"
    and "ToLower (sb_Username s) = ToLower (us_Username (rq_User r))"
    and "us_Username (rq_User r) \<notin> sb_Username ` set (sms_subscriptions (w_db w))"
    and "run_state (handleSelfUnsubscribe r) w = (x, w')"
  shows "x = Reply 204 () \<and> s \<in> set (sms_subscriptions (w_db w'))"
proof -
  let ?u = "us_Username (rq_User r)"
  have "find (\<lambda>s. ToLower (sb_Username s) = ToLower ?u) (sms_subscriptions (w_db w)) \<noteq> None"
    using assms(2,3) by (auto simp: find_None)
  then obtain s0 where "find (\<lambda>s. ToLower (sb_Username s) = ToLower ?u) (sms_subscriptions (w_db w)) = Some s0"
    by auto
  then have "wp (remove_subscription r ''sms_unsubscribe'' ?u) (\<lambda>x _. x = Reply 204 ()) w"
    using assms(1)
    by (auto simp: remove_subscription_def wp_bind wp_ret wp_GetSMSSubscription DeleteSMSSubscription_def
        wp_exec intro!: wp_audit_subs)
  note run = assms(5) [unfolded handleSelfUnsubscribe_def]
  from wp_run [OF \<open>wp _ _ w\<close> run] have x: "x = Reply 204 ()" .
  with wp_run [OF remove_subscription_effect run]
  have "sms_subscriptions (w_db w') = filter (\<lambda>s. sb_Username s \<noteq> ?u) (sms_subscriptions (w_db w))" by simp
  moreover have "sb_Username s \<noteq> ?u" using assms(2,4) by (metis image_eqI)
  ultimately show ?thesis using x assms(2) by simp
qed

end
