(* ===== verification/Samples_Ldap.thy ===== *)
theory Samples_Ldap
  imports Samples Ldap_Cache Ldap_Sync Subscriptions
begin

text \<open>
  The theorems on LDAP, its cache, its syncer and the subscriptions, applied to a directory with one
  user, whose password is \<open>secret\<close> and who is a member of the group \<open>writers\<close>.
\<close>

definition sample_entry :: ldap_entry where
  "sample_entry = \<lparr>en_DN = ''uid=alice'',
     en_value = (\<lambda>a. if a = ''sAMAccountName'' then ''alice'' else if a = ''mobile'' then ''+12125550101'' else []),
     en_values = (\<lambda>_. [''CN=writers''])\<rparr>"

definition sample_ldap :: goldap where
  "sample_ldap = \<lparr>go_dial = (\<lambda>_ _. None),
     go_bind = (\<lambda>_ dn pw. if dn = ''uid=svc'' \<or> dn = ''uid=alice'' \<and> pw = ''secret'' then None
       else Some (True, ''invalid credentials'')),
     go_search = (\<lambda>_ _ _ _ _. Inr [sample_entry]), go_search_paged = (\<lambda>_ _ _ _ _ _. Inr [sample_entry]),
     go_escape = id, go_parse_dn = (\<lambda>_. Some [[(''CN'', ''writers'')]])\<rparr>"

definition sample_conf :: ldap_conf where
  "sample_conf = \<lparr>lc_primaryURL = ''ldap://a'', lc_backupURL = [], lc_bindDN = ''uid=svc'',
     lc_bindPassword = ''pw'', lc_userBaseDN = ''ou=users'', lc_groupBaseDN = ''ou=groups'',
     lc_groupFilter = ''(objectClass=group)'', lc_tlsSkipVerify = False\<rparr>"

lemmas directory_defs = sample_ldap_def sample_conf_def sample_entry_def

abbreviation sample_result :: AuthResult where
  "sample_result \<equiv> \<lparr>ar_UserDN = ''uid=alice'', ar_Groups = [''writers'']\<rparr>"

lemma sample_connect: "Connect sample_ldap sample_conf = Inr ''ldap://a''"
  by (simp add: Connect_def open_either_def dialAndBind_def directory_defs)

lemma sample_login: "AuthenticateUser sample_ldap sample_conf ''alice'' ''secret'' = Inr sample_result"
  by (simp add: AuthenticateUser_def ldap_connect_def open_either_def dialAndBind_def user_filter_def
      directory_defs EqualFold_def)

lemma sample_search:
  "SearchGroupMembers sample_ldap sample_conf (Some conn) g n = Inr [entry_member sample_entry]"
  by (simp add: SearchGroupMembers_def resolveGroupDN_def group_cn_filter_def sample_ldap_def)

theorem login_needs_bind_witness:
  "\<exists>conn \<in> {''ldap://a'', []}. go_bind sample_ldap conn ''uid=alice'' ''secret'' = None"
  using login_needs_bind [OF sample_login] by (auto simp: directory_defs)

section \<open>The cache\<close>

theorem cache_refines_witness:
  "entries (put_at 1 ''k'' sample_result 5 new_cache) = [(''k'', sample_result, 5)]"
  using cache_refines [OF cache_ok_new, of "''k''" 0 1 sample_result 5]
  by (simp add: spec_put_def entries_def new_cache_def)

definition after_login :: "(auth_error + AuthResult) \<times> world \<times> cache" where
  "after_login = run_state (cached_AuthenticateUser id 4 1000 (ldapAuthenticator (\<lambda>_. sample_ldap) sample_conf)
     ''alice'' ''secret'') (sample_world, new_cache)"


theorem cached_login_confuses_witness:
  "fst (run_state (cached_AuthenticateUser id 4 1000 sample_auth ''a:b'' ''c'')
     (world0, put_at 4 ''a:b:c'' sample_result 9 new_cache)) = Inr sample_result"
proof -
  have ok: "cache_ok (put_at 4 ''a:b:c'' sample_result 9 new_cache)"
    and e: "entries (put_at 4 ''a:b:c'' sample_result 9 new_cache) = [(''a:b:c'', sample_result, 9)]"
    by (simp_all add: put_at_def element_def new_cache_def evict_def push_front_def cache_ok_def entries_def
        entry_pair_def)
  show ?thesis
    using cached_login_confuses [OF ok, of id "''a''" "''b''" "''c''" sample_result 9 world0 4 1000 sample_auth]
    by (simp add: e authCacheKey_def world0_def advance_clock_def)
qed

section \<open>The syncer\<close>

definition synced_world :: world where
  "synced_world = sample_world\<lparr>w_db := sample_db\<lparr>sync_groups := [\<lparr>sg_ID = 1, sg_GroupName = ''ops'',
     sg_CreatedAt = ''2024-01-01T00:00:00Z'', sg_CreatedBy = ''carol''\<rparr>]\<rparr>\<rparr>"

theorem syncGroup_atomic_witness:
  "\<exists>w'. w' = snd (run_state (syncGroup (\<lambda>_. sample_ldap) sample_conf 500 (Some ''ldap://a'') ''ops'') synced_world)
     \<and> (w_db w' = w_db synced_world
        \<or> (\<exists>at. members_of (w_db w') ''ops'' = member_rows ''ops'' at [entry_member sample_entry]))"
  using syncGroup_atomic [OF prod.collapse [symmetric],
      of "\<lambda>_. sample_ldap" sample_conf 500 "Some ''ldap://a''" "''ops''" synced_world]
  by (auto simp: sample_search)

definition after_cycle :: world where
  "after_cycle = snd (run_state (syncOnce (\<lambda>_. sample_ldap) sample_conf 500) synced_world)"

lemma cycle_run: "run_state (syncOnce (\<lambda>_. sample_ldap) sample_conf 500) synced_world = ((), after_cycle)"
  unfolding after_cycle_def by (rule run_unit)

theorem syncOnce_synced_witness: "synced (\<lambda>_. sample_ldap) sample_conf 500 (w_db synced_world) (w_db after_cycle)"
  by (rule syncOnce_synced [OF cycle_run])

theorem cycle_mirrors_ldap_witness:
  "\<exists>at. members_of (w_db after_cycle) ''ops'' = member_rows ''ops'' at [entry_member sample_entry]"
proof -
  have "w_faults synced_world = []" "distinct (map sg_GroupName (sync_groups (w_db synced_world)))"
    "''ops'' \<in> configured (w_db synced_world)"
    by (simp_all add: synced_world_def configured_def sample_world_def world0_def)
  moreover have "distinct (filter (\<lambda>u. u \<noteq> []) (map mb_Username [entry_member sample_entry]))" by simp
  ultimately show ?thesis
    using cycle_mirrors_ldap [OF cycle_run, of "''ops''"]
    by (simp add: sample_connect mirrored_def sample_search split: if_splits)
qed

section \<open>Subscriptions\<close>

abbreviation sample_look :: user_lookup where
  "sample_look \<equiv> ldapUserLookup (\<lambda>_. sample_ldap) sample_conf"

lemma sample_look_keeps: "preserves (on_db J) (sample_look u)"
  unfolding ldapUserLookup_def by (intro keeps)

lemma sample_auth_keeps: "preserves (on_db J) (sample_auth u p)"
  unfolding sample_auth_def by (intro keeps)

theorem endpoint_subscribes_from_ldap_witness:
  "subscribed_from sample_look ''bob'' (sms_subscriptions sample_db) (sms_subscriptions (w_db
     (snd (run_state (handleAdminSubscribe sample_look sample_request (Some ''bob'')) sample_world))))"
  using endpoint_subscribes_from_ldap [OF sample_look_keeps disjI1 [OF prod.collapse [symmetric]],
      where u = "''bob''" and r = sample_request and w = sample_world]
  by (simp add: sample_world_def)

theorem form_subscribes_self_witness:
  "\<exists>w'. w' = snd (run_state (handleSubscribeSubmit sample_auth sample_look [] (Some (''bob'', ''guess''))) sample_world)
     \<and> (sms_subscriptions (w_db w') = sms_subscriptions sample_db)"
  using form_subscribes_self [where auth = sample_auth and look = sample_look and ip = "[]"
      and form = "Some (''bob'', ''guess'')" and w = sample_world,
      OF prod.collapse [symmetric] sample_auth_keeps sample_look_keeps]
  by (auto simp: sample_world_def sample_auth_def)

lemma sample_subscription:
  "sms_subscriptions (w_db sample_world) = [\<lparr>sb_Username = ''alice'', sb_Phone = ''+12125550101'',
     sb_SubscribedAt = ''2024-01-01T00:00:00Z''\<rparr>]"
  by (simp add: sample_defs)

theorem unsubscribe_effect_witness:
  "sms_subscriptions (w_db (snd (run_state (handleDeleteSMSSubscription sample_request ''alice'') sample_world))) = []"
proof -
  have "wp (handleDeleteSMSSubscription sample_request ''alice'') (\<lambda>x _. x = Reply 204 ()) sample_world"
    by (simp add: handleDeleteSMSSubscription_def remove_subscription_def GetSMSSubscription_def
        DeleteSMSSubscription_def auditLogAction_def InsertAuditLog_def wp_simps sample_defs)
  from unsubscribe_effect [OF disjI1 [OF run_result [OF this]]] show ?thesis
    by (simp add: sample_subscription)
qed

theorem unsubscribe_other_spelling_witness:
  "\<exists>s \<in> set (sms_subscriptions (w_db (snd (run_state (handleSelfUnsubscribe
       (sample_request\<lparr>rq_User := \<lparr>us_Username = ''Alice'', us_DN = [], us_Roles = []\<rparr>\<rparr>)) sample_world)))).
     sb_Username s = ''alice''"
proof -
  have "ToLower ''alice'' = ToLower ''Alice''" by code_simp
  then show ?thesis
    using unsubscribe_other_spelling [OF sample_clock(1) _ _ _ prod.collapse [symmetric],
        of "hd (sms_subscriptions (w_db sample_world))"
          "sample_request\<lparr>rq_User := \<lparr>us_Username = ''Alice'', us_DN = [], us_Roles = []\<rparr>\<rparr>"]
    by (auto simp: sample_subscription intro: bexI [rotated])
qed

end
