(* ===== verification/Go_Base64.thy ===== *)
theory Go_Base64
  imports Prelude
begin

text \<open>
  \<open>base64.StdEncoding\<close> of Go: the alphabet, encoding with padding, and decoding, which ignores line
  breaks, demands the padding and does not look at the unused bits. Decoding an encoding gives
  the bytes back. Strings are byte strings, converted to and from \<open>[]byte\<close>.
\<close>

section \<open>Bytes\<close>

definition to_bytes :: "string \<Rightarrow> 8 word list" where
  "to_bytes s = map (\<lambda>c. word_of_nat (of_char c)) s"

definition of_bytes :: "8 word list \<Rightarrow> string" where
  "of_bytes bs = map (\<lambda>b. char_of (unat b)) bs"

lemma of_bytes_to_bytes [simp]: "of_bytes (to_bytes s) = s"
  by (induction s) (simp_all add: of_bytes_def to_bytes_def unat_of_nat)

lemma to_bytes_of_bytes [simp]: "to_bytes (of_bytes bs) = bs"
proof (induction bs)
  case (Cons b bs)
  have "unat b < 256" using unsigned_less [of b] by simp
  with Cons show ?case by (simp add: of_bytes_def to_bytes_def)
qed (simp add: of_bytes_def to_bytes_def)

lemma length_to_bytes [simp]: "length (to_bytes s) = length s"
  by (simp add: to_bytes_def)

section \<open>The alphabet\<close>

definition b64_alphabet :: string where
  "b64_alphabet = ''ABCDEFGHIJKLMNOPQRSTUVWXYZabcdefghijklmnopqrstuvwxyz0123456789+/''"

definition b64_char :: "nat \<Rightarrow> char" where
  "b64_char n = b64_alphabet ! n"

fun index_of :: "char \<Rightarrow> string \<Rightarrow> nat option" where
  "index_of c [] = None"
| "index_of c (x # xs) = (if x = c then Some 0 else map_option Suc (index_of c xs))"

definition b64_val :: "char \<Rightarrow> nat option" where
  "b64_val c = index_of c b64_alphabet"

lemma index_of_nth: "distinct xs \<Longrightarrow> n < length xs \<Longrightarrow> index_of (xs ! n) xs = Some n"
  by (induction xs arbitrary: n) (auto simp: nth_Cons split: nat.split)

lemma alphabet_facts:
  "length b64_alphabet = 64" "distinct b64_alphabet"
  "\<forall>c \<in> set b64_alphabet. c \<noteq> CHR ''='' \<and> of_char c \<noteq> (10 :: nat) \<and> of_char c \<noteq> (13 :: nat)"
  by (simp_all add: b64_alphabet_def)

lemma b64_val_char [simp]: "n < 64 \<Longrightarrow> b64_val (b64_char n) = Some n"
  by (simp add: b64_val_def b64_char_def index_of_nth alphabet_facts)

lemma b64_char_set: "n < 64 \<Longrightarrow> b64_char n \<in> set b64_alphabet"
  by (simp add: b64_char_def alphabet_facts)

section \<open>Encoding and decoding\<close>

fun b64_encode :: "nat list \<Rightarrow> string" where
  "b64_encode (a # b # c # rest) =
     [b64_char (a div 4), b64_char (a mod 4 * 16 + b div 16), b64_char (b mod 16 * 4 + c div 64),
      b64_char (c mod 64)] @ b64_encode rest"
| "b64_encode [a, b] =
     [b64_char (a div 4), b64_char (a mod 4 * 16 + b div 16), b64_char (b mod 16 * 4), CHR ''='']"
| "b64_encode [a] = [b64_char (a div 4), b64_char (a mod 4 * 16), CHR ''='', CHR ''='']"
| "b64_encode [] = []"

definition EncodeToString :: "8 word list \<Rightarrow> string" where
  "EncodeToString bs = b64_encode (map unat bs)"

fun b64_decode :: "string \<Rightarrow> nat list option" where
  "b64_decode (p # q # r # s # rest) =
     (case (b64_val p, b64_val q) of
        (Some x, Some y) \<Rightarrow>
          if r = CHR ''='' \<and> s = CHR ''='' \<and> rest = [] then Some [x * 4 + y div 16]
          else (case b64_val r of
              None \<Rightarrow> None
            | Some z \<Rightarrow>
                if s = CHR ''='' \<and> rest = [] then Some [x * 4 + y div 16, y mod 16 * 16 + z div 4]
                else (case b64_val s of
                    None \<Rightarrow> None
                  | Some u \<Rightarrow> map_option
                      (\<lambda>bs. [x * 4 + y div 16, y mod 16 * 16 + z div 4, z mod 4 * 64 + u] @ bs)
                      (b64_decode rest)))
      | _ \<Rightarrow> None)"
| "b64_decode [] = Some []"
| "b64_decode xs = None"

definition DecodeString :: "string \<Rightarrow> 8 word list option" where
  "DecodeString s = map_option (map word_of_nat)
     (b64_decode (filter (\<lambda>c. of_char c \<noteq> (10 :: nat) \<and> of_char c \<noteq> (13 :: nat)) s))"

section \<open>Decoding an encoding\<close>

lemma b64_padding [simp]: "b64_val CHR ''='' = None"
  by (simp add: b64_val_def b64_alphabet_def)

lemma b64_char_not_padding [simp]: "n < 64 \<Longrightarrow> b64_char n \<noteq> CHR ''=''"
  using b64_char_set [of n] alphabet_facts(3) by blast

lemma sextets:
  fixes a b c :: nat
  assumes "a < 256" "b < 256" "c < 256"
  shows "a div 4 < 64" "a mod 4 * 16 + b div 16 < 64" "b mod 16 * 4 + c div 64 < 64"
    "a mod 4 * 16 < 64" "b mod 16 * 4 < 64" "c mod 64 < 64"
    "a div 4 * 4 + (a mod 4 * 16 + b div 16) div 16 = a"
    "(a mod 4 * 16 + b div 16) mod 16 * 16 + (b mod 16 * 4 + c div 64) div 4 = b"
    "(b mod 16 * 4 + c div 64) mod 4 * 64 + c mod 64 = c"
    "a div 4 * 4 + a mod 4 * 16 div 16 = a"
    "(a mod 4 * 16 + b div 16) mod 16 * 16 + b mod 16 * 4 div 4 = b"
proof -
  have small: "b div 16 < 16" "c div 64 < 4" "a mod 4 < 4" "b mod 16 < 16" using assms by simp_all
  show "a div 4 < 64" "a mod 4 * 16 + b div 16 < 64" "b mod 16 * 4 + c div 64 < 64"
    "a mod 4 * 16 < 64" "b mod 16 * 4 < 64" "c mod 64 < 64"
    using assms small by linarith+
  show "a div 4 * 4 + (a mod 4 * 16 + b div 16) div 16 = a"
    "(a mod 4 * 16 + b div 16) mod 16 * 16 + (b mod 16 * 4 + c div 64) div 4 = b"
    "(b mod 16 * 4 + c div 64) mod 4 * 64 + c mod 64 = c"
    "a div 4 * 4 + a mod 4 * 16 div 16 = a"
    "(a mod 4 * 16 + b div 16) mod 16 * 16 + b mod 16 * 4 div 4 = b"
    using small by simp_all
qed

lemma b64_decode_encode: "\<forall>x \<in> set bs. x < 256 \<Longrightarrow> b64_decode (b64_encode bs) = Some bs"
proof (induction bs rule: b64_encode.induct)
  case (1 a b c rest)
  then show ?case using sextets [of a b c] by simp
next
  case (2 a b)
  then show ?case using sextets [of a b 0] by simp
next
  case (3 a)
  then show ?case using sextets [of a 0 0] by simp
qed simp

lemma b64_encode_alphabet:
  "\<forall>x \<in> set bs. x < 256 \<Longrightarrow> set (b64_encode bs) \<subseteq> insert CHR ''='' (set b64_alphabet)"
proof (induction bs rule: b64_encode.induct)
  case (1 a b c rest)
  then show ?case using sextets [of a b c] by (auto simp: b64_char_set)
next
  case (2 a b)
  then show ?case using sextets [of a b 0] by (auto simp: b64_char_set)
next
  case (3 a)
  then show ?case using sextets [of a 0 0] by (auto simp: b64_char_set)
qed simp

lemma Decode_Encode [simp]: "DecodeString (EncodeToString bs) = Some bs"
proof -
  have small: "\<forall>x \<in> set (map unat bs). x < 256"
    using unsigned_less [where 'b = 8] by auto
  have "\<forall>c \<in> set (b64_encode (map unat bs)). of_char c \<noteq> (10 :: nat) \<and> of_char c \<noteq> (13 :: nat)"
    using b64_encode_alphabet [OF small] alphabet_facts(3) by (intro ballI) (drule subsetD, assumption, fastforce)
  then have eq: "filter (\<lambda>c. of_char c \<noteq> (10 :: nat) \<and> of_char c \<noteq> (13 :: nat)) (b64_encode (map unat bs))
      = b64_encode (map unat bs)" by (rule filter_True)
  show ?thesis
    unfolding DecodeString_def EncodeToString_def eq b64_decode_encode [OF small]
    by (simp add: map_idI)
qed

end
