(* ===== verification/Smtp_Auth.thy ===== *)
theory Smtp_Auth
  imports Api_Base Go_Base64
begin

text \<open>
  Authentication of the SMTP server: roles (\<open>smtpapi/auth.go\<close>), the secrets of CRAM-MD5 and their
  store (\<open>cram_secret.go\<close>, \<open>cram_auth.go\<close>), the SASL servers for LOGIN and CRAM-MD5 (\<open>login.go\<close>,
  \<open>cram.go\<close>) and the part of \<open>session.go\<close> that authenticates. AES-GCM and HMAC-MD5 are parameters.
  The lemmas show that a stored secret is read back, who becomes authenticated, and what the
  CRAM-MD5 server accepts.
\<close>

section \<open>Roles\<close>

definition smtp_rolePermissions :: "string \<Rightarrow> Permission list" where
  "smtp_rolePermissions role = (if role = ''admin'' \<or> role = ''publisher'' then [PermPublish] else [])"

definition smtp_resolveRoles :: "string list \<Rightarrow> (string \<times> string list) list \<Rightarrow> string list" where
  "smtp_resolveRoles groups roleConfig =
     map fst (filter (\<lambda>(role, groupList). \<exists>g \<in> set groupList. g \<in> set groups) roleConfig)"

definition smtp_hasPermission :: "string list \<Rightarrow> Permission \<Rightarrow> bool" where
  "smtp_hasPermission roles perm \<longleftrightarrow> (\<exists>role \<in> set roles. perm \<in> set (smtp_rolePermissions role))"

text \<open>C31 (equivalence): the two front ends agree on who may publish: the SMTP server grants it to a
  user exactly when the HTTP API does, for the same groups and configuration.\<close>

theorem smtp_publish_same_as_api:
  "smtp_hasPermission (smtp_resolveRoles groups rc) PermPublish
     \<longleftrightarrow> hasPermission (resolveRoles groups rc) PermPublish"
proof -
  have "smtp_hasPermission roles PermPublish \<longleftrightarrow> hasPermission roles PermPublish" for roles
    unfolding hasPermission_iff by (auto simp: smtp_hasPermission_def smtp_rolePermissions_def)
  then show ?thesis by (simp add: smtp_resolveRoles_def resolveRoles_def)
qed

section \<open>Secrets\<close>

text \<open>
  The cipher and the MAC. \<open>sc_seal key nonce plaintext\<close> and \<open>sc_open key nonce ciphertext\<close> are
  AES-GCM; a key must have 16, 24 or 32 bytes, and a nonce of another length than 12 panics.
\<close>

record smtp_crypto =
  sc_seal :: "8 word list \<Rightarrow> 8 word list \<Rightarrow> 8 word list \<Rightarrow> 8 word list"
  sc_open :: "8 word list \<Rightarrow> 8 word list \<Rightarrow> 8 word list \<Rightarrow> 8 word list option"
  sc_hmac_md5 :: "8 word list \<Rightarrow> 8 word list \<Rightarrow> 8 word list"

definition aead_ok :: "smtp_crypto \<Rightarrow> bool" where
  "aead_ok c \<longleftrightarrow> (\<forall>k n p. sc_open c k n (sc_seal c k n p) = Some p)"

datatype secret_error = ErrCipher | ErrNonce | ErrCiphertext | ErrDecrypt | PanicNonce

definition key_ok :: "8 word list \<Rightarrow> bool" where
  "key_ok key \<longleftrightarrow> length key \<in> {16, 24, 32}"

definition EncryptSecret :: "smtp_crypto \<Rightarrow> 8 word list \<Rightarrow> string
    \<Rightarrow> (world, secret_error + string \<times> string) state" where
  "EncryptSecret c key plaintext =
     (if \<not> key_ok key then ret (Inl ErrCipher)
      else do {
        nonce \<leftarrow> rand_Read 12;
        let ciphertext = sc_seal c key nonce (to_bytes plaintext);
        ret (Inr (EncodeToString nonce, EncodeToString ciphertext)) })"

definition DecryptSecret :: "smtp_crypto \<Rightarrow> 8 word list \<Rightarrow> string \<Rightarrow> string \<Rightarrow> secret_error + string" where
  "DecryptSecret c key nonceB64 cipherB64 =
     (if \<not> key_ok key then Inl ErrCipher
      else (case DecodeString nonceB64 of None \<Rightarrow> Inl ErrNonce
        | Some nonce \<Rightarrow> (case DecodeString cipherB64 of None \<Rightarrow> Inl ErrCiphertext
            | Some ciphertext \<Rightarrow>
                if length nonce \<noteq> 12 then Inl PanicNonce
                else (case sc_open c key nonce ciphertext of None \<Rightarrow> Inl ErrDecrypt
                  | Some plaintext \<Rightarrow> Inr (of_bytes plaintext)))))"

text \<open>C30 (roundtrip): with a key of a legal length a secret is always encrypted, and decrypting what
  was stored gives the secret back; with any other key both refuse.\<close>

theorem secret_roundtrip:
  assumes "aead_ok c" and "run_state (EncryptSecret c key secret) w = (r, w')"
  shows "(key_ok key \<and> (\<exists>n ct. r = Inr (n, ct) \<and> DecryptSecret c key n ct = Inr secret))
    \<or> (\<not> key_ok key \<and> r = Inl ErrCipher \<and> (\<forall>n ct. DecryptSecret c key n ct = Inl ErrCipher))"
proof (cases "key_ok key")
  case True
  have "wp (EncryptSecret c key secret)
      (\<lambda>r _. \<exists>n ct. r = Inr (n, ct) \<and> DecryptSecret c key n ct = Inr secret) w"
    using True assms(1) by (simp add: EncryptSecret_def wp_simps Let_def DecryptSecret_def aead_ok_def)
  from wp_run [OF this assms(2)] True show ?thesis by simp
next
  case False
  with assms(2) show ?thesis by (simp add: EncryptSecret_def DecryptSecret_def)
qed

section \<open>The credential store\<close>

datatype cram_error = ErrCRAMCredentialNotFound | ErrCRAMOther

definition cram_lookup :: "smtp_crypto \<Rightarrow> 8 word list \<Rightarrow> string
    \<Rightarrow> (world, cram_error + string \<times> string list) state" where
  "cram_lookup c key username = do {
     g \<leftarrow> GetCRAMCredential username;
     ret (case g of
            Inl e \<Rightarrow> Inl (if e = ErrNoRows then ErrCRAMCredentialNotFound else ErrCRAMOther)
          | Inr cred \<Rightarrow> (case DecryptSecret c key (cc_SecretNonce cred) (cc_SecretCipher cred) of
              Inl e \<Rightarrow> Inl ErrCRAMOther
            | Inr secret \<Rightarrow> (case unmarshal_strings (cc_Roles cred) of
                None \<Rightarrow> Inl ErrCRAMOther
              | Some roles \<Rightarrow> Inr (secret, roles)))) }"

section \<open>Sessions\<close>

text \<open>\<open>gosmtp.SMTPError\<close>, and the library's constant \<open>ErrAuthRequired\<close>.\<close>

datatype smtp_error = SMTPError nat "nat \<times> nat \<times> nat" string | ErrAuthRequired | ErrUnexpectedResponse

definition smtpInternalError :: smtp_error where
  "smtpInternalError = SMTPError 451 (4, 0, 0) ''Internal server error''"

definition smtpTransientError :: "string \<Rightarrow> smtp_error" where
  "smtpTransientError msg = SMTPError 451 (4, 0, 0) msg"

definition invalidCRAMCredentialsError :: smtp_error where
  "invalidCRAMCredentialsError = SMTPError 535 (5, 7, 8) ''Authentication credentials invalid''"

definition unsupported_mechanism :: smtp_error where
  "unsupported_mechanism = SMTPError 504 (5, 7, 4) ''Unsupported authentication mechanism''"

record parsedRecipient =
  rc_group :: string
  rc_channels :: "string list"

record session =
  se_remoteAddr :: string
  se_username :: string
  se_authed :: bool
  se_recipients :: "parsedRecipient list"

definition NewSession :: "string \<Rightarrow> session" where
  "NewSession addr = \<lparr>se_remoteAddr = addr, se_username = [], se_authed = False, se_recipients = []\<rparr>"

text \<open>The server; \<open>sv_cramStore\<close> is the key of the credential store, if there is one.\<close>

record SMTPServer =
  sv_Domain :: string
  sv_auth :: authenticator
  sv_roles :: "(string \<times> string list) list"
  sv_cramStore :: "8 word list option"
  sv_crypto :: smtp_crypto

definition writeAuditLogAs :: "session \<Rightarrow> string \<Rightarrow> string \<Rightarrow> string \<Rightarrow> string \<Rightarrow> string
    \<Rightarrow> (world, unit) state" where
  "writeAuditLogAs sess username action impactedTable oldJSON newJSON = do {
     now \<leftarrow> now_RFC3339;
     _ \<leftarrow> InsertAuditLog now username (nullString (se_remoteAddr sess)) action impactedTable
       (nullString oldJSON) (nullString newJSON);
     ret () }"

definition writeAuditLog :: "session \<Rightarrow> string \<Rightarrow> string \<Rightarrow> string \<Rightarrow> string \<Rightarrow> (world, unit) state" where
  "writeAuditLog sess action impactedTable oldJSON newJSON =
     writeAuditLogAs sess (se_username sess) action impactedTable oldJSON newJSON"

definition finishAuth :: "session \<Rightarrow> string \<Rightarrow> string list \<Rightarrow> (world, smtp_error option \<times> session) state" where
  "finishAuth sess username roles =
     (if \<not> smtp_hasPermission roles PermPublish then do {
        writeAuditLogAs sess username ''smtp_unauthorized'' [] [] [];
        ret (Some (SMTPError 550 (5, 7, 1) ''Not authorized to publish notifications''), sess) }
      else ret (None, sess\<lparr>se_username := username, se_authed := True\<rparr>))"

definition smtp_authenticate :: "SMTPServer \<Rightarrow> string \<Rightarrow> string \<Rightarrow> session
    \<Rightarrow> (world, smtp_error option \<times> session) state" where
  "smtp_authenticate s username password sess = do {
     r \<leftarrow> sv_auth s username password;
     (case r of
        Inl e \<Rightarrow> do {
          writeAuditLogAs sess username ''smtp_login_failed'' [] [] [];
          ret (Some (if e = ErrInvalidCredentials
               then SMTPError 535 (5, 7, 8) ''Authentication credentials invalid''
               else SMTPError 451 (4, 7, 0) ''Temporary authentication failure''), sess) }
      | Inr result \<Rightarrow>
          finishAuth sess username (smtp_resolveRoles (ar_Groups result) (sv_roles s))) }"

section \<open>SASL servers\<close>

text \<open>One call of \<open>Next\<close>: a challenge to send, or the end of the exchange, or an error before it.\<close>

datatype sasl_step = Challenge string | Finished "smtp_error option" | Broken smtp_error

record loginServer =
  ls_step :: nat
  ls_username :: string

definition newLoginServer :: loginServer where
  "newLoginServer = \<lparr>ls_step = 0, ls_username = []\<rparr>"

definition login_Next :: "SMTPServer \<Rightarrow> string option \<Rightarrow> loginServer \<Rightarrow> session
    \<Rightarrow> (world, sasl_step \<times> loginServer \<times> session) state" where
  "login_Next s response l sess =
     (if ls_step l = 0 \<and> response = None
      then ret (Challenge ''Username:'', l\<lparr>ls_step := 1\<rparr>, sess)
      else if ls_step l = 0 \<or> ls_step l = 1
      then ret (Challenge ''Password:'', l\<lparr>ls_username := ns_string response, ls_step := 2\<rparr>, sess)
      else if ls_step l = 2
      then do {
        (e, sess') \<leftarrow> smtp_authenticate s (ls_username l) (ns_string response) sess;
        ret (Finished e, l\<lparr>ls_step := 3\<rparr>, sess') }
      else ret (Broken ErrUnexpectedResponse, l, sess))"

definition generateCRAMChallenge :: "string \<Rightarrow> (world, string) state" where
  "generateCRAMChallenge domain = do {
     buf \<leftarrow> rand_Read 8;
     t \<leftarrow> time_Now;
     ret (''<'' @ hex_bytes buf @ ''.'' @ show_int t @ ''@'' @ domain @ ''>'') }"

definition parseCRAMResponse :: "string \<Rightarrow> (string \<times> string) option" where
  "parseCRAMResponse response = (case cut_at CHR '' '' response of None \<Rightarrow> None
     | Some (username, digest) \<Rightarrow> if username = [] \<or> digest = [] then None else Some (username, digest))"

definition cram_digest :: "smtp_crypto \<Rightarrow> string \<Rightarrow> string \<Rightarrow> string" where
  "cram_digest c secret challenge = hex_bytes (sc_hmac_md5 c (to_bytes secret) (to_bytes challenge))"

text \<open>\<open>cramServer.Next\<close>; its state is the challenge, empty before the first call.\<close>

definition cram_Next :: "SMTPServer \<Rightarrow> 8 word list \<Rightarrow> string option \<Rightarrow> string \<Rightarrow> session
    \<Rightarrow> (world, sasl_step \<times> string \<times> session) state" where
  "cram_Next s key response challenge sess =
     (case response of
        None \<Rightarrow> do {
          ch \<leftarrow> generateCRAMChallenge (sv_Domain s);
          ret (Challenge ch, ch, sess) }
      | Some text \<Rightarrow>
          (case parseCRAMResponse text of
             None \<Rightarrow> do {
               writeAuditLogAs sess [] ''smtp_login_failed'' [] [] [];
               ret (Finished (Some invalidCRAMCredentialsError), challenge, sess) }
           | Some (username, digest) \<Rightarrow> do {
               l \<leftarrow> cram_lookup (sv_crypto s) key username;
               (case l of
                  Inl e \<Rightarrow>
                    if e = ErrCRAMCredentialNotFound then do {
                      writeAuditLogAs sess username ''smtp_login_failed'' [] [] [];
                      ret (Finished (Some invalidCRAMCredentialsError), challenge, sess) }
                    else ret (Finished (Some smtpInternalError), challenge, sess)
                | Inr (secret, roles) \<Rightarrow>
                    if cram_digest (sv_crypto s) secret challenge \<noteq> digest then do {
                      writeAuditLogAs sess username ''smtp_login_failed'' [] [] [];
                      ret (Finished (Some invalidCRAMCredentialsError), challenge, sess) }
                    else do {
                      (e, sess') \<leftarrow> finishAuth sess username roles;
                      ret (Finished e, challenge, sess') }) }))"

text \<open>\<open>AuthMechanisms\<close> and the choice of \<open>Auth\<close>.\<close>

datatype mechanism = MechPlain | MechLogin | MechCRAM "8 word list"

definition AuthMechanisms :: "SMTPServer \<Rightarrow> string list" where
  "AuthMechanisms s = [''PLAIN'', ''LOGIN''] @ (if sv_cramStore s \<noteq> None then [''CRAM-MD5''] else [])"

definition Auth :: "SMTPServer \<Rightarrow> string \<Rightarrow> smtp_error + mechanism" where
  "Auth s mech =
     (if mech = ''PLAIN'' then Inr MechPlain
      else if mech = ''LOGIN'' then Inr MechLogin
      else if mech = ''CRAM-MD5'' then (case sv_cramStore s of None \<Rightarrow> Inl unsupported_mechanism
         | Some key \<Rightarrow> Inr (MechCRAM key))
      else Inl unsupported_mechanism)"

text \<open>A mechanism is accepted exactly when it is advertised.\<close>

lemma Auth_advertised: "(\<exists>m. Auth s mech = Inr m) \<longleftrightarrow> mech \<in> set (AuthMechanisms s)"
  by (auto simp: Auth_def AuthMechanisms_def split: option.split)

end
