(* ===== verification/Api_Admin.thy ===== *)
theory Api_Admin
  imports Api_Events Templates Ldap Smtp_Auth
begin

text \<open>
  The administrative endpoints: email templates (\<open>api/templates.go\<close>), groups and the groups to be
  synchronised (\<open>api/groups.go\<close>, \<open>api/sync_groups.go\<close>), the audit log (\<open>api/audit.go\<close>) and the
  credentials of CRAM-MD5 (\<open>api/cram_credentials.go\<close>). The \<open>Core\<close> functions are shared with the
  pages of the web interface.
\<close>

section \<open>Email templates\<close>

text \<open>\<open>required_vars\<close> may be absent: a nil slice, which is marshalled as \<open>null\<close>.\<close>

record templateRequest =
  tq_TemplateName :: string
  tq_Subject :: string
  tq_Body :: string
  tq_RequiredVars :: "string list option"
  tq_Description :: string

definition vars_list :: "string list option \<Rightarrow> string list" where
  "vars_list vs = (case vs of None \<Rightarrow> [] | Some xs \<Rightarrow> xs)"

definition marshal_vars :: "string list option \<Rightarrow> string" where
  "marshal_vars vs = (case vs of None \<Rightarrow> ''null'' | Some xs \<Rightarrow> marshal_strings xs)"

text \<open>The empty string is for a valid request.\<close>

definition validateTemplateRequest :: "template_engine \<Rightarrow> templateRequest \<Rightarrow> string" where
  "validateTemplateRequest te req =
     (if tq_TemplateName req = [] then ''template_name is required''
      else if tq_Subject req = [] then ''subject is required''
      else if tq_Body req = [] then ''body is required''
      else (case ValidateTemplate te (tq_Subject req) (tq_Body req) (vars_list (tq_RequiredVars req)) of
          Some e \<Rightarrow> e | None \<Rightarrow> []))"

definition createTemplateCore :: "template_engine \<Rightarrow> Request \<Rightarrow> templateRequest
    \<Rightarrow> (world, coreError + EmailTemplate) state" where
  "createTemplateCore te r req =
     (let msg = validateTemplateRequest te req
      in if msg \<noteq> [] then ret (Inl (422, msg))
         else do {
           g \<leftarrow> GetEmailTemplateByName (tq_TemplateName req);
           (case g of
              Inr _ \<Rightarrow> ret (Inl (409, ''template already exists''))
            | Inl err \<Rightarrow> if err \<noteq> ErrNoRows then ret (Inl internal_error)
                else do {
                  i \<leftarrow> InsertEmailTemplate (tq_TemplateName req) (tq_Subject req) (tq_Body req)
                    (marshal_vars (tq_RequiredVars req)) (nullString (tq_Description req));
                  (case i of
                     Inl e \<Rightarrow> ret (Inl internal_error)
                   | Inr tmpl \<Rightarrow> do {
                       auditLogAction r ''create_template'' ''email_templates'' []
                         (marshalAuditJSON (template_json tmpl));
                       ret (Inr tmpl) }) }) })"

definition listTemplatesCore :: "(world, coreError + EmailTemplate list) state" where
  "listTemplatesCore = do {
     l \<leftarrow> ListEmailTemplates;
     ret (case l of Inl e \<Rightarrow> Inl internal_error | Inr ts \<Rightarrow> Inr ts) }"

definition getTemplateCore :: "string \<Rightarrow> (world, coreError + EmailTemplate) state" where
  "getTemplateCore name = do {
     g \<leftarrow> GetEmailTemplateByName name;
     ret (case g of Inr tmpl \<Rightarrow> Inr tmpl
       | Inl e \<Rightarrow> Inl (if e = ErrNoRows then (404, ''template not found'') else internal_error)) }"

definition updateTemplateCore :: "template_engine \<Rightarrow> Request \<Rightarrow> string \<Rightarrow> templateRequest
    \<Rightarrow> (world, coreError + EmailTemplate) state" where
  "updateTemplateCore te r name req0 =
     (let req = req0\<lparr>tq_TemplateName := name\<rparr>; msg = validateTemplateRequest te req
      in if msg \<noteq> [] then ret (Inl (422, msg))
         else do {
           g \<leftarrow> getTemplateCore name;
           (case g of
              Inl e \<Rightarrow> ret (Inl e)
            | Inr oldTmpl \<Rightarrow> do {
                u \<leftarrow> UpdateEmailTemplate (tq_Subject req) (tq_Body req) (marshal_vars (tq_RequiredVars req))
                  (nullString (tq_Description req)) name;
                (case u of
                   Inl e \<Rightarrow> ret (Inl internal_error)
                 | Inr _ \<Rightarrow> do {
                     again \<leftarrow> GetEmailTemplateByName name;
                     (case again of
                        Inl e \<Rightarrow> ret (Inl internal_error)
                      | Inr tmpl \<Rightarrow> do {
                          auditLogAction r ''update_template'' ''email_templates''
                            (marshalAuditJSON (template_json oldTmpl)) (marshalAuditJSON (template_json tmpl));
                          ret (Inr tmpl) }) }) }) })"

definition deleteTemplateCore :: "Request \<Rightarrow> string \<Rightarrow> (world, coreError + unit) state" where
  "deleteTemplateCore r name = do {
     g \<leftarrow> getTemplateCore name;
     (case g of
        Inl e \<Rightarrow> ret (Inl e)
      | Inr tmpl \<Rightarrow> do {
          x \<leftarrow> DeleteEmailTemplate name;
          (case x of
             Inl e \<Rightarrow> ret (Inl internal_error)
           | Inr _ \<Rightarrow> do {
               auditLogAction r ''delete_template'' ''email_templates''
                 (marshalAuditJSON (template_json tmpl)) [];
               ret (Inr ()) }) }) }"

record templateResponse =
  tr_ID :: int
  tr_TemplateName :: string
  tr_Subject :: string
  tr_Body :: string
  tr_RequiredVars :: "string list"
  tr_Description :: string

text \<open>The error of the stored variables is ignored; they were written by \<open>json.Marshal\<close>.\<close>

definition toTemplateResponse :: "EmailTemplate \<Rightarrow> templateResponse" where
  "toTemplateResponse t = \<lparr>tr_ID = et_ID t, tr_TemplateName = et_TemplateName t,
     tr_Subject = et_Subject t, tr_Body = et_Body t,
     tr_RequiredVars = (case unmarshal_strings (et_RequiredVars t) of None \<Rightarrow> [] | Some vs \<Rightarrow> vs),
     tr_Description = ns_string (et_Description t)\<rparr>"

text \<open>The reply of a wrapper around a core function.\<close>

definition core_reply :: "nat \<Rightarrow> ('a \<Rightarrow> 'b) \<Rightarrow> coreError + 'a \<Rightarrow> 'b reply" where
  "core_reply code f x = (case x of Inl e \<Rightarrow> writeCoreError e | Inr a \<Rightarrow> Reply code (f a))"

definition handleCreateTemplate :: "template_engine \<Rightarrow> Request \<Rightarrow> templateRequest option
    \<Rightarrow> (world, templateResponse reply) state" where
  "handleCreateTemplate te r body = (case body of None \<Rightarrow> ret (Fail 400 ''invalid JSON body'')
     | Some req \<Rightarrow> do { x \<leftarrow> createTemplateCore te r req; ret (core_reply 201 toTemplateResponse x) })"

definition handleListTemplates :: "(world, templateResponse list reply) state" where
  "handleListTemplates = do { x \<leftarrow> listTemplatesCore; ret (core_reply 200 (map toTemplateResponse) x) }"

definition handleGetTemplate :: "string \<Rightarrow> (world, templateResponse reply) state" where
  "handleGetTemplate name = do { x \<leftarrow> getTemplateCore name; ret (core_reply 200 toTemplateResponse x) }"

definition handleUpdateTemplate :: "template_engine \<Rightarrow> Request \<Rightarrow> string \<Rightarrow> templateRequest option
    \<Rightarrow> (world, templateResponse reply) state" where
  "handleUpdateTemplate te r name body = (case body of None \<Rightarrow> ret (Fail 400 ''invalid JSON body'')
     | Some req \<Rightarrow> do { x \<leftarrow> updateTemplateCore te r name req; ret (core_reply 200 toTemplateResponse x) })"

definition handleDeleteTemplate :: "Request \<Rightarrow> string \<Rightarrow> (world, unit reply) state" where
  "handleDeleteTemplate r name = do { x \<leftarrow> deleteTemplateCore r name; ret (core_reply 204 id x) }"

section \<open>Groups\<close>

record groupMemberResponse =
  gr_Username :: string
  gr_DisplayName :: string
  gr_Email :: string
  gr_Mobile :: string
  gr_Work :: string
  gr_SyncedAt :: string

definition toGroupMemberResponse :: "GroupMember \<Rightarrow> groupMemberResponse" where
  "toGroupMemberResponse m = \<lparr>gr_Username = gm_Username m, gr_DisplayName = ns_string (gm_DisplayName m),
     gr_Email = ns_string (gm_Email m), gr_Mobile = ns_string (gm_Mobile m),
     gr_Work = ns_string (gm_Work m), gr_SyncedAt = gm_SyncedAt m\<rparr>"

definition handleListGroups :: "(world, string list reply) state" where
  "handleListGroups = do {
     l \<leftarrow> ListDistinctGroupNames;
     ret (case l of Inl e \<Rightarrow> writeCoreError internal_error | Inr names \<Rightarrow> Reply 200 names) }"

definition handleListGroupMembers :: "string \<Rightarrow> (world, groupMemberResponse list reply) state" where
  "handleListGroupMembers groupName = do {
     l \<leftarrow> ListGroupMembers groupName;
     ret (case l of Inl e \<Rightarrow> writeCoreError internal_error
       | Inr ms \<Rightarrow> if ms = [] then Fail 404 ''group not found'' else Reply 200 (map toGroupMemberResponse ms)) }"

record syncGroupResponse =
  sr_ID :: int
  sr_GroupName :: string
  sr_CreatedAt :: string
  sr_CreatedBy :: string

definition toSyncGroupResponse :: "SyncGroup \<Rightarrow> syncGroupResponse" where
  "toSyncGroupResponse g = \<lparr>sr_ID = sg_ID g, sr_GroupName = sg_GroupName g, sr_CreatedAt = sg_CreatedAt g,
     sr_CreatedBy = sg_CreatedBy g\<rparr>"

definition listSyncGroupsCore :: "(world, coreError + SyncGroup list) state" where
  "listSyncGroupsCore = do {
     l \<leftarrow> ListSyncGroups;
     ret (case l of Inl e \<Rightarrow> Inl internal_error | Inr gs \<Rightarrow> Inr gs) }"

definition handleListSyncGroups :: "(world, syncGroupResponse list reply) state" where
  "handleListSyncGroups = do { x \<leftarrow> listSyncGroupsCore; ret (core_reply 200 (map toSyncGroupResponse) x) }"

text \<open>\<open>verify\<close> is the interface \<open>GroupVerifier\<close>: the error, \<open>None\<close> for a group that exists.\<close>

type_synonym group_verifier = "string \<Rightarrow> (world, string option) state"

definition ldapGroupVerifier :: "(int \<Rightarrow> goldap) \<Rightarrow> ldap_conf \<Rightarrow> group_verifier" where
  "ldapGroupVerifier ldap c groupName = do {
     now \<leftarrow> gets w_now;
     ret (VerifyGroup (ldap now) c groupName) }"

definition createSyncGroupCore :: "group_verifier \<Rightarrow> Request \<Rightarrow> string
    \<Rightarrow> (world, coreError + SyncGroup) state" where
  "createSyncGroupCore verify r groupName =
     (if groupName = [] then ret (Inl (422, ''group_name is required''))
      else do {
        g \<leftarrow> GetSyncGroup groupName;
        (case g of
           Inr _ \<Rightarrow> ret (Inl (409, ''sync group already exists''))
         | Inl err \<Rightarrow> if err \<noteq> ErrNoRows then ret (Inl internal_error)
             else do {
               v \<leftarrow> verify groupName;
               (case v of
                  Some e \<Rightarrow> ret (Inl (422, ''group not found in LDAP: '' @ e))
                | None \<Rightarrow> do {
                    i \<leftarrow> InsertSyncGroup groupName (us_Username (rq_User r));
                    (case i of
                       Inl e \<Rightarrow> ret (Inl internal_error)
                     | Inr sg \<Rightarrow> do {
                         auditLogAction r ''create_sync_group'' ''sync_groups'' []
                           (marshalAuditJSON (sync_group_json sg));
                         ret (Inr sg) }) }) }) })"

definition handleCreateSyncGroup :: "group_verifier \<Rightarrow> Request \<Rightarrow> string option
    \<Rightarrow> (world, syncGroupResponse reply) state" where
  "handleCreateSyncGroup verify r body = (case body of None \<Rightarrow> ret (Fail 400 ''invalid JSON body'')
     | Some groupName \<Rightarrow> do {
         x \<leftarrow> createSyncGroupCore verify r groupName;
         ret (core_reply 201 toSyncGroupResponse x) })"

definition deleteSyncGroupCore :: "Request \<Rightarrow> string \<Rightarrow> (world, coreError + unit) state" where
  "deleteSyncGroupCore r groupName = do {
     g \<leftarrow> GetSyncGroup groupName;
     (case g of
        Inl e \<Rightarrow> ret (Inl (if e = ErrNoRows then (404, ''sync group not found'') else internal_error))
      | Inr sg \<Rightarrow> do {
          x \<leftarrow> DeleteSyncGroup groupName;
          (case x of
             Inl e \<Rightarrow> ret (Inl internal_error)
           | Inr _ \<Rightarrow> do {
               auditLogAction r ''delete_sync_group'' ''sync_groups'' (marshalAuditJSON (sync_group_json sg)) [];
               ret (Inr ()) }) }) }"

definition handleDeleteSyncGroup :: "Request \<Rightarrow> string \<Rightarrow> (world, unit reply) state" where
  "handleDeleteSyncGroup r groupName = do {
     x \<leftarrow> deleteSyncGroupCore r groupName;
     ret (core_reply 204 id x) }"

section \<open>The audit log\<close>

record auditLogResponse =
  al_ID :: int
  al_Timestamp :: string
  al_Username :: string
  al_IPAddress :: string
  al_Action :: string
  al_ImpactedTable :: string
  al_OldValues :: string
  al_NewValues :: string

definition toAuditLogResponse :: "AuditLog \<Rightarrow> auditLogResponse" where
  "toAuditLogResponse a = \<lparr>al_ID = au_ID a, al_Timestamp = au_Timestamp a, al_Username = au_Username a,
     al_IPAddress = ns_string (au_IpAddress a), al_Action = au_Action a,
     al_ImpactedTable = au_ImpactedTable a, al_OldValues = ns_string (au_OldValues a),
     al_NewValues = ns_string (au_NewValues a)\<rparr>"

text \<open>\<open>limit\<close> and \<open>offset\<close> of the query, or the message of a bad one.\<close>

definition audit_limit :: "string \<Rightarrow> string + int" where
  "audit_limit v = (if v = [] then Inr 50
     else (case ParseInt64 v of None \<Rightarrow> Inl ''limit must be an integer between 1 and 200''
       | Some n \<Rightarrow> if n < 1 \<or> n > 200 then Inl ''limit must be an integer between 1 and 200'' else Inr n))"

definition audit_offset :: "string \<Rightarrow> string + int" where
  "audit_offset v = (if v = [] then Inr 0
     else (case ParseInt64 v of None \<Rightarrow> Inl ''offset must be a non-negative integer''
       | Some n \<Rightarrow> if n < 0 then Inl ''offset must be a non-negative integer'' else Inr n))"

definition handleListAuditLog :: "(string \<Rightarrow> string)
    \<Rightarrow> (world, (auditLogResponse list \<times> int \<times> int) reply) state" where
  "handleListAuditLog query =
     (case audit_limit (query ''limit'') of
        Inl e \<Rightarrow> ret (Fail 400 e)
      | Inr lim \<Rightarrow> (case audit_offset (query ''offset'') of
          Inl e \<Rightarrow> ret (Fail 400 e)
        | Inr off \<Rightarrow> do {
            l \<leftarrow> ListAuditLogFiltered (query ''username'') (query ''from'') (query ''to'') off lim;
            ret (case l of Inl e \<Rightarrow> writeCoreError internal_error
              | Inr entries \<Rightarrow> Reply 200 (map toAuditLogResponse entries, lim, off)) }))"

section \<open>Credentials for CRAM-MD5\<close>

definition knownRoles :: "string \<Rightarrow> bool" where
  "knownRoles role \<longleftrightarrow> role \<in> {''admin'', ''publisher'', ''reader''}"

record cramCredentialResponse =
  cr_Username :: string
  cr_Roles :: "string list"
  cr_Enabled :: bool
  cr_CreatedAt :: string

definition toCRAMCredentialResponse :: "SmtpCramCredential \<Rightarrow> cramCredentialResponse" where
  "toCRAMCredentialResponse c = \<lparr>cr_Username = cc_Username c,
     cr_Roles = (case unmarshal_strings (cc_Roles c) of None \<Rightarrow> [] | Some rs \<Rightarrow> rs),
     cr_Enabled = (cc_Enabled c \<noteq> 0), cr_CreatedAt = cc_CreatedAt c\<rparr>"

definition credential_json :: "cramCredentialResponse \<Rightarrow> json" where
  "credential_json c = JObj [(''username'', JStr (cr_Username c)), (''roles'', JArr (map JStr (cr_Roles c))),
     (''enabled'', JBool (cr_Enabled c)), (''created_at'', JStr (cr_CreatedAt c))]"

definition handleListCRAMCredentials :: "(world, cramCredentialResponse list reply) state" where
  "handleListCRAMCredentials = do {
     l \<leftarrow> ListCRAMCredentials;
     ret (case l of Inl e \<Rightarrow> writeCoreError internal_error
       | Inr creds \<Rightarrow> Reply 200 (map toCRAMCredentialResponse creds)) }"

record createCRAMResponse =
  cn_Username :: string
  cn_Roles :: "string list"
  cn_CreatedAt :: string
  cn_Secret :: string

definition unknown_role :: "string list \<Rightarrow> string option" where
  "unknown_role roles = find (\<lambda>role. \<not> knownRoles role) roles"

text \<open>The part of the handler after the checks: the secret, its encryption, the row, the audit row.\<close>

definition store_credential :: "smtp_crypto \<Rightarrow> 8 word list \<Rightarrow> Request \<Rightarrow> string \<Rightarrow> string list
    \<Rightarrow> (world, createCRAMResponse reply) state" where
  "store_credential c key r username roles = do {
     secretBytes \<leftarrow> rand_Read 32;
     let secret = EncodeToString secretBytes;
     x \<leftarrow> EncryptSecret c key secret;
     (case x of
        Inl e \<Rightarrow> ret (writeCoreError internal_error)
      | Inr (nonceB64, cipherB64) \<Rightarrow> do {
          now \<leftarrow> now_RFC3339;
          i \<leftarrow> InsertCRAMCredential \<lparr>cc_Username = username, cc_SecretNonce = nonceB64,
            cc_SecretCipher = cipherB64, cc_Roles = marshal_strings roles, cc_Enabled = 1,
            cc_CreatedAt = now\<rparr>;
          (case i of
             Inl e \<Rightarrow> ret (writeCoreError internal_error)
           | Inr _ \<Rightarrow> do {
               auditLogAction r ''create_cram_credential'' ''smtp_cram_credentials'' []
                 (marshalAuditJSON (credential_json \<lparr>cr_Username = username, cr_Roles = roles,
                    cr_Enabled = True, cr_CreatedAt = now\<rparr>));
               ret (Reply 201 \<lparr>cn_Username = username, cn_Roles = roles, cn_CreatedAt = now,
                 cn_Secret = secret\<rparr>) }) }) }"

definition handleCreateCRAMCredential :: "smtp_crypto \<Rightarrow> 8 word list option \<Rightarrow> Request
    \<Rightarrow> (string \<times> string list) option \<Rightarrow> (world, createCRAMResponse reply) state" where
  "handleCreateCRAMCredential c cramKey r body =
     (case cramKey of None \<Rightarrow> ret (Fail 422 ''smtp_server.cram_md5_enabled is not configured'')
      | Some key \<Rightarrow> (case body of None \<Rightarrow> ret (Fail 400 ''invalid JSON body'')
        | Some (username, roles) \<Rightarrow>
            if username = [] then ret (Fail 422 ''username is required'')
            else if roles = [] then ret (Fail 422 ''roles is required'')
            else (case unknown_role roles of
                Some role \<Rightarrow> ret (Fail 422 (''unknown role '' @ role
                  @ '' (must be one of: admin, publisher, reader)''))
              | None \<Rightarrow> do {
                  g \<leftarrow> GetCRAMCredential username;
                  (case g of
                     Inr _ \<Rightarrow> ret (Fail 409 ''cram credential already exists'')
                   | Inl err \<Rightarrow> if err \<noteq> ErrNoRows then ret (writeCoreError internal_error)
                       else store_credential c key r username roles) })))"

definition handleDeleteCRAMCredential :: "Request \<Rightarrow> string \<Rightarrow> (world, unit reply) state" where
  "handleDeleteCRAMCredential r username = do {
     g \<leftarrow> GetCRAMCredential username;
     (case g of
        Inl e \<Rightarrow> ret (if e = ErrNoRows then Fail 404 ''cram credential not found''
          else writeCoreError internal_error)
      | Inr cred \<Rightarrow> do {
          x \<leftarrow> DeleteCRAMCredential username;
          (case x of
             Inl e \<Rightarrow> ret (writeCoreError internal_error)
           | Inr _ \<Rightarrow> do {
               auditLogAction r ''delete_cram_credential'' ''smtp_cram_credentials''
                 (marshalAuditJSON (credential_json (toCRAMCredentialResponse cred))) [];
               ret (Reply 204 ()) }) }) }"

end
