(* ===== verification/Smtp_Session.thy ===== *)
theory Smtp_Session
  imports Smtp_Auth Publish
begin

text \<open>
  Sessions of the SMTP server: recipients and message parts (\<open>smtpapi/parse.go\<close>) and the commands
  MAIL, RCPT, DATA and RSET (\<open>session.go\<close>). The parsers of \<open>net/mail\<close> and \<open>mime\<close> are a parameter. A
  session is a state machine driven by the client; the lemmas show that only an authenticated
  session with the permission to publish stores anything, and what an accepted message leaves.
\<close>

section \<open>Recipients\<close>

text \<open>The channels of an address: lower case, without blanks, each once, in the order of appearance.\<close>

primrec collect_channels :: "string list \<Rightarrow> string list \<Rightarrow> string list" where
  "collect_channels acc [] = acc"
| "collect_channels acc (f # fs) =
     (let ch = ToLower (TrimSpace f)
      in collect_channels (if ch \<noteq> [] \<and> ch \<notin> set acc then acc @ [ch] else acc) fs)"

definition parseRecipient :: "string \<Rightarrow> string \<Rightarrow> string + parsedRecipient" where
  "parseRecipient addr0 expectedDomain =
     (let addr = TrimSuffix (TrimPrefix (TrimSpace addr0) ''<'') ''>''
      in case cut_last CHR ''@'' addr of
           None \<Rightarrow> Inl (''invalid address '' @ go_quote addr @ '': missing domain'')
         | Some (localPart, domain) \<Rightarrow>
             if \<not> EqualFold domain expectedDomain then
               Inl (''recipient domain '' @ go_quote domain @ '' does not match relay domain ''
                 @ go_quote expectedDomain)
             else (let fields = Split localPart CHR ''+''; groupName = TrimSpace (hd fields)
                   in if groupName = [] then Inl (''invalid address '' @ go_quote addr @ '': empty group'')
                      else Inr \<lparr>rc_group = groupName, rc_channels = collect_channels [] (tl fields)\<rparr>))"

text \<open>\<open>missingChannelError\<close> carries the group.\<close>

fun resolveTargets :: "parsedRecipient list \<Rightarrow> string list \<Rightarrow> string + parsedRecipient list" where
  "resolveTargets [] fallback = Inr []"
| "resolveTargets (rcpt # rcpts) fallback =
     (let channels = (if rc_channels rcpt = [] then fallback else rc_channels rcpt)
      in if channels = [] then Inl (rc_group rcpt)
         else map_sum id (\<lambda>rs. \<lparr>rc_group = rc_group rcpt, rc_channels = channels\<rparr> # rs)
                (resolveTargets rcpts fallback))"

section \<open>Messages\<close>

text \<open>
  \<open>ml_addresses\<close> is \<open>mail.ParseAddressList\<close>; \<open>ml_media\<close> is \<open>mime.ParseMediaType\<close>, with the boundary
  and whether there was no error. A message has its headers (\<open>Header.Get\<close>), its body or the error of
  reading it, and for a boundary the parts \<open>NextPart\<close> returns before its first error, each with
  its content type and its content if it can be read.
\<close>

record mail_lib =
  ml_addresses :: "string \<Rightarrow> string + string list"
  ml_media :: "string \<Rightarrow> string \<times> string \<times> bool"

record mail_message =
  mm_header :: "string \<Rightarrow> string"
  mm_body :: "string + string"
  mm_parts :: "string \<Rightarrow> (string \<times> string option) list"

definition extractChannelsFromFromHeader :: "mail_lib \<Rightarrow> string \<Rightarrow> string \<Rightarrow> string + string list" where
  "extractChannelsFromFromHeader lib fromHeader expectedDomain =
     (case ml_addresses lib fromHeader of
        Inl e \<Rightarrow> Inl (''invalid From header: '' @ e)
      | Inr addrs \<Rightarrow> Inr (concat (map (\<lambda>a. case cut_at CHR ''@'' a of None \<Rightarrow> []
          | Some (localPart, domain) \<Rightarrow> if EqualFold domain expectedDomain then [ToLower localPart] else [])
          addrs)))"

text \<open>The loop over the parts; \<open>fallback\<close> is the first other part with a text.\<close>

primrec plain_part :: "mail_lib \<Rightarrow> string \<Rightarrow> (string \<times> string option) list \<Rightarrow> string" where
  "plain_part lib fallback [] = fallback"
| "plain_part lib fallback (p # ps) =
     (case snd p of None \<Rightarrow> plain_part lib fallback ps
      | Some b \<Rightarrow>
          if fst (ml_media lib (fst p)) = ''text/plain''
          then (if TrimSpace b \<noteq> [] then TrimSpace b else fallback)
          else plain_part lib (if fallback = [] then TrimSpace b else fallback) ps)"

definition extractPlainText :: "mail_lib \<Rightarrow> mail_message \<Rightarrow> string + string" where
  "extractPlainText lib msg =
     (let whole = (case mm_body msg of Inl e \<Rightarrow> Inl (''read body: '' @ e) | Inr b \<Rightarrow> Inr (TrimSpace b));
          contentType = mm_header msg ''Content-Type''
      in if contentType = [] then whole
         else (let (mediaType, boundary, ok) = ml_media lib contentType
               in if \<not> ok \<or> \<not> HasPrefix mediaType ''multipart/'' then whole
                  else Inr (plain_part lib [] (mm_parts msg boundary))))"

section \<open>The commands\<close>

definition Mail :: "session \<Rightarrow> smtp_error option" where
  "Mail sess = (if \<not> se_authed sess then Some ErrAuthRequired else None)"

definition unknown_channel :: "string list \<Rightarrow> string option" where
  "unknown_channel channels = find (\<lambda>ch. \<not> validChannels ch) channels"

definition Rcpt :: "SMTPServer \<Rightarrow> string \<Rightarrow> session \<Rightarrow> smtp_error option \<times> session" where
  "Rcpt s to_addr sess =
     (if \<not> se_authed sess then (Some ErrAuthRequired, sess)
      else (case parseRecipient to_addr (sv_Domain s) of
          Inl e \<Rightarrow> (Some (SMTPError 550 (5, 1, 1) e), sess)
        | Inr rcpt \<Rightarrow> (case unknown_channel (rc_channels rcpt) of
            Some ch \<Rightarrow> (Some (SMTPError 550 (5, 1, 1) (''Unknown channel '' @ go_quote ch @ '' in recipient ''
              @ go_quote to_addr @ ''; valid values: sms, voice, email'')), sess)
          | None \<Rightarrow> (None, sess\<lparr>se_recipients := se_recipients sess @ [rcpt]\<rparr>))))"

definition Reset :: "session \<Rightarrow> session" where
  "Reset sess = sess\<lparr>se_recipients := []\<rparr>"

text \<open>The checks of DATA, in their order: an error, or the subject, the text and the targets.\<close>

definition fallback_channels :: "mail_lib \<Rightarrow> string \<Rightarrow> mail_message \<Rightarrow> smtp_error + string list" where
  "fallback_channels lib domain msg =
     (let fromHeader = mm_header msg ''From''
      in if fromHeader = [] then Inr []
         else (case extractChannelsFromFromHeader lib fromHeader domain of
             Inl e \<Rightarrow> Inl (SMTPError 550 (5, 1, 7) (''Invalid From header: '' @ e))
           | Inr chs \<Rightarrow> (case unknown_channel chs of
               Some ch \<Rightarrow> Inl (SMTPError 550 (5, 6, 0) (''Unknown channel '' @ go_quote ch
                 @ '' in From header; valid values: sms, voice, email''))
             | None \<Rightarrow> Inr chs)))"

definition check_data :: "SMTPServer \<Rightarrow> mail_lib \<Rightarrow> session \<Rightarrow> (string + mail_message)
    \<Rightarrow> smtp_error + string \<times> string \<times> parsedRecipient list" where
  "check_data s lib sess input =
     (if \<not> se_authed sess then Inl ErrAuthRequired
      else (case input of
          Inl e \<Rightarrow> Inl (SMTPError 550 (5, 6, 0) (''Failed to parse message: '' @ e))
        | Inr msg \<Rightarrow> (case fallback_channels lib (sv_Domain s) msg of
            Inl e \<Rightarrow> Inl e
          | Inr fallback \<Rightarrow>
              (let eventName = TrimSpace (mm_header msg ''Subject'')
               in case extractPlainText lib msg of
                    Inl e \<Rightarrow> Inl (SMTPError 550 (5, 6, 0) (''Failed to extract message body: '' @ e))
                  | Inr text \<Rightarrow>
                      if se_recipients sess = [] then
                        Inl (SMTPError 550 (5, 1, 1) ''At least one recipient (group) is required'')
                      else if text = [] then Inl (SMTPError 550 (5, 6, 0) ''Message body must not be empty'')
                      else (case resolveTargets (se_recipients sess) fallback of
                          Inl g \<Rightarrow> Inl (SMTPError 550 (5, 1, 7) (''No channel specified for group ''
                            @ go_quote g @ ''; encode it in the recipient address, e.g. '' @ g
                            @ ''+sms+voice@'' @ sv_Domain s))
                        | Inr resolved \<Rightarrow> Inr (eventName, text, resolved))))))"

text \<open>\<open>fmt.Sprintf\<close> of the subject between quotes, without escaping.\<close>

definition email_vars :: "string \<Rightarrow> string" where
  "email_vars eventName = ''{'' @ [CHR 0x22] @ ''subject'' @ [CHR 0x22] @ '': '' @ [CHR 0x22] @ eventName
     @ [CHR 0x22] @ ''}''"

text \<open>The loop over the targets: one notification each; the first failure ends it.\<close>

primrec store_targets :: "session \<Rightarrow> string \<Rightarrow> string \<Rightarrow> string \<Rightarrow> string \<Rightarrow> parsedRecipient list
    \<Rightarrow> (world, smtp_error option) state" where
  "store_targets sess eventID now text emailVars [] = ret None"
| "store_targets sess eventID now text emailVars (rcpt # rcpts) = do {
     nid \<leftarrow> smtp_newUUIDV7;
     n \<leftarrow> InsertNotification nid eventID (Some (marshal_strings [rc_group rcpt])) None
       (Some (marshal_strings (rc_channels rcpt))) text 0 (Some ''default'') (Some emailVars) now
       (nullString (se_username sess)) ''pending'';
     (case n of
        Inl e \<Rightarrow> ret (Some (smtpTransientError ''Failed to persist notification''))
      | Inr notif \<Rightarrow> do {
          writeAuditLog sess ''create_notification'' ''notifications'' []
            (marshalAuditJSON (notification_json notif));
          queued \<leftarrow> try_enqueue (nt_NotificationID notif);
          if \<not> queued then ret (Some (SMTPError 452 (4, 3, 1) ''Server busy, try again later''))
          else store_targets sess eventID now text emailVars rcpts }) }"

definition Data :: "SMTPServer \<Rightarrow> mail_lib \<Rightarrow> (string + mail_message) \<Rightarrow> session
    \<Rightarrow> (world, smtp_error option) state" where
  "Data s lib input sess =
     (case check_data s lib sess input of
        Inl e \<Rightarrow> ret (Some e)
      | Inr (eventName, text, resolved) \<Rightarrow> do {
          now \<leftarrow> now_RFC3339;
          eid \<leftarrow> smtp_newUUIDV7;
          ev \<leftarrow> InsertEvent eid None (nullString eventName) None None now None
            (nullString (se_username sess)) now;
          (case ev of
             Inl e \<Rightarrow> ret (Some (smtpTransientError ''Failed to persist event''))
           | Inr event \<Rightarrow> do {
               writeAuditLog sess ''create_event'' ''events'' [] (marshalAuditJSON (event_json event));
               store_targets sess (ev_EventID event) now text (email_vars eventName) resolved }) })"

end
