(* ===== verification/Smtp_Facts.thy ===== *)
theory Smtp_Facts
  imports Smtp_Session Dispatcher
begin

text \<open>
  Properties of the SMTP front end: recipients as they are written and read, the session as a
  state machine with an invariant over every reachable state, and what an accepted or refused
  message leaves in the tables and in the queue.
\<close>

section \<open>Recipients\<close>

lemma dropWhile_hd: "\<not> P (hd xs) \<Longrightarrow> dropWhile P xs = xs"
  by (cases xs) auto

lemma TrimSpace_id: "s \<noteq> [] \<Longrightarrow> \<not> is_space (hd s) \<Longrightarrow> \<not> is_space (last s) \<Longrightarrow> TrimSpace s = s"
  by (simp add: TrimSpace_def dropWhile_hd hd_rev)

lemma hd_TrimSpace: "TrimSpace s = s \<Longrightarrow> s \<noteq> [] \<Longrightarrow> \<not> is_space (hd s)"
proof
  assume s: "TrimSpace s = s" "s \<noteq> []" and sp: "is_space (hd s)"
  obtain c r where c: "s = c # r" using s(2) by (cases s) auto
  have "length (TrimSpace s) \<le> length (dropWhile is_space s)"
    unfolding TrimSpace_def by (metis length_dropWhile_le length_rev)
  also have "\<dots> < length s" using c sp by (simp add: le_imp_less_Suc length_dropWhile_le)
  finally show False using s(1) by simp
qed

definition valid_channels :: "string list \<Rightarrow> bool" where
  "valid_channels chs \<longleftrightarrow> distinct chs \<and> set chs \<subseteq> {''sms'', ''voice'', ''email''}"

lemma channel_facts:
  assumes "ch \<in> {''sms'', ''voice'', ''email''}"
  shows "ToLower (TrimSpace ch) = ch" "ch \<noteq> []" "CHR ''+'' \<notin> set ch"
  using assms by (auto simp: ToLower_def TrimSpace_def is_space_def lower_char_def)

lemma collect_valid:
  "valid_channels (acc @ chs) \<Longrightarrow> collect_channels acc chs = acc @ chs"
proof (induction chs arbitrary: acc)
  case (Cons ch chs)
  then have ch: "ch \<in> {''sms'', ''voice'', ''email''}" "ch \<notin> set acc"
    by (auto simp: valid_channels_def)
  moreover have "valid_channels ((acc @ [ch]) @ chs)" using Cons.prems by simp
  ultimately show ?case using Cons.IH [of "acc @ [ch]"] channel_facts [OF ch(1)] by (simp add: Let_def)
qed simp

text \<open>The address a sender writes for a group and its channels.\<close>

definition recipient_address :: "string \<Rightarrow> string list \<Rightarrow> string \<Rightarrow> string" where
  "recipient_address g chs domain = Join (g # chs) ''+'' @ ''@'' @ domain"

text \<open>C29 (roundtrip): a recipient is read as it was written: the address of a group and its channels
  parses back to exactly this group and these channels, whatever the case of the domain.\<close>

theorem recipient_roundtrip:
  assumes g: "g \<noteq> []" "TrimSpace g = g" "CHR ''+'' \<notin> set g" "hd g \<noteq> CHR ''<''"
    and chs: "valid_channels chs"
    and dom: "EqualFold domain relay" "domain \<noteq> []" "CHR ''@'' \<notin> set domain"
      "\<not> is_space (last domain)" "last domain \<noteq> CHR ''>''"
  shows "parseRecipient (recipient_address g chs domain) relay
    = Inr \<lparr>rc_group = g, rc_channels = chs\<rparr>"
proof -
  let ?l = "Join (g # chs) ''+''" and ?a = "recipient_address g chs domain"
  have l: "?l \<noteq> []" "hd ?l = hd g" using g(1) by (cases chs; simp)+
  have a: "?a \<noteq> []" "hd ?a = hd g" "last ?a = last domain"
    using l dom(2) by (simp_all add: recipient_address_def)
  have "TrimSpace ?a = ?a"
    using a hd_TrimSpace [OF g(2,1)] dom(4) by (intro TrimSpace_id) auto
  moreover have "TrimPrefix ?a ''<'' = ?a"
    using a(1,2) g(4) by (cases ?a) (auto simp: TrimPrefix_def HasPrefix_def)
  moreover have "TrimSuffix ?a ''>'' = ?a"
    using a(1,3) dom(5) by (cases ?a rule: rev_cases) (auto simp: TrimSuffix_def HasSuffix_def)
  moreover have "cut_last CHR ''@'' ?a = Some (?l, domain)"
    using dom(3) by (simp add: cut_last_Some recipient_address_def)
  moreover have "Split ?l CHR ''+'' = g # chs"
    using g(3) chs channel_facts(3) by (intro Split_Join) (auto simp: valid_channels_def)
  ultimately show ?thesis
    using dom(1) g(1,2) collect_valid [of "[]" chs] chs by (simp add: parseRecipient_def Let_def)
qed

lemma collect_channels_distinct:
  "distinct acc \<Longrightarrow> distinct (collect_channels acc fs)"
  by (induction fs arbitrary: acc) (auto simp: Let_def)

lemma unknown_channel_None: "unknown_channel chs = None \<longleftrightarrow> set chs \<subseteq> {''sms'', ''voice'', ''email''}"
  by (auto simp: unknown_channel_def find_None validChannels_def)

definition recipient_ok :: "parsedRecipient \<Rightarrow> bool" where
  "recipient_ok rcpt \<longleftrightarrow> rc_group rcpt \<noteq> [] \<and> valid_channels (rc_channels rcpt)"

lemma Rcpt_ok:
  assumes "\<forall>x \<in> set (se_recipients sess). recipient_ok x" and "Rcpt s addr sess = (e, sess')"
  shows "(\<forall>x \<in> set (se_recipients sess'). recipient_ok x) \<and> se_authed sess' = se_authed sess
    \<and> se_username sess' = se_username sess \<and> (\<not> se_authed sess \<longrightarrow> sess' = sess)"
proof -
  have "recipient_ok r" if "parseRecipient addr (sv_Domain s) = Inr r" "unknown_channel (rc_channels r) = None" for r
    using that collect_channels_distinct [of "[]"]
    by (auto simp: parseRecipient_def Let_def recipient_ok_def valid_channels_def unknown_channel_None
        split: option.splits if_splits prod.splits)
  then show ?thesis
    using assms by (auto simp: Rcpt_def split: if_splits sum.splits option.splits)
qed

section \<open>The session as a state machine\<close>

text \<open>
  A connection is a session and the SASL exchange it is in. A step takes one command of the client
  and the world before and after it; between two steps the world may change in any way, since
  other parts of the program run. \<open>go-smtp\<close> resets the session after DATA.
\<close>

datatype sasl = NoSasl | InLogin loginServer | InCRAM "8 word list" string

datatype command =
    Cmd_AuthPlain string string
  | Cmd_AuthLogin
  | Cmd_AuthCRAM
  | Cmd_Response "string option"
  | Cmd_Mail
  | Cmd_Rcpt string
  | Cmd_Data "string + mail_message"
  | Cmd_Reset

definition continue_sasl :: "sasl_step \<Rightarrow> sasl \<Rightarrow> sasl" where
  "continue_sasl st next = (case st of Challenge ch \<Rightarrow> next | _ \<Rightarrow> NoSasl)"

inductive smtp_step :: "SMTPServer \<Rightarrow> mail_lib \<Rightarrow> session \<times> sasl \<Rightarrow> world \<Rightarrow> command
    \<Rightarrow> session \<times> sasl \<Rightarrow> world \<Rightarrow> bool" for s lib where
  plain: "run_state (smtp_authenticate s u p sess) w = ((e, sess'), w') \<Longrightarrow>
    smtp_step s lib (sess, NoSasl) w (Cmd_AuthPlain u p) (sess', NoSasl) w'"
| login: "smtp_step s lib (sess, NoSasl) w Cmd_AuthLogin (sess, InLogin newLoginServer) w"
| login_response: "run_state (login_Next s resp l sess) w = ((st, l', sess'), w') \<Longrightarrow>
    smtp_step s lib (sess, InLogin l) w (Cmd_Response resp) (sess', continue_sasl st (InLogin l')) w'"
| cram: "Auth s ''CRAM-MD5'' = Inr (MechCRAM key) \<Longrightarrow>
    smtp_step s lib (sess, NoSasl) w Cmd_AuthCRAM (sess, InCRAM key []) w"
| cram_response: "run_state (cram_Next s key resp ch sess) w = ((st, ch', sess'), w') \<Longrightarrow>
    smtp_step s lib (sess, InCRAM key ch) w (Cmd_Response resp) (sess', continue_sasl st (InCRAM key ch')) w'"
| mail: "smtp_step s lib (sess, NoSasl) w Cmd_Mail (sess, NoSasl) w"
| rcpt: "Rcpt s addr sess = (e, sess') \<Longrightarrow>
    smtp_step s lib (sess, NoSasl) w (Cmd_Rcpt addr) (sess', NoSasl) w"
| data: "run_state (Data s lib input sess) w = (e, w') \<Longrightarrow>
    smtp_step s lib (sess, NoSasl) w (Cmd_Data input) (Reset sess, NoSasl) w'"
| reset: "smtp_step s lib (sess, NoSasl) w Cmd_Reset (Reset sess, NoSasl) w"

inductive_cases smtp_stepE: "smtp_step s lib c w cmd c' w'"

inductive smtp_reachable :: "SMTPServer \<Rightarrow> mail_lib \<Rightarrow> session \<times> sasl \<Rightarrow> bool" for s lib where
  start: "smtp_reachable s lib (NewSession addr, NoSasl)"
| step: "smtp_reachable s lib c \<Longrightarrow> smtp_step s lib c w cmd c' w' \<Longrightarrow> smtp_reachable s lib c'"

text \<open>Who may publish: the authenticator accepted a password for the name, or the store has an
  enabled credential for it; and the groups, or the roles stored with the credential, allow it.\<close>

definition may_publish :: "SMTPServer \<Rightarrow> string \<Rightarrow> bool" where
  "may_publish s u \<longleftrightarrow>
     (\<exists>p result w w'. run_state (sv_auth s u p) w = (Inr result, w')
        \<and> smtp_hasPermission (smtp_resolveRoles (ar_Groups result) (sv_roles s)) PermPublish)
   \<or> (\<exists>key secret roles w w'. sv_cramStore s = Some key
        \<and> run_state (cram_lookup (sv_crypto s) key u) w = (Inr (secret, roles), w')
        \<and> smtp_hasPermission roles PermPublish)"

definition session_ok :: "SMTPServer \<Rightarrow> session \<Rightarrow> bool" where
  "session_ok s sess \<longleftrightarrow> (se_authed sess \<longrightarrow> may_publish s (se_username sess))
     \<and> (\<not> se_authed sess \<longrightarrow> se_recipients sess = [])
     \<and> (\<forall>rcpt \<in> set (se_recipients sess). recipient_ok rcpt)"

definition sasl_ok :: "SMTPServer \<Rightarrow> sasl \<Rightarrow> bool" where
  "sasl_ok s sa \<longleftrightarrow> (\<forall>key ch. sa = InCRAM key ch \<longrightarrow> sv_cramStore s = Some key)"

lemma sasl_ok_simps [simp]:
  "sasl_ok s NoSasl" "sasl_ok s (InLogin l)" "sasl_ok s (InCRAM key ch) \<longleftrightarrow> sv_cramStore s = Some key"
  by (simp_all add: sasl_ok_def)

lemma sasl_ok_continue: "sasl_ok s sa \<Longrightarrow> sasl_ok s (continue_sasl st sa)"
  by (simp add: continue_sasl_def split: sasl_step.split)

lemma may_publish_cram:
  "sv_cramStore s = Some key \<Longrightarrow> run_state (cram_lookup (sv_crypto s) key u) w = (Inr (secret, roles), w') \<Longrightarrow>
   smtp_hasPermission roles PermPublish \<Longrightarrow> may_publish s u"
  unfolding may_publish_def by blast

text \<open>The session after an attempt: as before, or authenticated under the name that was verified.\<close>

lemma finishAuth_session:
  assumes "run_state (finishAuth sess u roles) w = ((e, sess'), w')"
  shows "sess' = sess \<or> smtp_hasPermission roles PermPublish
    \<and> sess' = sess\<lparr>se_username := u, se_authed := True\<rparr>"
  using assms by (auto simp: finishAuth_def split: if_splits prod.splits)

lemma authenticate_session:
  assumes "run_state (smtp_authenticate s u p sess) w = ((e, sess'), w')"
  shows "sess' = sess \<or> may_publish s u \<and> sess' = sess\<lparr>se_username := u, se_authed := True\<rparr>"
proof -
  obtain r w1 where r: "run_state (sv_auth s u p) w = (r, w1)" by fastforce
  show ?thesis
  proof (cases r)
    case (Inl e)
    with assms r show ?thesis by (auto simp: smtp_authenticate_def split: prod.splits)
  next
    case (Inr result)
    with assms r have "run_state (finishAuth sess u (smtp_resolveRoles (ar_Groups result) (sv_roles s))) w1
        = ((e, sess'), w')" by (simp add: smtp_authenticate_def)
    from finishAuth_session [OF this] r Inr show ?thesis by (auto simp: may_publish_def)
  qed
qed

lemma cram_session:
  assumes "run_state (cram_Next s key resp ch sess) w = ((st, ch', sess'), w')" and "sv_cramStore s = Some key"
  shows "sess' = sess \<or> (\<exists>u. may_publish s u \<and> sess' = sess\<lparr>se_username := u, se_authed := True\<rparr>)"
proof (cases resp)
  case None
  with assms show ?thesis by (auto simp: cram_Next_def split: prod.splits)
next
  case (Some msg)
  show ?thesis
  proof (cases "parseCRAMResponse msg")
    case None
    with assms Some show ?thesis by (auto simp: cram_Next_def split: prod.splits)
  next
    case p: (Some ud)
    obtain u digest where ud: "ud = (u, digest)" by fastforce
    obtain l w1 where l: "run_state (cram_lookup (sv_crypto s) key u) w = (l, w1)" by fastforce
    show ?thesis
    proof (cases l)
      case (Inl e)
      with assms Some p ud l show ?thesis
        by (auto simp: cram_Next_def split: prod.splits if_splits)
    next
      case (Inr sr)
      obtain secret roles where sr: "sr = (secret, roles)" by fastforce
      obtain x w2 where x: "run_state (finishAuth sess u roles) w1 = (x, w2)" by fastforce
      obtain e2 sess2 where e2: "x = (e2, sess2)" by fastforce
      from finishAuth_session x e2
      have "sess2 = sess \<or> smtp_hasPermission roles PermPublish
          \<and> sess2 = sess\<lparr>se_username := u, se_authed := True\<rparr>" by blast
      then have "sess2 = sess \<or> may_publish s u \<and> sess2 = sess\<lparr>se_username := u, se_authed := True\<rparr>"
        using l Inr sr may_publish_cram [OF assms(2)] by blast
      moreover have "sess' = sess \<or> sess' = sess2"
        using assms Some p ud l Inr sr x e2
        by (auto simp: cram_Next_def split: prod.splits if_splits)
      ultimately show ?thesis by auto
    qed
  qed
qed

lemma login_session:
  assumes "run_state (login_Next s resp l sess) w = ((st, l', sess'), w')"
  shows "sess' = sess \<or> (\<exists>u. may_publish s u \<and> sess' = sess\<lparr>se_username := u, se_authed := True\<rparr>)"
proof -
  obtain x w1 where x: "run_state (smtp_authenticate s (ls_username l) (ns_string resp) sess) w = (x, w1)"
    by fastforce
  obtain e2 sess2 where e2: "x = (e2, sess2)" by fastforce
  have "sess' = sess \<or> sess' = sess2"
    using assms x e2 by (auto simp: login_Next_def split: if_splits prod.splits)
  with authenticate_session [of s "ls_username l" "ns_string resp" sess w e2 sess2 w1] x e2
  show ?thesis by auto
qed


section \<open>Messages\<close>

lemma wp_writeAuditLogAs:
  assumes "\<And>w'. audited w w' \<Longrightarrow> Q () w'"
  shows "wp (writeAuditLogAs sess u act tab old new) Q w" "wp (writeAuditLog sess act tab old new) Q w"
  using assms
  by (simp_all add: writeAuditLog_def writeAuditLogAs_def InsertAuditLog_def wp_simps audited_step)

text \<open>The row stored for a target, as the dispatcher reads it.\<close>

definition target_row :: "session \<Rightarrow> string \<Rightarrow> string \<Rightarrow> string \<Rightarrow> parsedRecipient \<Rightarrow> Notification \<Rightarrow> bool" where
  "target_row sess eid msg vars rcpt n \<longleftrightarrow>
     json_column unmarshal_strings (nt_Groups n) = Some [rc_group rcpt]
   \<and> json_column unmarshal_strings (nt_Channels n) = Some (rc_channels rcpt)
   \<and> nt_Destinations n = None \<and> nt_EventID n = eid \<and> nt_Message n = msg \<and> nt_Status n = ''pending''
   \<and> nt_EmailTemplate n = Some ''default'' \<and> nt_EmailVars n = Some vars
   \<and> nt_CreatedBy n = nullString (se_username sess)"

lemma json_column_strings: "json_column unmarshal_strings (Some (marshal_strings xs)) = Some xs"
proof -
  have "marshal_strings xs \<noteq> []" by (simp add: marshal_strings_def)
  then show ?thesis by (simp add: json_column_def ns_present_def unmarshal_marshal_strings)
qed

text \<open>What the loop leaves: rows for the first targets, jobs for all of them or all but the last.\<close>

definition stored :: "session \<Rightarrow> string \<Rightarrow> string \<Rightarrow> string \<Rightarrow> parsedRecipient list \<Rightarrow> world
    \<Rightarrow> smtp_error option \<Rightarrow> world \<Rightarrow> bool" where
  "stored sess eid msg vars rcpts w e w' \<longleftrightarrow>
     (\<exists>ns k. list_all2 (target_row sess eid msg vars) (take (length ns) rcpts) ns
        \<and> length ns \<le> length rcpts \<and> k \<le> length ns
        \<and> notifications (w_db w') = notifications (w_db w) @ ns
        \<and> w_queue w' = w_queue w @ map nt_NotificationID (take k ns)
        \<and> (if e = None then k = length rcpts else k < length rcpts))
   \<and> events (w_db w') = events (w_db w)
   \<and> (\<forall>x. e = Some x \<longrightarrow> x \<in> {smtpTransientError ''Failed to persist notification'',
        SMTPError 452 (4, 3, 1) ''Server busy, try again later''})"

lemma stored_Cons:
  assumes "stored sess eid msg vars rcpts w2 e w'"
    and "target_row sess eid msg vars rcpt n"
    and "notifications (w_db w2) = notifications (w_db w) @ [n]"
    and "w_queue w2 = w_queue w @ [nt_NotificationID n]" and "events (w_db w2) = events (w_db w)"
  shows "stored sess eid msg vars (rcpt # rcpts) w e w'"
proof -
  from assms(1) obtain ns k where
    "list_all2 (target_row sess eid msg vars) (take (length ns) rcpts) ns"
    "length ns \<le> length rcpts" "k \<le> length ns"
    "notifications (w_db w') = notifications (w_db w2) @ ns"
    "w_queue w' = w_queue w2 @ map nt_NotificationID (take k ns)"
    "if e = None then k = length rcpts else k < length rcpts"
    unfolding stored_def by blast
  then show ?thesis
    using assms unfolding stored_def
    by (intro conjI exI [of _ "n # ns"] exI [of _ "Suc k"]) (auto split: if_splits)
qed

lemma wp_store_targets:
  "wp (store_targets sess eid now msg vars rcpts) (stored sess eid msg vars rcpts w) w"
proof (induction rcpts arbitrary: w)
  case Nil
  then show ?case by (simp add: wp_ret stored_def)
next
  case (Cons rcpt rcpts)
  have none: "stored sess eid msg vars (rcpt # rcpts) w (Some e) w'"
    if "notifications (w_db w') = notifications (w_db w)" "w_queue w' = w_queue w"
      "events (w_db w') = events (w_db w)" "e = smtpTransientError ''Failed to persist notification''" for e w'
    using that unfolding stored_def by (intro conjI exI [of _ "[]"] exI [of _ 0]) auto
  have full: "stored sess eid msg vars (rcpt # rcpts) w (Some e) w'"
    if "notifications (w_db w') = notifications (w_db w) @ [n]" "w_queue w' = w_queue w"
      "target_row sess eid msg vars rcpt n"
      "events (w_db w') = events (w_db w)" "e = SMTPError 452 (4, 3, 1) ''Server busy, try again later''" for e w' n
    using that unfolding stored_def by (intro conjI exI [of _ "[n]"] exI [of _ 0]) auto
  have rest: "wp (do { queued \<leftarrow> try_enqueue (nt_NotificationID n);
        if \<not> queued then ret (Some (SMTPError 452 (4, 3, 1) ''Server busy, try again later''))
        else store_targets sess eid now msg vars rcpts }) (stored sess eid msg vars (rcpt # rcpts) w) w1"
    if "notifications (w_db w1) = notifications (w_db w) @ [n]" "w_queue w1 = w_queue w"
      "target_row sess eid msg vars rcpt n" "events (w_db w1) = events (w_db w)" for w1 n
  proof -
    have "wp (store_targets sess eid now msg vars rcpts) (stored sess eid msg vars (rcpt # rcpts) w)
        (w1\<lparr>w_queue := w_queue w1 @ [nt_NotificationID n]\<rparr>)"
      by (rule wp_mono [OF Cons.IH], erule stored_Cons [where n = n]) (use that in simp_all)
    with that full show ?thesis by (simp add: wp_bind wp_try_enqueue wp_ret)
  qed
  let ?n = "\<lambda>w1 :: world. \<lparr>nt_ID = next_rowid (map nt_ID (notifications (w_db w1))), nt_NotificationID = next_uuid w,
     nt_EventID = eid, nt_Groups = Some (marshal_strings [rc_group rcpt]), nt_Destinations = None,
     nt_Channels = Some (marshal_strings (rc_channels rcpt)), nt_Message = msg, nt_Status = ''pending'',
     nt_ErrorMessage = None, nt_MemberCount = 0, nt_EmailTemplate = Some ''default'',
     nt_EmailVars = Some vars, nt_CreatedAt = now, nt_CreatedBy = nullString (se_username sess)\<rparr>"
  have row: "target_row sess eid msg vars rcpt (?n w1)" for w1
    by (simp add: target_row_def json_column_strings)
  show ?case
    unfolding store_targets.simps
    apply (simp add: wp_bind [of smtp_newUUIDV7] wp_uuidV7 wp_bind [of "insert_unless _ _"]
      InsertNotification_def wp_insert_unless Let_def wp_ret)
    apply (intro conjI impI none; simp?)
    apply (simp only: wp_bind [of "writeAuditLog _ _ _ _ _"])
    apply (rule wp_writeAuditLogAs)
    apply (rule rest [where n = "?n w", simplified])
    using row by (auto simp: audited_def)
qed

text \<open>DATA from the stored event on.\<close>

definition data_outcome :: "session \<Rightarrow> string \<Rightarrow> string \<Rightarrow> parsedRecipient list \<Rightarrow> world
    \<Rightarrow> smtp_error option \<Rightarrow> world \<Rightarrow> bool" where
  "data_outcome sess eventName msg resolved w e w' \<longleftrightarrow>
     (\<exists>ev v. events (w_db w') = events (w_db w) @ [ev] \<and> ev_EventName ev = nullString eventName
        \<and> ev_CreatedBy ev = nullString (se_username sess) \<and> ev_EndTime ev = None
        \<and> notifications (w_db v) = notifications (w_db w) \<and> w_queue v = w_queue w
        \<and> stored sess (ev_EventID ev) msg (email_vars eventName) resolved v e w')
   \<or> (e = Some (smtpTransientError ''Failed to persist event'') \<and> events (w_db w') = events (w_db w)
        \<and> notifications (w_db w') = notifications (w_db w) \<and> w_queue w' = w_queue w)"

lemma wp_Data:
  assumes "check_data s lib sess input = Inr (eventName, msg, resolved)"
  shows "wp (Data s lib input sess) (data_outcome sess eventName msg resolved w) w"
proof -
  have rest: "wp (do {
        writeAuditLog sess ''create_event'' ''events'' [] (marshalAuditJSON (event_json ev));
        store_targets sess (ev_EventID ev) now msg (email_vars eventName) resolved })
      (data_outcome sess eventName msg resolved w) w1"
    if ev: "events (w_db w1) = events (w_db w) @ [ev]" "ev_EventName ev = nullString eventName"
      "ev_CreatedBy ev = nullString (se_username sess)" "ev_EndTime ev = None"
      and w1: "notifications (w_db w1) = notifications (w_db w)" "w_queue w1 = w_queue w"
    for w1 ev now
    unfolding wp_bind
  proof (rule wp_writeAuditLogAs)
    fix v assume v: "audited w1 v"
    show "wp (store_targets sess (ev_EventID ev) now msg (email_vars eventName) resolved)
      (data_outcome sess eventName msg resolved w) v"
    proof (rule wp_mono [OF wp_store_targets])
      fix e w' assume st: "stored sess (ev_EventID ev) msg (email_vars eventName) resolved v e w'"
      then have "events (w_db w') = events (w_db v)" by (simp add: stored_def)
      with v ev(1) have "events (w_db w') = events (w_db w) @ [ev]" by (auto simp: audited_def)
      moreover have "notifications (w_db v) = notifications (w_db w)" "w_queue v = w_queue w"
        using v w1 by (auto simp: audited_def)
      ultimately show "data_outcome sess eventName msg resolved w e w'"
        using ev(2-4) st unfolding data_outcome_def by blast
    qed
  qed
  let ?now = "FormatRFC3339 (unix_sec (w_now (advance_clock w)))"
  let ?ev = "\<lparr>ev_ID = next_rowid (map ev_ID (events (w_db w))), ev_EventID = next_uuid (advance_clock w),
     ev_EventUrl = None, ev_EventName = nullString eventName, ev_EventDescription = None,
     ev_EventSeverity = None, ev_StartTime = ?now, ev_EndTime = None,
     ev_CreatedBy = nullString (se_username sess), ev_CreatedAt = ?now, ev_ModifiedBy = None,
     ev_ModifiedAt = None, ev_AutoClosed = 0\<rparr>"
  show ?thesis
    using assms
    apply (simp add: Data_def wp_bind [of now_RFC3339] wp_now_RFC3339 wp_bind [of smtp_newUUIDV7] wp_uuidV7
        wp_bind [of "insert_unless _ _"] InsertEvent_def wp_insert_unless Let_def wp_ret)
    apply (intro conjI impI rest [where ev = ?ev, simplified])
      apply (auto simp: data_outcome_def)
    done
qed


lemma length_resolveTargets: "resolveTargets rs fb = Inr out \<Longrightarrow> length out = length rs"
proof (induction rs arbitrary: out)
  case (Cons r rs)
  then show ?case
    by (cases "resolveTargets rs fb") (auto simp: Let_def split: if_splits)
qed simp

lemma check_data_length:
  "check_data s lib sess input = Inr (eventName, msg, resolved) \<Longrightarrow>
   length resolved = length (se_recipients sess)"
  by (auto simp: check_data_def Let_def length_resolveTargets split: if_splits sum.splits)


section \<open>Nothing without authentication\<close>

lemma audited_trans:
  assumes "audited w w1" and "audited w1 w2"
  shows "audited w w2"
proof -
  from assms obtain a b where "w_db w1 = w_db w\<lparr>audit_log := audit_log (w_db w) @ a\<rparr>"
    "w_db w2 = w_db w1\<lparr>audit_log := audit_log (w_db w1) @ b\<rparr>"
    unfolding audited_def by auto
  then have "w_db w2 = w_db w\<lparr>audit_log := audit_log (w_db w) @ (a @ b)\<rparr>" by simp
  with assms show ?thesis unfolding audited_def by auto
qed

text \<open>Programs that at most add audit rows.\<close>

definition quiet :: "(world, 'a) state \<Rightarrow> bool" where
  "quiet m \<longleftrightarrow> (\<forall>w. audited w (snd (run_state m w)))"

lemma quietD: "quiet m \<Longrightarrow> run_state m w = (a, w') \<Longrightarrow> audited w w'"
  unfolding quiet_def by (metis snd_conv)

lemma quiet_bind: "quiet m \<Longrightarrow> (\<And>a. quiet (f a)) \<Longrightarrow> quiet (State_Monad.bind m f)"
  unfolding quiet_def by (auto simp: split: prod.split) (metis audited_trans snd_conv)

lemma quiet_ret: "quiet (ret x)"
  by (simp add: quiet_def audited_refl)

lemma quiet_cases:
  "(\<And>a. quiet (f a)) \<Longrightarrow> (\<And>b. quiet (g b)) \<Longrightarrow> quiet (case x of Inl a \<Rightarrow> f a | Inr b \<Rightarrow> g b)"
  "quiet m \<Longrightarrow> (\<And>b. quiet (g b)) \<Longrightarrow> quiet (case y of None \<Rightarrow> m | Some b \<Rightarrow> g b)"
  "(\<And>a b. quiet (h a b)) \<Longrightarrow> quiet (case p of (a, b) \<Rightarrow> h a b)"
  "quiet m \<Longrightarrow> quiet n \<Longrightarrow> quiet (if c then m else n)"
  by (auto split: sum.split option.split prod.split)

lemma quiet_steps:
  "quiet (writeAuditLogAs sess u act tab old new)" "quiet time_Now" "quiet (rand_Read n)"
  "quiet (GetCRAMCredential u)"
  using wp_writeAuditLogAs(1) [where Q = "\<lambda>_. audited w" and w = w for w]
  by (auto simp: quiet_def wp_def time_Now_def rand_Read_def GetCRAMCredential_def query_one_def statement_def
      State_Monad.get_def audited_refl Let_def split: option.split)

lemmas quiet_rules = quiet_bind quiet_ret quiet_cases quiet_steps

lemma quiet_auth:
  assumes "\<And>u p. quiet (sv_auth s u p)"
  shows "quiet (smtp_authenticate s u p sess)" "quiet (login_Next s resp l sess)"
    "quiet (cram_Next s key resp ch sess)"
  unfolding smtp_authenticate_def finishAuth_def login_Next_def cram_Next_def cram_lookup_def
    generateCRAMChallenge_def
  by (intro quiet_rules assms)+

text \<open>A client that is not authenticated changes nothing but the audit log, by any command
  in any state of its connection: no event, no notification, no job.\<close>

theorem unauthenticated_is_quiet:
  assumes "smtp_step s lib (sess, sa) w cmd (sess', sa') w'" and "\<not> se_authed sess"
    and "\<And>u p. quiet (sv_auth s u p)"
  shows "audited w w'"
  using assms(1)
proof (cases rule: smtp_step.cases)
  case (plain u p e)
  show ?thesis by (rule quietD [OF quiet_auth(1) [OF assms(3)] plain(4)])
next
  case (login_response resp l st l')
  show ?thesis by (rule quietD [OF quiet_auth(2) [OF assms(3)] login_response(4)])
next
  case (cram_response key resp ch st ch')
  show ?thesis by (rule quietD [OF quiet_auth(3) [OF assms(3)] cram_response(4)])
next
  case (data input e)
  then show ?thesis using assms(2) by (auto simp: Data_def check_data_def audited_refl)
qed (auto simp: audited_refl)

section \<open>The template variables of a message\<close>

text \<open>Text that needs no escaping in JSON.\<close>

definition needs_no_escape :: "string \<Rightarrow> bool" where
  "needs_no_escape t \<longleftrightarrow> (\<forall>c \<in> set t. c \<noteq> CHR 0x22 \<and> c \<noteq> CHR 0x5C \<and> 32 \<le> byte c)"

lemma parse_str_text: "needs_no_escape t \<Longrightarrow> parse_str (t @ CHR 0x22 # r) = Some (t, r)"
proof (induction t)
  case (Cons c t)
  then have "c \<noteq> CHR 0x22" "c \<noteq> CHR 0x5C" "\<not> byte c < 32" "needs_no_escape t"
    by (auto simp: needs_no_escape_def)
  with Cons.IH show ?case by simp
qed simp

lemma parse_email_vars:
  "json_parse (email_vars t) = (case parse_str (t @ CHR 0x22 # ''}'') of None \<Rightarrow> None
     | Some (v, r) \<Rightarrow> (case skip_ws r of [] \<Rightarrow> None
        | e # q \<Rightarrow> if e = CHR ''}'' then if skip_ws q = [] then Some (JObj [(''subject'', JStr v)]) else None
            else if e = CHR '','' then
              (case parse_members (2 * length t + 30) q of None \<Rightarrow> None
               | Some (kvs, q') \<Rightarrow> if skip_ws q' = [] then Some (JObj ((''subject'', JStr v) # kvs)) else None)
            else None))"
proof -
  have fuel: "json_fuel (email_vars t) = Suc (Suc (2 * length t + 30))"
    by (simp add: json_fuel_def email_vars_def)
  have suc: "2 * length t + 30 = Suc (2 * length t + 29)" by simp
  have key: "parse_str (''subject'' @ CHR 0x22 # r) = Some (''subject'', r)" for r
    by (rule parse_str_text) (simp add: needs_no_escape_def)
  have ws: "skip_ws (CHR '' '' # r) = skip_ws r" for r by (simp add: skip_ws_def json_ws_def)
  have val: "parse_value (2 * length t + 30) (CHR '' '' # CHR 0x22 # t @ CHR 0x22 # ''}'')
      = map_option (\<lambda>(v, r). (JStr v, r)) (parse_str (t @ CHR 0x22 # ''}''))"
    unfolding suc parse_value.simps(2) ws by simp
  have mem: "parse_members (Suc (2 * length t + 30)) (CHR 0x22 # ''subject'' @ CHR 0x22 # CHR '':'' # CHR '' ''
      # CHR 0x22 # t @ CHR 0x22 # ''}'') = (case parse_str (t @ CHR 0x22 # ''}'') of None \<Rightarrow> None
     | Some (v, r) \<Rightarrow> (case skip_ws r of [] \<Rightarrow> None
        | e # q \<Rightarrow> if e = CHR ''}'' then Some ([(''subject'', JStr v)], q)
            else if e = CHR '','' then map_option (\<lambda>(kvs, q'). ((''subject'', JStr v) # kvs, q'))
              (parse_members (2 * length t + 30) q)
            else None))"
    unfolding parse_members.simps
    by (simp only: skip_ws_Cons json_ws_simps list.case key option.case prod.case val if_False simp_thms)
      (simp split: option.split prod.split list.split)
  have shape: "email_vars t = CHR ''{'' # CHR 0x22 # ''subject'' @ CHR 0x22 # CHR '':'' # CHR '' ''
      # CHR 0x22 # t @ CHR 0x22 # ''}''" by (simp add: email_vars_def)
  have "json_parse (email_vars t) = (case map_option (\<lambda>(kvs, q). (JObj kvs, q))
      (parse_members (Suc (2 * length t + 30)) (CHR 0x22 # ''subject'' @ CHR 0x22 # CHR '':'' # CHR '' ''
      # CHR 0x22 # t @ CHR 0x22 # ''}'')) of None \<Rightarrow> None
      | Some (v, r) \<Rightarrow> if skip_ws r = [] then Some v else None)"
    unfolding json_parse_def fuel unfolding shape parse_value.simps(2)
    by (simp only: skip_ws_Cons json_ws_simps list.case if_True if_False char.inject simp_thms)
  then show ?thesis unfolding mem by (simp split: option.split prod.split list.split)
qed

text \<open>The subject of a message reaches the email template as it was written, if it
  contains no quote, no backslash and no control character.\<close>

theorem subject_roundtrip:
  assumes "needs_no_escape subj"
  shows "unmarshal_map (email_vars subj) = Some [(''subject'', JStr subj)]"
  using parse_str_text [OF assms, of "''}''"]
  by (simp add: unmarshal_map_def parse_email_vars to_map_def)

text \<open>A quote in the subject breaks the email of an accepted message: when the text goes on
  after the quote, the variables stored with the notification do not parse, and nothing can be
  rendered for any recipient of the message.\<close>

theorem quote_in_subject_breaks_email:
  assumes "needs_no_escape p" and "\<not> json_ws c" and "c \<noteq> CHR ''}''" and "c \<noteq> CHR '',''"
    and "nt_EmailVars notif = Some (email_vars (p @ CHR 0x22 # c # q))"
    and "nt_EmailTemplate notif = Some ''default''"
    and "run_state (prepare_email d notif) w = (r, w')"
  shows "\<exists>reason. r = Inl reason \<and> reason \<in> {''invalid email_vars JSON'', ''template not found: default''}"
proof -
  let ?v = "email_vars (p @ CHR 0x22 # c # q)"
  have "parse_str ((p @ CHR 0x22 # c # q) @ CHR 0x22 # ''}'') = Some (p, c # q @ CHR 0x22 # ''}'')"
    using parse_str_text [OF assms(1), of "c # q @ CHR 0x22 # ''}''"] by simp
  then have "json_parse ?v = None"
    unfolding parse_email_vars using assms(2-4) by simp
  then have bad: "unmarshal_map ?v = None" by (simp add: unmarshal_map_def)
  have "?v \<noteq> []" by (simp add: email_vars_def)
  then have "wp (prepare_email d notif) (\<lambda>r _. \<exists>reason. r = Inl reason
      \<and> reason \<in> {''invalid email_vars JSON'', ''template not found: default''}) w"
    using assms(5,6) bad
    by (simp add: prepare_email_def ns_present_def wp_simps GetEmailTemplateByName_def split: option.split)
  from wp_run [OF this assms(7)] show ?thesis .
qed

end
