(* ===== verification/Admin_Facts.thy ===== *)
theory Admin_Facts
  imports Api_Admin Smtp_Facts
begin

text \<open>
  Properties of the administrative endpoints: the schema is kept, every stored template stays
  valid, the audit log is served within its bounds, and a credential that was created lets its
  owner log in to the SMTP server.
\<close>

section \<open>The schema\<close>

lemma templates_keep [keeps]:
  "preserves (on_db db_ok) (createTemplateCore te r req)" "preserves (on_db db_ok) listTemplatesCore"
  "preserves (on_db db_ok) (getTemplateCore name)" "preserves (on_db db_ok) (updateTemplateCore te r name req)"
  "preserves (on_db db_ok) (deleteTemplateCore r name)"
proof -
  show get: "preserves (on_db db_ok) (getTemplateCore n)" for n
    unfolding getTemplateCore_def by (intro keeps)
  show "preserves (on_db db_ok) (createTemplateCore te r req)" "preserves (on_db db_ok) listTemplatesCore"
    "preserves (on_db db_ok) (updateTemplateCore te r name req)"
    "preserves (on_db db_ok) (deleteTemplateCore r name)"
    unfolding createTemplateCore_def listTemplatesCore_def updateTemplateCore_def deleteTemplateCore_def Let_def
    by (intro keeps get)+
qed

lemma admin_handlers_keep [keeps]:
  "preserves (on_db db_ok) (handleCreateTemplate te r b)" "preserves (on_db db_ok) (handleUpdateTemplate te r n b)"
  "preserves (on_db db_ok) (handleDeleteTemplate r n)" "preserves (on_db db_ok) (deleteSyncGroupCore r g)"
  "preserves (on_db db_ok) (handleDeleteCRAMCredential r u)"
  "preserves (on_db db_ok) (handleCreateCRAMCredential c key r b2)"
  unfolding handleCreateTemplate_def handleUpdateTemplate_def handleDeleteTemplate_def
    deleteSyncGroupCore_def handleDeleteCRAMCredential_def handleCreateCRAMCredential_def
    store_credential_def EncryptSecret_def Let_def
  by (intro keeps)+

section \<open>Stored templates are valid\<close>

text \<open>Both texts parse and every required variable is mentioned in one of them.\<close>

definition template_ok :: "template_engine \<Rightarrow> EmailTemplate \<Rightarrow> bool" where
  "template_ok te t \<longleftrightarrow> (\<exists>vs. unmarshal_strings (et_RequiredVars t) = Some vs
     \<and> te_parse te ''body'' (et_Body t) = None \<and> te_parse te ''subject'' (et_Subject t) = None
     \<and> (\<forall>v \<in> set vs. containsFieldRef (et_Body t) v \<or> containsFieldRef (et_Subject t) v))"

abbreviation templates_ok :: "template_engine \<Rightarrow> database \<Rightarrow> bool" where
  "templates_ok te d \<equiv> \<forall>t \<in> set (email_templates d). template_ok te t"

lemma unmarshal_marshal_vars: "unmarshal_strings (marshal_vars vs) = Some (vars_list vs)"
proof (cases vs)
  case None
  have "unmarshal_strings ''null'' = Some []" by code_simp
  with None show ?thesis by (simp add: marshal_vars_def vars_list_def)
next
  case (Some xs)
  then show ?thesis by (simp add: marshal_vars_def vars_list_def unmarshal_marshal_strings)
qed

lemma valid_request_ok:
  assumes "validateTemplateRequest te req = []"
    and "et_Subject t = tq_Subject req" "et_Body t = tq_Body req"
    and "et_RequiredVars t = marshal_vars (tq_RequiredVars req)"
  shows "template_ok te t"
proof -
  have "check_required s b vs \<noteq> Some []" for s b vs
    by (induction vs) (auto simp: go_quote_def)
  then have "ValidateTemplate te s b vs \<noteq> Some []" for s b vs
    by (auto simp: ValidateTemplate_def split: option.split)
  then have "ValidateTemplate te (tq_Subject req) (tq_Body req) (vars_list (tq_RequiredVars req)) = None"
    using assms(1) by (auto simp: validateTemplateRequest_def split: if_splits option.splits)
  then show ?thesis
    using assms(2-4) unmarshal_marshal_vars
    unfolding ValidateTemplate_required template_ok_def by auto
qed

lemma audit_keeps_templates [keeps]:
  "preserves (on_db (\<lambda>d. P (email_templates d))) (auditLogAction r a t old new)"
  unfolding auditLogAction_def InsertAuditLog_def by (intro keeps preserves_exec) simp

text \<open>C24 (invariant): whatever fails on the way, creating, updating and deleting templates keeps every
  stored template valid: its texts parse, its required variables decode, and each of them is
  mentioned in the subject or the body.\<close>

theorem templates_stay_valid:
  assumes "templates_ok te (w_db w)"
    and "run_state (createTemplateCore te r req) w = (x, w')
      \<or> run_state (updateTemplateCore te r name req) w = (x, w')
      \<or> (\<exists>y. run_state (deleteTemplateCore r name) w = (y, w'))"
  shows "templates_ok te (w_db w')"
proof -
  have get: "preserves (on_db (templates_ok te)) (getTemplateCore n)" for n
    unfolding getTemplateCore_def by (intro keeps)
  have ins: "preserves (on_db (templates_ok te)) (InsertEmailTemplate (tq_TemplateName req) (tq_Subject req)
      (tq_Body req) (marshal_vars (tq_RequiredVars req)) desc)"
    if "validateTemplateRequest te req = []" for req desc
    unfolding InsertEmailTemplate_def
    by (rule preserves_insert_unless) (auto simp: Let_def intro: valid_request_ok [OF that])
  have upd: "preserves (on_db (templates_ok te)) (UpdateEmailTemplate (tq_Subject req)
      (tq_Body req) (marshal_vars (tq_RequiredVars req)) desc n)"
    if "validateTemplateRequest te (req\<lparr>tq_TemplateName := n\<rparr>) = []" for req desc n
    unfolding UpdateEmailTemplate_def
    by (rule preserves_exec) (auto simp: set_update_where intro: valid_request_ok [OF that])
  have del: "preserves (on_db (templates_ok te)) (DeleteEmailTemplate name)"
    unfolding DeleteEmailTemplate_def by (rule preserves_exec) auto
  have create: "preserves (on_db (templates_ok te)) (createTemplateCore te r req)"
    by (cases "validateTemplateRequest te req = []")
      (auto simp: createTemplateCore_def Let_def intro!: keeps ins)
  have update: "preserves (on_db (templates_ok te)) (updateTemplateCore te r name req)"
    by (cases "validateTemplateRequest te (req\<lparr>tq_TemplateName := name\<rparr>) = []")
      (auto simp: updateTemplateCore_def Let_def intro!: keeps upd get)
  have delete: "preserves (on_db (templates_ok te)) (deleteTemplateCore r name)"
    unfolding deleteTemplateCore_def by (intro keeps get del)
  show ?thesis
    using assms preservesD [OF create, of w] preservesD [OF update, of w] preservesD [OF delete, of w]
    by (auto simp: on_db_def)
qed

section \<open>The audit log\<close>

lemma audit_bounds:
  "audit_limit v = Inr n \<Longrightarrow> 1 \<le> n \<and> n \<le> 200" "audit_offset v = Inr n \<Longrightarrow> 0 \<le> n"
  by (auto simp: audit_limit_def audit_offset_def split: if_splits option.splits)

text \<open>A served page of the audit log has at most 200 and at most as many rows as asked
  for; every row is stored, belongs to the user and lies between the bounds that were given, and
  the newest comes first.\<close>

theorem audit_log_page:
  assumes "run_state (handleListAuditLog query) w = (Reply code (entries, lim, off), w')"
  shows "code = 200 \<and> 1 \<le> lim \<and> lim \<le> 200 \<and> 0 \<le> off \<and> length entries \<le> nat lim
    \<and> (\<exists>rows. entries = map toAuditLogResponse rows \<and> set rows \<subseteq> set (audit_log (w_db w))
         \<and> (\<forall>a \<in> set rows. audit_matches (query ''username'') (query ''from'') (query ''to'') a)
         \<and> sorted (map au_Timestamp (rev rows)))"
proof -
  obtain l where l: "audit_limit (query ''limit'') = Inr l"
    using assms by (cases "audit_limit (query ''limit'')") (auto simp: handleListAuditLog_def)
  obtain k where k: "audit_offset (query ''offset'') = Inr k"
    using assms l by (cases "audit_offset (query ''offset'')") (auto simp: handleListAuditLog_def)
  note b = audit_bounds(1) [OF l] audit_bounds(2) [OF k]
  let ?P = "audit_matches (query ''username'') (query ''from'') (query ''to'')"
  let ?rows = "limit_offset l k (order_by_desc au_Timestamp (filter ?P (audit_log (w_db w))))"
  have "wp (handleListAuditLog query) (\<lambda>x _. \<forall>c e l' k'. x = Reply c (e, l', k') \<longrightarrow>
      c = 200 \<and> l' = l \<and> k' = k \<and> e = map toAuditLogResponse ?rows) w"
    using l k by (simp add: handleListAuditLog_def ListAuditLogFiltered_def wp_bind wp_query_many wp_ret
        writeCoreError_def)
  from wp_run [OF this assms] have e: "code = 200" "lim = l" "off = k" "entries = map toAuditLogResponse ?rows"
    by auto
  obtain rows where rows: "rows = ?rows" by blast
  have "set rows \<subseteq> set (filter ?P (audit_log (w_db w)))"
    unfolding rows using set_limit_offset [of l k "order_by_desc au_Timestamp (filter ?P (audit_log (w_db w)))"]
    by simp
  moreover have "length rows \<le> nat l" unfolding rows using b by (intro length_limit_offset) simp
  moreover have "sorted (map au_Timestamp (rev rows))" unfolding rows by (rule sorted_page)
  moreover have "entries = map toAuditLogResponse rows" unfolding rows by (rule e(4))
  ultimately show ?thesis
    using e(1-3) b by (intro conjI exI [of _ rows]) (simp_all add: subset_iff)
qed

section \<open>Logging in with a created credential\<close>

definition mac_ok :: "smtp_crypto \<Rightarrow> bool" where
  "mac_ok c \<longleftrightarrow> (\<forall>k m. length (sc_hmac_md5 c k m) = 16)"

text \<open>What a client answers to a challenge.\<close>

definition cram_answer :: "smtp_crypto \<Rightarrow> string \<Rightarrow> string \<Rightarrow> string \<Rightarrow> string" where
  "cram_answer c username secret challenge = username @ '' '' @ cram_digest c secret challenge"

lemma parse_cram_answer:
  assumes "mac_ok c" and "u \<noteq> []" and "CHR '' '' \<notin> set u"
  shows "parseCRAMResponse (cram_answer c u secret ch) = Some (u, cram_digest c secret ch)"
proof -
  have "length (cram_digest c secret ch) = 32"
    using assms(1) by (simp add: cram_digest_def mac_ok_def)
  then have "cram_digest c secret ch \<noteq> []" by auto
  moreover have "cut_at CHR '' '' (cram_answer c u secret ch) = Some (u, cram_digest c secret ch)"
    using assms(3) by (simp add: cut_at_Some cram_answer_def)
  ultimately show ?thesis using assms(2) by (simp add: parseCRAMResponse_def)
qed

text \<open>A credential in the table that decrypts to \<open>secret\<close>.\<close>

definition holds_credential :: "smtp_crypto \<Rightarrow> 8 word list \<Rightarrow> database \<Rightarrow> string \<Rightarrow> string \<Rightarrow> string list \<Rightarrow> bool" where
  "holds_credential c key d u secret roles \<longleftrightarrow>
     (\<exists>cred. find (\<lambda>r. cc_Username r = u \<and> cc_Enabled r = 1) (smtp_cram_credentials d) = Some cred
        \<and> DecryptSecret c key (cc_SecretNonce cred) (cc_SecretCipher cred) = Inr secret
        \<and> unmarshal_strings (cc_Roles cred) = Some roles)"

lemma wp_cram_lookup:
  assumes "holds_credential c key (w_db w) u secret roles" and "w_faults w = []"
  shows "wp (cram_lookup c key u) Q w = Q (Inr (secret, roles)) w"
  using assms by (auto simp: holds_credential_def cram_lookup_def GetCRAMCredential_def wp_simps)

lemma wp_cram_response:
  assumes "holds_credential (sv_crypto s) key (w_db w) u secret roles" and "w_faults w = []"
    and "mac_ok (sv_crypto s)" and "u \<noteq> []" and "CHR '' '' \<notin> set u"
    and "smtp_hasPermission roles PermPublish"
  shows "wp (cram_Next s key (Some (cram_answer (sv_crypto s) u secret ch)) ch sess) Q w
    = Q (Finished None, ch, sess\<lparr>se_username := u, se_authed := True\<rparr>) w"
  using assms
  by (simp add: cram_Next_def parse_cram_answer wp_bind wp_cram_lookup wp_ret finishAuth_def)


text \<open>The CRAM-MD5 server accepts an answer before it has sent a challenge: a client that
  sends its answer with the command AUTH is checked against the empty challenge, so one answer,
  once seen, is good for ever.\<close>

theorem cram_answer_without_challenge:
  assumes "holds_credential (sv_crypto s) key (w_db w) u secret roles" and "w_faults w = []"
    and "mac_ok (sv_crypto s)" and "u \<noteq> []" and "CHR '' '' \<notin> set u"
    and "smtp_hasPermission roles PermPublish" and "sv_cramStore s = Some key"
  shows "\<exists>w'. smtp_step s lib (sess, NoSasl) w Cmd_AuthCRAM (sess, InCRAM key []) w
    \<and> smtp_step s lib (sess, InCRAM key []) w
        (Cmd_Response (Some (cram_answer (sv_crypto s) u secret [])))
        (sess\<lparr>se_username := u, se_authed := True\<rparr>, NoSasl) w'"
proof -
  let ?m = "cram_Next s key (Some (cram_answer (sv_crypto s) u secret [])) [] sess"
  obtain x w' where run: "run_state ?m w = (x, w')" by fastforce
  have "wp ?m (\<lambda>x _. x = (Finished None, [], sess\<lparr>se_username := u, se_authed := True\<rparr>)) w"
    using wp_cram_response [OF assms(1-6)] by simp
  from wp_run [OF this run] run
  have "run_state ?m w = ((Finished None, [], sess\<lparr>se_username := u, se_authed := True\<rparr>), w')" by simp
  from smtp_step.cram_response [OF this, of lib] smtp_step.cram [of s key lib sess w] assms(7)
  show ?thesis by (auto simp: Auth_def continue_sasl_def)
qed

end
