(* ===== verification/Go_Url.thy ===== *)
theory Go_Url
  imports Go_Json
begin

text \<open>
  What the program uses of \<open>net/url\<close>: escaping of query components and path segments, the encoding
  of \<open>url.Values\<close> with one value for each key, and the parsing of a query string. Reading what was
  written gives it back.
\<close>

definition upper_hex :: "nat \<Rightarrow> char" where
  "upper_hex n = (if n < 10 then char_of (48 + n) else char_of (55 + n))"

definition percent :: "char \<Rightarrow> string" where
  "percent c = [CHR ''%'', upper_hex (byte c div 16), upper_hex (byte c mod 16)]"

definition unreserved :: "char \<Rightarrow> bool" where
  "unreserved c \<longleftrightarrow> is_digit c \<or> 65 \<le> byte c \<and> byte c \<le> 90 \<or> 97 \<le> byte c \<and> byte c \<le> 122
     \<or> c \<in> {CHR ''-'', CHR ''_'', CHR ''.'', CHR ''~''}"

definition QueryEscape :: "string \<Rightarrow> string" where
  "QueryEscape s = concat (map (\<lambda>c. if unreserved c then [c]
     else if c = CHR '' '' then ''+'' else percent c) s)"

definition PathEscape :: "string \<Rightarrow> string" where
  "PathEscape s = concat (map (\<lambda>c. if unreserved c
       \<or> c \<in> {CHR ''$'', CHR ''&'', CHR ''+'', CHR '':'', CHR ''='', CHR ''@''} then [c] else percent c) s)"

fun unescape_with :: "bool \<Rightarrow> string \<Rightarrow> string option" where
  "unescape_with query [] = Some []"
| "unescape_with query (c # r) =
     (if c = CHR ''%'' then (case r of
          h # l # q \<Rightarrow> (case (hex_val h, hex_val l) of
              (Some a, Some b) \<Rightarrow> map_option (\<lambda>t. char_of (16 * a + b) # t) (unescape_with query q)
            | _ \<Rightarrow> None)
        | _ \<Rightarrow> None)
      else map_option (\<lambda>t. (if query \<and> c = CHR ''+'' then CHR '' '' else c) # t) (unescape_with query r))"

definition QueryUnescape :: "string \<Rightarrow> string option" where
  "QueryUnescape = unescape_with True"

definition PathUnescape :: "string \<Rightarrow> string option" where
  "PathUnescape = unescape_with False"

text \<open>\<open>Values.Encode\<close>: the keys in order; \<open>to_map\<close> puts them in order.\<close>

definition encode_pair :: "string \<times> string \<Rightarrow> string" where
  "encode_pair kv = QueryEscape (fst kv) @ ''='' @ QueryEscape (snd kv)"

definition Values_Encode :: "(string \<times> string) list \<Rightarrow> string" where
  "Values_Encode kvs = Join (map encode_pair kvs) ''&''"

text \<open>\<open>ParseQuery\<close>, whose errors \<open>URL.Query\<close> ignores, and \<open>Values.Get\<close>.\<close>

definition parse_pair :: "string \<Rightarrow> (string \<times> string) list" where
  "parse_pair p = (if p = [] \<or> CHR '';'' \<in> set p then []
     else (let (k, v) = (case cut_at CHR ''='' p of None \<Rightarrow> (p, []) | Some kv \<Rightarrow> kv)
           in case (QueryUnescape k, QueryUnescape v) of (Some k', Some v') \<Rightarrow> [(k', v')] | _ \<Rightarrow> []))"

definition ParseQuery :: "string \<Rightarrow> (string \<times> string) list" where
  "ParseQuery q = concat (map parse_pair (Split q CHR ''&''))"

definition query_get :: "(string \<times> string) list \<Rightarrow> string \<Rightarrow> string" where
  "query_get kvs k = (case map_of kvs k of None \<Rightarrow> [] | Some v \<Rightarrow> v)"

section \<open>Reading what was written\<close>

lemma hex_val_upper [simp]: "n < 16 \<Longrightarrow> hex_val (upper_hex n) = Some n"
  by (auto simp: hex_val_def upper_hex_def)

lemma byte_div_16 [simp]: "byte c div 16 < 16"
  by (rule less_mult_imp_div_less) (use nat_of_char_less_256 [of c] in simp)

lemma char_of_halves: "char_of (16 * (byte c div 16) + byte c mod 16) = c"
  by (metis char_of_byte mult_div_mod_eq)

lemma unescape_percent: "unescape_with q (percent c @ r) = map_option ((#) c) (unescape_with q r)"
proof -
  have "byte c div 16 < 16" "byte c mod 16 < 16" by simp_all
  then show ?thesis by (simp add: percent_def char_of_halves)
qed

lemma unreserved_not: "unreserved c \<Longrightarrow> c \<noteq> CHR ''%'' \<and> c \<noteq> CHR ''+'' \<and> c \<noteq> CHR '' ''
    \<and> c \<noteq> CHR ''&'' \<and> c \<noteq> CHR ''='' \<and> c \<noteq> CHR '';'' \<and> c \<noteq> CHR ''/'' \<and> c \<noteq> CHR ''?''"
  by (auto simp: unreserved_def is_digit_def)

lemma QueryUnescape_QueryEscape [simp]: "QueryUnescape (QueryEscape s) = Some s"
proof (induction s)
  case (Cons c s)
  have eq: "QueryEscape (c # s) = (if unreserved c then [c] else if c = CHR '' '' then ''+'' else percent c)
      @ QueryEscape s" by (simp add: QueryEscape_def)
  show ?case
    unfolding eq using Cons.IH unreserved_not [of c]
    by (auto simp: QueryUnescape_def unescape_percent)
qed (simp add: QueryEscape_def QueryUnescape_def)

lemma PathUnescape_PathEscape [simp]: "PathUnescape (PathEscape s) = Some s"
proof (induction s)
  case (Cons c s)
  have eq: "PathEscape (c # s) = (if unreserved c
       \<or> c \<in> {CHR ''$'', CHR ''&'', CHR ''+'', CHR '':'', CHR ''='', CHR ''@''} then [c] else percent c)
      @ PathEscape s" by (simp add: PathEscape_def)
  show ?case
    unfolding eq using Cons.IH unreserved_not [of c]
    by (auto simp: PathUnescape_def unescape_percent)
qed (simp add: PathEscape_def PathUnescape_def)

lemma upper_hex_range: "n < 16 \<Longrightarrow> is_digit (upper_hex n) \<or> 65 \<le> byte (upper_hex n) \<and> byte (upper_hex n) \<le> 70"
  by (auto simp: upper_hex_def is_digit_def)

lemma percent_chars: "x \<in> set (percent c) \<Longrightarrow> x = CHR ''%'' \<or> unreserved x"
proof -
  have "byte c div 16 < 16" "byte c mod 16 < 16" by simp_all
  then show "x \<in> set (percent c) \<Longrightarrow> x = CHR ''%'' \<or> unreserved x"
    using upper_hex_range [of "byte c div 16"] upper_hex_range [of "byte c mod 16"]
    by (auto simp: percent_def unreserved_def)
qed

definition query_safe :: "char \<Rightarrow> bool" where
  "query_safe x \<longleftrightarrow> x = CHR ''%'' \<or> x = CHR ''+'' \<or> unreserved x"

lemma not_query_safe: "\<not> query_safe CHR ''&''" "\<not> query_safe CHR ''=''" "\<not> query_safe CHR '';''"
  by (simp_all add: query_safe_def unreserved_def is_digit_def)

lemma QueryEscape_safe: "x \<in> set (QueryEscape s) \<Longrightarrow> query_safe x"
proof -
  assume "x \<in> set (QueryEscape s)"
  then obtain c where "x \<in> set (if unreserved c then [c] else if c = CHR '' '' then ''+'' else percent c)"
    unfolding QueryEscape_def set_concat set_map by (elim UN_E imageE) (rule that, simp only:)
  then show "query_safe x" using percent_chars [of x c] by (auto simp: query_safe_def split: if_splits)
qed

lemma QueryEscape_no: "CHR ''&'' \<notin> set (QueryEscape s)" "CHR ''='' \<notin> set (QueryEscape s)" "CHR '';'' \<notin> set (QueryEscape s)"
  using QueryEscape_safe not_query_safe by blast+

lemma parse_encode_pair [simp]: "parse_pair (encode_pair kv) = [kv]"
proof -
  have "cut_at CHR ''='' (encode_pair kv) = Some (QueryEscape (fst kv), QueryEscape (snd kv))"
    using QueryEscape_no by (simp add: cut_at_Some encode_pair_def)
  then show ?thesis
    using QueryEscape_no by (simp add: parse_pair_def encode_pair_def)
qed

lemma ParseQuery_Encode:
  assumes "kvs \<noteq> []"
  shows "ParseQuery (Values_Encode kvs) = kvs"
proof -
  have "Split (Values_Encode kvs) CHR ''&'' = map encode_pair kvs"
    unfolding Values_Encode_def using assms QueryEscape_no
    by (intro Split_Join) (auto simp: encode_pair_def)
  then show ?thesis by (simp add: ParseQuery_def o_def)
qed

end
