(* ===== verification/Ui.thy ===== *)
theory Ui
  imports Api_Admin Go_Url Dispatcher
begin

text \<open>
  The web interface: browser sessions (\<open>api/ui_session.go\<close>), sign in and out (\<open>ui_auth.go\<close>), and the
  pages over the core functions of the API (\<open>ui_events.go\<close>, \<open>ui_groups.go\<close>, \<open>ui_templates.go\<close>,
  \<open>ui_render.go\<close>). A page is its name and the data handed to its template; the HTML is left out.
  The sessions live in the memory of the server and are passed along explicitly.
\<close>

section \<open>Sessions\<close>

record uiSession =
  ui_user :: User
  ui_expiresAt :: int

type_synonym uiSessionStore = "string \<rightharpoonup> uiSession"

definition uiSessionTTL :: int where
  "uiSessionTTL = 8 * 3600 * 1000000000"

definition uiSessionSweepEvery :: int where
  "uiSessionSweepEvery = 600 * 1000000000"

text \<open>\<open>base64.RawURLEncoding\<close>: the URL alphabet, without padding.\<close>

definition RawURLEncode :: "8 word list \<Rightarrow> string" where
  "RawURLEncode bs = map (\<lambda>c. if c = CHR ''+'' then CHR ''-'' else if c = CHR ''/'' then CHR ''_'' else c)
     (filter (\<lambda>c. c \<noteq> CHR ''='') (EncodeToString bs))"

definition newSessionToken :: "(world, string) state" where
  "newSessionToken = do { b \<leftarrow> rand_Read 32; ret (RawURLEncode b) }"

definition session_create :: "User \<Rightarrow> uiSessionStore \<Rightarrow> (world, string \<times> uiSessionStore) state" where
  "session_create user st = do {
     token \<leftarrow> newSessionToken;
     now \<leftarrow> time_Now;
     ret (token, st(token \<mapsto> \<lparr>ui_user = user, ui_expiresAt = now + uiSessionTTL\<rparr>)) }"

definition session_get :: "string \<Rightarrow> uiSessionStore \<Rightarrow> (world, User option \<times> uiSessionStore) state" where
  "session_get token st =
     (case st token of None \<Rightarrow> ret (None, st)
      | Some sess \<Rightarrow> do {
          now \<leftarrow> time_Now;
          if now > ui_expiresAt sess then ret (None, st(token := None))
          else do {
            later \<leftarrow> time_Now;
            ret (Some (ui_user sess), st(token \<mapsto> sess\<lparr>ui_expiresAt := later + uiSessionTTL\<rparr>)) } })"

definition session_delete :: "string \<Rightarrow> uiSessionStore \<Rightarrow> uiSessionStore" where
  "session_delete token st = st(token := None)"

text \<open>One tick of \<open>sweepExpired\<close>.\<close>

definition sweepExpired :: "uiSessionStore \<Rightarrow> (world, uiSessionStore) state" where
  "sweepExpired st = do {
     now \<leftarrow> time_Now;
     ret (\<lambda>token. case st token of None \<Rightarrow> None
       | Some sess \<Rightarrow> if now > ui_expiresAt sess then None else Some sess) }"

section \<open>Replies\<close>

text \<open>A cookie to set, with its \<open>MaxAge\<close> in seconds; \<open>-1\<close> clears it.\<close>

record cookie =
  ck_Value :: string
  ck_MaxAge :: int

record 'd uiPageData =
  pg_Title :: string
  pg_User :: "User option"
  pg_IsAdmin :: bool
  pg_Flash :: string
  pg_FlashClass :: string
  pg_Data :: "'d option"

datatype 'd ui_reply =
    UiPage string "'d uiPageData"
  | UiFragment string "deliveryResponse list"
  | UiRedirect string
  | UiFail nat string
  | UiStatus nat

definition isAdminUser :: "User option \<Rightarrow> bool" where
  "isAdminUser user = (case user of None \<Rightarrow> False | Some u \<Rightarrow> hasPermission (us_Roles u) PermAdmin)"

definition ui_error :: "coreError \<Rightarrow> 'd ui_reply" where
  "ui_error e = UiFail (fst e) (snd e)"

text \<open>A page for a signed-in user; the flash of an error, or none.\<close>

definition user_page :: "Request \<Rightarrow> string \<Rightarrow> string \<Rightarrow> string \<Rightarrow> 'd \<Rightarrow> 'd ui_reply" where
  "user_page r page title flash d = UiPage page \<lparr>pg_Title = title, pg_User = Some (rq_User r),
     pg_IsAdmin = isAdminUser (Some (rq_User r)), pg_Flash = flash,
     pg_FlashClass = (if flash = [] then [] else ''error''), pg_Data = Some d\<rparr>"

definition ui_url :: "string \<Rightarrow> string \<Rightarrow> string" where
  "ui_url prefix path = prefix @ path"

definition setSessionCookie :: "string \<Rightarrow> cookie" where
  "setSessionCookie token = \<lparr>ck_Value = token, ck_MaxAge = uiSessionTTL div 1000000000\<rparr>"

definition clearSessionCookie :: cookie where
  "clearSessionCookie = \<lparr>ck_Value = [], ck_MaxAge = -1\<rparr>"

text \<open>The middleware: the handler runs for the user of the session only.\<close>

definition authenticateSession :: "string \<Rightarrow> string option \<Rightarrow> uiSessionStore
    \<Rightarrow> (User \<Rightarrow> (world, 'd ui_reply) state) \<Rightarrow> (world, 'd ui_reply \<times> uiSessionStore) state" where
  "authenticateSession prefix ck st nxt =
     (case ck of None \<Rightarrow> ret (UiRedirect (ui_url prefix ''/ui/login''), st)
      | Some token \<Rightarrow> do {
          (u, st') \<leftarrow> session_get token st;
          (case u of None \<Rightarrow> ret (UiRedirect (ui_url prefix ''/ui/login''), st')
           | Some user \<Rightarrow> do { x \<leftarrow> nxt user; ret (x, st') }) })"

definition requireUiPermissions :: "Permission list \<Rightarrow> (User \<Rightarrow> (world, 'd ui_reply) state) \<Rightarrow> User
    \<Rightarrow> (world, 'd ui_reply) state" where
  "requireUiPermissions perms nxt user =
     (if \<exists>perm \<in> set perms. \<not> hasPermission (us_Roles user) perm then ret (UiFail 403 ''forbidden'')
      else nxt user)"

section \<open>Signing in and out\<close>

definition login_page :: "string \<Rightarrow> unit ui_reply" where
  "login_page flash = UiPage ''login.html'' \<lparr>pg_Title = ''Sign in'', pg_User = None, pg_IsAdmin = False,
     pg_Flash = flash, pg_FlashClass = (if flash = [] then [] else ''error''), pg_Data = None\<rparr>"

definition handleUILoginForm :: "string \<Rightarrow> string option \<Rightarrow> uiSessionStore
    \<Rightarrow> (world, unit ui_reply \<times> uiSessionStore) state" where
  "handleUILoginForm prefix ck st =
     (case ck of None \<Rightarrow> ret (login_page [], st)
      | Some token \<Rightarrow> do {
          (u, st') \<leftarrow> session_get token st;
          ret (if u \<noteq> None then UiRedirect (ui_url prefix ''/ui/events'') else login_page [], st') })"

definition handleUILoginSubmit :: "authenticator \<Rightarrow> (string \<times> string list) list \<Rightarrow> string \<Rightarrow> string
    \<Rightarrow> (string \<times> string) option \<Rightarrow> uiSessionStore
    \<Rightarrow> (world, (unit ui_reply \<times> cookie option) \<times> uiSessionStore) state" where
  "handleUILoginSubmit auth roleConfig prefix ip form st =
     (case form of None \<Rightarrow> ret ((login_page ''Invalid form submission.'', None), st)
      | Some (username, password) \<Rightarrow>
          if username = [] \<or> password = [] then
            ret ((login_page ''Username and password are required.'', None), st)
          else do {
            a \<leftarrow> auth username password;
            (case a of
               Inl e \<Rightarrow> do {
                 auditLog username ip ''ui_login_failed'' ''auth'' [] [];
                 ret ((login_page (if e = ErrInvalidCredentials then ''Invalid credentials.''
                   else ''Authentication error. Please try again later.''), None), st) }
             | Inr result \<Rightarrow> do {
                 let roles = resolveRoles (ar_Groups result) roleConfig;
                 if \<not> hasPermission roles PermRead then do {
                   auditLog username ip ''ui_login_failed_no_role'' ''auth'' [] [];
                   ret ((login_page ''Your account is not authorized to use this application.'', None), st) }
                 else do {
                   (token, st') \<leftarrow> session_create
                     \<lparr>us_Username = username, us_DN = ar_UserDN result, us_Roles = roles\<rparr> st;
                   auditLog username ip ''ui_login'' ''auth'' [] [];
                   ret ((UiRedirect (ui_url prefix ''/ui/events''), Some (setSessionCookie token)), st') } }) })"

definition handleUILogout :: "string \<Rightarrow> string option \<Rightarrow> uiSessionStore
    \<Rightarrow> (unit ui_reply \<times> cookie option) \<times> uiSessionStore" where
  "handleUILogout prefix ck st =
     ((UiRedirect (ui_url prefix ''/ui/login''), Some clearSessionCookie),
      (case ck of None \<Rightarrow> st | Some token \<Rightarrow> session_delete token st))"

section \<open>Events\<close>

record uiEventRow =
  uv_EventID :: string
  uv_EventName :: string
  uv_EventSeverity :: string
  uv_StartTime :: string
  uv_EndTime :: string

record uiEventsListData =
  ue_Events :: "uiEventRow list"
  ue_Offset :: int
  ue_HasNext :: bool
  ue_Filters :: "(string \<times> string) list"
  ue_SeverityOptions :: "string list"
  ue_PrevQuery :: string
  ue_NextQuery :: string

definition no_events_data :: uiEventsListData where
  "no_events_data = \<lparr>ue_Events = [], ue_Offset = 0, ue_HasNext = False, ue_Filters = [],
     ue_SeverityOptions = [], ue_PrevQuery = [], ue_NextQuery = []\<rparr>"

definition event_row :: "Event \<Rightarrow> uiEventRow" where
  "event_row e = \<lparr>uv_EventID = ev_EventID e, uv_EventName = ns_string (ev_EventName e),
     uv_EventSeverity = ns_string (ev_EventSeverity e), uv_StartTime = ev_StartTime e,
     uv_EndTime = ns_string (ev_EndTime e)\<rparr>"

definition filter_names :: "string list" where
  "filter_names = [''start_from'', ''start_to'', ''event_id'', ''event_name'', ''description'',
     ''severity'', ''created_by'', ''status'']"

text \<open>The link to another page: offset, limit and the filters that are set.\<close>

definition page_query :: "(string \<Rightarrow> string) \<Rightarrow> int \<Rightarrow> int \<Rightarrow> string" where
  "page_query get offset limit = Values_Encode (to_map ([(''offset'', show_int offset), (''limit'', show_int limit)]
     @ map (\<lambda>k. (k, get k)) (filter (\<lambda>k. get k \<noteq> []) filter_names)))"

definition handleUIListEvents :: "Server \<Rightarrow> Request \<Rightarrow> (string \<Rightarrow> string)
    \<Rightarrow> (world, uiEventsListData ui_reply) state" where
  "handleUIListEvents s r get = do {
     x \<leftarrow> listEventsCore s get;
     ret (case x of
            Inl e \<Rightarrow> user_page r ''events_list.html'' ''Events'' (snd e) no_events_data
          | Inr (evs, limit, offset) \<Rightarrow> user_page r ''events_list.html'' ''Events'' []
              \<lparr>ue_Events = map event_row evs, ue_Offset = offset,
               ue_HasNext = (int (length evs) = limit),
               ue_Filters = map (\<lambda>k. (k, get k)) filter_names,
               ue_SeverityOptions = sv_eventSeverities s,
               ue_PrevQuery = page_query get (max (wrap64 (offset - limit)) 0) limit,
               ue_NextQuery = page_query get (wrap64 (offset + limit)) limit\<rparr>) }"

record uiNotificationRow =
  un_NotificationID :: string
  un_Message :: string
  un_Channels :: string
  un_Groups :: string
  un_MemberCount :: int
  un_Status :: string
  un_ErrorMessage :: string
  un_CreatedAt :: string

definition notification_row :: "notificationResponse \<Rightarrow> uiNotificationRow" where
  "notification_row n = \<lparr>un_NotificationID = nr_NotificationID n, un_Message = nr_Message n,
     un_Channels = Join (nr_Channels n) '', '', un_Groups = Join (nr_Groups n) '', '',
     un_MemberCount = nr_MemberCount n, un_Status = nr_Status n, un_ErrorMessage = nr_ErrorMessage n,
     un_CreatedAt = nr_CreatedAt n\<rparr>"

record uiEventDetail =
  ud_EventID :: string
  ud_EventName :: string
  ud_EventSeverity :: string
  ud_EventURL :: string
  ud_EventDescription :: string
  ud_StartTime :: string
  ud_EndTime :: string
  ud_CreatedBy :: string
  ud_CreatedAt :: string

definition event_detail :: "Event \<Rightarrow> uiEventDetail" where
  "event_detail e = \<lparr>ud_EventID = ev_EventID e, ud_EventName = ns_string (ev_EventName e),
     ud_EventSeverity = ns_string (ev_EventSeverity e), ud_EventURL = ns_string (ev_EventUrl e),
     ud_EventDescription = ns_string (ev_EventDescription e), ud_StartTime = ev_StartTime e,
     ud_EndTime = ns_string (ev_EndTime e), ud_CreatedBy = ns_string (ev_CreatedBy e),
     ud_CreatedAt = ev_CreatedAt e\<rparr>"

text \<open>Rows that do not decode are skipped.\<close>

definition handleUIGetEvent :: "Request \<Rightarrow> string
    \<Rightarrow> (world, (uiEventDetail \<times> uiNotificationRow list) ui_reply) state" where
  "handleUIGetEvent r eventID = do {
     x \<leftarrow> getEventCore eventID;
     (case x of
        Inl e \<Rightarrow> ret (ui_error e)
      | Inr event \<Rightarrow> do {
          l \<leftarrow> listEventNotificationsCore eventID;
          ret (case l of Inl e \<Rightarrow> ui_error e
            | Inr ns \<Rightarrow> user_page r ''event_detail.html'' (ns_string (ev_EventName event)) []
                (event_detail event, map notification_row (List.map_filter toNotificationResponse ns))) }) }"

definition handleUINotificationDeliveriesPartial :: "string \<Rightarrow> (world, unit ui_reply) state" where
  "handleUINotificationDeliveriesPartial nid = do {
     l \<leftarrow> listNotificationDeliveriesCore nid;
     ret (case l of Inl e \<Rightarrow> ui_error e
       | Inr ds \<Rightarrow> UiFragment ''deliveries_fragment.html'' (List.map_filter toDeliveryResponse ds)) }"

section \<open>Groups to be synchronised\<close>

record uiSyncGroupRow =
  us_GroupName :: string
  us_CreatedBy :: string
  us_CreatedAt :: string

definition sync_group_row :: "SyncGroup \<Rightarrow> uiSyncGroupRow" where
  "sync_group_row g = \<lparr>us_GroupName = sg_GroupName g, us_CreatedBy = sg_CreatedBy g, us_CreatedAt = sg_CreatedAt g\<rparr>"

definition renderSyncGroupsPage :: "Request \<Rightarrow> string \<Rightarrow> (world, uiSyncGroupRow list ui_reply) state" where
  "renderSyncGroupsPage r flash = do {
     l \<leftarrow> listSyncGroupsCore;
     ret (case l of Inl e \<Rightarrow> ui_error e
       | Inr gs \<Rightarrow> user_page r ''sync_groups.html'' ''Sync Groups'' flash (map sync_group_row gs)) }"

definition handleUIListSyncGroups :: "Request \<Rightarrow> (world, uiSyncGroupRow list ui_reply) state" where
  "handleUIListSyncGroups r = renderSyncGroupsPage r []"

definition handleUICreateSyncGroup :: "group_verifier \<Rightarrow> string \<Rightarrow> Request \<Rightarrow> string option
    \<Rightarrow> (world, uiSyncGroupRow list ui_reply) state" where
  "handleUICreateSyncGroup verify prefix r form =
     (case form of None \<Rightarrow> renderSyncGroupsPage r ''Invalid form submission.''
      | Some groupName \<Rightarrow> do {
          x \<leftarrow> createSyncGroupCore verify r groupName;
          (case x of Inl e \<Rightarrow> renderSyncGroupsPage r (snd e)
           | Inr _ \<Rightarrow> ret (UiRedirect (ui_url prefix ''/ui/groups/sync''))) })"

definition handleUIDeleteSyncGroup :: "Request \<Rightarrow> string \<Rightarrow> (world, unit ui_reply) state" where
  "handleUIDeleteSyncGroup r groupName = do {
     x \<leftarrow> deleteSyncGroupCore r groupName;
     ret (case x of Inl e \<Rightarrow> ui_error e | Inr _ \<Rightarrow> UiStatus 200) }"

section \<open>Templates\<close>

record uiTemplateRow =
  ut_TemplateName :: string
  ut_Description :: string
  ut_RequiredVars :: string

definition template_row :: "EmailTemplate \<Rightarrow> uiTemplateRow" where
  "template_row t = (let tr = toTemplateResponse t
     in \<lparr>ut_TemplateName = tr_TemplateName tr, ut_Description = tr_Description tr,
         ut_RequiredVars = Join (tr_RequiredVars tr) '', ''\<rparr>)"

definition handleUIListTemplates :: "Request \<Rightarrow> (world, uiTemplateRow list ui_reply) state" where
  "handleUIListTemplates r = do {
     l \<leftarrow> listTemplatesCore;
     ret (case l of Inl e \<Rightarrow> ui_error e
       | Inr ts \<Rightarrow> user_page r ''templates_list.html'' ''Templates'' [] (map template_row ts)) }"

record uiTemplateFormData =
  uf_Editing :: bool
  uf_TemplateName :: string
  uf_Subject :: string
  uf_Body :: string
  uf_RequiredVars :: string
  uf_Description :: string

text \<open>A nil slice when no name is left.\<close>

definition parseRequiredVars :: "string \<Rightarrow> string list option" where
  "parseRequiredVars s = (let vars = filter (\<lambda>v. v \<noteq> []) (map TrimSpace (Split s CHR '',''))
     in if vars = [] then None else Some vars)"

definition form_request :: "uiTemplateFormData \<Rightarrow> templateRequest" where
  "form_request f = \<lparr>tq_TemplateName = uf_TemplateName f, tq_Subject = uf_Subject f, tq_Body = uf_Body f,
     tq_RequiredVars = parseRequiredVars (uf_RequiredVars f), tq_Description = uf_Description f\<rparr>"

definition handleUINewTemplateForm :: "Request \<Rightarrow> uiTemplateFormData ui_reply" where
  "handleUINewTemplateForm r = user_page r ''template_form.html'' ''New Template'' []
     \<lparr>uf_Editing = False, uf_TemplateName = [], uf_Subject = [], uf_Body = [], uf_RequiredVars = [],
      uf_Description = []\<rparr>"

definition handleUICreateTemplate :: "template_engine \<Rightarrow> string \<Rightarrow> Request \<Rightarrow> uiTemplateFormData option
    \<Rightarrow> (world, uiTemplateFormData ui_reply) state" where
  "handleUICreateTemplate te prefix r input =
     (case input of None \<Rightarrow> ret (UiFail 400 ''invalid form submission'')
      | Some form0 \<Rightarrow> do {
          let form = form0\<lparr>uf_Editing := False\<rparr>;
          x \<leftarrow> createTemplateCore te r (form_request form);
          ret (case x of
                 Inl e \<Rightarrow> user_page r ''template_form.html'' ''New Template'' (snd e) form
               | Inr _ \<Rightarrow> UiRedirect (ui_url prefix ''/ui/templates'')) })"

definition handleUIEditTemplateForm :: "Request \<Rightarrow> string \<Rightarrow> (world, uiTemplateFormData ui_reply) state" where
  "handleUIEditTemplateForm r name = do {
     x \<leftarrow> getTemplateCore name;
     ret (case x of Inl e \<Rightarrow> ui_error e
       | Inr tmpl \<Rightarrow> (let tr = toTemplateResponse tmpl
           in user_page r ''template_form.html'' ''Edit Template'' []
             \<lparr>uf_Editing = True, uf_TemplateName = tr_TemplateName tr, uf_Subject = tr_Subject tr,
              uf_Body = tr_Body tr, uf_RequiredVars = Join (tr_RequiredVars tr) '', '',
              uf_Description = tr_Description tr\<rparr>)) }"

definition handleUIUpdateTemplate :: "template_engine \<Rightarrow> string \<Rightarrow> Request \<Rightarrow> string
    \<Rightarrow> uiTemplateFormData option \<Rightarrow> (world, uiTemplateFormData ui_reply) state" where
  "handleUIUpdateTemplate te prefix r name input =
     (case input of None \<Rightarrow> ret (UiFail 400 ''invalid form submission'')
      | Some form0 \<Rightarrow> do {
          let form = form0\<lparr>uf_Editing := True, uf_TemplateName := name\<rparr>;
          x \<leftarrow> updateTemplateCore te r name ((form_request form)\<lparr>tq_TemplateName := []\<rparr>);
          ret (case x of
                 Inl e \<Rightarrow> user_page r ''template_form.html'' ''Edit Template'' (snd e) form
               | Inr _ \<Rightarrow> UiRedirect (ui_url prefix ''/ui/templates'')) })"

definition handleUIDeleteTemplate :: "Request \<Rightarrow> string \<Rightarrow> (world, unit ui_reply) state" where
  "handleUIDeleteTemplate r name = do {
     x \<leftarrow> deleteTemplateCore r name;
     ret (case x of Inl e \<Rightarrow> ui_error e | Inr _ \<Rightarrow> UiStatus 200) }"

end
