(* ===== verification/Ui_Facts.thy ===== *)
theory Ui_Facts
  imports Ui
begin

text \<open>
  The web interface: who holds a session in every reachable state of the server, what a page behind
  the middleware may do, and that the links between the pages of the event list lead through all of
  it.
\<close>

section \<open>Sessions\<close>

text \<open>A user who has signed in: a password was accepted, and the groups give the roles.\<close>

definition signed_in :: "authenticator \<Rightarrow> (string \<times> string list) list \<Rightarrow> User \<Rightarrow> bool" where
  "signed_in auth rc u \<longleftrightarrow> (\<exists>p result w w'. run_state (auth (us_Username u) p) w = (Inr result, w')
     \<and> us_Username u \<noteq> [] \<and> p \<noteq> [] \<and> us_DN u = ar_UserDN result
     \<and> us_Roles u = resolveRoles (ar_Groups result) rc \<and> hasPermission (us_Roles u) PermRead)"

text \<open>What the server does to its store: sign in, look a session up (every page and the form do),
  sign out, and drop what has expired. The world may change in any way between two steps.\<close>

inductive ui_step :: "authenticator \<Rightarrow> (string \<times> string list) list \<Rightarrow> uiSessionStore \<Rightarrow> uiSessionStore \<Rightarrow> bool"
  for auth rc where
  sign_in: "run_state (handleUILoginSubmit auth rc prefix ip form st) w = ((x, st'), w') \<Longrightarrow>
    ui_step auth rc st st'"
| look_up: "run_state (session_get token st) w = ((u, st'), w') \<Longrightarrow> ui_step auth rc st st'"
| sign_out: "handleUILogout prefix ck st = (x, st') \<Longrightarrow> ui_step auth rc st st'"
| expire: "run_state (sweepExpired st) w = (st', w') \<Longrightarrow> ui_step auth rc st st'"

inductive ui_reachable :: "authenticator \<Rightarrow> (string \<times> string list) list \<Rightarrow> uiSessionStore \<Rightarrow> bool"
  for auth rc where
  start: "ui_reachable auth rc Map.empty"
| step: "ui_reachable auth rc st \<Longrightarrow> ui_step auth rc st st' \<Longrightarrow> ui_reachable auth rc st'"

definition sessions_ok :: "authenticator \<Rightarrow> (string \<times> string list) list \<Rightarrow> uiSessionStore \<Rightarrow> bool" where
  "sessions_ok auth rc st \<longleftrightarrow> (\<forall>token sess. st token = Some sess \<longrightarrow> signed_in auth rc (ui_user sess))"

lemma sessions_ok_update:
  "sessions_ok auth rc st \<Longrightarrow> signed_in auth rc (ui_user sess) \<Longrightarrow> sessions_ok auth rc (st(token \<mapsto> sess))"
  by (simp add: sessions_ok_def)

lemma session_get_ok:
  assumes "run_state (session_get token st) w = ((u, st'), w')" and "sessions_ok auth rc st"
  shows "sessions_ok auth rc st'"
proof (cases "st token")
  case None
  with assms show ?thesis by (simp add: session_get_def)
next
  case (Some sess)
  with assms(2) have "signed_in auth rc (ui_user sess)" by (simp add: sessions_ok_def)
  with assms Some show ?thesis
    by (auto simp: session_get_def sessions_ok_def split: if_splits prod.splits)
qed

lemma session_create_store:
  obtains token t w2 where "run_state (session_create u st) w
    = ((token, st(token \<mapsto> \<lparr>ui_user = u, ui_expiresAt = t\<rparr>)), w2)"
proof -
  obtain token w1 where "run_state newSessionToken w = (token, w1)" by fastforce
  then have "run_state (session_create u st) w = ((token, st(token \<mapsto>
      \<lparr>ui_user = u, ui_expiresAt = w_now (advance_clock w1) + uiSessionTTL\<rparr>)), advance_clock w1)"
    by (simp add: session_create_def time_Now_def)
  then show thesis by (rule that)
qed

lemma sign_in_ok:
  assumes "run_state (handleUILoginSubmit auth rc prefix ip form st) w = ((x, st'), w')"
    and "sessions_ok auth rc st"
  shows "sessions_ok auth rc st'"
proof (cases "\<exists>u p. form = Some (u, p) \<and> u \<noteq> [] \<and> p \<noteq> []")
  case False
  with assms show ?thesis by (auto simp: handleUILoginSubmit_def split: option.splits if_splits)
next
  case True
  then obtain u p where up: "form = Some (u, p)" "u \<noteq> []" "p \<noteq> []" by auto
  obtain a w1 where a: "run_state (auth u p) w = (a, w1)" by fastforce
  show ?thesis
  proof (cases a)
    case (Inl e)
    with assms up a show ?thesis by (auto simp: handleUILoginSubmit_def split: prod.splits)
  next
    case (Inr result)
    let ?roles = "resolveRoles (ar_Groups result) rc"
    show ?thesis
    proof (cases "hasPermission ?roles PermRead")
      case False
      with assms up a Inr show ?thesis by (auto simp: handleUILoginSubmit_def split: prod.splits)
    next
      case True
      let ?u = "\<lparr>us_Username = u, us_DN = ar_UserDN result, us_Roles = ?roles\<rparr>"
      have "signed_in auth rc ?u"
        unfolding signed_in_def using a Inr True up by auto
      moreover obtain token t w2 where
        "run_state (session_create ?u st) w1 = ((token, st(token \<mapsto> \<lparr>ui_user = ?u, ui_expiresAt = t\<rparr>)), w2)"
        by (rule session_create_store)
      moreover from this have "st' = st(token \<mapsto> \<lparr>ui_user = ?u, ui_expiresAt = t\<rparr>)"
        using assms(1) up a Inr True by (auto simp: handleUILoginSubmit_def split: prod.splits)
      ultimately show ?thesis using assms(2) by (simp add: sessions_ok_update)
    qed
  qed
qed

lemma sessions_invariant: "ui_reachable auth rc st \<Longrightarrow> sessions_ok auth rc st"
proof (induction rule: ui_reachable.induct)
  case start
  then show ?case by (simp add: sessions_ok_def)
next
  case (step st st')
  from step.hyps(2) step.IH show ?case
  proof (cases rule: ui_step.cases)
    case (sign_out prefix ck x)
    with step.IH show ?thesis
      by (auto simp: handleUILogout_def session_delete_def sessions_ok_def split: option.splits if_splits)
  next
    case (expire w w')
    with step.IH show ?thesis
      by (auto simp: sweepExpired_def sessions_ok_def split: option.splits if_splits prod.splits)
  qed (use step.IH session_get_ok sign_in_ok in blast)+
qed

text \<open>C12 (safety): in every reachable state of the server, a page behind the middleware runs only for
  a cookie whose session is stored and has not expired, and as a user who signed in with an accepted
  password and holds every permission of the page; the session is then extended to eight hours from
  now. In every other case the reply is the redirect to the login page or 403, nothing but the clock
  has moved, and no session is extended for an unknown or expired cookie.\<close>

theorem page_needs_live_session:
  assumes "ui_reachable auth rc st"
    and "run_state (authenticateSession prefix ck st (requireUiPermissions perms page)) w = ((r, st'), w')"
  shows "(\<exists>token sess w1. ck = Some token \<and> st token = Some sess \<and> w_now (advance_clock w) \<le> ui_expiresAt sess
       \<and> w1 = advance_clock (advance_clock w)
       \<and> st' = st(token \<mapsto> sess\<lparr>ui_expiresAt := w_now w1 + uiSessionTTL\<rparr>)
       \<and> signed_in auth rc (ui_user sess)
       \<and> (if \<forall>perm \<in> set perms. hasPermission (us_Roles (ui_user sess)) perm
          then run_state (page (ui_user sess)) w1 = (r, w')
          else r = UiFail 403 ''forbidden'' \<and> w' = w1))
   \<or> r = UiRedirect (prefix @ ''/ui/login'') \<and> w' \<in> {w, advance_clock w}
     \<and> (case ck of None \<Rightarrow> st' = st | Some token \<Rightarrow> st' = st(token := None)
          \<and> (st token = None \<or> (\<exists>sess. st token = Some sess \<and> ui_expiresAt sess < w_now (advance_clock w))))"
proof (cases "ck = None \<or> (\<exists>token. ck = Some token \<and> st token = None)")
  case True
  with assms(2) show ?thesis
    by (auto simp: authenticateSession_def session_get_def ui_url_def fun_upd_idem)
next
  case False
  then obtain token sess where t: "ck = Some token" "st token = Some sess" by auto
  have now: "run_state time_Now v = (w_now (advance_clock v), advance_clock v)" for v
    by (simp add: time_Now_def)
  have ok: "signed_in auth rc (ui_user sess)"
    using sessions_invariant [OF assms(1)] t(2) by (simp add: sessions_ok_def)
  show ?thesis
  proof (cases "ui_expiresAt sess < w_now (advance_clock w)")
    case True
    with assms(2) t show ?thesis
      by (auto simp: authenticateSession_def session_get_def now ui_url_def)
  next
    case live: False
    let ?w1 = "advance_clock (advance_clock w)"
    from assms(2) t live have
      "st' = st(token \<mapsto> sess\<lparr>ui_expiresAt := w_now ?w1 + uiSessionTTL\<rparr>)"
      "run_state (requireUiPermissions perms page (ui_user sess)) ?w1 = (r, w')"
      by (auto simp: authenticateSession_def session_get_def now split: prod.splits)
    with t live ok show ?thesis
      by (auto simp: requireUiPermissions_def split: if_splits)
  qed
qed

section \<open>Links between pages\<close>

lemma ParseInt64_show_nat:
  assumes "n < 2 ^ 63"
  shows "ParseInt64 (show_nat n) = Some (int n)"
proof -
  obtain c cs where s: "show_nat n = c # cs" by (cases "show_nat n") auto
  have "is_digit c" using show_nat_digits [of c n] s by simp
  then have "c \<noteq> CHR ''-''" "c \<noteq> CHR ''+''" by (auto simp: is_digit_def)
  with s assms digits_val_show_nat [of n] show ?thesis by (simp add: ParseInt64_def)
qed

lemma ParseInt64_show_int: "0 \<le> i \<Longrightarrow> i < 2 ^ 63 \<Longrightarrow> ParseInt64 (show_int i) = Some i"
  by (simp add: show_int_def ParseInt64_show_nat nat_less_iff)

lemma show_int_not_Nil: "show_int i \<noteq> []"
  by (simp add: show_int_def)

lemma to_map_not_Nil: "kvs \<noteq> [] \<Longrightarrow> to_map kvs \<noteq> []"
proof
  assume "kvs \<noteq> []" "to_map kvs = []"
  then obtain k v r where "rev kvs = (k, v) # r" by (cases "rev kvs") auto
  with map_of_to_map [of kvs] \<open>to_map kvs = []\<close> show False by (auto dest: fun_cong [of _ _ k])
qed

lemma map_of_rev_filters:
  "map_of (rev (map (\<lambda>k. (k, g k)) ks)) k = (if k \<in> set ks then Some (g k) else None)"
proof -
  have "map_of (rev (map (\<lambda>k. (k, g k)) ks)) k = map_of (map (\<lambda>k. (k, g k)) (rev ks)) k"
    by (simp add: rev_map)
  then show ?thesis by (simp add: map_of_map_restrict restrict_map_def)
qed

text \<open>The server reads from a link what it wrote into it.\<close>

lemma page_query_get:
  defines "next get off lim \<equiv> query_get (ParseQuery (page_query get off lim))"
  shows "next get off lim ''offset'' = show_int off" "next get off lim ''limit'' = show_int lim"
    "k \<in> set filter_names \<Longrightarrow> next get off lim k = get k"
proof -
  let ?set = "filter (\<lambda>k. get k \<noteq> []) filter_names"
  let ?kvs = "[(''offset'', show_int off), (''limit'', show_int lim)] @ map (\<lambda>k. (k, get k)) ?set"
  have q: "next get off lim k = (case map_of (rev ?kvs) k of None \<Rightarrow> [] | Some v \<Rightarrow> v)" for k
    unfolding next_def page_query_def query_get_def
    by (subst ParseQuery_Encode) (simp_all add: to_map_not_Nil map_of_to_map)
  have r: "map_of (rev ?kvs) k = (if k \<in> set ?set then Some (get k)
      else map_of [(''limit'', show_int lim), (''offset'', show_int off)] k)" for k
    by (simp add: map_add_def map_of_rev_filters map_of_append [symmetric] del: map_of.simps)
  have notin: "''offset'' \<notin> set filter_names" "''limit'' \<notin> set filter_names"
    by (simp_all add: filter_names_def)
  with r show "next get off lim ''offset'' = show_int off" "next get off lim ''limit'' = show_int lim"
    unfolding q by simp_all
  show "next get off lim k = get k" if k: "k \<in> set filter_names"
    unfolding q r using k notin by auto
qed

text \<open>Following the links from a page on, at most \<open>n\<close> of them.\<close>

fun browse :: "Server \<Rightarrow> Request \<Rightarrow> nat \<Rightarrow> (string \<Rightarrow> string) \<Rightarrow> (world, uiEventRow list) state" where
  "browse s r 0 get = ret []"
| "browse s r (Suc n) get = do {
     x \<leftarrow> handleUIListEvents s r get;
     (case x of
        UiPage _ pg \<Rightarrow> (case pg_Data pg of None \<Rightarrow> ret []
          | Some d \<Rightarrow> if \<not> ue_HasNext d then ret (ue_Events d)
              else do {
                more \<leftarrow> browse s r n (query_get (ParseQuery (ue_NextQuery d)));
                ret (ue_Events d @ more) })
      | _ \<Rightarrow> ret []) }"

lemma list_params_next:
  assumes "list_params s get = Inr p" and "lp_Offset p + lp_Limit p < 2 ^ 63"
  shows "list_params s (query_get (ParseQuery (page_query get (wrap64 (lp_Offset p + lp_Limit p)) (lp_Limit p))))
     = Inr (p\<lparr>lp_Offset := lp_Offset p + lp_Limit p\<rparr>)"
proof -
  note ok = list_params_ok [OF assms(1)]
  have w: "wrap64 (lp_Offset p + lp_Limit p) = lp_Offset p + lp_Limit p"
    using ok assms(2) by (simp add: wrap64_def)
  let ?g = "query_get (ParseQuery (page_query get (lp_Offset p + lp_Limit p) (lp_Limit p)))"
  have lim: "parse_limit (?g ''limit'') = Inr (lp_Limit p)"
    using ok by (simp add: page_query_get parse_limit_def ParseInt64_show_int show_int_not_Nil)
  have off: "parse_offset (?g ''offset'') = Inr (lp_Offset p + lp_Limit p)"
    using ok assms(2) by (simp add: page_query_get parse_offset_def ParseInt64_show_int show_int_not_Nil)
  have rest: "?g k = get k" if "k \<in> set filter_names" for k
    using that by (rule page_query_get(3))
  have keys: "?g ''start_from'' = get ''start_from''" "?g ''start_to'' = get ''start_to''"
    "?g ''event_id'' = get ''event_id''" "?g ''event_name'' = get ''event_name''"
    "?g ''description'' = get ''description''" "?g ''severity'' = get ''severity''"
    "?g ''created_by'' = get ''created_by''" "?g ''status'' = get ''status''"
    by (rule rest, simp add: filter_names_def)+
  show ?thesis
    using assms(1) unfolding w
    by (auto simp: list_params_def lim off keys split: sum.splits if_splits)
qed

lemma event_matches_offset: "event_matches (p\<lparr>lp_Offset := k\<rparr>) = event_matches p"
  by (simp add: event_matches_def fun_eq_iff)

lemma browse_from:
  assumes "list_params s get = Inr p" and "w_faults w = []"
    and rows: "rows = order_by_desc ev_StartTime (filter (event_matches p) (events (w_db w)))"
    and "int (length rows) < 2 ^ 62" and "length rows < nat (lp_Offset p) + n * nat (lp_Limit p)"
  shows "run_state (browse s r n get) w = (map event_row (drop (nat (lp_Offset p)) rows), w)"
  using assms(1,3,5)
proof (induction n arbitrary: get p)
  case 0
  then show ?case by simp
next
  case (Suc n)
  let ?o = "nat (lp_Offset p)" and ?l = "nat (lp_Limit p)"
  let ?pg = "take ?l (drop ?o rows)"
  let ?g = "query_get (ParseQuery (page_query get (wrap64 (lp_Offset p + lp_Limit p)) (lp_Limit p)))"
  note ok = list_params_ok [OF Suc.prems(1)]
  have core: "run_state (listEventsCore s get) w = (Inr (?pg, lp_Limit p, lp_Offset p), w)"
    using assms(2) ok Suc.prems(1,2)
    by (simp add: listEventsCore_def ListEventsFiltered_def query_many_def statement_def limit_offset_def)
  show ?case
  proof (cases "int (length ?pg) = lp_Limit p")
    case False
    then have "length (drop ?o rows) < ?l" using ok by (auto simp: min_def split: if_splits)
    then have "?pg = drop ?o rows" by simp
    with core False show ?thesis
      by (simp add: handleUIListEvents_def user_page_def)
  next
    case True
    then have more: "?o + ?l \<le> length rows" using ok by (auto simp: min_def split: if_splits)
    then have "int ?o + int ?l \<le> int (length rows)" by linarith
    then have small: "lp_Offset p + lp_Limit p < 2 ^ 63" using ok assms(4) by simp
    let ?p = "p\<lparr>lp_Offset := lp_Offset p + lp_Limit p\<rparr>"
    have sum: "nat (lp_Offset p + lp_Limit p) = ?o + ?l" using ok by (simp add: nat_add_distrib)
    have "run_state (browse s r n ?g) w = (map event_row (drop (nat (lp_Offset ?p)) rows), w)"
    proof (rule Suc.IH)
      show "list_params s ?g = Inr ?p" by (rule list_params_next [OF Suc.prems(1) small])
      show "rows = order_by_desc ev_StartTime (filter (event_matches ?p) (events (w_db w)))"
        using Suc.prems(2) by (simp add: event_matches_offset)
      show "length rows < nat (lp_Offset ?p) + n * nat (lp_Limit ?p)"
        using Suc.prems(3) by (simp add: sum)
    qed
    moreover have "map event_row (drop ?o rows) = map event_row ?pg @ map event_row (drop (?o + ?l) rows)"
      by (metis append_take_drop_id drop_drop add.commute map_append)
    ultimately show ?thesis
      using core True by (simp add: handleUIListEvents_def user_page_def sum)
  qed
qed

text \<open>C22 (termination): who starts at the first page of any search and follows the links for the next page
  while there is one, sees every matching event exactly once, newest first, whatever the page size and
  the characters in the filters; and arrives after at most one page more than the full ones.\<close>

theorem next_links_lead_through:
  assumes "list_params s get = Inr p" and "lp_Offset p = 0" and "w_faults w = []"
    and "int (length (events (w_db w))) < 2 ^ 62"
    and "length (filter (event_matches p) (events (w_db w))) < n * nat (lp_Limit p)"
  shows "run_state (browse s r n get) w
    = (map event_row (order_by_desc ev_StartTime (filter (event_matches p) (events (w_db w)))), w)"
proof -
  have "length (filter (event_matches p) (events (w_db w))) \<le> length (events (w_db w))" by simp
  then have "int (length (filter (event_matches p) (events (w_db w)))) < 2 ^ 62" using assms(4) by linarith
  then show ?thesis
    using browse_from [OF assms(1,3) refl, of n r] assms(2,5) by (simp add: order_by_desc_def)
qed

end
