(* ===== verification/Samples_Front.thy ===== *)
theory Samples_Front
  imports Samples Admin_Facts Ui_Facts
begin

text \<open>
  The theorems on the SMTP server, the administration endpoints and the web interface, applied to
  concrete commands and requests. The cipher of the sample leaves a text as it is and its MAC is
  sixteen zero bytes.
\<close>

definition sample_crypto :: smtp_crypto where
  "sample_crypto = \<lparr>sc_seal = (\<lambda>_ _ p. p), sc_open = (\<lambda>_ _ c. Some c), sc_hmac_md5 = (\<lambda>_ _. replicate 16 0)\<rparr>"

definition sample_key :: "8 word list" where
  "sample_key = replicate 32 0"

definition sample_smtp :: SMTPServer where
  "sample_smtp = \<lparr>sv_Domain = ''relay'', sv_auth = sample_auth, sv_roles = [(''publisher'', [''writers''])],
     sv_cramStore = Some sample_key, sv_crypto = sample_crypto\<rparr>"

definition sample_lib :: mail_lib where
  "sample_lib = \<lparr>ml_addresses = (\<lambda>_. Inr []), ml_media = (\<lambda>_. ([], [], False))\<rparr>"

definition sample_mail :: mail_message where
  "sample_mail = \<lparr>mm_header = (\<lambda>h. if h = ''Subject'' then ''disk'' else []), mm_body = Inr ''disk full'',
     mm_parts = (\<lambda>_. [])\<rparr>"

definition alice_session :: session where
  "alice_session = (NewSession [])\<lparr>se_username := ''alice'', se_authed := True\<rparr>"

lemma sample_crypto_ok: "aead_ok sample_crypto" "mac_ok sample_crypto"
  by (simp_all add: aead_ok_def mac_ok_def sample_crypto_def)

theorem secret_roundtrip_witness:
  "\<exists>n ct. DecryptSecret sample_crypto sample_key n ct = Inr ''s3cret''"
  using secret_roundtrip [OF sample_crypto_ok(1) prod.collapse [symmetric], of sample_key "''s3cret''" world0]
  by (auto simp: key_ok_def sample_key_def)

theorem recipient_roundtrip_witness:
  "parseRecipient ''ops+sms@Relay'' ''relay'' = Inr \<lparr>rc_group = ''ops'', rc_channels = [''sms'']\<rparr>"
proof -
  have "TrimSpace ''ops'' = ''ops''" "EqualFold ''Relay'' ''relay''" "valid_channels [''sms'']" "\<not> is_space CHR ''y''"
    by code_simp+
  then have "parseRecipient (recipient_address ''ops'' [''sms''] ''Relay'') ''relay''
      = Inr \<lparr>rc_group = ''ops'', rc_channels = [''sms'']\<rparr>"
    by (intro recipient_roundtrip) simp_all
  then show ?thesis by (simp add: recipient_address_def)
qed

section \<open>The session\<close>

lemma alice_logs_in:
  "run_state (smtp_authenticate sample_smtp ''alice'' ''secret'' (NewSession [])) w = ((None, alice_session), w)"
  by (simp add: smtp_authenticate_def sample_smtp_def sample_auth_def finishAuth_def smtp_resolveRoles_def
      smtp_hasPermission_def smtp_rolePermissions_def alice_session_def)


definition ready_session :: session where
  "ready_session = alice_session\<lparr>se_recipients := [\<lparr>rc_group = ''ops'', rc_channels = [''sms'']\<rparr>]\<rparr>"

lemma next_uuid_not_E1 [simp]: "next_uuid w \<noteq> ''E1''"
proof
  assume "next_uuid w = ''E1''"
  then have "length (next_uuid w) = 2" by simp
  then show False by (simp add: next_uuid_def length_format_uuid)
qed

lemma sample_text: "TrimSpace ''disk'' = ''disk''" "TrimSpace ''disk full'' = ''disk full''"
  by code_simp+

lemma sample_check:
  "check_data sample_smtp sample_lib ready_session (Inr sample_mail)
     = Inr (''disk'', ''disk full'', [\<lparr>rc_group = ''ops'', rc_channels = [''sms'']\<rparr>])"
  by (simp add: check_data_def ready_session_def alice_session_def sample_mail_def fallback_channels_def
      extractPlainText_def sample_text Let_def)

definition after_data :: world where
  "after_data = snd (run_state (Data sample_smtp sample_lib (Inr sample_mail) ready_session) sample_world)"



theorem quote_in_subject_breaks_email_witness:
  "\<exists>reason. fst (run_state (prepare_email sample_dispatcher (sample_notification\<lparr>nt_EmailTemplate := Some ''default'',
       nt_EmailVars := Some (email_vars [CHR 0x22, CHR ''x''])\<rparr>)) sample_world) = Inl reason"
proof -
  let ?n = "sample_notification\<lparr>nt_EmailTemplate := Some ''default'',
       nt_EmailVars := Some (email_vars [CHR 0x22, CHR ''x''])\<rparr>"
  have "needs_no_escape []" "\<not> json_ws CHR ''x''" by (simp_all add: needs_no_escape_def json_ws_def)
  from quote_in_subject_breaks_email [OF this _ _ _ _ prod.collapse [symmetric], of ?n "[]"] show ?thesis
    by auto
qed

section \<open>Administration\<close>

theorem templates_stay_valid_witness:
  "list_all (template_ok sample_engine) (email_templates (w_db (snd (run_state (createTemplateCore sample_engine sample_request
     \<lparr>tq_TemplateName = ''t'', tq_Subject = ''s'', tq_Body = ''b'', tq_RequiredVars = None, tq_Description = []\<rparr>)
     sample_world))))"
  unfolding list_all_iff
  by (rule templates_stay_valid [OF _ disjI1 [OF prod.collapse [symmetric]]])
    (simp add: sample_world_def sample_db_def empty_db_def)

theorem audit_log_page_witness:
  "\<exists>w'. run_state (handleListAuditLog (\<lambda>_. [])) sample_world = (Reply 200 ([], 50, 0), w')
     \<and> (50 :: int) \<le> 200"
proof -
  have "wp (handleListAuditLog (\<lambda>_. [])) (\<lambda>x _. x = Reply 200 ([], 50, 0)) sample_world"
    by (simp add: handleListAuditLog_def audit_limit_def audit_offset_def ListAuditLogFiltered_def wp_simps
        limit_offset_def order_by_desc_def sample_clock)
  from run_result [OF this] audit_log_page [OF run_result [OF this]] show ?thesis by blast
qed

definition credential_world :: world where
  "credential_world = snd (run_state (handleCreateCRAMCredential sample_crypto (Some sample_key) sample_request
     (Some (''mailer'', [''publisher'']))) sample_world)"


section \<open>The web interface\<close>

theorem page_needs_live_session_witness:
  "fst (fst (run_state (authenticateSession ''/relay'' (Some ''guess'') Map.empty
     (requireUiPermissions [PermRead] (\<lambda>_. ret (UiStatus 200)))) sample_world)) = (UiRedirect ''/relay/ui/login'' :: unit ui_reply)"
proof -
  obtain r :: "unit ui_reply" and st w' where run: "run_state (authenticateSession ''/relay'' (Some ''guess'') Map.empty
     (requireUiPermissions [PermRead] (\<lambda>_. ret (UiStatus 200)))) sample_world = ((r, st), w')"
    by (metis prod.collapse)
  from page_needs_live_session [OF ui_reachable.start run] have "r = UiRedirect ''/relay/ui/login''"
    by simp
  with run show ?thesis by simp
qed

lemma sample_search_params:
  "list_params sample_server (\<lambda>_. []) = Inr \<lparr>lp_StartFrom = [], lp_StartTo = [], lp_EventID = [], lp_EventName = [],
     lp_Description = [], lp_Severity = [], lp_CreatedBy = [], lp_Status = [], lp_Offset = 0, lp_Limit = 50\<rparr>"
  by (simp add: list_params_def parse_limit_def parse_offset_def parse_bound_def canonical_severity_def)

theorem next_links_lead_through_witness:
  "run_state (browse sample_server sample_request 1 (\<lambda>_. [])) sample_world = ([event_row sample_event], sample_world)"
  using next_links_lead_through [OF sample_search_params _ sample_clock(1), of 1 sample_request]
  by (simp add: sample_clock event_matches_def opt_filter_def order_by_desc_def)

end
