(* ===== verification/Email.thy ===== *)
theory Email
  imports Go_Strings Prelude
begin

text \<open>
  The email provider of \<open>notify/email.go\<close> over the client of \<open>net/smtp\<close>. A connection is the list of
  calls that went to the network, in order; the server (and the network before it) is the
  parameter that answers each call, given the calls before it, with an error or not. What
  \<open>net/smtp\<close> decides on the client's side is modelled: one greeting per connection and one more
  after STARTTLS, no line breaks in addresses, and no password without TLS except to the local
  host. The lemmas say when a message counts as sent, what the server has received then, and
  where the password goes.
\<close>

section \<open>The client of net/smtp\<close>

datatype mail_call =
    DialTLS string int
  | DialPlain string int
  | NewClient string
  | Hello
  | StartTLS string
  | AuthPlain string
  | MailFrom string
  | RcptTo string
  | DataCmd
  | WriteData string
  | EndData
  | QuitCmd
  | CloseConn

type_synonym mail_server = "mail_call list \<Rightarrow> mail_call \<Rightarrow> string option"

record mail_link =
  lk_calls :: "mail_call list"
  lk_tls :: bool
  lk_hello :: "string option option"

definition no_link :: mail_link where
  "no_link = \<lparr>lk_calls = [], lk_tls = False, lk_hello = None\<rparr>"

definition call :: "mail_server \<Rightarrow> mail_call \<Rightarrow> (mail_link, string option) state" where
  "call srv c = State (\<lambda>l. (srv (lk_calls l) c, l\<lparr>lk_calls := lk_calls l @ [c]\<rparr>))"

definition client_hello :: "mail_server \<Rightarrow> (mail_link, string option) state" where
  "client_hello srv = do {
     done_before \<leftarrow> gets lk_hello;
     (case done_before of Some e \<Rightarrow> ret e
      | None \<Rightarrow> do {
          e \<leftarrow> call srv Hello;
          modify (\<lambda>l. l\<lparr>lk_hello := Some e\<rparr>);
          ret e }) }"

definition client_StartTLS :: "mail_server \<Rightarrow> string \<Rightarrow> (mail_link, string option) state" where
  "client_StartTLS srv host = do {
     h \<leftarrow> client_hello srv;
     (case h of Some e \<Rightarrow> ret h
      | None \<Rightarrow> do {
          e \<leftarrow> call srv (StartTLS host);
          (case e of Some x \<Rightarrow> ret e
           | None \<Rightarrow> do {
               modify (\<lambda>l. l\<lparr>lk_tls := True\<rparr>);
               call srv Hello }) }) }"

definition isLocalhost :: "string \<Rightarrow> bool" where
  "isLocalhost name \<longleftrightarrow> name = ''localhost'' \<or> name = ''127.0.0.1'' \<or> name = ''::1''"

definition PlainAuth_Start :: "bool \<Rightarrow> string \<Rightarrow> string \<Rightarrow> string \<Rightarrow> string \<Rightarrow> string + string" where
  "PlainAuth_Start tls serverName username password host =
     (if \<not> tls \<and> \<not> isLocalhost serverName then Inl ''unencrypted connection''
      else if serverName \<noteq> host then Inl ''wrong host name''
      else Inr (CHR 0x00 # username @ CHR 0x00 # password))"

definition client_Auth :: "mail_server \<Rightarrow> string \<Rightarrow> string \<Rightarrow> string \<Rightarrow> string
    \<Rightarrow> (mail_link, string option) state" where
  "client_Auth srv serverName username password host = do {
     h \<leftarrow> client_hello srv;
     (case h of Some e \<Rightarrow> ret h
      | None \<Rightarrow> do {
          tls \<leftarrow> gets lk_tls;
          (case PlainAuth_Start tls serverName username password host of
             Inl e \<Rightarrow> do { _ \<leftarrow> call srv QuitCmd; ret (Some e) }
           | Inr resp \<Rightarrow> call srv (AuthPlain resp)) }) }"

definition validLine :: "string \<Rightarrow> bool" where
  "validLine line \<longleftrightarrow> CHR 0x0A \<notin> set line \<and> CHR 0x0D \<notin> set line"

definition line_error :: string where
  "line_error = ''smtp: A line must not contain CR or LF''"

definition client_Mail :: "mail_server \<Rightarrow> string \<Rightarrow> (mail_link, string option) state" where
  "client_Mail srv sender =
     (if \<not> validLine sender then ret (Some line_error)
      else do {
        h \<leftarrow> client_hello srv;
        (case h of Some e \<Rightarrow> ret h | None \<Rightarrow> call srv (MailFrom sender)) })"

definition client_Rcpt :: "mail_server \<Rightarrow> string \<Rightarrow> (mail_link, string option) state" where
  "client_Rcpt srv recipient =
     (if \<not> validLine recipient then ret (Some line_error) else call srv (RcptTo recipient))"

section \<open>Building and sending a message\<close>

record SMTPConfig =
  ec_Host :: string
  ec_Port :: int
  ec_Username :: string
  ec_Password :: string
  ec_FromAddress :: string
  ec_TLSMode :: string

record SMTPEmail =
  em_cfg :: SMTPConfig
  em_timeout :: int

definition NewSMTPEmail :: "SMTPConfig \<Rightarrow> int \<Rightarrow> SMTPEmail" where
  "NewSMTPEmail cfg timeout = \<lparr>em_cfg = cfg, em_timeout = timeout\<rparr>"

definition crlf :: string where
  "crlf = [CHR 0x0D, CHR 0x0A]"

definition buildMessage :: "string \<Rightarrow> string \<Rightarrow> string \<Rightarrow> string \<Rightarrow> string" where
  "buildMessage sender recipient subject body =
     ''From: '' @ sender @ crlf @ ''To: '' @ recipient @ crlf @ ''Subject: '' @ subject @ crlf
     @ ''MIME-Version: 1.0'' @ crlf @ ''Content-Type: text/html; charset=UTF-8'' @ crlf @ crlf @ body"

text \<open>An error ends the function with the prefix of the step, after the clean-up of the step.\<close>

definition fail_step :: "string \<Rightarrow> string \<Rightarrow> (mail_link, unit) state \<Rightarrow> (mail_link, string option) state" where
  "fail_step what e cleanup = do { cleanup; ret (Some (what @ '': '' @ e)) }"

definition discard :: "('s, 'a) state \<Rightarrow> ('s, unit) state" where
  "discard m = State_Monad.bind m (\<lambda>_. ret ())"

definition next_step :: "string \<Rightarrow> (mail_link, unit) state \<Rightarrow> (mail_link, string option) state
    \<Rightarrow> (mail_link, string option) state \<Rightarrow> (mail_link, string option) state" where
  "next_step what cleanup step rest = do {
     e \<leftarrow> step;
     (case e of Some x \<Rightarrow> fail_step what x cleanup | None \<Rightarrow> rest) }"

text \<open>The timeout of the dial: the provider's, or what is left of the context's deadline.\<close>

definition dial_timeout :: "int \<Rightarrow> int option \<Rightarrow> int" where
  "dial_timeout timeout remaining = (case remaining of None \<Rightarrow> timeout
     | Some r \<Rightarrow> if r < timeout then r else timeout)"

text \<open>The part of \<open>Send\<close> from \<open>client.Mail\<close> on; \<open>defer client.Close()\<close> runs after it.\<close>

definition send_message :: "mail_server \<Rightarrow> string \<Rightarrow> string \<Rightarrow> string \<Rightarrow> (mail_link, string option) state" where
  "send_message srv sender recipient msg =
     next_step ''smtp MAIL FROM'' (ret ()) (client_Mail srv sender)
    (next_step ''smtp RCPT TO'' (ret ()) (client_Rcpt srv recipient)
    (next_step ''smtp DATA'' (ret ()) (call srv DataCmd)
    (next_step ''smtp write'' (discard (call srv EndData)) (call srv (WriteData msg))
    (next_step ''smtp close data'' (ret ()) (call srv EndData)
    (call srv QuitCmd)))))"

definition authenticate_then :: "mail_server \<Rightarrow> SMTPConfig \<Rightarrow> (mail_link, string option) state
    \<Rightarrow> (mail_link, string option) state" where
  "authenticate_then srv cfg rest =
     (if ec_Username cfg \<noteq> [] then
        next_step ''smtp auth'' (ret ())
          (client_Auth srv (ec_Host cfg) (ec_Username cfg) (ec_Password cfg) (ec_Host cfg)) rest
      else rest)"

definition with_close :: "mail_server \<Rightarrow> (mail_link, string option) state \<Rightarrow> (mail_link, string option) state" where
  "with_close srv m = do { r \<leftarrow> m; _ \<leftarrow> call srv CloseConn; ret r }"

definition SMTPEmail_Send :: "mail_server \<Rightarrow> SMTPEmail \<Rightarrow> int option \<Rightarrow> string \<Rightarrow> string \<Rightarrow> string
    \<Rightarrow> (mail_link, string option) state" where
  "SMTPEmail_Send srv e remaining recipient subject body =
     (let cfg = em_cfg e;
          addr = ec_Host cfg @ '':'' @ show_int (ec_Port cfg);
          timeout = dial_timeout (em_timeout e) remaining;
          msg = buildMessage (ec_FromAddress cfg) recipient subject body;
          rest = with_close srv (authenticate_then srv cfg
                   (send_message srv (ec_FromAddress cfg) recipient msg))
      in if ec_TLSMode cfg = ''tls'' then
           next_step ''smtp tls dial'' (ret ()) (call srv (DialTLS addr timeout))
          (do { modify (\<lambda>l. l\<lparr>lk_tls := True\<rparr>);
                next_step ''smtp new client'' (discard (call srv CloseConn)) (call srv (NewClient (ec_Host cfg)))
                rest })
         else
           next_step ''smtp dial'' (ret ()) (call srv (DialPlain addr timeout))
          (next_step ''smtp new client'' (discard (call srv CloseConn)) (call srv (NewClient (ec_Host cfg)))
          (if ec_TLSMode cfg \<noteq> ''none'' then
             next_step ''smtp starttls'' (discard (call srv CloseConn)) (client_StartTLS srv (ec_Host cfg)) rest
           else rest)))"

section \<open>What the functions of the client do\<close>

lemma wp_call [wp_simps]: "wp (call srv c) Q = (\<lambda>l. Q (srv (lk_calls l) c) (l\<lparr>lk_calls := lk_calls l @ [c]\<rparr>))"
  by (simp add: wp_def call_def fun_eq_iff)

lemma wp_next_step [wp_simps]:
  "wp (next_step what cleanup step rest) Q l = wp step (\<lambda>e l'. case e of
     Some x \<Rightarrow> wp cleanup (\<lambda>_. Q (Some (what @ '': '' @ x))) l' | None \<Rightarrow> wp rest Q l') l"
  by (auto simp: next_step_def fail_step_def wp_bind wp_ret intro!: arg_cong [where f = "\<lambda>P. wp step P l"] split: option.split)

lemma wp_discard [wp_simps]: "wp (discard m) Q l = wp m (\<lambda>_. Q ()) l"
  by (simp add: discard_def wp_simps)

lemma wp_with_close [wp_simps]:
  "wp (with_close srv m) Q l = wp m (\<lambda>r l'. Q r (l'\<lparr>lk_calls := lk_calls l' @ [CloseConn]\<rparr>)) l"
  by (simp add: with_close_def wp_simps)

lemma wp_client_hello [wp_simps]:
  "wp (client_hello srv) Q l = (case lk_hello l of Some e \<Rightarrow> Q e l
     | None \<Rightarrow> Q (srv (lk_calls l) Hello) (l\<lparr>lk_calls := lk_calls l @ [Hello], lk_hello := Some (srv (lk_calls l) Hello)\<rparr>))"
  by (simp add: client_hello_def wp_simps split: option.split)

lemmas client_defs = client_StartTLS_def client_Auth_def client_Mail_def client_Rcpt_def
  authenticate_then_def send_message_def

section \<open>When a message counts as sent\<close>

text \<open>The calls of a complete conversation, up to the end of the message.\<close>

definition greeting_calls :: "SMTPEmail \<Rightarrow> int option \<Rightarrow> mail_call list" where
  "greeting_calls e remaining = (let cfg = em_cfg e; addr = ec_Host cfg @ '':'' @ show_int (ec_Port cfg);
       timeout = dial_timeout (em_timeout e) remaining
     in (if ec_TLSMode cfg = ''tls'' then DialTLS addr timeout else DialPlain addr timeout)
        # NewClient (ec_Host cfg)
        # (if ec_TLSMode cfg \<in> {''tls'', ''none''} then [] else [Hello, StartTLS (ec_Host cfg)]) @ [Hello])"

definition login_calls :: "SMTPConfig \<Rightarrow> mail_call list" where
  "login_calls cfg = (if ec_Username cfg = [] then []
     else [AuthPlain (CHR 0x00 # ec_Username cfg @ CHR 0x00 # ec_Password cfg)])"

definition conversation :: "SMTPEmail \<Rightarrow> int option \<Rightarrow> string \<Rightarrow> string \<Rightarrow> string \<Rightarrow> mail_call list" where
  "conversation e remaining recipient subject body = greeting_calls e remaining @ login_calls (em_cfg e)
     @ [MailFrom (ec_FromAddress (em_cfg e)), RcptTo recipient, DataCmd,
        WriteData (buildMessage (ec_FromAddress (em_cfg e)) recipient subject body), EndData]"

fun answered :: "mail_server \<Rightarrow> mail_call list \<Rightarrow> mail_call list \<Rightarrow> bool" where
  "answered srv before [] = True"
| "answered srv before (c # cs) \<longleftrightarrow> srv before c = None \<and> answered srv (before @ [c]) cs"

definition password_allowed :: "SMTPConfig \<Rightarrow> bool" where
  "password_allowed cfg \<longleftrightarrow> ec_Username cfg = [] \<or> ec_TLSMode cfg \<noteq> ''none'' \<or> isLocalhost (ec_Host cfg)"

text \<open>A program that makes exactly the calls of a script and of a goodbye, as long as they are answered
  and a condition holds, and reports an error otherwise.\<close>

definition follows :: "mail_call list \<Rightarrow> mail_server \<Rightarrow> bool \<Rightarrow> mail_call list \<Rightarrow> (mail_link, string option) state \<Rightarrow> mail_link \<Rightarrow> bool" where
  "follows bye srv ok cs m l = wp m (\<lambda>r l'.
     (ok \<and> answered srv (lk_calls l) cs \<longrightarrow>
        r = srv (lk_calls l @ cs) QuitCmd \<and> lk_calls l' = lk_calls l @ cs @ bye)
     \<and> (\<not> (ok \<and> answered srv (lk_calls l) cs) \<longrightarrow> r \<noteq> None)) l"

lemma wp_True [wp_simps]: "wp m (\<lambda>_ _. True) l"
  by (simp add: wp_def)

lemma follows_call:
  assumes "follows bye srv ok cs rest (l\<lparr>lk_calls := lk_calls l @ [c]\<rparr>)"
  shows "follows bye srv ok (c # cs) (next_step what cleanup (call srv c) rest) l"
  using assms by (cases "srv (lk_calls l) c") (simp_all add: follows_def wp_simps)

lemma follows_hello:
  assumes "follows bye srv ok (c # cs) (next_step what cleanup (call srv c) rest)
    (l\<lparr>lk_calls := lk_calls l @ [Hello], lk_hello := Some None\<rparr>)"
  shows "lk_hello l = None \<Longrightarrow> follows bye srv ok (Hello # c # cs)
    (next_step what cleanup (do { h \<leftarrow> client_hello srv;
       (case h of Some e \<Rightarrow> ret h | None \<Rightarrow> call srv c) }) rest) l"
  using assms by (cases "srv (lk_calls l) Hello") (simp_all add: follows_def wp_simps)

lemma follows_greeted:
  "lk_hello l = Some None \<Longrightarrow> follows bye srv ok cs
    (next_step what cleanup (do { h \<leftarrow> client_hello srv;
       (case h of Some e \<Rightarrow> ret h | None \<Rightarrow> call srv c) }) rest) l
   = follows bye srv ok cs (next_step what cleanup (call srv c) rest) l"
  by (simp add: follows_def wp_simps)

lemma follows_quit: "follows [QuitCmd] srv True [] (call srv QuitCmd) l"
  by (simp add: follows_def wp_simps)

lemma follows_rest:
  "follows [QuitCmd] srv (validLine recipient) [RcptTo recipient, DataCmd, WriteData msg, EndData]
    (next_step ''smtp RCPT TO'' (ret ()) (client_Rcpt srv recipient)
    (next_step ''smtp DATA'' (ret ()) (call srv DataCmd)
    (next_step ''smtp write'' (discard (call srv EndData)) (call srv (WriteData msg))
    (next_step ''smtp close data'' (ret ()) (call srv EndData)
    (call srv QuitCmd))))) l"
  by (cases "validLine recipient")
    (simp_all add: client_Rcpt_def follows_call follows_quit, simp add: follows_def wp_simps)

lemma follows_send_message:
  "follows [QuitCmd] srv (validLine sender \<and> validLine recipient)
    ((if lk_hello l = None then [Hello] else []) @ [MailFrom sender, RcptTo recipient, DataCmd, WriteData msg, EndData])
    (send_message srv sender recipient msg) l" if "lk_hello l \<in> {None, Some None}"
proof (cases "validLine sender")
  case False
  then show ?thesis by (simp add: send_message_def client_Mail_def follows_def wp_simps)
next
  case True
  then show ?thesis using that
    by (auto simp: send_message_def client_Mail_def follows_hello follows_greeted follows_call follows_rest)
qed

lemma follows_authenticate:
  assumes "lk_hello l = None \<or> lk_hello l = Some None"
  shows "follows [QuitCmd] srv ((ec_Username cfg = [] \<or> lk_tls l \<or> isLocalhost (ec_Host cfg)) \<and> validLine sender \<and> validLine recipient)
    ((if lk_hello l = None then [Hello] else []) @ login_calls cfg
      @ [MailFrom sender, RcptTo recipient, DataCmd, WriteData msg, EndData])
    (authenticate_then srv cfg (send_message srv sender recipient msg)) l"
proof (cases "ec_Username cfg = []")
  case True
  with follows_send_message [of l srv sender recipient msg] assms show ?thesis
    by (auto simp: authenticate_then_def login_calls_def)
next
  case False
  define l1 where "l1 = (if lk_hello l = None
    then l\<lparr>lk_calls := lk_calls l @ [Hello], lk_hello := Some (srv (lk_calls l) Hello)\<rparr> else l)"
  let ?auth = "CHR 0x00 # ec_Username cfg @ CHR 0x00 # ec_Password cfg"
  let ?l2 = "l1\<lparr>lk_calls := lk_calls l1 @ [AuthPlain ?auth]\<rparr>"
  show ?thesis
  proof (cases "lk_hello l1 = Some None \<and> (lk_tls l \<or> isLocalhost (ec_Host cfg)) \<and> srv (lk_calls l1) (AuthPlain ?auth) = None")
    case True
    then have "follows [QuitCmd] srv (validLine sender \<and> validLine recipient)
        [MailFrom sender, RcptTo recipient, DataCmd, WriteData msg, EndData]
        (send_message srv sender recipient msg) ?l2"
      using follows_send_message [of ?l2 srv sender recipient msg] by simp
    with True False assms show ?thesis
      by (auto simp: follows_def authenticate_then_def login_calls_def client_Auth_def PlainAuth_Start_def l1_def wp_simps
          split: if_splits)
  next
    case no: False
    with False assms show ?thesis
      by (auto simp: follows_def authenticate_then_def login_calls_def client_Auth_def PlainAuth_Start_def l1_def wp_simps
          split: if_splits option.splits)
  qed
qed

lemma follows_close:
  "follows [QuitCmd] srv ok cs m l \<Longrightarrow> follows [QuitCmd, CloseConn] srv ok cs (with_close srv m) l"
  unfolding follows_def wp_with_close by (erule wp_mono) auto

lemma follows_cong: "follows bye srv ok cs m l \<Longrightarrow> ok = ok' \<Longrightarrow> cs = cs' \<Longrightarrow> follows bye srv ok' cs' m l"
  by simp

lemma follows_modify:
  "lk_calls (f l) = lk_calls l \<Longrightarrow> follows bye srv ok cs m (f l) \<Longrightarrow>
   follows bye srv ok cs (do { modify f; m }) l"
  by (simp add: follows_def wp_simps)

lemma follows_StartTLS:
  assumes "lk_hello l = None" and "follows bye srv ok cs rest
    (l\<lparr>lk_hello := Some None, lk_tls := True, lk_calls := lk_calls l @ [Hello, StartTLS host, Hello]\<rparr>)"
  shows "follows bye srv ok ([Hello, StartTLS host, Hello] @ cs)
    (next_step what cleanup (client_StartTLS srv host) rest) l"
  using assms
  by (cases "srv (lk_calls l) Hello"; cases "srv (lk_calls l @ [Hello]) (StartTLS host)";
      cases "srv (lk_calls l @ [Hello, StartTLS host]) Hello")
    (simp_all add: follows_def wp_simps client_StartTLS_def)

text \<open>C35 (functional): when an email counts as sent: the addresses have no line breaks, a password is not
  due on a plain connection to another host, and the server has answered every step of one fixed
  conversation, in which the message is the one that was built. The result is then that of the
  goodbye: when only this fails, the server has the message and an error is reported, so that the
  dispatcher sends it again.\<close>

theorem email_send_outcome:
  assumes "run_state (SMTPEmail_Send srv e remaining recipient subject body) no_link = (r, l)"
  shows "if validLine (ec_FromAddress (em_cfg e)) \<and> validLine recipient \<and> password_allowed (em_cfg e)
       \<and> answered srv [] (conversation e remaining recipient subject body)
     then r = srv (conversation e remaining recipient subject body) QuitCmd
       \<and> lk_calls l = conversation e remaining recipient subject body @ [QuitCmd, CloseConn]
     else r \<noteq> None"
proof -
  let ?cfg = "em_cfg e"
  let ?ok = "validLine (ec_FromAddress ?cfg) \<and> validLine recipient \<and> password_allowed ?cfg"
  have "follows [QuitCmd, CloseConn] srv ?ok (conversation e remaining recipient subject body)
      (SMTPEmail_Send srv e remaining recipient subject body) no_link"
  proof -
    note rest = follows_close [OF follows_authenticate, THEN follows_cong]
    consider "ec_TLSMode ?cfg = ''tls''" | "ec_TLSMode ?cfg = ''none''" | "ec_TLSMode ?cfg \<notin> {''tls'', ''none''}" by blast
    then show ?thesis
    proof cases
      case 1
      then show ?thesis
        by (simp add: SMTPEmail_Send_def Let_def conversation_def greeting_calls_def no_link_def)
          (intro follows_call follows_modify rest, auto simp: password_allowed_def)
    next
      case 2
      then show ?thesis
        by (simp add: SMTPEmail_Send_def Let_def conversation_def greeting_calls_def no_link_def)
          (intro follows_call rest, auto simp: password_allowed_def)
    next
      case 3
      then show ?thesis
        by (simp add: SMTPEmail_Send_def Let_def conversation_def greeting_calls_def no_link_def)
          (intro follows_call follows_StartTLS [simplified] rest, auto simp: password_allowed_def)
    qed
  qed
  from wp_run [OF this [unfolded follows_def] assms] show ?thesis by (auto simp: no_link_def)
qed

section \<open>Where the password goes\<close>

text \<open>Whether a password goes out before the connection is encrypted.\<close>

fun clear_password :: "mail_server \<Rightarrow> mail_call list \<Rightarrow> mail_call list \<Rightarrow> bool" where
  "clear_password srv before [] = False"
| "clear_password srv before (c # cs) = (case c of
      AuthPlain resp \<Rightarrow> True
    | DialTLS addr t \<Rightarrow> srv before c \<noteq> None \<and> clear_password srv (before @ [c]) cs
    | StartTLS host \<Rightarrow> srv before c \<noteq> None \<and> clear_password srv (before @ [c]) cs
    | _ \<Rightarrow> clear_password srv (before @ [c]) cs)"

lemma clear_password_append:
  "\<not> clear_password srv before cs \<Longrightarrow> (\<And>resp. c \<noteq> AuthPlain resp) \<Longrightarrow> \<not> clear_password srv before (cs @ [c])"
  by (induction srv before cs rule: clear_password.induct) (auto split: mail_call.splits)

lemma clear_password_secured:
  assumes "\<not> clear_password srv before cs" and "(\<exists>host. c = StartTLS host) \<or> (\<exists>addr t. c = DialTLS addr t)"
    and "srv (before @ cs) c = None"
  shows "\<not> clear_password srv before (cs @ c # later)"
  using assms by (induction srv before cs rule: clear_password.induct) (auto split: mail_call.splits)

text \<open>The invariant of a connection: no password has gone out in the clear, and none can once the
  connection is marked as encrypted.\<close>

definition guarded :: "mail_server \<Rightarrow> mail_link \<Rightarrow> bool" where
  "guarded srv l \<longleftrightarrow> \<not> clear_password srv [] (lk_calls l)
     \<and> (lk_tls l \<longrightarrow> (\<forall>later. \<not> clear_password srv [] (lk_calls l @ later)))"

lemma guarded_call: "(\<And>resp. c \<noteq> AuthPlain resp) \<Longrightarrow> preserves (guarded srv) (call srv c)"
  by (auto simp: preserves_def call_def guarded_def clear_password_append)

lemma guarded_hello: "preserves (guarded srv) (client_hello srv)"
  unfolding client_hello_def
  by (intro keeps guarded_call preserves_modify) (auto simp: guarded_def)

lemma guarded_next_step:
  "preserves I step \<Longrightarrow> preserves I cleanup \<Longrightarrow> preserves I rest \<Longrightarrow> preserves I (next_step what cleanup step rest)"
  unfolding next_step_def fail_step_def by (intro keeps)

lemma guarded_StartTLS: "preserves (guarded srv) (client_StartTLS srv host)"
proof (rule preservesI)
  fix l assume l: "guarded srv l"
  have h: "wp (client_hello srv) (\<lambda>_. guarded srv) l" by (rule preserves_wp [OF guarded_hello l])
  have "wp (case h of Some e \<Rightarrow> ret h | None \<Rightarrow> do {
          e \<leftarrow> call srv (StartTLS host);
          (case e of Some x \<Rightarrow> ret e | None \<Rightarrow> do { modify (\<lambda>l. l\<lparr>lk_tls := True\<rparr>); call srv Hello }) })
        (\<lambda>_. guarded srv) l'" if "guarded srv l'" for h l'
  proof (cases "srv (lk_calls l') (StartTLS host)")
    case None
    with that have "\<not> clear_password srv [] (lk_calls l' @ StartTLS host # later)" for later
      by (intro clear_password_secured) (auto simp: guarded_def)
    with None that show ?thesis
      by (cases h) (auto simp: wp_simps guarded_def)
  next
    case (Some x)
    with that show ?thesis by (cases h) (auto simp: wp_simps guarded_def clear_password_append)
  qed
  then show "wp (client_StartTLS srv host) (\<lambda>_. guarded srv) l"
    unfolding client_StartTLS_def wp_bind [of "client_hello srv"] by (rule wp_mono [OF h])
qed

lemma guarded_Auth:
  assumes "\<not> isLocalhost serverName"
  shows "preserves (guarded srv) (client_Auth srv serverName username password host)"
proof -
  have "preserves (guarded srv) (do { tls \<leftarrow> gets lk_tls;
      (case PlainAuth_Start tls serverName username password host of
         Inl e \<Rightarrow> do { _ \<leftarrow> call srv QuitCmd; ret (Some e) } | Inr resp \<Rightarrow> call srv (AuthPlain resp)) })"
    by (rule preservesI)
      (use assms in \<open>auto simp: wp_simps PlainAuth_Start_def guarded_def clear_password_append\<close>)
  then show ?thesis unfolding client_Auth_def
    by (intro preserves_bind [OF guarded_hello]) (simp split: option.split add: preserves_ret)
qed

lemma guarded_rest:
  assumes "\<not> isLocalhost (ec_Host cfg)"
  shows "preserves (guarded srv) (with_close srv (authenticate_then srv cfg (send_message srv sender recipient msg)))"
  unfolding with_close_def authenticate_then_def send_message_def client_Mail_def client_Rcpt_def discard_def
  by (intro keeps guarded_next_step guarded_Auth guarded_call guarded_hello) (simp_all add: assms)

text \<open>C36 (safety): whatever the server answers, the password is sent only over TLS, or to the local host.\<close>

theorem password_needs_tls:
  assumes "run_state (SMTPEmail_Send srv e remaining recipient subject body) no_link = (r, l)"
    and "\<not> isLocalhost (ec_Host (em_cfg e))"
  shows "\<not> clear_password srv [] (lk_calls l)"
proof -
  let ?cfg = "em_cfg e"
  let ?msg = "buildMessage (ec_FromAddress ?cfg) recipient subject body"
  let ?rest = "with_close srv (authenticate_then srv ?cfg (send_message srv (ec_FromAddress ?cfg) recipient ?msg))"
  note rest = guarded_rest [OF assms(2)]
  have "guarded srv no_link" by (simp add: guarded_def no_link_def)
  have "wp (SMTPEmail_Send srv e remaining recipient subject body) (\<lambda>_. guarded srv) no_link"
  proof (cases "ec_TLSMode ?cfg = ''tls''")
    case True
    let ?dial = "DialTLS (ec_Host ?cfg @ '':'' @ show_int (ec_Port ?cfg)) (dial_timeout (em_timeout e) remaining)"
    show ?thesis
    proof (cases "srv [] ?dial")
      case None
      then have "guarded srv (no_link\<lparr>lk_tls := True, lk_calls := [?dial]\<rparr>)"
        by (simp add: guarded_def no_link_def)
      then have "wp (next_step ''smtp new client'' (discard (call srv CloseConn)) (call srv (NewClient (ec_Host ?cfg))) ?rest)
          (\<lambda>_. guarded srv) (no_link\<lparr>lk_tls := True, lk_calls := [?dial]\<rparr>)"
        unfolding discard_def by (intro preserves_wp guarded_next_step keeps guarded_call rest) simp_all
      with None True show ?thesis
        by (simp add: SMTPEmail_Send_def Let_def wp_next_step [of "''smtp tls dial''"] wp_call wp_bind wp_modify no_link_def)
    next
      case (Some x)
      with True show ?thesis
        by (simp add: SMTPEmail_Send_def Let_def wp_next_step [of "''smtp tls dial''"] wp_call wp_ret no_link_def guarded_def)
    qed
  next
    case False
    show ?thesis unfolding SMTPEmail_Send_def Let_def discard_def if_not_P [OF False]
      by (intro preserves_wp guarded_next_step keeps guarded_call guarded_StartTLS rest \<open>guarded srv no_link\<close>) simp_all
  qed
  from wp_run [OF this assms(1)] show ?thesis by (simp add: guarded_def)
qed

section \<open>The headers\<close>

text \<open>The lines of the header section, as a reader of the message sees them: up to the first empty line.\<close>

fun crlf_lines :: "string \<Rightarrow> string list" where
  "crlf_lines [] = [[]]"
| "crlf_lines (c # cs) = (if c = CHR 0x0D \<and> cs \<noteq> [] \<and> hd cs = CHR 0x0A then [] # crlf_lines (tl cs)
     else (c # hd (crlf_lines cs)) # tl (crlf_lines cs))"

definition header_lines :: "string \<Rightarrow> string list" where
  "header_lines msg = takeWhile (\<lambda>line. line \<noteq> []) (crlf_lines msg)"

lemma crlf_lines_not_Nil [simp]: "crlf_lines s \<noteq> []"
  by (induction s rule: crlf_lines.induct) auto

lemma crlf_lines_line [simp]: "CHR 0x0D \<notin> set a \<Longrightarrow> crlf_lines (a @ crlf @ b) = a # crlf_lines b"
  by (induction a) (auto simp: crlf_def)

lemma header_lines_line:
  "CHR 0x0D \<notin> set a \<Longrightarrow> header_lines (a @ crlf @ b) = (if a = [] then [] else a # header_lines b)"
  by (simp add: header_lines_def)

lemma header_lines_named:
  "CHR 0x0D \<notin> set p \<Longrightarrow> CHR 0x0D \<notin> set a \<Longrightarrow> p \<noteq> [] \<Longrightarrow>
   header_lines (p @ a @ crlf @ b) = (p @ a) # header_lines b"
  using header_lines_line [of "p @ a" b] by simp

lemma header_lines_end: "header_lines (crlf @ b) = []"
  using header_lines_line [of "[]" b] by simp

text \<open>A message with a subject of one line has the five headers of the program and no others.\<close>

lemma header_lines_buildMessage:
  assumes "validLine sender" and "validLine recipient" and "validLine subject"
  shows "header_lines (buildMessage sender recipient subject body) =
    [''From: '' @ sender, ''To: '' @ recipient, ''Subject: '' @ subject, ''MIME-Version: 1.0'',
     ''Content-Type: text/html; charset=UTF-8'']"
  using assms unfolding buildMessage_def validLine_def
  by (simp add: header_lines_named header_lines_line header_lines_end del: append_Cons append.simps(2))

text \<open>The addresses are checked for line breaks by the client, the subject by nobody: a subject with a
  line break adds a header of its author's choice.\<close>

lemma subject_adds_headers:
  assumes "validLine sender" and "validLine recipient" and "validLine subject" and "validLine extra" and "extra \<noteq> []"
  shows "header_lines (buildMessage sender recipient (subject @ crlf @ extra) body) =
    [''From: '' @ sender, ''To: '' @ recipient, ''Subject: '' @ subject, extra, ''MIME-Version: 1.0'',
     ''Content-Type: text/html; charset=UTF-8'']"
  using assms unfolding buildMessage_def validLine_def
  by (simp add: header_lines_named header_lines_line header_lines_end del: append_Cons append.simps(2))

text \<open>The provider of the dispatcher: each call opens a connection of its own, the \<open>n\<close>th to the \<open>n\<close>th
  server; the dispatcher's context has no deadline.\<close>

definition email_provider :: "(nat \<Rightarrow> mail_server) \<Rightarrow> SMTPEmail
    \<Rightarrow> nat \<Rightarrow> string \<Rightarrow> string \<Rightarrow> string \<Rightarrow> string option" where
  "email_provider srvs e n recipient subject body =
     fst (run_state (SMTPEmail_Send (srvs n) e None recipient subject body) no_link)"

end
