(* ===== verification/Config.thy ===== *)
theory Config
  imports Email Go_Base64
begin

text \<open>
  \<open>config/config.go\<close>: the sections of the configuration, their defaults, the interpolation of
  environment variables into the file, the checks, and \<open>Load\<close>. Durations are in nanoseconds. The
  YAML parser and the file system are parameters. The lemmas say exactly which configurations
  pass the checks, and what interpolation does with set and unset variables.
\<close>

section \<open>The sections\<close>

record DatabaseConfig =
  dc_Path :: string
  dc_MaxReaderConns :: int

record HTTPConfig =
  hc_ListenAddr :: string
  hc_ReadTimeout :: int
  hc_WriteTimeout :: int
  hc_ShutdownTimeout :: int
  hc_SpecPath :: string
  hc_PathPrefix :: string

record LDAPConfig =
  lf_PrimaryURL :: string
  lf_BackupURL :: string
  lf_BindDN :: string
  lf_BindPassword :: string
  lf_UserBaseDN :: string
  lf_GroupBaseDN :: string
  lf_GroupFilter :: string
  lf_Roles :: "(string \<times> string list) list"
  lf_SyncInterval :: int
  lf_DialTimeout :: int
  lf_TLSSkipVerify :: bool
  lf_AuthCacheSize :: int
  lf_AuthCacheTTL :: int
  lf_PageSize :: "32 word"

record TwilioConfig =
  tf_AccountSID :: string
  tf_TokenSID :: string
  tf_AuthToken :: string
  tf_FromNumber :: string
  tf_PollInterval :: int
  tf_PollAttemptLimit :: int

record SMTPServerConfig =
  sf_ListenAddr :: string
  sf_Domain :: string
  sf_MaxMessageBytes :: int
  sf_TLSMode :: string
  sf_TLSCertFile :: string
  sf_TLSKeyFile :: string
  sf_CRAMMD5Enabled :: bool
  sf_CRAMMD5SecretKey :: string

record NotifyConfig =
  nf_WorkerCount :: int
  nf_RetryLimit :: int
  nf_RetryDelay :: int
  nf_DeliveryTimeout :: int
  nf_DeliveryConcurrency :: int

record EventSweepConfig =
  wf_Enabled :: bool
  wf_TTL :: int
  wf_Interval :: int

record LoggingConfig =
  gf_Level :: string
  gf_Format :: string
  gf_Dir :: string

record Config =
  cf_Database :: DatabaseConfig
  cf_HTTP :: HTTPConfig
  cf_LDAP :: LDAPConfig
  cf_Twilio :: TwilioConfig
  cf_SMTP :: SMTPConfig
  cf_SMTPServer :: SMTPServerConfig
  cf_Notify :: NotifyConfig
  cf_EventSweep :: EventSweepConfig
  cf_Logging :: LoggingConfig
  cf_Severities :: "string list"

abbreviation second_ns :: int where
  "second_ns \<equiv> 1000000000"

definition default_config :: Config where
  "default_config = \<lparr>
     cf_Database = \<lparr>dc_Path = [], dc_MaxReaderConns = 4\<rparr>,
     cf_HTTP = \<lparr>hc_ListenAddr = '':8080'', hc_ReadTimeout = 30 * second_ns, hc_WriteTimeout = 30 * second_ns,
       hc_ShutdownTimeout = 15 * second_ns, hc_SpecPath = ''openapi.yaml'', hc_PathPrefix = []\<rparr>,
     cf_LDAP = \<lparr>lf_PrimaryURL = [], lf_BackupURL = [], lf_BindDN = [], lf_BindPassword = [], lf_UserBaseDN = [],
       lf_GroupBaseDN = [], lf_GroupFilter = ''(objectClass=group)'', lf_Roles = [],
       lf_SyncInterval = 15 * 60 * second_ns, lf_DialTimeout = 10 * second_ns, lf_TLSSkipVerify = False,
       lf_AuthCacheSize = 256, lf_AuthCacheTTL = 30 * second_ns, lf_PageSize = 500\<rparr>,
     cf_Twilio = \<lparr>tf_AccountSID = [], tf_TokenSID = [], tf_AuthToken = [], tf_FromNumber = [],
       tf_PollInterval = 30 * second_ns, tf_PollAttemptLimit = 10\<rparr>,
     cf_SMTP = \<lparr>ec_Host = [], ec_Port = 0, ec_Username = [], ec_Password = [], ec_FromAddress = [],
       ec_TLSMode = ''starttls''\<rparr>,
     cf_SMTPServer = \<lparr>sf_ListenAddr = [], sf_Domain = [], sf_MaxMessageBytes = 2 ^ 20, sf_TLSMode = ''none'',
       sf_TLSCertFile = [], sf_TLSKeyFile = [], sf_CRAMMD5Enabled = False, sf_CRAMMD5SecretKey = []\<rparr>,
     cf_Notify = \<lparr>nf_WorkerCount = 4, nf_RetryLimit = 3, nf_RetryDelay = 15 * second_ns,
       nf_DeliveryTimeout = 30 * second_ns, nf_DeliveryConcurrency = 16\<rparr>,
     cf_EventSweep = \<lparr>wf_Enabled = False, wf_TTL = 24 * 60 * 60 * second_ns, wf_Interval = 15 * 60 * second_ns\<rparr>,
     cf_Logging = \<lparr>gf_Level = ''info'', gf_Format = ''json'', gf_Dir = []\<rparr>,
     cf_Severities = [''None'', ''Information'', ''Warning'', ''Minor'', ''Major'', ''Critical'']\<rparr>"

section \<open>Environment variables\<close>

lemma length_after_name: "length (dropWhile P (tl cs)) - Suc 0 < Suc (length cs)"
  using length_dropWhile_le [of P "tl cs"] by simp

text \<open>Every leftmost match of \<open>\$\{([^}]+)\}\<close> is replaced by the value of the variable, if it is set.\<close>

function interpolateEnv :: "(string \<Rightarrow> string option) \<Rightarrow> string \<Rightarrow> string" where
  "interpolateEnv env [] = []"
| "interpolateEnv env (c # cs) =
     (if c = CHR ''$'' \<and> cs \<noteq> [] \<and> hd cs = CHR ''{'' then
        let name = takeWhile (\<lambda>x. x \<noteq> CHR ''}'') (tl cs); after = dropWhile (\<lambda>x. x \<noteq> CHR ''}'') (tl cs)
        in if name \<noteq> [] \<and> after \<noteq> [] then
             (case env name of Some val \<Rightarrow> val | None \<Rightarrow> ''${'' @ name @ ''}'') @ interpolateEnv env (tl after)
           else c # interpolateEnv env cs
      else c # interpolateEnv env cs)"
  by pat_completeness auto

termination interpolateEnv
  by (relation "measure (\<lambda>(env, s). length s)") (simp_all add: length_after_name)

section \<open>The checks\<close>

definition tls_mode_known :: "string \<Rightarrow> bool" where
  "tls_mode_known mode \<longleftrightarrow> mode \<in> {''none'', ''starttls'', ''tls'', []}"

definition cram_key_ok :: "string \<Rightarrow> bool" where
  "cram_key_ok s = (case DecodeString s of None \<Rightarrow> False | Some key \<Rightarrow> length key = 32)"

definition known_role :: "string \<Rightarrow> bool" where
  "known_role name \<longleftrightarrow> name \<in> {''admin'', ''publisher'', ''reader''}"

text \<open>The first check that fails gives the error; roles come in the order of the map's iteration.\<close>

definition validate :: "Config \<Rightarrow> string option" where
  "validate cfg =
     (let ldap = cf_LDAP cfg; http = cf_HTTP cfg; smtp = cf_SMTP cfg; srv = cf_SMTPServer cfg;
          sweep = cf_EventSweep cfg
      in if dc_Path (cf_Database cfg) = [] then Some ''database.path is required''
         else if lf_PrimaryURL ldap = [] then Some ''ldap.primary_url is required''
         else if lf_BindDN ldap = [] then Some ''ldap.bind_dn is required''
         else if lf_BindPassword ldap = [] then Some ''ldap.bind_password is required''
         else if lf_UserBaseDN ldap = [] then Some ''ldap.user_base_dn is required''
         else if hc_PathPrefix http \<noteq> []
              \<and> (\<not> HasPrefix (hc_PathPrefix http) ''/'' \<or> HasSuffix (hc_PathPrefix http) ''/'') then
           Some (''http.path_prefix must start with '' @ go_quote ''/'' @ '' and not end with '' @ go_quote ''/''
             @ '' (got '' @ go_quote (hc_PathPrefix http) @ '')'')
         else if \<not> tls_mode_known (ec_TLSMode smtp) then
           Some (''smtp.tls_mode must be one of: none, starttls, tls (got '' @ go_quote (ec_TLSMode smtp) @ '')'')
         else if sf_ListenAddr srv \<noteq> [] \<and> sf_Domain srv = [] then
           Some ''smtp_server.domain is required when smtp_server.listen_addr is set''
         else if \<not> tls_mode_known (sf_TLSMode srv) then
           Some (''smtp_server.tls_mode must be one of: none, starttls, tls (got '' @ go_quote (sf_TLSMode srv) @ '')'')
         else if sf_TLSMode srv \<in> {''starttls'', ''tls''} \<and> (sf_TLSCertFile srv = [] \<or> sf_TLSKeyFile srv = []) then
           Some (''smtp_server.tls_cert_file and smtp_server.tls_key_file are required when smtp_server.tls_mode is ''
             @ go_quote (sf_TLSMode srv))
         else if sf_CRAMMD5Enabled srv \<and> \<not> cram_key_ok (sf_CRAMMD5SecretKey srv) then
           Some ''smtp_server.cram_md5_secret_key must be a base64-encoded 32-byte key when smtp_server.cram_md5_enabled is true''
         else if wf_Enabled sweep \<and> wf_TTL sweep \<le> 0 then
           Some ''event_sweep.ttl must be positive when event_sweep.enabled is true''
         else (case find (\<lambda>name. \<not> known_role name) (map fst (lf_Roles ldap)) of
             Some name \<Rightarrow> Some (''ldap.roles: unknown role '' @ go_quote name
               @ '' (must be one of: admin, publisher, reader)'')
           | None \<Rightarrow> None))"

definition Load :: "(string \<Rightarrow> string + string) \<Rightarrow> (string \<Rightarrow> string option) \<Rightarrow> (string \<Rightarrow> Config \<Rightarrow> string + Config)
    \<Rightarrow> string \<Rightarrow> string + Config" where
  "Load read_file env yaml path =
     (case read_file path of Inl e \<Rightarrow> Inl (''read config file: '' @ e)
      | Inr data \<Rightarrow> (case yaml (interpolateEnv env data) default_config of
            Inl e \<Rightarrow> Inl (''parse config file: '' @ e)
          | Inr cfg \<Rightarrow> (case validate cfg of
                Some e \<Rightarrow> Inl (''invalid config: '' @ e)
              | None \<Rightarrow> Inr cfg)))"

section \<open>What the checks ensure\<close>

definition config_ok :: "Config \<Rightarrow> bool" where
  "config_ok cfg \<longleftrightarrow>
     dc_Path (cf_Database cfg) \<noteq> []
   \<and> lf_PrimaryURL (cf_LDAP cfg) \<noteq> [] \<and> lf_BindDN (cf_LDAP cfg) \<noteq> []
   \<and> lf_BindPassword (cf_LDAP cfg) \<noteq> [] \<and> lf_UserBaseDN (cf_LDAP cfg) \<noteq> []
   \<and> (hc_PathPrefix (cf_HTTP cfg) \<noteq> [] \<longrightarrow>
        hd (hc_PathPrefix (cf_HTTP cfg)) = CHR ''/'' \<and> last (hc_PathPrefix (cf_HTTP cfg)) \<noteq> CHR ''/'')
   \<and> tls_mode_known (ec_TLSMode (cf_SMTP cfg))
   \<and> (sf_ListenAddr (cf_SMTPServer cfg) \<noteq> [] \<longrightarrow> sf_Domain (cf_SMTPServer cfg) \<noteq> [])
   \<and> tls_mode_known (sf_TLSMode (cf_SMTPServer cfg))
   \<and> (sf_TLSMode (cf_SMTPServer cfg) \<in> {''starttls'', ''tls''} \<longrightarrow>
        sf_TLSCertFile (cf_SMTPServer cfg) \<noteq> [] \<and> sf_TLSKeyFile (cf_SMTPServer cfg) \<noteq> [])
   \<and> (sf_CRAMMD5Enabled (cf_SMTPServer cfg) \<longrightarrow>
        (\<exists>key. DecodeString (sf_CRAMMD5SecretKey (cf_SMTPServer cfg)) = Some key \<and> length key = 32))
   \<and> (wf_Enabled (cf_EventSweep cfg) \<longrightarrow> 0 < wf_TTL (cf_EventSweep cfg))
   \<and> set (map fst (lf_Roles (cf_LDAP cfg))) \<subseteq> {''admin'', ''publisher'', ''reader''}"

lemma HasPrefix_slash: "s \<noteq> [] \<Longrightarrow> HasPrefix s ''/'' \<longleftrightarrow> hd s = CHR ''/''"
  by (cases s) (auto simp: HasPrefix_def)

lemma HasSuffix_slash: "s \<noteq> [] \<Longrightarrow> HasSuffix s ''/'' \<longleftrightarrow> last s = CHR ''/''"
  by (cases s rule: rev_cases) (auto simp: HasSuffix_def)

lemma path_prefix_ok: "p = [] \<or> HasPrefix p ''/'' \<and> \<not> HasSuffix p ''/''
    \<longleftrightarrow> p = [] \<or> hd p = CHR ''/'' \<and> last p \<noteq> CHR ''/''"
  by (auto simp: HasPrefix_slash HasSuffix_slash)

lemma cram_key_ok_iff: "cram_key_ok s \<longleftrightarrow> (\<exists>key. DecodeString s = Some key \<and> length key = 32)"
  by (simp add: cram_key_ok_def split: option.split)

lemma unknown_roles: "find (\<lambda>name. \<not> known_role name) names = None \<longleftrightarrow> set names \<subseteq> {''admin'', ''publisher'', ''reader''}"
  unfolding find_None known_role_def by blast

lemma checked_None: "(if b then Some e else rest) = None \<longleftrightarrow> \<not> b \<and> rest = None"
  by simp

lemma checked_last: "(case x of None \<Rightarrow> None | Some n \<Rightarrow> Some (f n)) = None \<longleftrightarrow> x = None"
  by (simp split: option.split)

lemma validate_None: "validate cfg = None \<longleftrightarrow> config_ok cfg"
proof -
  have "validate cfg = None \<longleftrightarrow>
      dc_Path (cf_Database cfg) \<noteq> [] \<and> lf_PrimaryURL (cf_LDAP cfg) \<noteq> [] \<and> lf_BindDN (cf_LDAP cfg) \<noteq> []
    \<and> lf_BindPassword (cf_LDAP cfg) \<noteq> [] \<and> lf_UserBaseDN (cf_LDAP cfg) \<noteq> []
    \<and> \<not> (hc_PathPrefix (cf_HTTP cfg) \<noteq> [] \<and> (\<not> HasPrefix (hc_PathPrefix (cf_HTTP cfg)) ''/''
          \<or> HasSuffix (hc_PathPrefix (cf_HTTP cfg)) ''/''))
    \<and> tls_mode_known (ec_TLSMode (cf_SMTP cfg))
    \<and> \<not> (sf_ListenAddr (cf_SMTPServer cfg) \<noteq> [] \<and> sf_Domain (cf_SMTPServer cfg) = [])
    \<and> tls_mode_known (sf_TLSMode (cf_SMTPServer cfg))
    \<and> \<not> (sf_TLSMode (cf_SMTPServer cfg) \<in> {''starttls'', ''tls''}
          \<and> (sf_TLSCertFile (cf_SMTPServer cfg) = [] \<or> sf_TLSKeyFile (cf_SMTPServer cfg) = []))
    \<and> \<not> (sf_CRAMMD5Enabled (cf_SMTPServer cfg) \<and> \<not> cram_key_ok (sf_CRAMMD5SecretKey (cf_SMTPServer cfg)))
    \<and> \<not> (wf_Enabled (cf_EventSweep cfg) \<and> wf_TTL (cf_EventSweep cfg) \<le> 0)
    \<and> find (\<lambda>name. \<not> known_role name) (map fst (lf_Roles (cf_LDAP cfg))) = None"
    by (simp only: validate_def Let_def checked_None checked_last not_not)
  then show ?thesis
    by (simp only: config_ok_def unknown_roles cram_key_ok_iff path_prefix_ok imp_conv_disj de_Morgan_conj
        de_Morgan_disj not_not not_le)
qed

lemma Load_valid: "Load read_file env yaml path = Inr cfg \<Longrightarrow> config_ok cfg"
  by (simp add: Load_def validate_None [symmetric] split: sum.splits option.splits)

section \<open>What interpolation does\<close>

lemma interpolateEnv_plain: "CHR ''$'' \<notin> set s \<Longrightarrow> interpolateEnv env (s @ rest) = s @ interpolateEnv env rest"
  by (induction s) auto

text \<open>A set variable is replaced by its value, which is not looked through again; an unset one stays
  as it is written.\<close>

lemma interpolateEnv_variable:
  assumes "name \<noteq> []" and "CHR ''}'' \<notin> set name"
  shows "interpolateEnv env (''${'' @ name @ CHR ''}'' # rest)
    = (case env name of Some val \<Rightarrow> val | None \<Rightarrow> ''${'' @ name @ ''}'') @ interpolateEnv env rest"
proof -
  have "takeWhile (\<lambda>x. x \<noteq> CHR ''}'') (name @ CHR ''}'' # rest) = name"
    "dropWhile (\<lambda>x. x \<noteq> CHR ''}'') (name @ CHR ''}'' # rest) = CHR ''}'' # rest"
    using assms(2) by (induction name) auto
  with assms(1) show ?thesis by (simp split: option.split)
qed

end
