(* ===== verification/Wiring.thy ===== *)
theory Wiring
  imports Config Dispatcher Poller Sweeper Twilio Ldap_Cache Ldap_Sync Subscriptions Api_Admin Smtp_Session
begin

text \<open>
  \<open>cmd/notification_relay/main.go\<close> and the constructors it calls: the logger and its daily files,
  the pair of database handles, and how a configuration becomes the clients, providers, loops and
  servers of the other theories. What comes from outside (the directory, Twilio, mail servers,
  SQLite, the migrations, certificate files) is collected in one record of parameters. The lemmas
  say what a configuration that passed the checks guarantees to the parts, and when the process
  does not survive its start.
\<close>

section \<open>The logger\<close>

datatype log_level = LevelDebug | LevelInfo | LevelWarn | LevelError

record logger =
  lo_level :: log_level
  lo_text :: bool
  lo_to_files :: bool

definition log_level_of :: "string \<Rightarrow> log_level" where
  "log_level_of level = (if level = ''debug'' then LevelDebug else if level = ''warn'' then LevelWarn
     else if level = ''error'' then LevelError else LevelInfo)"

text \<open>The directory (a clean path), its files by name, and the file that is open with its date.\<close>

record log_writer =
  lw_dir :: string
  lw_files :: "string \<Rightarrow> string option"
  lw_file :: "string option"
  lw_date :: string

definition log_name :: "string \<Rightarrow> string" where
  "log_name date = date @ ''.log''"

text \<open>\<open>openable\<close> says whether a file of this name can be opened for appending.\<close>

definition log_openFile :: "(string \<Rightarrow> string option) \<Rightarrow> string \<Rightarrow> log_writer \<Rightarrow> string option \<times> log_writer" where
  "log_openFile openable today w =
     (let name = log_name today
      in (case openable name of
            Some e \<Rightarrow> (Some (''open log file '' @ go_quote (lw_dir w @ ''/'' @ name) @ '': '' @ e), w)
          | None \<Rightarrow> (None, w\<lparr>
              lw_files := (lw_files w)(name := Some (case lw_files w name of None \<Rightarrow> [] | Some old \<Rightarrow> old)),
              lw_file := Some name, lw_date := today\<rparr>)))"

definition log_append :: "string \<Rightarrow> string \<Rightarrow> log_writer \<Rightarrow> log_writer" where
  "log_append name p w = w\<lparr>lw_files := (lw_files w)(name :=
     Some ((case lw_files w name of None \<Rightarrow> [] | Some old \<Rightarrow> old) @ p))\<rparr>"

definition log_Write :: "(string \<Rightarrow> string option) \<Rightarrow> string \<Rightarrow> string \<Rightarrow> log_writer \<Rightarrow> string option \<times> log_writer" where
  "log_Write openable today p w =
     (let (e, w1) = (if today \<noteq> lw_date w then log_openFile openable today w else (None, w))
      in (case e of Some _ \<Rightarrow> (e, w1)
          | None \<Rightarrow> (case lw_file w1 of
                None \<Rightarrow> (Some ''invalid argument'', w1)
              | Some name \<Rightarrow> (None, log_append name p w1))))"

definition newDailyRotatingWriter :: "string option \<Rightarrow> (string \<Rightarrow> string option) \<Rightarrow> string \<Rightarrow> string
    \<Rightarrow> (string \<Rightarrow> string option) \<Rightarrow> string + log_writer" where
  "newDailyRotatingWriter mkdir openable today dir files =
     (case mkdir of Some e \<Rightarrow> Inl (''create log directory '' @ go_quote dir @ '': '' @ e)
      | None \<Rightarrow> (case log_openFile openable today \<lparr>lw_dir = dir, lw_files = files, lw_file = None, lw_date = []\<rparr> of
            (Some e, w) \<Rightarrow> Inl e
          | (None, w) \<Rightarrow> Inr w))"

definition newLogger :: "string option \<Rightarrow> (string \<Rightarrow> string option) \<Rightarrow> string \<Rightarrow> (string \<Rightarrow> string option)
    \<Rightarrow> LoggingConfig \<Rightarrow> string + logger \<times> log_writer option" where
  "newLogger mkdir openable today files cfg =
     (let lg = \<lparr>lo_level = log_level_of (gf_Level cfg), lo_text = (gf_Format cfg = ''text''), lo_to_files = (gf_Dir cfg \<noteq> [])\<rparr>
      in if gf_Dir cfg \<noteq> [] then
           (case newDailyRotatingWriter mkdir openable today (gf_Dir cfg) files of
              Inl e \<Rightarrow> Inl (''open log dir: '' @ e)
            | Inr w \<Rightarrow> Inr (lg, Some w))
         else Inr (lg, None))"

section \<open>The database handles\<close>

record db_handles =
  dh_writer :: string
  dh_writer_conns :: int
  dh_reader :: string
  dh_reader_conns :: int

definition writer_dsn :: "string \<Rightarrow> string" where
  "writer_dsn path = ''file:'' @ path @ ''?_journal_mode=WAL&_foreign_keys=on&_busy_timeout=5000''"

definition db_Open :: "(string \<Rightarrow> string option) \<Rightarrow> (string \<Rightarrow> string option) \<Rightarrow> string \<Rightarrow> int
    \<Rightarrow> string + db_handles" where
  "db_Open sql_open ping path maxReaderConns =
     (let dsn = writer_dsn path; ro = dsn @ ''&mode=ro''
      in (case sql_open dsn of Some e \<Rightarrow> Inl (''open writer db: '' @ e)
          | None \<Rightarrow> (case ping dsn of Some e \<Rightarrow> Inl (''ping writer db: '' @ e)
          | None \<Rightarrow> (case sql_open ro of Some e \<Rightarrow> Inl (''open reader db: '' @ e)
          | None \<Rightarrow> (case ping ro of Some e \<Rightarrow> Inl (''ping reader db: '' @ e)
          | None \<Rightarrow> Inr \<lparr>dh_writer = dsn, dh_writer_conns = 1, dh_reader = ro,
              dh_reader_conns = (if maxReaderConns \<le> 0 then 4 else maxReaderConns)\<rparr>)))))"

section \<open>Constructors\<close>

record externals =
  ex_mkdir :: "string option"
  ex_openable :: "string \<Rightarrow> string option"
  ex_today :: string
  ex_files :: "string \<Rightarrow> string option"
  ex_sql_open :: "string \<Rightarrow> string option"
  ex_ping :: "string \<Rightarrow> string option"
  ex_migrate :: "string option"
  ex_ldap :: "int \<Rightarrow> goldap"
  ex_sha :: "string \<Rightarrow> string"
  ex_post :: "string \<Rightarrow> string \<Rightarrow> nat \<Rightarrow> http_post"
  ex_get :: "string \<Rightarrow> string \<Rightarrow> http_get"
  ex_mail :: "nat \<Rightarrow> mail_server"
  ex_engine :: template_engine
  ex_json_error :: "string \<Rightarrow> string"
  ex_order :: "task list \<Rightarrow> task list"
  ex_crypto :: smtp_crypto
  ex_keypair :: "string \<Rightarrow> string \<Rightarrow> bool"

definition twilio_url :: string where
  "twilio_url = ''https://api.twilio.com''"

text \<open>The four LDAP clients; a field that a client does not have is empty.\<close>

definition NewClient :: "string \<Rightarrow> string \<Rightarrow> string \<Rightarrow> string \<Rightarrow> string \<Rightarrow> string \<Rightarrow> string \<Rightarrow> bool \<Rightarrow> ldap_conf" where
  "NewClient primaryURL backupURL bindDN bindPassword userBaseDN groupBaseDN groupFilter skip =
     \<lparr>lc_primaryURL = primaryURL, lc_backupURL = backupURL, lc_bindDN = bindDN, lc_bindPassword = bindPassword,
      lc_userBaseDN = userBaseDN, lc_groupBaseDN = groupBaseDN, lc_groupFilter = groupFilter, lc_tlsSkipVerify = skip\<rparr>"

definition NewAuthenticator :: "externals \<Rightarrow> string \<Rightarrow> string \<Rightarrow> string \<Rightarrow> string \<Rightarrow> string \<Rightarrow> bool \<Rightarrow> authenticator" where
  "NewAuthenticator ex primaryURL backupURL bindDN bindPassword userBaseDN skip =
     ldapAuthenticator (ex_ldap ex) (NewClient primaryURL backupURL bindDN bindPassword userBaseDN [] [] skip)"

definition NewGroupVerifier :: "externals \<Rightarrow> string \<Rightarrow> string \<Rightarrow> string \<Rightarrow> string \<Rightarrow> string \<Rightarrow> string \<Rightarrow> bool
    \<Rightarrow> group_verifier" where
  "NewGroupVerifier ex primaryURL backupURL bindDN bindPassword groupBaseDN groupFilter skip =
     ldapGroupVerifier (ex_ldap ex) (NewClient primaryURL backupURL bindDN bindPassword [] groupBaseDN groupFilter skip)"

definition NewUserLookup :: "externals \<Rightarrow> string \<Rightarrow> string \<Rightarrow> string \<Rightarrow> string \<Rightarrow> string \<Rightarrow> bool \<Rightarrow> user_lookup" where
  "NewUserLookup ex primaryURL backupURL bindDN bindPassword userBaseDN skip =
     ldapUserLookup (ex_ldap ex) (NewClient primaryURL backupURL bindDN bindPassword userBaseDN [] [] skip)"

text \<open>The syncer: its client, the page size and the interval; the rest of the section it does not use.\<close>

definition NewSyncer :: "LDAPConfig \<Rightarrow> ldap_conf \<Rightarrow> ldap_conf \<times> nat \<times> int" where
  "NewSyncer cfg client = (client, unat (lf_PageSize cfg), lf_SyncInterval cfg)"

text \<open>The sweeper: the age at which events are closed, and the interval.\<close>

definition NewSweeper :: "EventSweepConfig \<Rightarrow> int \<times> int" where
  "NewSweeper cfg = (wf_TTL cfg, wf_Interval cfg)"

definition NewPoller :: "externals \<Rightarrow> TwilioConfig \<Rightarrow> Poller" where
  "NewPoller ex cfg = \<lparr>pl_AccountSID = tf_AccountSID cfg, pl_PollAttemptLimit = tf_PollAttemptLimit cfg,
     pl_baseURL = twilio_url, pl_get = ex_get ex (tf_TokenSID cfg) (tf_AuthToken cfg),
     pl_json_error = ex_json_error ex\<rparr>"

definition twilio_client_of :: "externals \<Rightarrow> TwilioConfig \<Rightarrow> TwilioClient" where
  "twilio_client_of ex cfg = \<lparr>tc_accountSID = tf_AccountSID cfg, tc_fromNumber = tf_FromNumber cfg,
     tc_baseURL = twilio_url, tc_json_error = ex_json_error ex\<rparr>"

definition NewTwilioSMS :: "externals \<Rightarrow> TwilioConfig \<Rightarrow> nat \<Rightarrow> string \<Rightarrow> string
    \<Rightarrow> string \<times> string \<times> string option" where
  "NewTwilioSMS ex cfg n = TwilioSMS_Send (twilio_client_of ex cfg) (ex_post ex (tf_TokenSID cfg) (tf_AuthToken cfg) n)"

definition NewTwilioVoice :: "externals \<Rightarrow> TwilioConfig \<Rightarrow> nat \<Rightarrow> string \<Rightarrow> string
    \<Rightarrow> string \<times> string \<times> string option" where
  "NewTwilioVoice ex cfg n = TwilioVoice_Call (twilio_client_of ex cfg) (ex_post ex (tf_TokenSID cfg) (tf_AuthToken cfg) n)"

definition NewDispatcher :: "externals \<Rightarrow> NotifyConfig
    \<Rightarrow> (nat \<Rightarrow> string \<Rightarrow> string \<Rightarrow> string \<times> string \<times> string option) option
    \<Rightarrow> (nat \<Rightarrow> string \<Rightarrow> string \<Rightarrow> string \<times> string \<times> string option) option
    \<Rightarrow> (nat \<Rightarrow> string \<Rightarrow> string \<Rightarrow> string \<Rightarrow> string option) option \<Rightarrow> Dispatcher" where
  "NewDispatcher ex cfg sms voice email = \<lparr>dp_RetryLimit = nf_RetryLimit cfg, dp_RetryDelay = nf_RetryDelay cfg,
     dp_sms = sms, dp_voice = voice, dp_email = email, dp_engine = ex_engine ex,
     dp_json_error = ex_json_error ex, dp_order = ex_order ex\<rparr>"

definition delivery_slots :: "NotifyConfig \<Rightarrow> int" where
  "delivery_slots cfg = (if nf_DeliveryConcurrency cfg \<le> 0 then 16 else nf_DeliveryConcurrency cfg)"

text \<open>The key of the CRAM-MD5 secrets, decoded again by each server; an error is only logged.\<close>

definition cram_key_of :: "SMTPServerConfig \<Rightarrow> 8 word list option" where
  "cram_key_of cfg = (if sf_CRAMMD5Enabled cfg then DecodeString (sf_CRAMMD5SecretKey cfg) else None)"

text \<open>What of the HTTP server depends on the configuration.\<close>

record http_server =
  hs_addr :: string
  hs_prefix :: string
  hs_server :: Server
  hs_cramKey :: "8 word list option"

definition NewServer :: "HTTPConfig \<Rightarrow> (string \<times> string list) list \<Rightarrow> string list \<Rightarrow> SMTPServerConfig
    \<Rightarrow> http_server" where
  "NewServer cfg roleConfig eventSeverities smtpCfg = \<lparr>hs_addr = hc_ListenAddr cfg, hs_prefix = hc_PathPrefix cfg,
     hs_server = \<lparr>sv_eventSeverities = eventSeverities, sv_roleConfig = roleConfig\<rparr>,
     hs_cramKey = cram_key_of smtpCfg\<rparr>"

record smtp_listener =
  sl_server :: "authenticator \<Rightarrow> SMTPServer"
  sl_addr :: string
  sl_maxBytes :: int
  sl_allowInsecureAuth :: bool
  sl_tls :: bool
  sl_implicit :: bool

definition NewSMTPServer :: "externals \<Rightarrow> SMTPServerConfig \<Rightarrow> (string \<times> string list) list \<Rightarrow> smtp_listener" where
  "NewSMTPServer ex cfg roleConfig = \<lparr>
     sl_server = (\<lambda>auth. \<lparr>sv_Domain = sf_Domain cfg, sv_auth = auth, sv_roles = roleConfig,
       sv_cramStore = cram_key_of cfg, sv_crypto = ex_crypto ex\<rparr>),
     sl_addr = sf_ListenAddr cfg, sl_maxBytes = sf_MaxMessageBytes cfg,
     sl_allowInsecureAuth = (sf_TLSMode cfg = [] \<or> sf_TLSMode cfg = ''none''),
     sl_tls = (sf_TLSMode cfg \<in> {''starttls'', ''tls''} \<and> ex_keypair ex (sf_TLSCertFile cfg) (sf_TLSKeyFile cfg)),
     sl_implicit = (sf_TLSMode cfg = ''tls'')\<rparr>"

section \<open>The process\<close>

record system =
  sy_db :: db_handles
  sy_queue_cap :: nat
  sy_syncer :: "ldap_conf \<times> nat \<times> int"
  sy_poller :: Poller
  sy_poll_interval :: int
  sy_sweeper :: "(int \<times> int) option"
  sy_dispatcher :: Dispatcher
  sy_workers :: nat
  sy_slots :: int
  sy_auth :: "string \<Rightarrow> string \<Rightarrow> (world \<times> cache, auth_error + AuthResult) state"
  sy_verify :: group_verifier
  sy_lookup :: user_lookup
  sy_http :: http_server
  sy_smtp :: "smtp_listener option"

definition providers_of :: "externals \<Rightarrow> Config \<Rightarrow> Dispatcher" where
  "providers_of ex cfg =
     (let tw = cf_Twilio cfg; mail = cf_SMTP cfg; n = cf_Notify cfg
      in NewDispatcher ex n
           (if tf_AccountSID tw \<noteq> [] then Some (NewTwilioSMS ex tw) else None)
           (if tf_AccountSID tw \<noteq> [] then Some (NewTwilioVoice ex tw) else None)
           (if ec_Host mail \<noteq> [] then Some (email_provider (ex_mail ex) (NewSMTPEmail mail (nf_DeliveryTimeout n)))
            else None))"

definition assemble :: "externals \<Rightarrow> Config \<Rightarrow> db_handles \<Rightarrow> system" where
  "assemble ex cfg handles =
     (let l = cf_LDAP cfg
      in \<lparr>sy_db = handles, sy_queue_cap = 256,
          sy_syncer = NewSyncer l (NewClient (lf_PrimaryURL l) (lf_BackupURL l) (lf_BindDN l) (lf_BindPassword l)
            (lf_UserBaseDN l) (lf_GroupBaseDN l) (lf_GroupFilter l) (lf_TLSSkipVerify l)),
          sy_poller = NewPoller ex (cf_Twilio cfg), sy_poll_interval = tf_PollInterval (cf_Twilio cfg),
          sy_sweeper = (if wf_Enabled (cf_EventSweep cfg) then Some (NewSweeper (cf_EventSweep cfg)) else None),
          sy_dispatcher = providers_of ex cfg, sy_workers = nat (nf_WorkerCount (cf_Notify cfg)),
          sy_slots = delivery_slots (cf_Notify cfg),
          sy_auth = NewCachedAuthenticator (ex_sha ex) (lf_AuthCacheSize l) (lf_AuthCacheTTL l)
            (NewAuthenticator ex (lf_PrimaryURL l) (lf_BackupURL l) (lf_BindDN l) (lf_BindPassword l)
              (lf_UserBaseDN l) (lf_TLSSkipVerify l)),
          sy_verify = NewGroupVerifier ex (lf_PrimaryURL l) (lf_BackupURL l) (lf_BindDN l) (lf_BindPassword l)
            (lf_GroupBaseDN l) (lf_GroupFilter l) (lf_TLSSkipVerify l),
          sy_lookup = NewUserLookup ex (lf_PrimaryURL l) (lf_BackupURL l) (lf_BindDN l) (lf_BindPassword l)
            (lf_UserBaseDN l) (lf_TLSSkipVerify l),
          sy_http = NewServer (cf_HTTP cfg) (lf_Roles l) (cf_Severities cfg) (cf_SMTPServer cfg),
          sy_smtp = (if sf_ListenAddr (cf_SMTPServer cfg) \<noteq> []
            then Some (NewSMTPServer ex (cf_SMTPServer cfg) (lf_Roles l)) else None)\<rparr>)"

text \<open>The intervals of the tickers that the loops make as their first step: the syncer's, the
  poller's, and the sweeper's if there is one.\<close>

definition ticker_intervals :: "system \<Rightarrow> int list" where
  "ticker_intervals sys = [snd (snd (sy_syncer sys)), sy_poll_interval sys]
     @ (case sy_sweeper sys of None \<Rightarrow> [] | Some (ttl, interval) \<Rightarrow> [interval])"

datatype start_result = Exit string | Panic string | Running system

text \<open>\<open>time.NewTicker\<close> panics when the interval is not positive, in a goroutine, which ends the process.\<close>

definition new_tickers :: "int list \<Rightarrow> string option" where
  "new_tickers intervals = (if list_ex (\<lambda>d. d \<le> 0) intervals then Some ''non-positive interval for NewTicker'' else None)"

definition start_with :: "externals \<Rightarrow> Config \<Rightarrow> start_result" where
  "start_with ex cfg =
     (case db_Open (ex_sql_open ex) (ex_ping ex) (dc_Path (cf_Database cfg)) (dc_MaxReaderConns (cf_Database cfg)) of
        Inl e \<Rightarrow> Exit e
      | Inr handles \<Rightarrow> (case ex_migrate ex of Some e \<Rightarrow> Exit e
          | None \<Rightarrow> (let sys = assemble ex cfg handles in
              (case new_tickers (ticker_intervals sys) of Some e \<Rightarrow> Panic e | None \<Rightarrow> Running sys))))"

definition relay_main :: "externals \<Rightarrow> (string \<Rightarrow> string + string) \<Rightarrow> (string \<Rightarrow> string option)
    \<Rightarrow> (string \<Rightarrow> Config \<Rightarrow> string + Config) \<Rightarrow> string \<Rightarrow> start_result" where
  "relay_main ex read_file env yaml path =
     (case Load read_file env yaml path of Inl e \<Rightarrow> Exit e
      | Inr cfg \<Rightarrow> (case newLogger (ex_mkdir ex) (ex_openable ex) (ex_today ex) (ex_files ex) (cf_Logging cfg) of
            Inl e \<Rightarrow> Exit e
          | Inr lg \<Rightarrow> start_with ex cfg))"

section \<open>What a configuration guarantees\<close>

lemma relay_main_Running:
  assumes "relay_main ex read_file env yaml path = Running sys"
  obtains cfg handles where "config_ok cfg" and "sys = assemble ex cfg handles"
    and "\<And>d. d \<in> set (ticker_intervals sys) \<Longrightarrow> 0 < d"
proof -
  obtain cfg where cfg: "Load read_file env yaml path = Inr cfg"
    using assms by (auto simp: relay_main_def split: sum.splits)
  then have start: "start_with ex cfg = Running sys"
    using assms by (auto simp: relay_main_def split: sum.splits)
  then obtain handles where h: "sys = assemble ex cfg handles" and t: "new_tickers (ticker_intervals sys) = None"
    by (auto simp: start_with_def Let_def split: sum.splits option.splits)
  have "0 < d" if "d \<in> set (ticker_intervals sys)" for d
    using t that by (auto simp: new_tickers_def list_ex_iff split: if_splits)
  with Load_valid [OF cfg] h show ?thesis by (rule that)
qed

text \<open>C37 (invariant): a process that has started is consistently wired: the loops have positive intervals
  and the sweeper a positive age; SMS and calls have a provider together or not at all; the key of
  the credentials is a legal one, and the SMTP server has the same key and the same roles as the
  HTTP server, all of them known; passwords are taken without encryption only when the listener is
  configured without TLS.\<close>

theorem started_process_is_wired:
  assumes "relay_main ex read_file env yaml path = Running sys"
  shows "list_all (\<lambda>d. 0 < d) (ticker_intervals sys)
    \<and> (sy_sweeper sys = None \<or> 0 < fst (the (sy_sweeper sys)))
    \<and> (dp_sms (sy_dispatcher sys) = None) = (dp_voice (sy_dispatcher sys) = None)
    \<and> (hs_cramKey (sy_http sys) = None \<or> key_ok (the (hs_cramKey (sy_http sys))))
    \<and> set (map fst (sv_roleConfig (hs_server (sy_http sys)))) \<subseteq> {''admin'', ''publisher'', ''reader''}
    \<and> (case sy_smtp sys of None \<Rightarrow> True | Some l \<Rightarrow>
         sv_Domain (sl_server l auth) \<noteq> [] \<and> sv_cramStore (sl_server l auth) = hs_cramKey (sy_http sys)
       \<and> sv_roles (sl_server l auth) = sv_roleConfig (hs_server (sy_http sys))
       \<and> \<not> (sl_allowInsecureAuth l \<and> sl_tls l))"
proof -
  obtain cfg handles where ok: "config_ok cfg" and sys: "sys = assemble ex cfg handles"
    and t: "\<And>d. d \<in> set (ticker_intervals sys) \<Longrightarrow> 0 < d"
    by (rule relay_main_Running [OF assms]) (rule that)
  note facts = ok [unfolded config_ok_def]
  let ?srv = "cf_SMTPServer cfg"
  have http: "sy_http sys = NewServer (cf_HTTP cfg) (lf_Roles (cf_LDAP cfg)) (cf_Severities cfg) ?srv"
    and smtp: "sy_smtp sys = (if sf_ListenAddr ?srv \<noteq> [] then Some (NewSMTPServer ex ?srv (lf_Roles (cf_LDAP cfg))) else None)"
    and dispatcher: "sy_dispatcher sys = providers_of ex cfg"
    and sweep: "sy_sweeper sys = (if wf_Enabled (cf_EventSweep cfg) then Some (NewSweeper (cf_EventSweep cfg)) else None)"
    unfolding sys assemble_def Let_def by simp_all
  have key: "cram_key_of ?srv = None \<or> key_ok (the (cram_key_of ?srv))"
    using facts by (auto simp: cram_key_of_def key_ok_def)
  have "(dp_sms (providers_of ex cfg) = None) = (dp_voice (providers_of ex cfg) = None)"
    by (simp add: providers_of_def NewDispatcher_def Let_def)
  moreover have "sf_ListenAddr ?srv \<noteq> [] \<longrightarrow> sf_Domain ?srv \<noteq> []"
    and "wf_Enabled (cf_EventSweep cfg) \<longrightarrow> 0 < wf_TTL (cf_EventSweep cfg)"
    and "set (map fst (lf_Roles (cf_LDAP cfg))) \<subseteq> {''admin'', ''publisher'', ''reader''}"
    using facts by blast+
  moreover have "\<not> ((sf_TLSMode ?srv = [] \<or> sf_TLSMode ?srv = ''none'') \<and> sf_TLSMode ?srv \<in> {''starttls'', ''tls''})"
    by auto
  ultimately show ?thesis
    unfolding http smtp dispatcher sweep using t key
    by (simp add: NewServer_def NewSweeper_def NewSMTPServer_def list_all_iff) blast
qed

text \<open>The checks of the configuration let pass what the process does not survive: with an
  interval of zero or less for the syncer, the poller or an enabled sweeper, it panics at the
  start, although the file was accepted.\<close>

theorem accepted_config_may_panic:
  assumes "config_ok cfg" and "d \<le> 0"
    and "db_Open (ex_sql_open ex) (ex_ping ex) (dc_Path (cf_Database cfg)) (dc_MaxReaderConns (cf_Database cfg)) = Inr handles"
    and "ex_migrate ex = None"
  shows "validate (cfg\<lparr>cf_LDAP := (cf_LDAP cfg)\<lparr>lf_SyncInterval := d\<rparr>\<rparr>) = None
    \<and> start_with ex (cfg\<lparr>cf_LDAP := (cf_LDAP cfg)\<lparr>lf_SyncInterval := d\<rparr>\<rparr>) = Panic ''non-positive interval for NewTicker''
    \<and> validate (cfg\<lparr>cf_Twilio := (cf_Twilio cfg)\<lparr>tf_PollInterval := d\<rparr>\<rparr>) = None
    \<and> start_with ex (cfg\<lparr>cf_Twilio := (cf_Twilio cfg)\<lparr>tf_PollInterval := d\<rparr>\<rparr>) = Panic ''non-positive interval for NewTicker''"
  using assms unfolding validate_None config_ok_def
  by (simp add: start_with_def new_tickers_def ticker_intervals_def assemble_def NewSyncer_def Let_def)

text \<open>A placeholder whose variable is not set reaches the checks as it is written, and passes them as
  any other password would.\<close>

lemma unset_variable_is_not_caught:
  assumes "config_ok cfg" and "env name = None" and "name \<noteq> []" and "CHR ''}'' \<notin> set name"
  shows "interpolateEnv env (''${'' @ name @ ''}'') = ''${'' @ name @ ''}''
    \<and> validate (cfg\<lparr>cf_LDAP := (cf_LDAP cfg)\<lparr>lf_BindPassword := interpolateEnv env (''${'' @ name @ ''}'')\<rparr>\<rparr>) = None"
proof -
  have i: "interpolateEnv env (''${'' @ name @ ''}'') = ''${'' @ name @ ''}''"
    using interpolateEnv_variable [OF assms(3,4), of env "[]"] assms(2) by simp
  have "config_ok (cfg\<lparr>cf_LDAP := (cf_LDAP cfg)\<lparr>lf_BindPassword := CHR ''$'' # p\<rparr>\<rparr>)" for p
    using assms(1) unfolding config_ok_def by simp
  then show ?thesis unfolding validate_None i by simp
qed

text \<open>With fewer than one worker nothing is ever taken from the queue; this passes the checks too.\<close>

lemma no_workers: "nf_WorkerCount (cf_Notify cfg) \<le> 0 \<Longrightarrow> sy_workers (assemble ex cfg handles) = 0"
  by (simp add: assemble_def Let_def)

section \<open>Log lines\<close>

definition log_content :: "log_writer \<Rightarrow> string \<Rightarrow> string" where
  "log_content w day = (case lw_files w (log_name day) of None \<Rightarrow> [] | Some s \<Rightarrow> s)"

text \<open>Lines written one after the other, each on its day, whatever the errors.\<close>

primrec log_lines :: "(string \<Rightarrow> string option) \<Rightarrow> (string \<times> string) list \<Rightarrow> log_writer \<Rightarrow> log_writer" where
  "log_lines openable [] w = w"
| "log_lines openable (x # xs) w = log_lines openable xs (snd (log_Write openable (fst x) (snd x) w))"

definition log_ready :: "log_writer \<Rightarrow> bool" where
  "log_ready w \<longleftrightarrow> lw_file w = Some (log_name (lw_date w))"

lemma log_name_inj [simp]: "log_name d = log_name e \<longleftrightarrow> d = e"
  by (simp add: log_name_def)

lemma log_Write_day:
  assumes "log_ready w"
  shows "log_ready (snd (log_Write openable day p w))"
    and "log_content (snd (log_Write openable day p w)) d = log_content w d
      @ (if d = day \<and> (day = lw_date w \<or> openable (log_name day) = None) then p else [])"
    and "lw_date (snd (log_Write openable day p w)) = (if openable (log_name day) = None then day else lw_date w)"
  using assms
  by (auto simp: log_Write_def log_openFile_def log_append_def log_content_def log_ready_def Let_def
      split: option.splits)

text \<open>Every line of the log lands in the file of the day it was written on, after the
  lines of before and in the order of the writes, and nothing else is in the files, as long as the
  files can be opened.\<close>

theorem log_lines_by_day:
  assumes "newDailyRotatingWriter mkdir (\<lambda>_. None) today dir files = Inr w"
  shows "log_content (log_lines (\<lambda>_. None) xs w) day
    = (case files (log_name day) of None \<Rightarrow> [] | Some old \<Rightarrow> old) @ concat (map snd (filter (\<lambda>x. fst x = day) xs))"
proof -
  have step: "log_content (log_lines (\<lambda>_. None) xs v) day
      = log_content v day @ concat (map snd (filter (\<lambda>x. fst x = day) xs))" if "log_ready v" for v
    using that by (induction xs arbitrary: v) (auto simp: log_Write_day)
  have "log_ready w" and "log_content w day = (case files (log_name day) of None \<Rightarrow> [] | Some old \<Rightarrow> old)"
    using assms by (auto simp: newDailyRotatingWriter_def log_openFile_def log_ready_def log_content_def Let_def
        split: option.splits if_splits)
  then show ?thesis by (simp add: step)
qed

end
