(* ===== verification/Go_Mux.thy ===== *)
theory Go_Mux
  imports Go_Url
begin

text \<open>
  \<open>http.ServeMux\<close> since Go 1.22, for patterns with a method and without a host: parsing of
  patterns, cleaning of paths, the walk through the tree of patterns (a literal segment first, then
  a wildcard, then the rest of the path), the redirects, and the difference between 404 and 405.
  The walk is related to the plain meaning of a pattern, which segments it matches: what it finds
  matches, and it finds something whenever a pattern matches.
\<close>

section \<open>Patterns\<close>

datatype pseg = Lit string | Wild | Multi

text \<open>A segment of a pattern; an empty last segment stands for a trailing slash.\<close>

definition parse_seg :: "string \<Rightarrow> pseg" where
  "parse_seg s = (if s = [] then Multi else if s = ''{$}'' then Lit ''/''
     else if hd s = CHR ''{'' then Wild else Lit s)"

definition parse_pattern :: "string \<Rightarrow> string \<times> pseg list" where
  "parse_pattern p = (case cut_at CHR '' '' p of None \<Rightarrow> ([], map parse_seg (tl (Split p CHR ''/'')))
     | Some (method, rest) \<Rightarrow> (method, map parse_seg (tl (Split rest CHR ''/''))))"

text \<open>The plain meaning: the values of the wildcards when the segments match.\<close>

fun seg_match :: "pseg list \<Rightarrow> string list \<Rightarrow> string list option" where
  "seg_match [] [] = Some []"
| "seg_match [] (s # ss) = None"
| "seg_match (Lit a # ps) [] = None"
| "seg_match (Lit a # ps) (s # ss) = (if a = s then seg_match ps ss else None)"
| "seg_match (Wild # ps) [] = None"
| "seg_match (Wild # ps) (s # ss) = (if s = ''/'' then None else map_option ((#) s) (seg_match ps ss))"
| "seg_match (Multi # ps) [] = None"
| "seg_match (Multi # ps) (s # ss) = (if ps = [] then Some [] else None)"

section \<open>Paths\<close>

definition path_unescape :: "string \<Rightarrow> string" where
  "path_unescape s = (case PathUnescape s of None \<Rightarrow> s | Some t \<Rightarrow> t)"

text \<open>The segments of an escaped path, as \<open>firstSegment\<close> takes them off: unescaped, and \<open>/\<close> for a
  trailing slash.\<close>

definition path_segs :: "string \<Rightarrow> string list" where
  "path_segs p = (let ss = Split (drop 1 p) CHR ''/''
     in map path_unescape (butlast ss) @ [if last ss = [] then ''/'' else path_unescape (last ss)])"

definition clean_step :: "string \<Rightarrow> string list \<Rightarrow> string list" where
  "clean_step s stack = (if s = [] \<or> s = ''.'' then stack else if s = ''..'' then drop 1 stack else s # stack)"

definition path_Clean :: "string \<Rightarrow> string" where
  "path_Clean p = CHR ''/'' # Join (rev (fold clean_step (Split p CHR ''/'') [])) ''/''"

definition cleanPath :: "string \<Rightarrow> string" where
  "cleanPath p0 = (if p0 = [] then ''/''
     else (let p = (if hd p0 = CHR ''/'' then p0 else CHR ''/'' # p0); np = path_Clean p
           in if last p = CHR ''/'' \<and> np \<noteq> ''/'' then np @ ''/'' else np))"

section \<open>The tree of patterns\<close>

text \<open>A node of the tree is the list of the patterns below it, each with what is left of it.\<close>

type_synonym 'v node = "(pseg list \<times> 'v) list"

definition lit_child :: "string \<Rightarrow> 'v node \<Rightarrow> 'v node" where
  "lit_child s rs = concat (map (\<lambda>(ps, v). case ps of Lit a # qs \<Rightarrow> if a = s then [(qs, v)] else [] | _ \<Rightarrow> []) rs)"

definition wild_child :: "'v node \<Rightarrow> 'v node" where
  "wild_child rs = concat (map (\<lambda>(ps, v). case ps of Wild # qs \<Rightarrow> [(qs, v)] | _ \<Rightarrow> []) rs)"

definition multi_child :: "'v node \<Rightarrow> 'v option" where
  "multi_child rs = map_option snd (find (\<lambda>(ps, v). ps = [Multi]) rs)"

fun matchPath :: "'v node \<Rightarrow> string list \<Rightarrow> string list \<Rightarrow> ('v \<times> string list) option" where
  "matchPath rs [] vs = map_option (\<lambda>(ps, v). (v, vs)) (find (\<lambda>(ps, v). ps = []) rs)"
| "matchPath rs (s # ss) vs =
     (case matchPath (lit_child s rs) ss vs of Some r \<Rightarrow> Some r
      | None \<Rightarrow> (case (if s \<noteq> ''/'' then matchPath (wild_child rs) ss (vs @ [s]) else None) of
            Some r \<Rightarrow> Some r
          | None \<Rightarrow> map_option (\<lambda>v. (v, vs)) (multi_child rs)))"

section \<open>Finding the handler\<close>

record 'h route =
  rt_method :: string
  rt_segs :: "pseg list"
  rt_handler :: 'h

definition patterns_of :: "'h route list \<Rightarrow> string \<Rightarrow> 'h route node" where
  "patterns_of routes m = map (\<lambda>r. (rt_segs r, r)) (filter (\<lambda>r. rt_method r = m) routes)"

definition matchMethodAndPath :: "'h route list \<Rightarrow> string \<Rightarrow> string \<Rightarrow> ('h route \<times> string list) option" where
  "matchMethodAndPath routes m path =
     (case matchPath (patterns_of routes m) (path_segs path) [] of
        Some r \<Rightarrow> Some r
      | None \<Rightarrow> if m = ''HEAD'' then matchPath (patterns_of routes ''GET'') (path_segs path) [] else None)"

definition exactMatch :: "('h route \<times> string list) option \<Rightarrow> string \<Rightarrow> bool" where
  "exactMatch n path = (case n of None \<Rightarrow> False
     | Some (r, _) \<Rightarrow> if path \<noteq> [] \<and> last path \<noteq> CHR ''/'' then True
         else length (rt_segs r) = length (filter (\<lambda>c. c = CHR ''/'') path))"

datatype 'h mux_reply =
    Found 'h "string list"
  | Moved string
  | NotAllowed "string list"
  | NotFound

definition matchingMethods :: "'h route list \<Rightarrow> string \<Rightarrow> string list" where
  "matchingMethods routes path = remdups (map rt_method (filter
     (\<lambda>r. matchPath [(rt_segs r, r)] (path_segs path) [] \<noteq> None) routes))"

definition allowed_methods :: "'h route list \<Rightarrow> string \<Rightarrow> string list" where
  "allowed_methods routes path = remdups (matchingMethods routes path
     @ (if last path \<noteq> CHR ''/'' then matchingMethods routes (path @ ''/'') else []))"

text \<open>\<open>findHandler\<close> for a method other than CONNECT. \<open>Moved\<close> carries the path of the redirect.\<close>

definition findHandler :: "'h route list \<Rightarrow> string \<Rightarrow> string \<Rightarrow> 'h mux_reply" where
  "findHandler routes m escapedPath =
     (let path = cleanPath escapedPath; n = matchMethodAndPath routes m path
      in if \<not> exactMatch n path \<and> last path \<noteq> CHR ''/''
            \<and> exactMatch (matchMethodAndPath routes m (path @ ''/'')) (path @ ''/'') then Moved (path @ ''/'')
         else if path \<noteq> escapedPath then Moved path
         else (case n of
             Some (r, vs) \<Rightarrow> Found (rt_handler r) vs
           | None \<Rightarrow> (let ms = allowed_methods routes path in if ms \<noteq> [] then NotAllowed ms else NotFound)))"

section \<open>The walk finds what matches\<close>

lemma lit_child_iff: "(qs, v) \<in> set (lit_child s rs) \<longleftrightarrow> (Lit s # qs, v) \<in> set rs"
  by (force simp: lit_child_def split: list.splits pseg.splits if_splits)

lemma wild_child_iff: "(qs, v) \<in> set (wild_child rs) \<longleftrightarrow> (Wild # qs, v) \<in> set rs"
  by (force simp: wild_child_def split: list.splits pseg.splits)

lemma multi_child_SomeD: "multi_child rs = Some v \<Longrightarrow> ([Multi], v) \<in> set rs"
  by (auto simp: multi_child_def dest!: find_Some_set)

lemma multi_child_None: "multi_child rs = None \<longleftrightarrow> (\<forall>v. ([Multi], v) \<notin> set rs)"
  by (auto simp: multi_child_def find_None)

lemma matchPath_sound:
  "matchPath rs ss vs = Some (v, vs') \<Longrightarrow> \<exists>ps ws. (ps, v) \<in> set rs \<and> seg_match ps ss = Some ws \<and> vs' = vs @ ws"
proof (induction rs ss vs rule: matchPath.induct)
  case (1 rs vs)
  then obtain ps where "find (\<lambda>(ps, v). ps = []) rs = Some (ps, v)" and "vs' = vs" by auto
  from find_Some_set [OF this(1)] \<open>vs' = vs\<close> show ?case by (intro exI [of _ "[]"]) auto
next
  case (2 rs s ss vs)
  show ?case
  proof (cases "matchPath (lit_child s rs) ss vs")
    case None
    note lit = None
    show ?thesis
    proof (cases "if s \<noteq> ''/'' then matchPath (wild_child rs) ss (vs @ [s]) else None")
      case None
      with lit 2(3) obtain v' where "multi_child rs = Some v'" "v' = v" "vs' = vs" by auto
      then show ?thesis using multi_child_SomeD [of rs v] by (intro exI [of _ "[Multi]"] exI [of _ "[]"]) simp
    next
      case (Some r)
      then have s: "s \<noteq> ''/''" and "matchPath (wild_child rs) ss (vs @ [s]) = Some (v, vs')"
        using lit 2(3) by (auto split: if_splits)
      from 2(2) [OF lit this] obtain ps ws where "(ps, v) \<in> set (wild_child rs)" "seg_match ps ss = Some ws"
        "vs' = (vs @ [s]) @ ws" by blast
      with s show ?thesis by (intro exI [of _ "Wild # ps"] exI [of _ "s # ws"]) (simp add: wild_child_iff)
    qed
  next
    case (Some r)
    then have "matchPath (lit_child s rs) ss vs = Some (v, vs')" using 2(3) by simp
    from 2(1) [OF this] obtain ps ws where "(ps, v) \<in> set (lit_child s rs)" "seg_match ps ss = Some ws"
      "vs' = vs @ ws" by blast
    then show ?thesis by (intro exI [of _ "Lit s # ps"] exI [of _ ws]) (simp add: lit_child_iff)
  qed
qed

lemma matchPath_complete:
  "(ps, v) \<in> set rs \<Longrightarrow> seg_match ps ss \<noteq> None \<Longrightarrow> matchPath rs ss vs \<noteq> None"
proof (induction rs ss vs arbitrary: ps rule: matchPath.induct)
  case (1 rs vs)
  then have "ps = []" by (cases "(ps, [] :: string list)" rule: seg_match.cases) auto
  with 1 show ?case by (auto simp: find_None)
next
  case (2 rs s ss vs)
  show ?case
  proof (cases ps)
    case Nil
    with 2(4) show ?thesis by simp
  next
    case (Cons p qs)
    show ?thesis
    proof (cases p)
      case (Lit a)
      with Cons 2(4) have "a = s" and "seg_match qs ss \<noteq> None" by (auto split: if_splits)
      with 2(1) [of qs] 2(3) Cons Lit have "matchPath (lit_child s rs) ss vs \<noteq> None" by (simp add: lit_child_iff)
      then show ?thesis by auto
    next
      case Wild
      with Cons 2(4) have s: "s \<noteq> ''/''" and "seg_match qs ss \<noteq> None" by (auto split: if_splits)
      show ?thesis
      proof (cases "matchPath (lit_child s rs) ss vs")
        case None
        from 2(2) [OF None s, of qs] 2(3) Cons Wild \<open>seg_match qs ss \<noteq> None\<close>
        have "matchPath (wild_child rs) ss (vs @ [s]) \<noteq> None" by (simp add: wild_child_iff)
        then show ?thesis using s None by auto
      qed auto
    next
      case Multi
      with Cons 2(4) have "qs = []" by (auto split: if_splits)
      with 2(3) Cons Multi have "multi_child rs \<noteq> None" by (auto simp: multi_child_None)
      then show ?thesis by (auto split: option.split)
    qed
  qed
qed

text \<open>When one pattern matches and no other, it is found.\<close>

lemma matchPath_unique:
  assumes "(ps, v) \<in> set rs" and "seg_match ps ss = Some ws"
    and "\<And>qs u. (qs, u) \<in> set rs \<Longrightarrow> seg_match qs ss \<noteq> None \<Longrightarrow> u = v \<and> qs = ps"
  shows "matchPath rs ss vs = Some (v, vs @ ws)"
proof -
  obtain u vs' where m: "matchPath rs ss vs = Some (u, vs')"
    using matchPath_complete [OF assms(1), of ss vs] assms(2) by fastforce
  from matchPath_sound [OF m] assms(2) assms(3) m show ?thesis by fastforce
qed

section \<open>Paths built from segments\<close>

definition path_of :: "string list \<Rightarrow> string" where
  "path_of ss = CHR ''/'' # Join ss ''/''"

definition plain_seg :: "string \<Rightarrow> bool" where
  "plain_seg s \<longleftrightarrow> s \<notin> {[], ''.'', ''..''} \<and> CHR ''/'' \<notin> set s"

lemma clean_plain: "list_all plain_seg ss \<Longrightarrow> fold clean_step ss stack = rev ss @ stack"
  by (induction ss arbitrary: stack) (auto simp: clean_step_def plain_seg_def)

lemma last_path_of: "ss \<noteq> [] \<Longrightarrow> list_all plain_seg ss \<Longrightarrow> last (path_of ss) \<noteq> CHR ''/''"
proof (induction ss "''/''" rule: Join.induct)
  case (2 x)
  then show ?case by (cases x rule: rev_cases) (auto simp: path_of_def plain_seg_def)
next
  case (3 x y xs)
  then have "last (Join (y # xs) ''/'') \<noteq> CHR ''/''" and "Join (y # xs) ''/'' \<noteq> []"
    by (auto simp: path_of_def plain_seg_def split: if_splits)
  then show ?case by (simp add: path_of_def)
qed simp

lemma cleanPath_path_of:
  assumes "ss \<noteq> []" and "list_all plain_seg ss"
  shows "cleanPath (path_of ss) = path_of ss"
proof -
  have "Split (path_of ss) CHR ''/'' = [] # ss"
    using assms by (simp add: path_of_def Split_Join plain_seg_def list_all_iff)
  then have "path_Clean (path_of ss) = path_of ss"
    using clean_plain [OF assms(2), of "[]"] by (simp add: path_Clean_def clean_step_def path_of_def)
  then show ?thesis using last_path_of [OF assms] by (simp add: cleanPath_def path_of_def)
qed

lemma path_segs_path_of:
  assumes "ss \<noteq> []" and "list_all plain_seg ss"
  shows "path_segs (path_of ss) = map path_unescape ss"
proof -
  have "Split (drop 1 (path_of ss)) CHR ''/'' = ss"
    using assms by (simp add: path_of_def Split_Join plain_seg_def list_all_iff)
  moreover have "last ss \<noteq> []" using assms by (auto simp: list_all_iff plain_seg_def dest: last_in_set)
  ultimately show ?thesis using assms(1)
    by (simp add: path_segs_def Let_def del: map_append) (metis append_butlast_last_id list.simps(8,9) map_append)
qed

lemma path_unescape_escape [simp]: "path_unescape (PathEscape s) = s"
  by (simp add: path_unescape_def)

lemma path_unescape_plain: "CHR ''%'' \<notin> set s \<Longrightarrow> path_unescape s = s"
proof -
  assume "CHR ''%'' \<notin> set s"
  then have "PathUnescape s = Some s" unfolding PathUnescape_def by (induction s) auto
  then show ?thesis by (simp add: path_unescape_def)
qed

lemma PathEscape_slash: "CHR ''/'' \<notin> set (PathEscape s)"
  using percent_chars unreserved_not by (auto simp: PathEscape_def)

lemma PathEscape_eqD: "PathEscape s = t \<Longrightarrow> PathUnescape t = Some t \<Longrightarrow> s = t"
  using PathUnescape_PathEscape [of s] by simp

lemma plain_PathEscape:
  assumes "s \<notin> {[], ''.'', ''..''}"
  shows "plain_seg (PathEscape s)"
proof -
  have u: "PathUnescape [] = Some []" "PathUnescape ''.'' = Some ''.''" "PathUnescape ''..'' = Some ''..''"
    by (simp_all add: PathUnescape_def)
  have "s \<noteq> []" "s \<noteq> ''.''" "s \<noteq> ''..''" using assms by auto
  then have "PathEscape s \<noteq> []" and "PathEscape s \<noteq> ''.''" and "PathEscape s \<noteq> ''..''"
    using PathEscape_eqD [OF _ u(1)] PathEscape_eqD [OF _ u(2)] PathEscape_eqD [OF _ u(3)] by iprover+
  then show ?thesis using PathEscape_slash [of s] by (simp add: plain_seg_def)
qed

text \<open>A request for a path of plain segments goes to the one pattern of its method that matches.\<close>

lemma findHandler_unique:
  assumes "ss \<noteq> []" and "list_all plain_seg ss" and "r \<in> set routes" and "rt_method r = m" and "m \<noteq> ''HEAD''"
    and "seg_match (rt_segs r) (map path_unescape ss) = Some ws"
    and "\<And>q. q \<in> set routes \<Longrightarrow> rt_method q = m \<Longrightarrow> seg_match (rt_segs q) (map path_unescape ss) \<noteq> None \<Longrightarrow> q = r"
  shows "findHandler routes m (path_of ss) = Found (rt_handler r) ws"
proof -
  have "matchPath (patterns_of routes m) (map path_unescape ss) [] = Some (r, [] @ ws)"
  proof (rule matchPath_unique [of "rt_segs r"])
    show "(rt_segs r, r) \<in> set (patterns_of routes m)"
      using assms(3,4) by (auto simp: patterns_of_def)
    show "seg_match (rt_segs r) (map path_unescape ss) = Some ws" by (rule assms(6))
  next
    fix qs q
    assume "(qs, q) \<in> set (patterns_of routes m)" and some: "seg_match qs (map path_unescape ss) \<noteq> None"
    then have q: "q \<in> set routes" "rt_method q = m" "qs = rt_segs q" by (auto simp: patterns_of_def)
    with some have "q = r" by (intro assms(7)) simp_all
    with q show "q = r \<and> qs = rt_segs r" by simp
  qed
  then have n: "matchMethodAndPath routes m (path_of ss) = Some (r, ws)"
    by (simp add: matchMethodAndPath_def path_segs_path_of [OF assms(1,2)])
  moreover have "exactMatch (Some (r, ws)) (path_of ss)"
    using last_path_of [OF assms(1,2)] by (simp add: exactMatch_def path_of_def)
  ultimately show ?thesis
    by (simp add: findHandler_def Let_def cleanPath_path_of [OF assms(1,2)])
qed

text \<open>What is found was registered, for this method, and its pattern matches the path.\<close>

lemma findHandler_Found:
  assumes "findHandler routes m p = Found h vs"
  shows "\<exists>r \<in> set routes. rt_handler r = h \<and> (rt_method r = m \<or> m = ''HEAD'' \<and> rt_method r = ''GET'')
    \<and> seg_match (rt_segs r) (path_segs p) = Some vs"
proof -
  obtain r where p: "cleanPath p = p" and n: "matchMethodAndPath routes m p = Some (r, vs)" and h: "rt_handler r = h"
    using assms by (auto simp: findHandler_def Let_def split: if_splits option.splits)
  have sound: "r \<in> set routes \<and> rt_method r = m' \<and> seg_match (rt_segs r) (path_segs p) = Some vs"
    if "matchPath (patterns_of routes m') (path_segs p) [] = Some (r, vs)" for m'
    using matchPath_sound [OF that] by (auto simp: patterns_of_def)
  from n sound [of m] sound [of "''GET''"] h show ?thesis
    by (auto simp: matchMethodAndPath_def split: option.splits if_splits)
qed

end
