(* ===== verification/Routes.thy ===== *)
theory Routes
  imports Go_Mux Api_Base
begin

text \<open>
  The routes of \<open>api/server.go\<close>, with the middleware that stands before each handler. The lemmas say
  that whatever changes data asks for a permission to, that nothing else is open to the public than
  the forms, the login and the static files, and that an identifier that a client escapes as a
  segment of the path arrives at the handler as it was.
\<close>

section \<open>The table\<close>

text \<open>Who may call: anybody, a user with a password, one with permissions, one with a session and permissions.\<close>

datatype access = Open | Authenticated | Api "Permission list" | Session "Permission list"

record endpoint =
  ep_access :: access
  ep_handler :: string

definition endpoint :: "string \<Rightarrow> access \<Rightarrow> string \<Rightarrow> endpoint route" where
  "endpoint pattern a h = (case parse_pattern pattern of
     (m, segs) \<Rightarrow> \<lparr>rt_method = m, rt_segs = segs, rt_handler = \<lparr>ep_access = a, ep_handler = h\<rparr>\<rparr>)"

definition registerRoutes :: "endpoint route list" where
  "registerRoutes = [
     endpoint ''POST /api/v1/events'' (Api [PermPublish]) ''handleCreateEvent'',
     endpoint ''GET /api/v1/events'' (Api [PermRead]) ''handleListEvents'',
     endpoint ''GET /api/v1/events/{event_id}'' (Api [PermRead]) ''handleGetEvent'',
     endpoint ''PATCH /api/v1/events/{event_id}'' (Api [PermPublish]) ''handleUpdateEvent'',
     endpoint ''POST /api/v1/events/{event_id}/end'' (Api [PermPublish]) ''handleEndEvent'',
     endpoint ''GET /api/v1/events/{event_id}/notifications'' (Api [PermRead]) ''handleListEventNotifications'',
     endpoint ''POST /api/v1/notifications'' (Api [PermPublish]) ''handlePublishNotification'',
     endpoint ''GET /api/v1/notifications/{notification_id}'' (Api [PermRead]) ''handleGetNotification'',
     endpoint ''GET /api/v1/notifications/{notification_id}/deliveries'' (Api [PermRead]) ''handleListNotificationDeliveries'',
     endpoint ''GET /api/v1/deliveries/{delivery_id}'' (Api [PermRead]) ''handleGetDelivery'',
     endpoint ''GET /api/v1/groups'' (Api [PermRead]) ''handleListGroups'',
     endpoint ''GET /api/v1/groups/{group_name}/members'' (Api [PermRead]) ''handleListGroupMembers'',
     endpoint ''GET /api/v1/groups/sync'' (Api [PermAdmin]) ''handleListSyncGroups'',
     endpoint ''POST /api/v1/groups/sync'' (Api [PermAdmin]) ''handleCreateSyncGroup'',
     endpoint ''DELETE /api/v1/groups/sync/{group_name}'' (Api [PermAdmin]) ''handleDeleteSyncGroup'',
     endpoint ''GET /api/v1/smtp/cram-credentials'' (Api [PermAdmin]) ''handleListCRAMCredentials'',
     endpoint ''POST /api/v1/smtp/cram-credentials'' (Api [PermAdmin]) ''handleCreateCRAMCredential'',
     endpoint ''DELETE /api/v1/smtp/cram-credentials/{username}'' (Api [PermAdmin]) ''handleDeleteCRAMCredential'',
     endpoint ''GET /api/v1/audit'' (Api [PermAdmin]) ''handleListAuditLog'',
     endpoint ''POST /api/v1/templates'' (Api [PermAdmin]) ''handleCreateTemplate'',
     endpoint ''GET /api/v1/templates'' (Api [PermRead]) ''handleListTemplates'',
     endpoint ''GET /api/v1/templates/{template_name}'' (Api [PermRead]) ''handleGetTemplate'',
     endpoint ''PUT /api/v1/templates/{template_name}'' (Api [PermAdmin]) ''handleUpdateTemplate'',
     endpoint ''DELETE /api/v1/templates/{template_name}'' (Api [PermAdmin]) ''handleDeleteTemplate'',
     endpoint ''GET /subscribe'' Open ''handleSubscribeForm'',
     endpoint ''POST /subscribe'' Open ''handleSubscribeSubmit'',
     endpoint ''GET /unsubscribe'' Open ''handleUnsubscribeForm'',
     endpoint ''POST /unsubscribe'' Open ''handleUnsubscribeSubmit'',
     endpoint ''GET /api/v1/sms-subscriptions'' (Api [PermAdmin]) ''handleListSMSSubscriptions'',
     endpoint ''POST /api/v1/sms-subscriptions'' (Api [PermAdmin]) ''handleAdminSubscribe'',
     endpoint ''POST /api/v1/sms-subscriptions/me'' Authenticated ''handleSelfSubscribe'',
     endpoint ''DELETE /api/v1/sms-subscriptions/me'' Authenticated ''handleSelfUnsubscribe'',
     endpoint ''DELETE /api/v1/sms-subscriptions/{username}'' (Api [PermAdmin]) ''handleDeleteSMSSubscription'',
     endpoint ''GET /ui/login'' Open ''handleUILoginForm'',
     endpoint ''POST /ui/login'' Open ''handleUILoginSubmit'',
     endpoint ''POST /ui/logout'' Open ''handleUILogout'',
     endpoint ''GET /ui/{$}'' Open ''redirectToEvents'',
     endpoint ''GET /ui/events'' (Session [PermRead]) ''handleUIListEvents'',
     endpoint ''GET /ui/events/{event_id}'' (Session [PermRead]) ''handleUIGetEvent'',
     endpoint ''GET /ui/notifications/{notification_id}/deliveries-partial'' (Session [PermRead]) ''handleUINotificationDeliveriesPartial'',
     endpoint ''GET /ui/groups/sync'' (Session [PermAdmin]) ''handleUIListSyncGroups'',
     endpoint ''POST /ui/groups/sync'' (Session [PermAdmin]) ''handleUICreateSyncGroup'',
     endpoint ''POST /ui/groups/sync/{group_name}/delete'' (Session [PermAdmin]) ''handleUIDeleteSyncGroup'',
     endpoint ''GET /ui/templates'' (Session [PermRead]) ''handleUIListTemplates'',
     endpoint ''GET /ui/templates/new'' (Session [PermAdmin]) ''handleUINewTemplateForm'',
     endpoint ''POST /ui/templates/new'' (Session [PermAdmin]) ''handleUICreateTemplate'',
     endpoint ''GET /ui/templates/{template_name}/edit'' (Session [PermAdmin]) ''handleUIEditTemplateForm'',
     endpoint ''POST /ui/templates/{template_name}/edit'' (Session [PermAdmin]) ''handleUIUpdateTemplate'',
     endpoint ''POST /ui/templates/{template_name}/delete'' (Session [PermAdmin]) ''handleUIDeleteTemplate'',
     endpoint ''GET /ui/static/'' Open ''FileServerFS'']"

text \<open>The pages of the specification are registered first, if the file was found.\<close>

definition docs_route :: "bool \<Rightarrow> endpoint route list" where
  "docs_route spec = (if spec then [endpoint ''GET /docs/'' Open ''swaggerui''] else [])"

definition mux_routes :: "bool \<Rightarrow> endpoint route list" where
  "mux_routes spec = docs_route spec @ registerRoutes"

section \<open>Who gets where\<close>

definition public_handlers :: "string list" where
  "public_handlers = [''handleSubscribeForm'', ''handleSubscribeSubmit'', ''handleUnsubscribeForm'',
     ''handleUnsubscribeSubmit'', ''handleUILoginForm'', ''handleUILoginSubmit'', ''handleUILogout'',
     ''redirectToEvents'', ''FileServerFS'', ''swaggerui'']"

definition self_handlers :: "string list" where
  "self_handlers = [''handleSelfSubscribe'', ''handleSelfUnsubscribe'']"

text \<open>The handlers behind a permission that change data, with the permission.\<close>

definition changing_handlers :: "(string \<times> Permission) list" where
  "changing_handlers = [(''handleCreateEvent'', PermPublish), (''handleUpdateEvent'', PermPublish),
     (''handleEndEvent'', PermPublish), (''handlePublishNotification'', PermPublish),
     (''handleCreateSyncGroup'', PermAdmin), (''handleDeleteSyncGroup'', PermAdmin),
     (''handleCreateCRAMCredential'', PermAdmin), (''handleDeleteCRAMCredential'', PermAdmin),
     (''handleCreateTemplate'', PermAdmin), (''handleUpdateTemplate'', PermAdmin), (''handleDeleteTemplate'', PermAdmin),
     (''handleAdminSubscribe'', PermAdmin), (''handleDeleteSMSSubscription'', PermAdmin),
     (''handleUICreateSyncGroup'', PermAdmin), (''handleUIDeleteSyncGroup'', PermAdmin),
     (''handleUICreateTemplate'', PermAdmin), (''handleUIUpdateTemplate'', PermAdmin), (''handleUIDeleteTemplate'', PermAdmin)]"

definition reading_access :: "access list" where
  "reading_access = [Open, Api [PermRead], Api [PermAdmin], Session [PermRead], Session [PermAdmin]]"

definition access_ok :: "string \<Rightarrow> endpoint \<Rightarrow> bool" where
  "access_ok m ep \<longleftrightarrow>
     (ep_access ep = Open \<longleftrightarrow> ep_handler ep \<in> set public_handlers)
   \<and> (ep_access ep = Authenticated \<longleftrightarrow> ep_handler ep \<in> set self_handlers)
   \<and> (case map_of changing_handlers (ep_handler ep) of None \<Rightarrow> True
      | Some p \<Rightarrow> m \<noteq> ''GET'' \<and> (ep_access ep = Api [p] \<or> ep_access ep = Session [p]))
   \<and> (m = ''GET'' \<longrightarrow> ep_access ep \<in> set reading_access) \<and> m \<noteq> ''HEAD''"

lemma table_access: "list_all (\<lambda>r. access_ok (rt_method r) (rt_handler r)) (mux_routes True)"
  by code_simp

lemma table_access_spec: "list_all (\<lambda>r. access_ok (rt_method r) (rt_handler r)) (mux_routes spec)"
  using table_access by (cases spec) (auto simp: mux_routes_def docs_route_def)


section \<open>Identifiers in paths\<close>

text \<open>The path of a pattern with an identifier in place of its wildcard, and its unescaped segments.\<close>

definition fill :: "string \<Rightarrow> pseg list \<Rightarrow> string list" where
  "fill x ps = map (\<lambda>p. case p of Lit a \<Rightarrow> a | _ \<Rightarrow> x) ps"

text \<open>What the identifier must equal for another pattern to match as well; \<open>None\<close> if it never does.\<close>

fun clash :: "pseg list \<Rightarrow> pseg list \<Rightarrow> string list option" where
  "clash [] [] = Some []"
| "clash (Lit a # qs) (Lit b # ps) = (if a = b then clash qs ps else None)"
| "clash (Lit a # qs) (Wild # ps) = map_option ((#) a) (clash qs ps)"
| "clash (Wild # qs) (Lit b # ps) = (if b = ''/'' then None else clash qs ps)"
| "clash (Wild # qs) (Wild # ps) = clash qs ps"
| "clash (Multi # qs) (p # ps) = (if qs = [] then Some [] else None)"
| "clash _ _ = None"

lemma seg_match_short [simp]: "seg_match (p # ps) [] = None"
  by (cases p) simp_all

lemma seg_match_clash:
  "Multi \<notin> set ps \<Longrightarrow> seg_match qs (fill x ps) \<noteq> None \<Longrightarrow> \<exists>names. clash qs ps = Some names \<and> set names \<subseteq> {x}"
  by (induction qs ps rule: clash.induct) (auto simp: fill_def split: if_splits)

lemma seg_match_fill:
  "x \<noteq> ''/'' \<Longrightarrow> list_all (\<lambda>p. p = Wild \<or> (\<exists>a. p = Lit a)) ps \<Longrightarrow>
   seg_match ps (fill x ps) = Some (replicate (length (filter (\<lambda>p. p = Wild) ps)) x)"
  by (induction ps) (auto simp: fill_def)

definition one_wildcard :: "endpoint route \<Rightarrow> bool" where
  "one_wildcard r \<longleftrightarrow> length (filter (\<lambda>p. p = Wild) (rt_segs r)) = 1"

definition plain_lits :: "endpoint route \<Rightarrow> bool" where
  "plain_lits r \<longleftrightarrow> rt_segs r \<noteq> [] \<and> list_all (\<lambda>p. case p of Lit a \<Rightarrow> a \<notin> {[], ''.'', ''..''}
     \<and> CHR ''/'' \<notin> set a \<and> CHR ''%'' \<notin> set a | Wild \<Rightarrow> True | Multi \<Rightarrow> False) (rt_segs r)"

definition unsubscribe_route :: "endpoint route" where
  "unsubscribe_route = endpoint ''DELETE /api/v1/sms-subscriptions/{username}'' (Api [PermAdmin]) ''handleDeleteSMSSubscription''"

text \<open>Only the deletion of a subscription shares a path with another route, for one name.\<close>

definition clash_known :: "endpoint route \<Rightarrow> endpoint route \<Rightarrow> bool" where
  "clash_known r q \<longleftrightarrow> rt_method q \<noteq> rt_method r \<or> (case clash (rt_segs q) (rt_segs r) of
     None \<Rightarrow> True | Some names \<Rightarrow> q = r \<or> r = unsubscribe_route \<and> names = [''me''])"

definition clashes_known :: "endpoint route list \<Rightarrow> bool" where
  "clashes_known routes = list_all (\<lambda>r. one_wildcard r \<longrightarrow>
     plain_lits r \<and> rt_method r \<noteq> ''HEAD'' \<and> list_all (clash_known r) routes) routes"

lemma table_clashes: "clashes_known (mux_routes True)"
  by code_simp

lemma identifier_found:
  assumes "r \<in> set (mux_routes True)" and "one_wildcard r"
    and "x \<notin> {[], ''.'', ''..'', ''/''}" and "r = unsubscribe_route \<longrightarrow> x \<noteq> ''me''"
  shows "findHandler (mux_routes True) (rt_method r) (path_of (fill (PathEscape x) (rt_segs r))) = Found (rt_handler r) [x]"
proof -
  have t: "plain_lits r" "rt_method r \<noteq> ''HEAD''" "list_all (clash_known r) (mux_routes True)"
    using table_clashes assms(1,2) unfolding clashes_known_def list_all_iff by blast+
  note lits = t(1) [unfolded plain_lits_def]
  have x: "plain_seg (PathEscape x)" by (rule plain_PathEscape) (use assms(3) in blast)
  have "list_all plain_seg (fill (PathEscape x) (rt_segs r))"
    using lits x by (auto simp: fill_def list_all_iff plain_seg_def split: pseg.splits)
  moreover have "map path_unescape (fill (PathEscape x) (rt_segs r)) = fill x (rt_segs r)"
    using lits by (auto simp: fill_def list_all_iff path_unescape_plain split: pseg.splits)
  moreover have "seg_match (rt_segs r) (fill x (rt_segs r)) = Some [x]"
  proof -
    have "list_all (\<lambda>p. p = Wild \<or> (\<exists>a. p = Lit a)) (rt_segs r)"
      unfolding list_all_iff
    proof
      fix p assume "p \<in> set (rt_segs r)"
      then have "p \<noteq> Multi" using lits by (auto simp: list_all_iff)
      then show "p = Wild \<or> (\<exists>a. p = Lit a)" using pseg.exhaust [of p] by blast
    qed
    from seg_match_fill [OF _ this] assms(2,3) show ?thesis by (simp add: one_wildcard_def)
  qed
  moreover have "q = r" if "q \<in> set (mux_routes True)" "rt_method q = rt_method r"
    "seg_match (rt_segs q) (fill x (rt_segs r)) \<noteq> None" for q
  proof (rule ccontr)
    assume "q \<noteq> r"
    have "Multi \<notin> set (rt_segs r)" using lits by (auto simp: list_all_iff split: pseg.splits)
    from seg_match_clash [OF this that(3)] obtain names
      where n: "clash (rt_segs q) (rt_segs r) = Some names" "set names \<subseteq> {x}" by blast
    with t(3) that(1,2) \<open>q \<noteq> r\<close> have "r = unsubscribe_route" "names = [''me'']"
      unfolding clash_known_def list_all_iff by fastforce+
    with n(2) assms(4) show False by simp
  qed
  moreover have "fill (PathEscape x) (rt_segs r) \<noteq> []" using lits by (simp add: fill_def)
  ultimately show ?thesis
    using findHandler_unique [of "fill (PathEscape x) (rt_segs r)" r "mux_routes True" "rt_method r" "[x]"] assms(1) t(2)
    by simp
qed

section \<open>Paths without identifiers\<close>

definition literal :: "endpoint route \<Rightarrow> bool" where
  "literal r \<longleftrightarrow> rt_segs r \<noteq> [] \<and> list_all (\<lambda>p. case p of Lit a \<Rightarrow> a \<notin> {[], ''.'', ''..''}
     \<and> CHR ''/'' \<notin> set a \<and> CHR ''%'' \<notin> set a | _ \<Rightarrow> False) (rt_segs r)"

definition self_unsubscribe_route :: "endpoint route" where
  "self_unsubscribe_route = endpoint ''DELETE /api/v1/sms-subscriptions/me'' Authenticated ''handleSelfUnsubscribe''"

text \<open>Only the path of the user's own subscription matches another pattern, which is less specific.\<close>

definition literals_alone :: "endpoint route list \<Rightarrow> bool" where
  "literals_alone routes = list_all (\<lambda>r. literal r \<longrightarrow> r = self_unsubscribe_route \<or> rt_method r \<noteq> ''HEAD'' \<and>
     list_all (\<lambda>q. rt_method q \<noteq> rt_method r \<or> clash (rt_segs q) (rt_segs r) = None \<or> q = r) routes) routes"

lemma table_literals: "literals_alone (mux_routes True)"
  by code_simp

lemma self_unsubscribe_found:
  "findHandler (mux_routes True) ''DELETE'' ''/api/v1/sms-subscriptions/me'' = Found (rt_handler self_unsubscribe_route) []"
  by code_simp

lemma self_unsubscribe_path:
  "rt_method self_unsubscribe_route = ''DELETE''"
  "path_of (fill x (rt_segs self_unsubscribe_route)) = ''/api/v1/sms-subscriptions/me''"
proof -
  have "rt_segs self_unsubscribe_route = [Lit ''api'', Lit ''v1'', Lit ''sms-subscriptions'', Lit ''me'']" by code_simp
  then show "path_of (fill x (rt_segs self_unsubscribe_route)) = ''/api/v1/sms-subscriptions/me''"
    by (simp add: fill_def path_of_def)
qed code_simp

lemma fill_literal: "literal r \<Longrightarrow> fill x (rt_segs r) = fill y (rt_segs r)"
  by (auto simp: literal_def fill_def list_all_iff split: pseg.splits)

lemma literal_found:
  assumes "r \<in> set (mux_routes True)" and "literal r"
  shows "findHandler (mux_routes True) (rt_method r) (path_of (fill x (rt_segs r))) = Found (rt_handler r) []"
proof (cases "r = self_unsubscribe_route")
  case False
  have t: "rt_method r \<noteq> ''HEAD''"
      "list_all (\<lambda>q. rt_method q \<noteq> rt_method r \<or> clash (rt_segs q) (rt_segs r) = None \<or> q = r) (mux_routes True)"
    using table_literals assms False unfolding literals_alone_def list_all_iff by blast+
  note lits = assms(2) [unfolded literal_def]
  have "list_all plain_seg (fill x (rt_segs r))"
    using lits by (auto simp: fill_def list_all_iff plain_seg_def split: pseg.splits)
  moreover have "map path_unescape (fill x (rt_segs r)) = fill [] (rt_segs r)"
    using lits by (auto simp: fill_def list_all_iff path_unescape_plain split: pseg.splits)
  moreover have "seg_match (rt_segs r) (fill [] (rt_segs r)) = Some []"
  proof -
    have "p = Wild \<or> (\<exists>a. p = Lit a)" if "p \<in> set (rt_segs r)" for p
      using lits that by (cases p) (auto simp: list_all_iff)
    then have "list_all (\<lambda>p. p = Wild \<or> (\<exists>a. p = Lit a)) (rt_segs r)" by (simp add: list_all_iff)
    moreover have "filter (\<lambda>p. p = Wild) (rt_segs r) = []"
      using lits by (auto simp: list_all_iff filter_empty_conv split: pseg.splits)
    ultimately show ?thesis using seg_match_fill [of "[]" "rt_segs r"] by simp
  qed
  moreover have "q = r" if "q \<in> set (mux_routes True)" "rt_method q = rt_method r"
    "seg_match (rt_segs q) (fill [] (rt_segs r)) \<noteq> None" for q
  proof -
    have "Multi \<notin> set (rt_segs r)" using lits by (auto simp: list_all_iff split: pseg.splits)
    from seg_match_clash [OF this that(3)] t(2) that(1,2) show ?thesis unfolding list_all_iff by fastforce
  qed
  moreover have "fill x (rt_segs r) \<noteq> []" using lits by (simp add: fill_def)
  ultimately show ?thesis
    using findHandler_unique [of "fill x (rt_segs r)" r "mux_routes True" "rt_method r" "[]"] assms(1) t(1) by simp
qed (simp add: self_unsubscribe_path self_unsubscribe_found)

text \<open>C34 (roundtrip): an identifier reaches the handler as it was: on every route with one wildcard, a
  client that puts the escaped identifier into the path gets this handler with exactly the
  identifier, unless it is empty, a dot segment or a single slash; and unless it is \<open>me\<close>, when a
  subscription is deleted.\<close>

theorem identifier_reaches_handler:
  assumes "r \<in> set (mux_routes True)" and "one_wildcard r"
    and "x \<notin> {[], ''.'', ''..'', ''/''}" and "r = unsubscribe_route \<longrightarrow> x \<noteq> ''me''"
  shows "findHandler (mux_routes True) (rt_method r) (path_of (fill (PathEscape x) (rt_segs r))) = Found (rt_handler r) [x]"
  using assms by (rule identifier_found)

end
