(* ===== verification/Samples_Wiring.thy ===== *)
theory Samples_Wiring
  imports Samples_Front Samples_Ldap Wiring Routes
begin

text \<open>
  Witnesses for the theorems on the email provider, the wiring of the process and the routes: a mail
  server that answers everything, a configuration with TLS and CRAM-MD5, and concrete requests.
\<close>

section \<open>Email\<close>

definition kind_server :: mail_server where
  "kind_server before c = None"

definition sample_mailer :: SMTPEmail where
  "sample_mailer = NewSMTPEmail \<lparr>ec_Host = ''mail.x'', ec_Port = 587, ec_Username = ''relay'', ec_Password = ''pw'',
     ec_FromAddress = ''relay@x'', ec_TLSMode = ''starttls''\<rparr> 30"

theorem email_send_outcome_witness:
  "\<exists>l. run_state (SMTPEmail_Send kind_server sample_mailer None ''ann@x'' ''s'' ''b'') no_link = (None, l)
     \<and> last (lk_calls l) = CloseConn \<and> MailFrom ''relay@x'' \<in> set (lk_calls l)"
proof -
  obtain r l where run: "run_state (SMTPEmail_Send kind_server sample_mailer None ''ann@x'' ''s'' ''b'') no_link = (r, l)"
    by fastforce
  have all: "answered kind_server h cs" for h cs
    by (induction cs arbitrary: h) (simp_all add: kind_server_def)
  have "validLine ''ann@x'' \<and> validLine ''relay@x''" by (simp add: validLine_def)
  with email_send_outcome [OF run] all
  have "r = None" "lk_calls l = conversation sample_mailer None ''ann@x'' ''s'' ''b'' @ [QuitCmd, CloseConn]"
    by (simp_all add: kind_server_def sample_mailer_def NewSMTPEmail_def password_allowed_def)
  with run show ?thesis by (simp add: conversation_def sample_mailer_def NewSMTPEmail_def)
qed

theorem password_needs_tls_witness:
  "\<not> clear_password kind_server []
     (lk_calls (snd (run_state (SMTPEmail_Send kind_server sample_mailer None ''ann@x'' ''s'' ''b'') no_link)))"
  by (rule password_needs_tls [OF prod.collapse [symmetric]])
    (simp add: sample_mailer_def NewSMTPEmail_def isLocalhost_def)

section \<open>The process\<close>

definition sample_externals :: externals where
  "sample_externals = \<lparr>ex_mkdir = None, ex_openable = (\<lambda>_. None), ex_today = ''2026-01-01'', ex_files = (\<lambda>_. None),
     ex_sql_open = (\<lambda>_. None), ex_ping = (\<lambda>_. None), ex_migrate = None,
     ex_ldap = (\<lambda>_. sample_ldap), ex_sha = id, ex_post = (\<lambda>_ _ _ _ _. Inl ''down''), ex_get = (\<lambda>_ _ _. Inl ''down''),
     ex_mail = (\<lambda>_. kind_server), ex_engine = sample_engine, ex_json_error = id, ex_order = id,
     ex_crypto = sample_crypto, ex_keypair = (\<lambda>_ _. True)\<rparr>"

definition sample_config :: Config where
  "sample_config = default_config\<lparr>cf_Database := \<lparr>dc_Path = ''relay.db'', dc_MaxReaderConns = 0\<rparr>,
     cf_LDAP := (cf_LDAP default_config)\<lparr>lf_PrimaryURL := ''ldap://a'', lf_BindDN := ''cn=r'', lf_BindPassword := ''pw'',
       lf_UserBaseDN := ''dc=x'', lf_Roles := [(''admin'', [''ops''])]\<rparr>,
     cf_SMTPServer := (cf_SMTPServer default_config)\<lparr>sf_ListenAddr := '':2525'', sf_Domain := ''relay.local''\<rparr>\<rparr>"

theorem started_process_is_wired_witness:
  "\<exists>sys l. relay_main sample_externals (\<lambda>_. Inr []) (\<lambda>_. None) (\<lambda>_ _. Inr sample_config) ''c.yaml'' = Running sys
     \<and> sy_smtp sys = Some l \<and> sv_cramStore (sl_server l (ldapAuthenticator (\<lambda>_. sample_ldap) sample_conf)) = hs_cramKey (sy_http sys) \<and> sy_workers sys = 4"
proof -
  have "config_ok sample_config"
    by (simp add: config_ok_def sample_config_def default_config_def tls_mode_known_def)
  then have v: "validate sample_config = None" by (simp only: validate_None)
  have c: "cf_Database sample_config = \<lparr>dc_Path = ''relay.db'', dc_MaxReaderConns = 0\<rparr>"
    "gf_Dir (cf_Logging sample_config) = []" "new_tickers (ticker_intervals (assemble sample_externals sample_config h)) = None" for h
    by (simp_all add: sample_config_def default_config_def ticker_intervals_def new_tickers_def assemble_def
        NewSyncer_def Let_def)
  have e: "ex_sql_open sample_externals x = None" "ex_ping sample_externals x = None" "ex_migrate sample_externals = None" for x
    by (simp_all add: sample_externals_def)
  have "relay_main sample_externals (\<lambda>_. Inr []) (\<lambda>_. None) (\<lambda>_ _. Inr sample_config) ''c.yaml''
      = Running (assemble sample_externals sample_config \<lparr>dh_writer = writer_dsn ''relay.db'', dh_writer_conns = 1,
          dh_reader = writer_dsn ''relay.db'' @ ''&mode=ro'', dh_reader_conns = 4\<rparr>)"
    by (simp add: relay_main_def Load_def v c e start_with_def db_Open_def newLogger_def Let_def)
  moreover obtain sys where sys: "sys = assemble sample_externals sample_config \<lparr>dh_writer = writer_dsn ''relay.db'',
      dh_writer_conns = 1, dh_reader = writer_dsn ''relay.db'' @ ''&mode=ro'', dh_reader_conns = 4\<rparr>" by simp
  moreover have "sy_smtp sys \<noteq> None" "sy_workers sys = 4"
    by (simp_all add: sys assemble_def sample_config_def default_config_def Let_def)
  ultimately show ?thesis
    using started_process_is_wired [of sample_externals "\<lambda>_. Inr []" "\<lambda>_. None" "\<lambda>_ _. Inr sample_config" "''c.yaml''" sys
      "ldapAuthenticator (\<lambda>_. sample_ldap) sample_conf"] by auto
qed

section \<open>Routes\<close>


theorem identifier_reaches_handler_witness:
  "findHandler (mux_routes True) ''DELETE'' (path_of (fill (PathEscape ''a/b c'') (rt_segs unsubscribe_route)))
     = Found (rt_handler unsubscribe_route) [''a/b c'']"
proof -
  have "unsubscribe_route \<in> set (mux_routes True)"
    by (simp add: mux_routes_def registerRoutes_def unsubscribe_route_def)
  moreover have "one_wildcard unsubscribe_route" "rt_method unsubscribe_route = ''DELETE''" by code_simp+
  ultimately show ?thesis using identifier_reaches_handler [of unsubscribe_route "''a/b c''"] by simp
qed

end
