(* ===== verification/Go_Flag.thy ===== *)
theory Go_Flag
  imports Go_Json
begin

text \<open>
  The parsing of command lines by Go's \<open>flag\<close> package, for the kinds of flags that the client
  uses: strings, integers in any base, switches, and the repeatable flags of the program with
  their own \<open>Set\<close>. Parsing stops at the first argument that is not a flag.
\<close>

section \<open>Integers in any base\<close>

definition base_digit :: "char \<Rightarrow> nat option" where
  "base_digit c = (if is_digit c then Some (digit_val c)
     else if 97 \<le> byte (lower_char c) \<and> byte (lower_char c) \<le> 122 then Some (byte (lower_char c) - 87) else None)"

fun base_digits :: "nat \<Rightarrow> nat \<Rightarrow> string \<Rightarrow> nat option" where
  "base_digits b acc [] = Some acc"
| "base_digits b acc (c # cs) = (if c = CHR ''_'' then base_digits b acc cs
     else (case base_digit c of None \<Rightarrow> None
       | Some d \<Rightarrow> if d < b then base_digits b (b * acc + d) cs else None))"

definition base_prefix :: "string \<Rightarrow> nat \<times> string" where
  "base_prefix s = (case s of
      z # x # c # cs \<Rightarrow> if z = CHR ''0'' \<and> lower_char x = CHR ''b'' then (2, c # cs)
        else if z = CHR ''0'' \<and> lower_char x = CHR ''o'' then (8, c # cs)
        else if z = CHR ''0'' \<and> lower_char x = CHR ''x'' then (16, c # cs)
        else if z = CHR ''0'' then (8, x # c # cs) else (10, s)
    | z # cs \<Rightarrow> if z = CHR ''0'' then (8, cs) else (10, s)
    | [] \<Rightarrow> (10, s))"

text \<open>\<open>underscoreOK\<close>: underscores stand between digits, or between a base prefix and a digit.\<close>

fun underscores_between :: "bool \<Rightarrow> char \<Rightarrow> string \<Rightarrow> bool" where
  "underscores_between hex saw [] \<longleftrightarrow> saw \<noteq> CHR ''_''"
| "underscores_between hex saw (c # cs) \<longleftrightarrow>
     (if is_digit c \<or> hex \<and> 97 \<le> byte (lower_char c) \<and> byte (lower_char c) \<le> 102 then underscores_between hex CHR ''0'' cs
      else if c = CHR ''_'' then saw = CHR ''0'' \<and> underscores_between hex CHR ''_'' cs
      else saw \<noteq> CHR ''_'' \<and> underscores_between hex CHR ''!'' cs)"

definition underscoreOK :: "string \<Rightarrow> bool" where
  "underscoreOK s = (case s of
      z # x # cs \<Rightarrow> if z = CHR ''0'' \<and> lower_char x \<in> {CHR ''b'', CHR ''o'', CHR ''x''}
        then underscores_between (lower_char x = CHR ''x'') CHR ''0'' cs else underscores_between False CHR ''^'' s
    | _ \<Rightarrow> underscores_between False CHR ''^'' s)"

definition split_sign :: "string \<Rightarrow> bool \<times> string" where
  "split_sign s = (case s of [] \<Rightarrow> (False, [])
     | c # cs \<Rightarrow> if c = CHR ''-'' then (True, cs) else if c = CHR ''+'' then (False, cs) else (False, s))"

text \<open>\<open>strconv.ParseInt(s, 0, 64)\<close>, with the errors of the \<open>flag\<close> package.\<close>

definition ParseInt0 :: "string \<Rightarrow> string + int" where
  "ParseInt0 s =
     (let (neg, u) = split_sign s; (b, ds) = base_prefix u
      in if u = [] then Inl ''parse error''
         else (case base_digits b 0 ds of
             None \<Rightarrow> Inl ''parse error''
           | Some n \<Rightarrow> if CHR ''_'' \<in> set u \<and> \<not> underscoreOK u then Inl ''parse error''
               else if (neg \<and> n \<le> 2 ^ 63) then Inr (- int n)
               else if (\<not> neg \<and> n < 2 ^ 63) then Inr (int n)
               else Inl ''value out of range''))"

definition ParseBool :: "string \<Rightarrow> bool option" where
  "ParseBool s = (if s \<in> {''1'', ''t'', ''T'', ''TRUE'', ''true'', ''True''} then Some True
     else if s \<in> {''0'', ''f'', ''F'', ''FALSE'', ''false'', ''False''} then Some False else None)"

section \<open>Flags\<close>

text \<open>The value of a flag tells its kind; a repeatable flag grows.\<close>

datatype flag_value =
    FString string
  | FInt int
  | FBool bool
  | FStrings "string list"
  | FDestinations "Destination list"

type_synonym flag_set = "(string \<times> flag_value) list"

text \<open>\<open>Set\<close> of the value: an error or the new value.\<close>

definition set_destination :: "Destination list \<Rightarrow> string \<Rightarrow> string + Destination list" where
  "set_destination ds v = (case cut_at CHR '':'' v of
      None \<Rightarrow> Inl (''expected CHANNEL:TARGET, got '' @ go_quote v)
    | Some (ch, t) \<Rightarrow> Inr (ds @ [\<lparr>ds_Channel = ch, ds_Target = t\<rparr>]))"

definition flag_Set :: "flag_value \<Rightarrow> string \<Rightarrow> string + flag_value" where
  "flag_Set f v = (case f of
      FString _ \<Rightarrow> Inr (FString v)
    | FInt _ \<Rightarrow> (case ParseInt0 v of Inl e \<Rightarrow> Inl e | Inr n \<Rightarrow> Inr (FInt n))
    | FBool _ \<Rightarrow> (case ParseBool v of None \<Rightarrow> Inl ''parse error'' | Some b \<Rightarrow> Inr (FBool b))
    | FStrings xs \<Rightarrow> Inr (FStrings (xs @ [v]))
    | FDestinations ds \<Rightarrow> (case set_destination ds v of Inl e \<Rightarrow> Inl e | Inr ds' \<Rightarrow> Inr (FDestinations ds')))"

definition is_bool_flag :: "flag_value \<Rightarrow> bool" where
  "is_bool_flag f = (case f of FBool _ \<Rightarrow> True | _ \<Rightarrow> False)"

fun set_flag :: "string \<Rightarrow> flag_value \<Rightarrow> flag_set \<Rightarrow> flag_set" where
  "set_flag n v [] = []"
| "set_flag n v ((m, f) # fs) = (if n = m then (m, v) # fs else (m, f) # set_flag n v fs)"

section \<open>Parse\<close>

text \<open>\<open>--help\<close>, an error with its text, or the flags and what is left of the arguments.\<close>

datatype parse_result = Help | Failed string | Parsed flag_set "string list"

text \<open>The name in an argument that is a flag: without the dashes, up to the first equals sign that is
  not its first character, and the value after that.\<close>

definition flag_name :: "string \<Rightarrow> string" where
  "flag_name s = (if take 2 s = ''--'' then drop 2 s else drop 1 s)"

definition split_value :: "string \<Rightarrow> string \<times> string option" where
  "split_value name = (case cut_at CHR ''='' (tl name) of
      None \<Rightarrow> (name, None) | Some (n, v) \<Rightarrow> (hd name # n, Some v))"

definition is_flag :: "string \<Rightarrow> bool" where
  "is_flag s \<longleftrightarrow> 2 \<le> length s \<and> hd s = CHR ''-''"

fun flag_Parse :: "flag_set \<Rightarrow> string list \<Rightarrow> parse_result" where
  "flag_Parse fs [] = Parsed fs []"
| "flag_Parse fs (s # args) =
     (if \<not> is_flag s then Parsed fs (s # args)
      else if s = ''--'' then Parsed fs args
      else (let raw = flag_name s in
        if raw = [] \<or> hd raw = CHR ''-'' \<or> hd raw = CHR ''='' then Failed (''bad flag syntax: '' @ s)
        else (let (name, val) = split_value raw in
          (case map_of fs name of
             None \<Rightarrow> if name = ''help'' \<or> name = ''h'' then Help
               else Failed (''flag provided but not defined: -'' @ name)
           | Some f \<Rightarrow>
               if is_bool_flag f then
                 (case flag_Set f (case val of None \<Rightarrow> ''true'' | Some v \<Rightarrow> v) of
                    Inl e \<Rightarrow> Failed (''invalid boolean value '' @ go_quote (case val of None \<Rightarrow> ''true'' | Some v \<Rightarrow> v)
                      @ '' for -'' @ name @ '': '' @ e)
                  | Inr f' \<Rightarrow> flag_Parse (set_flag name f' fs) args)
               else (case val of
                   Some v \<Rightarrow> (case flag_Set f v of
                       Inl e \<Rightarrow> Failed (''invalid value '' @ go_quote v @ '' for flag -'' @ name @ '': '' @ e)
                     | Inr f' \<Rightarrow> flag_Parse (set_flag name f' fs) args)
                 | None \<Rightarrow> (case args of
                       [] \<Rightarrow> Failed (''flag needs an argument: -'' @ name)
                     | v # args' \<Rightarrow> (case flag_Set f v of
                           Inl e \<Rightarrow> Failed (''invalid value '' @ go_quote v @ '' for flag -'' @ name @ '': '' @ e)
                         | Inr f' \<Rightarrow> flag_Parse (set_flag name f' fs) args')))))))"

text \<open>Reading a parsed flag by name and kind.\<close>

definition str_flag :: "flag_set \<Rightarrow> string \<Rightarrow> string" where
  "str_flag fs n = (case map_of fs n of Some (FString s) \<Rightarrow> s | _ \<Rightarrow> [])"

definition int_flag :: "flag_set \<Rightarrow> string \<Rightarrow> int" where
  "int_flag fs n = (case map_of fs n of Some (FInt i) \<Rightarrow> i | _ \<Rightarrow> 0)"

definition bool_flag :: "flag_set \<Rightarrow> string \<Rightarrow> bool" where
  "bool_flag fs n = (case map_of fs n of Some (FBool b) \<Rightarrow> b | _ \<Rightarrow> False)"

definition strs_flag :: "flag_set \<Rightarrow> string \<Rightarrow> string list" where
  "strs_flag fs n = (case map_of fs n of Some (FStrings xs) \<Rightarrow> xs | _ \<Rightarrow> [])"

definition dests_flag :: "flag_set \<Rightarrow> string \<Rightarrow> Destination list" where
  "dests_flag fs n = (case map_of fs n of Some (FDestinations xs) \<Rightarrow> xs | _ \<Rightarrow> [])"

section \<open>Lemmas\<close>

declare flag_Parse.simps(2) [simp del]

text \<open>Nothing after the first argument that is not a flag is looked at.\<close>

lemma flag_Parse_positional: "\<not> is_flag s \<Longrightarrow> flag_Parse fs (s # args) = Parsed fs (s # args)"
  by (simp add: flag_Parse.simps(2))

text \<open>A flag of its own argument, followed by its value.\<close>

lemma flag_Parse_value:
  assumes "map_of fs n = Some f" and "\<not> is_bool_flag f" and "flag_Set f v = Inr f'"
    and "n \<noteq> []" and "hd n \<noteq> CHR ''-''" and "hd n \<noteq> CHR ''=''" and "CHR ''='' \<notin> set (tl n)"
  shows "flag_Parse fs ((''--'' @ n) # v # args) = flag_Parse (set_flag n f' fs) args"
proof -
  have "flag_name (''--'' @ n) = n" "split_value n = (n, None)"
    using assms(4,7) by (simp_all add: flag_name_def split_value_def cut_at_def)
  moreover have "is_flag (''--'' @ n)" "''--'' @ n \<noteq> ''--''" using assms(4) by (simp_all add: is_flag_def)
  ultimately show ?thesis using assms by (simp add: flag_Parse.simps(2))
qed

end
