(* ===== verification/Go_Decode.thy ===== *)
theory Go_Decode
  imports Go_Json
begin

text \<open>
  \<open>encoding/json\<close> into the structs of the program: a decoder for each Go type, fields by their tags,
  and the two ways the program reads JSON, all of a text (\<open>Unmarshal\<close>) and the first value of a
  body (\<open>NewDecoder\<close>, \<open>Decode\<close>). The lemmas say what a struct becomes when the members of the object are
  the fields, whatever their order.
\<close>

text \<open>\<open>Unmarshal\<close> into Go types: a decoder reads a value over what is already there.\<close>

type_synonym 'a decoder = "json \<Rightarrow> 'a \<Rightarrow> 'a option"

definition dec_string :: "string decoder" where
  "dec_string v old = (case v of JStr s \<Rightarrow> Some s | JNull \<Rightarrow> Some old | _ \<Rightarrow> None)"

definition dec_int :: "int decoder" where
  "dec_int v old = (case v of JNum n \<Rightarrow> ParseInt64 n | JNull \<Rightarrow> Some old | _ \<Rightarrow> None)"

definition dec_bool :: "bool decoder" where
  "dec_bool v old = (case v of JBool b \<Rightarrow> Some b | JNull \<Rightarrow> Some old | _ \<Rightarrow> None)"

text \<open>A slice is \<open>None\<close> when it is nil.\<close>

definition dec_slice :: "'a decoder \<Rightarrow> 'a \<Rightarrow> 'a list option decoder" where
  "dec_slice d zero v old = (case v of JNull \<Rightarrow> Some None
     | JArr xs \<Rightarrow> map_option Some (those (map (\<lambda>x. d x zero) xs)) | _ \<Rightarrow> None)"

definition dec_any_map :: "any_map option decoder" where
  "dec_any_map v old = (case v of JNull \<Rightarrow> Some None
     | JObj kvs \<Rightarrow> Some (Some (to_map ((case old of None \<Rightarrow> [] | Some m \<Rightarrow> m) @ map (map_prod id canon) kvs)))
     | _ \<Rightarrow> None)"

definition items :: "'a list option \<Rightarrow> 'a list" where
  "items xs = (case xs of None \<Rightarrow> [] | Some ys \<Rightarrow> ys)"

text \<open>Where nil and empty make no difference to the reader.\<close>

definition dec_list :: "'a decoder \<Rightarrow> 'a \<Rightarrow> 'a list decoder" where
  "dec_list d zero v old = map_option items (dec_slice d zero v None)"

definition dec_map :: "any_map decoder" where
  "dec_map v old = map_option items (dec_any_map v (Some old))"

text \<open>A pointer to a string is nil after \<open>null\<close>.\<close>

definition dec_pointer :: "string option decoder" where
  "dec_pointer v old = (case v of JStr s \<Rightarrow> Some (Some s) | JNull \<Rightarrow> Some None | _ \<Rightarrow> None)"

type_synonym 'r field_decoder = "string \<times> (json \<Rightarrow> 'r \<Rightarrow> 'r option)"

definition field :: "string \<Rightarrow> 'a decoder \<Rightarrow> ('r \<Rightarrow> 'a) \<Rightarrow> (('a \<Rightarrow> 'a) \<Rightarrow> 'r \<Rightarrow> 'r) \<Rightarrow> 'r field_decoder" where
  "field name d get upd = (name, \<lambda>v r. map_option (\<lambda>x. upd (\<lambda>_. x) r) (d v (get r)))"

text \<open>A key is looked up as it is, then without regard to case; an unknown one is skipped.\<close>

definition find_field :: "'r field_decoder list \<Rightarrow> string \<Rightarrow> 'r field_decoder option" where
  "find_field fs k = (case find (\<lambda>f. fst f = k) fs of Some f \<Rightarrow> Some f | None \<Rightarrow> find (\<lambda>f. EqualFold (fst f) k) fs)"

fun dec_fields :: "'r field_decoder list \<Rightarrow> (string \<times> json) list \<Rightarrow> 'r \<Rightarrow> 'r option" where
  "dec_fields fs [] r = Some r"
| "dec_fields fs ((k, v) # kvs) r = (case find_field fs k of
      None \<Rightarrow> dec_fields fs kvs r
    | Some (_, d) \<Rightarrow> (case d v r of None \<Rightarrow> None | Some r' \<Rightarrow> dec_fields fs kvs r'))"

definition dec_struct :: "'r field_decoder list \<Rightarrow> 'r decoder" where
  "dec_struct fs v r = (case v of JObj kvs \<Rightarrow> dec_fields fs kvs r | JNull \<Rightarrow> Some r | _ \<Rightarrow> None)"

definition dec_Destination :: "Destination decoder" where
  "dec_Destination = dec_struct [field ''channel'' dec_string ds_Channel ds_Channel_update,
     field ''target'' dec_string ds_Target ds_Target_update]"

definition unmarshal :: "'a decoder \<Rightarrow> 'a \<Rightarrow> string \<Rightarrow> 'a option" where
  "unmarshal d zero s = (case json_parse s of None \<Rightarrow> None | Some j \<Rightarrow> d j zero)"

text \<open>\<open>json.NewDecoder(r).Decode\<close>: what follows the first value is not read.\<close>

definition Decode :: "'a decoder \<Rightarrow> 'a \<Rightarrow> string \<Rightarrow> 'a option" where
  "Decode d zero s = (case parse_value (json_fuel s) s of None \<Rightarrow> None | Some (j, _) \<Rightarrow> d j zero)"

section \<open>Objects that name the fields\<close>

definition object :: "(string \<times> json) list \<Rightarrow> json" where
  "object kvs = JObj (to_map kvs)"

text \<open>Members that are set under a condition.\<close>

definition optional :: "(bool \<times> string \<times> json) list \<Rightarrow> (string \<times> json) list" where
  "optional ms = map snd (filter fst ms)"

lemma optional_keys: "set (map fst (optional ms)) \<subseteq> set (map (fst \<circ> snd) ms)"
  by (auto simp: optional_def)

lemma distinct_optional: "distinct (map (fst \<circ> snd) ms) \<Longrightarrow> distinct (map fst (optional ms))"
  unfolding optional_def by (induction ms) (auto simp: image_iff)

lemma map_of_optional:
  assumes "distinct (map (fst \<circ> snd) ms)" and "(b, k, v) \<in> set ms"
  shows "map_of (optional ms) k = (if b then Some v else None)"
  using assms by (induction ms) (fastforce simp: optional_def map_of_eq_None_iff image_iff split: if_splits)+

lemma distinct_to_map: "distinct (map fst (to_map kvs))"
  using sorted_to_map [of kvs] by (simp add: sorted_keys_def strict_sorted_iff)

lemma map_of_object_keys:
  assumes "distinct (map fst kvs)"
  shows "map_of (to_map kvs) k = map_of kvs k"
proof -
  have "map_of (rev kvs) = map_of kvs" using assms map_of_inject_set [of "rev kvs" kvs] by (simp add: rev_map [symmetric])
  then show ?thesis by (simp add: map_of_to_map)
qed

lemma set_map_put: "set (map_put k v m) \<subseteq> insert (k, v) (set m)"
  by (induction k v m rule: map_put.induct) auto

lemma set_to_map: "set (to_map kvs) \<subseteq> set kvs"
proof -
  have "set (foldl (\<lambda>m (k, v). map_put k v m) m kvs) \<subseteq> set m \<union> set kvs" for m
    using set_map_put by (induction kvs arbitrary: m) fastforce+
  from this [of "[]"] show ?thesis by (simp add: to_map_def)
qed

lemma sorted_keys_Cons: "sorted_keys ((k, v) # m) \<longleftrightarrow> (\<forall>k' \<in> fst ` set m. k < k') \<and> sorted_keys m"
  by (auto simp: sorted_keys_def)

lemma map_put_last: "(\<And>k'. k' \<in> fst ` set m \<Longrightarrow> k' < k) \<Longrightarrow> map_put k v m = m @ [(k, v)]"
  by (induction m) (force dest: less_asym)+

lemma to_map_sorted: "sorted_keys kvs \<Longrightarrow> to_map kvs = kvs"
proof -
  assume s: "sorted_keys kvs"
  have "foldl (\<lambda>m (k, v). map_put k v m) m kvs = m @ kvs" if "sorted_keys (m @ kvs)" for m
    using that
  proof (induction kvs arbitrary: m)
    case (Cons kv kvs)
    obtain k v where kv: "kv = (k, v)" by fastforce
    have "k' < k" if "k' \<in> fst ` set m" for k'
      using Cons.prems that by (auto simp: kv sorted_keys_def sorted_wrt_append)
    then have "map_put k v m = m @ [(k, v)]" by (rule map_put_last)
    with Cons.IH [of "m @ [(k, v)]"] Cons.prems show ?case by (simp add: kv)
  qed simp
  from this [of "[]"] s show ?thesis by (simp add: to_map_def)
qed

lemma map_put_map: "map_put k (f v) (map (map_prod id f) m) = map (map_prod id f) (map_put k v m)"
  by (induction m) auto

lemma to_map_map: "to_map (map (map_prod id f) kvs) = map (map_prod id f) (to_map kvs)"
proof -
  have "foldl (\<lambda>m (k, v). map_put k v m) (map (map_prod id f) m) (map (map_prod id f) kvs)
      = map (map_prod id f) (foldl (\<lambda>m (k, v). map_put k v m) m kvs)" for m
    by (induction kvs arbitrary: m) (auto simp: map_put_map)
  from this [of "[]"] show ?thesis by (simp add: to_map_def)
qed

lemma canon_canon: "canon (canon j) = canon j"
proof (induction j)
  case (JObj kvs)
  let ?c = "map (map_prod id canon) kvs"
  have "map (map_prod id canon) (to_map ?c) = to_map ?c"
    using JObj set_to_map [of ?c] by (intro map_idI) (fastforce simp: map_prod_def)
  then show ?case by (simp add: to_map_sorted sorted_to_map)
qed simp_all

text \<open>A field keeps its value, or takes the one of its member.\<close>

lemma find_field_known:
  assumes "k \<in> fst ` set fs"
  shows "\<exists>g. map_of fs k = Some g \<and> find_field fs k = Some (k, g)"
proof -
  have "find (\<lambda>f. fst f = k) fs = Some (k, the (map_of fs k)) \<and> map_of fs k \<noteq> None"
    using assms by (induction fs) auto
  then show ?thesis by (auto simp: find_field_def)
qed

definition sets_field :: "'r field_decoder list \<Rightarrow> string \<Rightarrow> 'a decoder \<Rightarrow> ('r \<Rightarrow> 'a) \<Rightarrow> bool" where
  "sets_field fs name d get \<longleftrightarrow> (\<forall>k g v q q'. map_of fs k = Some g \<longrightarrow> g v q = Some q' \<longrightarrow>
     (if k = name then d v (get q) = Some (get q') else get q' = get q))"

lemma sets_Nil: "sets_field [] name d get"
  by (simp add: sets_field_def)

lemma sets_here:
  "(\<And>x q. get (upd (\<lambda>_. x) q) = x) \<Longrightarrow> sets_field fs name d get \<Longrightarrow>
    sets_field (field name d get upd # fs) name d get"
  by (fastforce simp: sets_field_def field_def split: if_splits)

lemma sets_other:
  "n \<noteq> name \<Longrightarrow> (\<And>x q. get (upd (\<lambda>_. x) q) = get q) \<Longrightarrow> sets_field fs name d get \<Longrightarrow>
    sets_field (field n d' get' upd # fs) name d get"
  by (fastforce simp: sets_field_def field_def split: if_splits)

lemmas sets_field_intros = sets_here sets_other sets_Nil

lemma dec_fields_get:
  assumes "sets_field fs name d get"
  shows "dec_fields fs kvs r = Some r' \<Longrightarrow> fst ` set kvs \<subseteq> fst ` set fs \<Longrightarrow> distinct (map fst kvs) \<Longrightarrow>
    (case map_of kvs name of None \<Rightarrow> get r' = get r | Some v \<Rightarrow> d v (get r) = Some (get r'))"
proof (induction kvs arbitrary: r)
  case (Cons kv kvs)
  obtain k v where kv: "kv = (k, v)" by fastforce
  obtain g where g: "map_of fs k = Some g" "find_field fs k = Some (k, g)"
    using find_field_known [of k fs] Cons.prems(2) kv by auto
  then obtain q where q: "g v r = Some q" "dec_fields fs kvs q = Some r'"
    using Cons.prems(1) kv by (auto split: option.splits)
  have step: "if k = name then d v (get r) = Some (get q) else get q = get r"
    using assms g(1) q(1) unfolding sets_field_def by blast
  have rest: "case map_of kvs name of None \<Rightarrow> get r' = get q | Some v \<Rightarrow> d v (get q) = Some (get r')"
    using Cons.IH [OF q(2)] Cons.prems by simp
  have "map_of kvs name = None" if "k = name"
    using that Cons.prems(3) kv by (simp add: map_of_eq_None_iff)
  with step rest show ?case by (cases "k = name") (simp_all add: kv split: option.splits)
qed simp

lemma dec_fields_total:
  assumes "fst ` set kvs \<subseteq> fst ` set fs"
    and "\<And>k v g q. (k, v) \<in> set kvs \<Longrightarrow> map_of fs k = Some g \<Longrightarrow> g v q \<noteq> None"
  shows "\<exists>r'. dec_fields fs kvs r = Some r'"
  using assms
proof (induction kvs arbitrary: r)
  case (Cons kv kvs)
  obtain k v where kv: "kv = (k, v)" by fastforce
  obtain g where g: "map_of fs k = Some g" "find_field fs k = Some (k, g)"
    using find_field_known [of k fs] Cons.prems(1) kv by auto
  obtain q where q: "g v r = Some q" using Cons.prems(2) [of k v g r] g(1) kv by auto
  have "fst ` set kvs \<subseteq> fst ` set fs" using Cons.prems(1) by auto
  moreover have "g' v' q' \<noteq> None" if "(k', v') \<in> set kvs" "map_of fs k' = Some g'" for k' v' g' q'
    by (rule Cons.prems(2) [of k']) (use that in simp_all)
  ultimately obtain r' where "dec_fields fs kvs q = Some r'" using Cons.IH [of q] by metis
  then show ?case using kv g q by simp
qed simp

text \<open>A member that some field takes, whatever is there already.\<close>

definition accepts :: "'r field_decoder list \<Rightarrow> string \<Rightarrow> json \<Rightarrow> bool" where
  "accepts fs k v \<longleftrightarrow> (\<exists>g. map_of fs k = Some g \<and> (\<forall>q. g v q \<noteq> None))"

lemma accepts_here: "(\<And>old. d v old \<noteq> None) \<Longrightarrow> accepts (field k d get upd # fs) k v"
  by (simp add: accepts_def field_def)

lemma accepts_other: "n \<noteq> k \<Longrightarrow> accepts fs k v \<Longrightarrow> accepts (field n d get upd # fs) k v"
  by (auto simp: accepts_def field_def)

lemma accepts_known: "accepts fs k v \<Longrightarrow> k \<in> fst ` set fs"
  by (force simp: accepts_def dest: map_of_SomeD)

lemma Decode_encode:
  assumes "plain j"
  shows "Decode d zero (encode j) = d j zero"
proof -
  have "parse_value (json_fuel (encode j)) (encode j @ []) = Some (j, [])"
    by (rule parsesD [OF plain_parses [OF assms]]) (simp add: json_fuel_def)
  then show ?thesis by (simp add: Decode_def)
qed

text \<open>The struct that is read from the bytes of an object.\<close>

lemma Decode_object:
  assumes "list_all (\<lambda>(_, v). plain v) kvs" and "\<And>k v. (k, v) \<in> set kvs \<Longrightarrow> accepts fs k v"
  shows "\<exists>r. Decode (dec_struct fs) zero (encode (object kvs)) = Some r \<and> dec_fields fs (to_map kvs) zero = Some r"
proof -
  have sub: "set (to_map kvs) \<subseteq> set kvs" by (rule set_to_map)
  have "plain (object kvs)" using sub assms(1) by (fastforce simp: object_def list_all_iff)
  moreover obtain r where "dec_fields fs (to_map kvs) zero = Some r"
  proof (rule exE [OF dec_fields_total [of "to_map kvs" fs zero]])
    show "fst ` set (to_map kvs) \<subseteq> fst ` set fs" using sub assms(2) accepts_known by fastforce
    show "g v q \<noteq> None" if "(k, v) \<in> set (to_map kvs)" "map_of fs k = Some g" for k v g q
      using sub assms(2) [of k v] that by (auto simp: accepts_def)
  qed
  ultimately show ?thesis by (simp add: Decode_encode dec_struct_def object_def del: encode.simps)
qed

lemma object_field:
  assumes "dec_fields fs (to_map kvs) zero = Some r" and "sets_field fs name d get"
    and "\<And>k v. (k, v) \<in> set kvs \<Longrightarrow> accepts fs k v" and "distinct (map fst kvs)"
  shows "case map_of kvs name of None \<Rightarrow> get r = get zero | Some v \<Rightarrow> d v (get zero) = Some (get r)"
proof -
  have "fst ` set (to_map kvs) \<subseteq> fst ` set fs" using set_to_map [of kvs] assms(3) accepts_known by fastforce
  from dec_fields_get [OF assms(2,1) this distinct_to_map]
  show ?thesis by (simp only: map_of_object_keys [OF assms(4)])
qed

lemma decoded_map_again:
  assumes "dec_any_map v None = Some m"
  shows "dec_map (case m of None \<Rightarrow> JNull | Some kvs \<Rightarrow> JObj kvs) [] = Some (items m)"
proof (cases v)
  case (JObj kvs)
  let ?c = "to_map (map (map_prod id canon) kvs)"
  have m: "m = Some ?c" using assms JObj by (simp add: dec_any_map_def)
  have "map (map_prod id canon) ?c = ?c"
    using set_to_map [of "map (map_prod id canon) kvs"] by (intro map_idI) (fastforce simp: map_prod_def canon_canon)
  then show ?thesis by (simp add: m dec_map_def dec_any_map_def items_def to_map_sorted sorted_to_map)
qed (use assms in \<open>auto simp: dec_any_map_def dec_map_def items_def\<close>)

end
