(* ===== verification/Cli_Client.thy ===== *)
theory Cli_Client
  imports Go_Flag Go_Url Go_Decode
begin

text \<open>
  The client program \<open>nrcli\<close>, its lower half: \<open>client.go\<close> with the request it sends and the errors it
  makes of the replies, the flag sets of \<open>format.go\<close> and the ways to end, and the indenting of JSON. A command changes what was written and sent; it ends with a value or with an
  exit code. The server is the parameter that answers each request, given the requests before it.
\<close>

section \<open>Commands\<close>

text \<open>A request with content says that it is JSON.\<close>

record http_request =
  rq_Method :: string
  rq_Base :: string
  rq_Path :: string
  rq_Query :: string
  rq_Content :: "string option"
  rq_BasicAuth :: "(string \<times> string) option"

text \<open>What goes to standard output, as it is or through a \<open>tabwriter\<close>, and to standard error.\<close>

datatype chunk = Plain string | Tab string

datatype err_chunk = ErrText string | Usage string

record cli =
  cl_out :: "chunk list"
  cl_err :: "err_chunk list"
  cl_sent :: "http_request list"

definition cli0 :: cli where
  "cli0 = \<lparr>cl_out = [], cl_err = [], cl_sent = []\<rparr>"

text \<open>A transport gives an error, or a status and the body (or the error while it was read).\<close>

type_synonym transport = "http_request list \<Rightarrow> http_request \<Rightarrow> string + int \<times> (string + string)"

record cli_env =
  ce_transport :: transport
  ce_bad_url :: "string \<Rightarrow> string option"
  ce_read_file :: "string \<Rightarrow> string + string"
  ce_getenv :: "string \<Rightarrow> string"
  ce_json_error :: "string \<Rightarrow> string"

type_synonym 'a command = "(cli, nat + 'a) state"

definition value_of :: "'a \<Rightarrow> 'a command" where
  "value_of x = ret (Inr x)"

definition exit_with :: "nat \<Rightarrow> 'a command" where
  "exit_with code = ret (Inl code)"

definition and_then :: "'a command \<Rightarrow> ('a \<Rightarrow> 'b command) \<Rightarrow> 'b command" where
  "and_then m f = do { r \<leftarrow> m; (case r of Inl code \<Rightarrow> ret (Inl code) | Inr x \<Rightarrow> f x) }"

definition out :: "chunk list \<Rightarrow> unit command" where
  "out cs = do { modify (\<lambda>s. s\<lparr>cl_out := cl_out s @ cs\<rparr>); value_of () }"

definition err_out :: "err_chunk list \<Rightarrow> unit command" where
  "err_out cs = do { modify (\<lambda>s. s\<lparr>cl_err := cl_err s @ cs\<rparr>); value_of () }"

definition newline :: string where
  "newline = [CHR 0x0A]"

definition die :: "string \<Rightarrow> 'a command" where
  "die e = and_then (err_out [ErrText (''error: '' @ e @ newline)]) (\<lambda>_. exit_with 1)"

text \<open>A missing or an unknown subcommand.\<close>

definition usage_exit :: "string \<Rightarrow> 'a command" where
  "usage_exit usage = and_then (err_out [Usage usage]) (\<lambda>_. exit_with 1)"

definition unknown_subcommand :: "string \<Rightarrow> string \<Rightarrow> string \<Rightarrow> 'a command" where
  "unknown_subcommand what usage name = and_then (err_out
     [ErrText (''error: unknown '' @ what @ '' '' @ go_quote name @ newline @ newline), Usage usage]) (\<lambda>_. exit_with 1)"

definition parseFlags :: "string \<Rightarrow> flag_set \<Rightarrow> string list \<Rightarrow> (flag_set \<times> string list) command" where
  "parseFlags usage fs args = (case flag_Parse fs args of
      Help \<Rightarrow> and_then (err_out [Usage usage]) (\<lambda>_. exit_with 0)
    | Failed e \<Rightarrow> and_then (err_out [ErrText (e @ newline), Usage usage]) (\<lambda>_. exit_with 2)
    | Parsed fs' rest \<Rightarrow> value_of (fs', rest))"

definition required_arg :: "string \<Rightarrow> string list \<Rightarrow> (string \<Rightarrow> 'a command) \<Rightarrow> 'a command" where
  "required_arg what args k = (case args of [] \<Rightarrow> die (what @ '' argument is required'') | x # _ \<Rightarrow> k x)"

section \<open>The client\<close>

record cli_config =
  cg_URL :: string
  cg_Username :: string
  cg_Password :: string
  cg_JSON :: bool

record Client =
  ct_baseURL :: string
  ct_username :: string
  ct_password :: string

definition TrimRight_slash :: "string \<Rightarrow> string" where
  "TrimRight_slash s = rev (dropWhile (\<lambda>c. c = CHR ''/'') (rev s))"

definition cli_NewClient :: "cli_config \<Rightarrow> Client" where
  "cli_NewClient cfg = \<lparr>ct_baseURL = TrimRight_slash (cg_URL cfg), ct_username = cg_Username cfg,
     ct_password = cg_Password cfg\<rparr>"

definition APIError_text :: "int \<Rightarrow> string \<Rightarrow> string" where
  "APIError_text status body = (if body \<noteq> [] then ''HTTP '' @ show_int status @ '': '' @ body
     else ''HTTP '' @ show_int status)"

definition build_request :: "Client \<Rightarrow> string \<Rightarrow> string \<Rightarrow> (string \<times> string) list \<Rightarrow> json option \<Rightarrow> http_request" where
  "build_request c method path query reqBody = \<lparr>rq_Method = method, rq_Base = ct_baseURL c, rq_Path = path,
     rq_Query = (if query \<noteq> [] then ''?'' @ Values_Encode (to_map query) else []),
     rq_Content = map_option encode reqBody,
     rq_BasicAuth = (if ct_username c \<noteq> [] \<or> ct_password c \<noteq> [] then Some (ct_username c, ct_password c) else None)\<rparr>"

definition request_url :: "http_request \<Rightarrow> string" where
  "request_url r = rq_Base r @ rq_Path r @ rq_Query r"

definition http_Do :: "cli_env \<Rightarrow> http_request \<Rightarrow> (cli, string + int \<times> (string + string)) state" where
  "http_Do env r = do {
     before \<leftarrow> gets cl_sent;
     modify (\<lambda>s. s\<lparr>cl_sent := before @ [r]\<rparr>);
     ret (ce_transport env before r) }"

text \<open>The status code of a success is not looked at by any command.\<close>

definition doRaw :: "cli_env \<Rightarrow> Client \<Rightarrow> string \<Rightarrow> string \<Rightarrow> (string \<times> string) list \<Rightarrow> json option
    \<Rightarrow> (cli, string + string) state" where
  "doRaw env c method path query reqBody =
     (let r = build_request c method path query reqBody
      in (case ce_bad_url env (request_url r) of
            Some e \<Rightarrow> ret (Inl (''build request: '' @ e))
          | None \<Rightarrow> do {
              resp \<leftarrow> http_Do env r;
              ret (case resp of
                  Inl e \<Rightarrow> Inl (''request failed: '' @ e)
                | Inr (status, Inl e) \<Rightarrow> Inl (''read response body: '' @ e)
                | Inr (status, Inr body) \<Rightarrow>
                    if 400 \<le> status then Inl (APIError_text status (TrimSpace body)) else Inr body) }))"

text \<open>A request whose error ends the command.\<close>

definition or_die :: "(cli, string + 'a) state \<Rightarrow> 'a command" where
  "or_die m = do { r \<leftarrow> m; (case r of Inl e \<Rightarrow> die e | Inr x \<Rightarrow> value_of x) }"

definition cli_Get :: "cli_env \<Rightarrow> Client \<Rightarrow> string \<Rightarrow> (string \<times> string) list \<Rightarrow> (cli, string + string) state" where
  "cli_Get env c path query = doRaw env c ''GET'' path query None"

definition cli_Post :: "cli_env \<Rightarrow> Client \<Rightarrow> string \<Rightarrow> json option \<Rightarrow> (cli, string + string) state" where
  "cli_Post env c path reqBody = doRaw env c ''POST'' path [] reqBody"

definition cli_Put :: "cli_env \<Rightarrow> Client \<Rightarrow> string \<Rightarrow> json option \<Rightarrow> (cli, string + string) state" where
  "cli_Put env c path reqBody = doRaw env c ''PUT'' path [] reqBody"

definition cli_Patch :: "cli_env \<Rightarrow> Client \<Rightarrow> string \<Rightarrow> json option \<Rightarrow> (cli, string + string) state" where
  "cli_Patch env c path reqBody = doRaw env c ''PATCH'' path [] reqBody"

definition cli_Delete :: "cli_env \<Rightarrow> Client \<Rightarrow> string \<Rightarrow> (cli, string + string) state" where
  "cli_Delete env c path = doRaw env c ''DELETE'' path [] None"

section \<open>JSON\<close>

text \<open>\<open>json.Indent\<close> with two spaces: \<open>mode\<close> is 0 outside strings, 1 inside, 2 after a backslash.\<close>

definition indent_line :: "nat \<Rightarrow> string" where
  "indent_line depth = CHR 0x0A # concat (replicate depth ''  '')"

fun indent_chars :: "nat \<Rightarrow> bool \<Rightarrow> nat \<Rightarrow> string \<Rightarrow> string" where
  "indent_chars mode need depth [] = []"
| "indent_chars mode need depth (c # cs) =
     (if mode = 2 then c # indent_chars 1 need depth cs
      else if mode = 1 then c # indent_chars (if c = CHR 0x5C then 2 else if c = CHR 0x22 then 0 else 1) need depth cs
      else if json_ws c then indent_chars 0 need depth cs
      else if c = CHR ''}'' \<or> c = CHR '']'' then
        (if need then c # indent_chars 0 False depth cs
         else indent_line (depth - 1) @ c # indent_chars 0 False (depth - 1) cs)
      else (let d = (if need then depth + 1 else depth)
        in (if need then indent_line d else []) @
           (if c = CHR ''{'' \<or> c = CHR ''['' then c # indent_chars 0 True d cs
            else if c = CHR '','' then c # indent_line d @ indent_chars 0 False d cs
            else if c = CHR '':'' then c # CHR '' '' # indent_chars 0 False d cs
            else if c = CHR 0x22 then c # indent_chars 1 False d cs
            else c # indent_chars 0 False d cs)))"

definition json_Indent :: "string \<Rightarrow> string option" where
  "json_Indent s = (case json_parse s of None \<Rightarrow> None
     | Some _ \<Rightarrow> Some (let tail = rev (takeWhile json_ws (rev s))
         in indent_chars 0 False 0 (take (length s - length tail) s) @ tail))"

definition printJSON :: "string \<Rightarrow> unit command" where
  "printJSON data = out [Plain ((case json_Indent data of None \<Rightarrow> data | Some s \<Rightarrow> s) @ newline)]"

text \<open>What most commands do with a body: print it as JSON, or decode it and print that.\<close>

definition decoded :: "cli_env \<Rightarrow> 'a decoder \<Rightarrow> 'a \<Rightarrow> string \<Rightarrow> 'a command" where
  "decoded env d zero body = (case unmarshal d zero body of
      None \<Rightarrow> die (ce_json_error env body) | Some x \<Rightarrow> value_of x)"

definition show_body :: "cli_env \<Rightarrow> cli_config \<Rightarrow> 'a decoder \<Rightarrow> 'a \<Rightarrow> ('a \<Rightarrow> chunk list) \<Rightarrow> string \<Rightarrow> unit command" where
  "show_body env cfg d zero print body =
     (if cg_JSON cfg then printJSON body
      else and_then (decoded env d zero body) (\<lambda>x. out (print x)))"

end
