(* ===== verification/Cli_Format.thy ===== *)
theory Cli_Format
  imports Cli_Client
begin

text \<open>
  What \<open>nrcli\<close> reads and prints (\<open>format.go\<close>): the types of the replies with their decoders, the event
  summary as JSON, and the printers of the tables and details. A slice and a map are \<open>None\<close> when nil;
  the rows of a table go to the \<open>tabwriter\<close> with their tabs, whose alignment is not modelled.
\<close>

section \<open>The types of the replies\<close>

definition dec_strings :: "string list option decoder" where
  "dec_strings = dec_slice dec_string []"

definition dec_destinations :: "Destination list option decoder" where
  "dec_destinations = dec_slice dec_Destination destination0"

definition slice_json :: "('a \<Rightarrow> json) \<Rightarrow> 'a list option \<Rightarrow> json" where
  "slice_json f xs = (case xs of None \<Rightarrow> JNull | Some ys \<Rightarrow> JArr (map f ys))"

definition strings_json :: "string list option \<Rightarrow> json" where
  "strings_json = slice_json JStr"

definition destinations_json :: "Destination list option \<Rightarrow> json" where
  "destinations_json = slice_json destination_json"

definition any_map_json :: "any_map option \<Rightarrow> json" where
  "any_map_json m = (case m of None \<Rightarrow> JNull | Some kvs \<Rightarrow> JObj kvs)"

record cli_Event =
  ve_ID :: int
  ve_EventID :: string
  ve_EventURL :: string
  ve_EventName :: string
  ve_EventDescription :: string
  ve_EventSeverity :: string
  ve_StartTime :: string
  ve_EndTime :: string
  ve_CreatedBy :: string
  ve_CreatedAt :: string
  ve_ModifiedBy :: string
  ve_ModifiedAt :: string

definition zero_Event :: cli_Event where
  "zero_Event = \<lparr>ve_ID = 0, ve_EventID = [], ve_EventURL = [], ve_EventName = [], ve_EventDescription = [],
     ve_EventSeverity = [], ve_StartTime = [], ve_EndTime = [], ve_CreatedBy = [], ve_CreatedAt = [],
     ve_ModifiedBy = [], ve_ModifiedAt = []\<rparr>"

definition dec_Event :: "cli_Event decoder" where
  "dec_Event = dec_struct [
     field ''id'' dec_int ve_ID ve_ID_update, field ''event_id'' dec_string ve_EventID ve_EventID_update,
     field ''event_url'' dec_string ve_EventURL ve_EventURL_update,
     field ''event_name'' dec_string ve_EventName ve_EventName_update,
     field ''event_description'' dec_string ve_EventDescription ve_EventDescription_update,
     field ''event_severity'' dec_string ve_EventSeverity ve_EventSeverity_update,
     field ''start_time'' dec_string ve_StartTime ve_StartTime_update,
     field ''end_time'' dec_string ve_EndTime ve_EndTime_update,
     field ''created_by'' dec_string ve_CreatedBy ve_CreatedBy_update,
     field ''created_at'' dec_string ve_CreatedAt ve_CreatedAt_update,
     field ''modified_by'' dec_string ve_ModifiedBy ve_ModifiedBy_update,
     field ''modified_at'' dec_string ve_ModifiedAt ve_ModifiedAt_update]"

definition Event_json :: "cli_Event \<Rightarrow> json" where
  "Event_json r = JObj [
     (''id'', JNum (show_int (ve_ID r))), (''event_id'', JStr (ve_EventID r)),
     (''event_url'', JStr (ve_EventURL r)), (''event_name'', JStr (ve_EventName r)),
     (''event_description'', JStr (ve_EventDescription r)), (''event_severity'', JStr (ve_EventSeverity r)),
     (''start_time'', JStr (ve_StartTime r)), (''end_time'', JStr (ve_EndTime r)),
     (''created_by'', JStr (ve_CreatedBy r)), (''created_at'', JStr (ve_CreatedAt r)),
     (''modified_by'', JStr (ve_ModifiedBy r)), (''modified_at'', JStr (ve_ModifiedAt r))]"

record cli_Notification =
  vn_ID :: int
  vn_NotificationID :: string
  vn_EventID :: string
  vn_Groups :: "string list option"
  vn_Destinations :: "Destination list option"
  vn_Channels :: "string list option"
  vn_Message :: string
  vn_MemberCount :: int
  vn_Status :: string
  vn_ErrorMessage :: string
  vn_CreatedAt :: string
  vn_CreatedBy :: string

definition zero_Notification :: cli_Notification where
  "zero_Notification = \<lparr>vn_ID = 0, vn_NotificationID = [], vn_EventID = [], vn_Groups = None, vn_Destinations = None,
     vn_Channels = None, vn_Message = [], vn_MemberCount = 0, vn_Status = [], vn_ErrorMessage = [],
     vn_CreatedAt = [], vn_CreatedBy = []\<rparr>"

definition dec_Notification :: "cli_Notification decoder" where
  "dec_Notification = dec_struct [
     field ''id'' dec_int vn_ID vn_ID_update,
     field ''notification_id'' dec_string vn_NotificationID vn_NotificationID_update,
     field ''event_id'' dec_string vn_EventID vn_EventID_update,
     field ''groups'' dec_strings vn_Groups vn_Groups_update,
     field ''destinations'' dec_destinations vn_Destinations vn_Destinations_update,
     field ''channels'' dec_strings vn_Channels vn_Channels_update,
     field ''message'' dec_string vn_Message vn_Message_update,
     field ''member_count'' dec_int vn_MemberCount vn_MemberCount_update,
     field ''status'' dec_string vn_Status vn_Status_update,
     field ''error_message'' dec_string vn_ErrorMessage vn_ErrorMessage_update,
     field ''created_at'' dec_string vn_CreatedAt vn_CreatedAt_update,
     field ''created_by'' dec_string vn_CreatedBy vn_CreatedBy_update]"

definition Notification_json :: "cli_Notification \<Rightarrow> json" where
  "Notification_json r = JObj [
     (''id'', JNum (show_int (vn_ID r))), (''notification_id'', JStr (vn_NotificationID r)),
     (''event_id'', JStr (vn_EventID r)), (''groups'', strings_json (vn_Groups r)),
     (''destinations'', destinations_json (vn_Destinations r)), (''channels'', strings_json (vn_Channels r)),
     (''message'', JStr (vn_Message r)), (''member_count'', JNum (show_int (vn_MemberCount r))),
     (''status'', JStr (vn_Status r)), (''error_message'', JStr (vn_ErrorMessage r)),
     (''created_at'', JStr (vn_CreatedAt r)), (''created_by'', JStr (vn_CreatedBy r))]"

record cli_Delivery =
  vd_ID :: int
  vd_DeliveryID :: string
  vd_NotificationID :: string
  vd_Group :: string
  vd_Member :: string
  vd_Destination :: string
  vd_Channel :: string
  vd_Status :: string
  vd_EmailTemplate :: string
  vd_EmailVars :: "any_map option"
  vd_Attempt :: int
  vd_PollAttempts :: int
  vd_ErrorMessage :: string
  vd_SentAt :: string
  vd_CompletedAt :: string
  vd_TwilioSID :: string

definition zero_Delivery :: cli_Delivery where
  "zero_Delivery = \<lparr>vd_ID = 0, vd_DeliveryID = [], vd_NotificationID = [], vd_Group = [], vd_Member = [], vd_Destination = [],
     vd_Channel = [], vd_Status = [], vd_EmailTemplate = [], vd_EmailVars = None, vd_Attempt = 0,
     vd_PollAttempts = 0, vd_ErrorMessage = [], vd_SentAt = [], vd_CompletedAt = [], vd_TwilioSID = []\<rparr>"

definition dec_Delivery :: "cli_Delivery decoder" where
  "dec_Delivery = dec_struct [
     field ''id'' dec_int vd_ID vd_ID_update,
     field ''delivery_id'' dec_string vd_DeliveryID vd_DeliveryID_update,
     field ''notification_id'' dec_string vd_NotificationID vd_NotificationID_update,
     field ''group'' dec_string vd_Group vd_Group_update,
     field ''member'' dec_string vd_Member vd_Member_update,
     field ''destination'' dec_string vd_Destination vd_Destination_update,
     field ''channel'' dec_string vd_Channel vd_Channel_update,
     field ''status'' dec_string vd_Status vd_Status_update,
     field ''email_template'' dec_string vd_EmailTemplate vd_EmailTemplate_update,
     field ''email_vars'' dec_any_map vd_EmailVars vd_EmailVars_update,
     field ''attempt'' dec_int vd_Attempt vd_Attempt_update,
     field ''poll_attempts'' dec_int vd_PollAttempts vd_PollAttempts_update,
     field ''error_message'' dec_string vd_ErrorMessage vd_ErrorMessage_update,
     field ''sent_at'' dec_string vd_SentAt vd_SentAt_update,
     field ''completed_at'' dec_string vd_CompletedAt vd_CompletedAt_update,
     field ''twilio_sid'' dec_string vd_TwilioSID vd_TwilioSID_update]"

definition Delivery_json :: "cli_Delivery \<Rightarrow> json" where
  "Delivery_json r = JObj [
     (''id'', JNum (show_int (vd_ID r))), (''delivery_id'', JStr (vd_DeliveryID r)),
     (''notification_id'', JStr (vd_NotificationID r)), (''group'', JStr (vd_Group r)),
     (''member'', JStr (vd_Member r)), (''destination'', JStr (vd_Destination r)),
     (''channel'', JStr (vd_Channel r)), (''status'', JStr (vd_Status r)),
     (''email_template'', JStr (vd_EmailTemplate r)), (''email_vars'', any_map_json (vd_EmailVars r)),
     (''attempt'', JNum (show_int (vd_Attempt r))), (''poll_attempts'', JNum (show_int (vd_PollAttempts r))),
     (''error_message'', JStr (vd_ErrorMessage r)), (''sent_at'', JStr (vd_SentAt r)),
     (''completed_at'', JStr (vd_CompletedAt r)), (''twilio_sid'', JStr (vd_TwilioSID r))]"

record cli_GroupMember =
  vm_Username :: string
  vm_DisplayName :: string
  vm_Email :: string
  vm_Mobile :: string
  vm_Work :: string
  vm_SyncedAt :: string

definition zero_GroupMember :: cli_GroupMember where
  "zero_GroupMember = \<lparr>vm_Username = [], vm_DisplayName = [], vm_Email = [], vm_Mobile = [], vm_Work = [], vm_SyncedAt = []\<rparr>"

definition dec_GroupMember :: "cli_GroupMember decoder" where
  "dec_GroupMember = dec_struct [
     field ''username'' dec_string vm_Username vm_Username_update,
     field ''display_name'' dec_string vm_DisplayName vm_DisplayName_update,
     field ''email'' dec_string vm_Email vm_Email_update,
     field ''mobile'' dec_string vm_Mobile vm_Mobile_update, field ''work'' dec_string vm_Work vm_Work_update,
     field ''synced_at'' dec_string vm_SyncedAt vm_SyncedAt_update]"

record cli_Template =
  vt_ID :: int
  vt_TemplateName :: string
  vt_Subject :: string
  vt_Body :: string
  vt_RequiredVars :: "string list option"
  vt_Description :: string

definition zero_Template :: cli_Template where
  "zero_Template = \<lparr>vt_ID = 0, vt_TemplateName = [], vt_Subject = [], vt_Body = [], vt_RequiredVars = None, vt_Description = []\<rparr>"

definition dec_Template :: "cli_Template decoder" where
  "dec_Template = dec_struct [
     field ''id'' dec_int vt_ID vt_ID_update,
     field ''template_name'' dec_string vt_TemplateName vt_TemplateName_update,
     field ''subject'' dec_string vt_Subject vt_Subject_update,
     field ''body'' dec_string vt_Body vt_Body_update,
     field ''required_vars'' dec_strings vt_RequiredVars vt_RequiredVars_update,
     field ''description'' dec_string vt_Description vt_Description_update]"

record cli_AuditLogEntry =
  va_ID :: int
  va_Timestamp :: string
  va_Username :: string
  va_IPAddress :: string
  va_Action :: string
  va_ImpactedTable :: string
  va_OldValues :: string
  va_NewValues :: string

definition zero_AuditLogEntry :: cli_AuditLogEntry where
  "zero_AuditLogEntry = \<lparr>va_ID = 0, va_Timestamp = [], va_Username = [], va_IPAddress = [], va_Action = [], va_ImpactedTable = [],
     va_OldValues = [], va_NewValues = []\<rparr>"

definition dec_AuditLogEntry :: "cli_AuditLogEntry decoder" where
  "dec_AuditLogEntry = dec_struct [
     field ''id'' dec_int va_ID va_ID_update, field ''timestamp'' dec_string va_Timestamp va_Timestamp_update,
     field ''username'' dec_string va_Username va_Username_update,
     field ''ip_address'' dec_string va_IPAddress va_IPAddress_update,
     field ''action'' dec_string va_Action va_Action_update,
     field ''impacted_table'' dec_string va_ImpactedTable va_ImpactedTable_update,
     field ''old_values'' dec_string va_OldValues va_OldValues_update,
     field ''new_values'' dec_string va_NewValues va_NewValues_update]"

record cli_PublishResponse =
  vp_NotificationID :: string
  vp_EventID :: string
  vp_Groups :: "string list option"
  vp_Destinations :: "Destination list option"
  vp_Channels :: "string list option"
  vp_Message :: string
  vp_Status :: string

definition zero_PublishResponse :: cli_PublishResponse where
  "zero_PublishResponse = \<lparr>vp_NotificationID = [], vp_EventID = [], vp_Groups = None, vp_Destinations = None, vp_Channels = None,
     vp_Message = [], vp_Status = []\<rparr>"

definition dec_PublishResponse :: "cli_PublishResponse decoder" where
  "dec_PublishResponse = dec_struct [
     field ''notification_id'' dec_string vp_NotificationID vp_NotificationID_update,
     field ''event_id'' dec_string vp_EventID vp_EventID_update,
     field ''groups'' dec_strings vp_Groups vp_Groups_update,
     field ''destinations'' dec_destinations vp_Destinations vp_Destinations_update,
     field ''channels'' dec_strings vp_Channels vp_Channels_update,
     field ''message'' dec_string vp_Message vp_Message_update,
     field ''status'' dec_string vp_Status vp_Status_update]"

record cli_SyncGroup =
  vs_ID :: int
  vs_GroupName :: string
  vs_CreatedAt :: string
  vs_CreatedBy :: string

definition zero_SyncGroup :: cli_SyncGroup where
  "zero_SyncGroup = \<lparr>vs_ID = 0, vs_GroupName = [], vs_CreatedAt = [], vs_CreatedBy = []\<rparr>"

definition dec_SyncGroup :: "cli_SyncGroup decoder" where
  "dec_SyncGroup = dec_struct [
     field ''id'' dec_int vs_ID vs_ID_update, field ''group_name'' dec_string vs_GroupName vs_GroupName_update,
     field ''created_at'' dec_string vs_CreatedAt vs_CreatedAt_update,
     field ''created_by'' dec_string vs_CreatedBy vs_CreatedBy_update]"

record cli_CRAMCredential =
  vc_Username :: string
  vc_Roles :: "string list option"
  vc_Enabled :: bool
  vc_CreatedAt :: string

definition zero_CRAMCredential :: cli_CRAMCredential where
  "zero_CRAMCredential = \<lparr>vc_Username = [], vc_Roles = None, vc_Enabled = False, vc_CreatedAt = []\<rparr>"

definition dec_CRAMCredential :: "cli_CRAMCredential decoder" where
  "dec_CRAMCredential = dec_struct [
     field ''username'' dec_string vc_Username vc_Username_update,
     field ''roles'' dec_strings vc_Roles vc_Roles_update,
     field ''enabled'' dec_bool vc_Enabled vc_Enabled_update,
     field ''created_at'' dec_string vc_CreatedAt vc_CreatedAt_update]"

record cli_CRAMCredentialCreated =
  vk_Username :: string
  vk_Roles :: "string list option"
  vk_CreatedAt :: string
  vk_Secret :: string

definition zero_CRAMCredentialCreated :: cli_CRAMCredentialCreated where
  "zero_CRAMCredentialCreated = \<lparr>vk_Username = [], vk_Roles = None, vk_CreatedAt = [], vk_Secret = []\<rparr>"

definition dec_CRAMCredentialCreated :: "cli_CRAMCredentialCreated decoder" where
  "dec_CRAMCredentialCreated = dec_struct [
     field ''username'' dec_string vk_Username vk_Username_update,
     field ''roles'' dec_strings vk_Roles vk_Roles_update,
     field ''created_at'' dec_string vk_CreatedAt vk_CreatedAt_update,
     field ''secret'' dec_string vk_Secret vk_Secret_update]"

record cli_SMSSubscription =
  vb_Username :: string
  vb_Phone :: string
  vb_SubscribedAt :: string

definition zero_SMSSubscription :: cli_SMSSubscription where
  "zero_SMSSubscription = \<lparr>vb_Username = [], vb_Phone = [], vb_SubscribedAt = []\<rparr>"

definition dec_SMSSubscription :: "cli_SMSSubscription decoder" where
  "dec_SMSSubscription = dec_struct [
     field ''username'' dec_string vb_Username vb_Username_update,
     field ''phone'' dec_string vb_Phone vb_Phone_update,
     field ''subscribed_at'' dec_string vb_SubscribedAt vb_SubscribedAt_update]"

record NotificationWithDeliveries =
  nd_Notification :: cli_Notification
  nd_Deliveries :: "cli_Delivery list option"

record EventSummary =
  es_Event :: cli_Event
  es_Notifications :: "NotificationWithDeliveries list"

definition EventSummary_json :: "EventSummary \<Rightarrow> json" where
  "EventSummary_json s = JObj [(''event'', Event_json (es_Event s)),
     (''notifications'', JArr (map (\<lambda>nd. JObj [(''notification'', Notification_json (nd_Notification nd)),
       (''deliveries'', slice_json Delivery_json (nd_Deliveries nd))]) (es_Notifications s)))]"

text \<open>The body of a list reply with its paging: \<open>limit\<close> and \<open>offset\<close> are read and not used.\<close>

record 'a page =
  pg_Rows :: "'a list option"
  pg_Limit :: int
  pg_Offset :: int

definition zero_page :: "'a page" where
  "zero_page = \<lparr>pg_Rows = None, pg_Limit = 0, pg_Offset = 0\<rparr>"

definition dec_page :: "string \<Rightarrow> 'a decoder \<Rightarrow> 'a \<Rightarrow> 'a page decoder" where
  "dec_page name d zero = dec_struct [field name (dec_slice d zero) pg_Rows pg_Rows_update,
     field ''limit'' dec_int pg_Limit pg_Limit_update, field ''offset'' dec_int pg_Offset pg_Offset_update]"

section \<open>Strings\<close>

definition strOrDash :: "string \<Rightarrow> string" where
  "strOrDash s = (if s = [] then ''-'' else s)"

definition ptrOrDash :: "string option \<Rightarrow> string" where
  "ptrOrDash s = (case s of None \<Rightarrow> ''-'' | Some t \<Rightarrow> strOrDash t)"

definition formatDestinations :: "Destination list \<Rightarrow> string" where
  "formatDestinations ds = Join (map (\<lambda>d. ds_Channel d @ '':'' @ ds_Target d) ds) '', ''"

definition deliveryRecipient :: "cli_Delivery \<Rightarrow> string" where
  "deliveryRecipient d = (if vd_Member d \<noteq> [] then vd_Member d else strOrDash (vd_Destination d))"

text \<open>The cut is between bytes, and the ellipsis has three of them.\<close>

definition truncate_to :: "string \<Rightarrow> nat \<Rightarrow> string" where
  "truncate_to s n = (if length s \<le> n then s else take (n - 1) s @ [CHR 0xE2, CHR 0x80, CHR 0xA6])"

definition shortTime :: "string \<Rightarrow> string" where
  "shortTime s = (if s = [] then ''-''
     else if 19 \<le> length s then map (\<lambda>c. if c = CHR ''T'' then CHR '' '' else c) (take 19 s) else s)"

definition upper_char :: "char \<Rightarrow> char" where
  "upper_char c = (if 97 \<le> byte c \<and> byte c \<le> 122 then char_of (byte c - 32) else c)"

definition kvMap_Set :: "(string \<times> string) list \<Rightarrow> string \<Rightarrow> string + (string \<times> string) list" where
  "kvMap_Set m v = (case cut_at CHR ''='' v of
      None \<Rightarrow> Inl (''expected KEY=VALUE, got '' @ go_quote v) | Some (k, x) \<Rightarrow> Inr (map_put k x m))"

section \<open>Tables\<close>

definition row :: "string list \<Rightarrow> string" where
  "row cells = Join cells [CHR 0x09] @ newline"

definition table :: "string list \<Rightarrow> string list list \<Rightarrow> chunk list" where
  "table heading rows = [Tab (concat (map row (heading # rows)))]"

text \<open>A list without entries is a sentence.\<close>

definition table_or :: "string \<Rightarrow> string list \<Rightarrow> ('a \<Rightarrow> string list) \<Rightarrow> 'a list \<Rightarrow> chunk list" where
  "table_or none heading cells xs = (if xs = [] then [Plain (none @ newline)] else table heading (map cells xs))"

definition details :: "(string \<times> string) list \<Rightarrow> chunk list" where
  "details fs = [Tab (concat (map (\<lambda>(name, v). row [name @ '':'', v]) fs))]"

section \<open>The printers\<close>

definition printEventList :: "cli_Event list \<Rightarrow> chunk list" where
  "printEventList = table_or ''No events found.''
     [''EVENT ID'', ''SEVERITY'', ''NAME'', ''START TIME'', ''END TIME'']
     (\<lambda>e. [ve_EventID e, strOrDash (ve_EventSeverity e), strOrDash (truncate_to (ve_EventName e) 40),
       shortTime (ve_StartTime e), strOrDash (ve_EndTime e)])"

definition printEventDetail :: "cli_Event \<Rightarrow> chunk list" where
  "printEventDetail e = details [
     (''ID'', show_int (ve_ID e)), (''Event ID'', ve_EventID e), (''Name'', strOrDash (ve_EventName e)),
     (''Severity'', strOrDash (ve_EventSeverity e)), (''URL'', strOrDash (ve_EventURL e)),
     (''Description'', strOrDash (ve_EventDescription e)), (''Start Time'', ve_StartTime e),
     (''End Time'', strOrDash (ve_EndTime e)), (''Created By'', strOrDash (ve_CreatedBy e)),
     (''Created At'', strOrDash (shortTime (ve_CreatedAt e))),
     (''Modified By'', strOrDash (ve_ModifiedBy e)),
     (''Modified At'', strOrDash (shortTime (ve_ModifiedAt e)))]"

definition printNotificationList :: "cli_Notification list \<Rightarrow> chunk list" where
  "printNotificationList = table_or ''No notifications found.''
     [''NOTIFICATION ID'', ''EVENT ID'', ''GROUPS'', ''DESTINATIONS'', ''CHANNELS'', ''MEMBERS'', ''STATUS'', ''CREATED AT'']
     (\<lambda>n. [vn_NotificationID n, vn_EventID n, strOrDash (Join (items (vn_Groups n)) '',''),
       strOrDash (formatDestinations (items (vn_Destinations n))),
       strOrDash (Join (items (vn_Channels n)) '',''), show_int (vn_MemberCount n), vn_Status n,
       shortTime (vn_CreatedAt n)])"

definition printNotificationDetail :: "cli_Notification \<Rightarrow> chunk list" where
  "printNotificationDetail n = details [
     (''ID'', show_int (vn_ID n)), (''Notification ID'', vn_NotificationID n), (''Event ID'', vn_EventID n),
     (''Groups'', strOrDash (Join (items (vn_Groups n)) '', '')),
     (''Destinations'', strOrDash (formatDestinations (items (vn_Destinations n)))),
     (''Channels'', strOrDash (Join (items (vn_Channels n)) '', '')), (''Message'', vn_Message n),
     (''Member Count'', show_int (vn_MemberCount n)), (''Status'', vn_Status n),
     (''Error Message'', strOrDash (vn_ErrorMessage n)), (''Created At'', vn_CreatedAt n),
     (''Created By'', strOrDash (vn_CreatedBy n))]"

definition printPublishResponse :: "cli_PublishResponse \<Rightarrow> chunk list" where
  "printPublishResponse p = details [
     (''Notification ID'', vp_NotificationID p), (''Event ID'', vp_EventID p),
     (''Groups'', strOrDash (Join (items (vp_Groups p)) '', '')),
     (''Destinations'', strOrDash (formatDestinations (items (vp_Destinations p)))),
     (''Channels'', strOrDash (Join (items (vp_Channels p)) '', '')), (''Message'', vp_Message p),
     (''Status'', vp_Status p)]"

definition printDeliveryList :: "cli_Delivery list \<Rightarrow> chunk list" where
  "printDeliveryList = table_or ''No deliveries found.''
     [''DELIVERY ID'', ''RECIPIENT'', ''CHANNEL'', ''STATUS'', ''ATTEMPT'', ''SENT AT'', ''ERROR'']
     (\<lambda>d. [vd_DeliveryID d, deliveryRecipient d, vd_Channel d, vd_Status d, show_int (vd_Attempt d),
       shortTime (vd_SentAt d), strOrDash (vd_ErrorMessage d)])"

definition printDeliveryDetail :: "cli_Delivery \<Rightarrow> chunk list" where
  "printDeliveryDetail d = details [
     (''ID'', show_int (vd_ID d)), (''Delivery ID'', vd_DeliveryID d),
     (''Notification ID'', vd_NotificationID d), (''Group'', strOrDash (vd_Group d)),
     (''Member'', strOrDash (vd_Member d)), (''Destination'', strOrDash (vd_Destination d)),
     (''Channel'', vd_Channel d), (''Status'', vd_Status d), (''Attempt'', show_int (vd_Attempt d)),
     (''Poll Attempts'', show_int (vd_PollAttempts d)),
     (''Email Template'', strOrDash (vd_EmailTemplate d)),
     (''Email Vars'', strOrDash (encode (any_map_json (vd_EmailVars d)))),
     (''Error'', strOrDash (vd_ErrorMessage d)), (''Sent At'', vd_SentAt d),
     (''Completed At'', strOrDash (vd_CompletedAt d))]"

definition printGroupList :: "string list \<Rightarrow> chunk list" where
  "printGroupList gs = (if gs = [] then [Plain (''No groups found.'' @ newline)] else map (\<lambda>g. Plain (g @ newline)) gs)"

definition printGroupMemberList :: "cli_GroupMember list \<Rightarrow> chunk list" where
  "printGroupMemberList = table_or ''No members found.''
     [''USERNAME'', ''DISPLAY NAME'', ''EMAIL'', ''MOBILE'', ''SYNCED AT'']
     (\<lambda>m. [vm_Username m, strOrDash (vm_DisplayName m), strOrDash (vm_Email m), strOrDash (vm_Mobile m),
       shortTime (vm_SyncedAt m)])"

definition printTemplateList :: "cli_Template list \<Rightarrow> chunk list" where
  "printTemplateList = table_or ''No templates found.''
     [''NAME'', ''SUBJECT'', ''REQUIRED VARS'', ''DESCRIPTION'']
     (\<lambda>t. [vt_TemplateName t, truncate_to (vt_Subject t) 50, Join (items (vt_RequiredVars t)) '','',
       strOrDash (truncate_to (vt_Description t) 40)])"

definition printTemplateDetail :: "cli_Template \<Rightarrow> chunk list" where
  "printTemplateDetail t = details [
     (''ID'', show_int (vt_ID t)), (''Name'', vt_TemplateName t), (''Subject'', vt_Subject t),
     (''Required Vars'', Join (items (vt_RequiredVars t)) '', ''),
     (''Description'', strOrDash (vt_Description t))]
     @ [Plain newline, Plain (''--- Body ---'' @ newline), Plain (vt_Body t @ newline)]"

definition printAuditLogList :: "cli_AuditLogEntry list \<Rightarrow> chunk list" where
  "printAuditLogList = table_or ''No audit log entries found.''
     [''TIMESTAMP'', ''USERNAME'', ''ACTION'', ''TABLE'', ''IP'']
     (\<lambda>e. [shortTime (va_Timestamp e), va_Username e, va_Action e, va_ImpactedTable e,
       strOrDash (va_IPAddress e)])"

definition printSyncGroupList :: "cli_SyncGroup list \<Rightarrow> chunk list" where
  "printSyncGroupList = table_or ''No sync groups configured.''
     [''GROUP NAME'', ''CREATED BY'', ''CREATED AT'']
     (\<lambda>g. [vs_GroupName g, vs_CreatedBy g, shortTime (vs_CreatedAt g)])"

definition printSyncGroupDetail :: "cli_SyncGroup \<Rightarrow> chunk list" where
  "printSyncGroupDetail g = details [
     (''ID'', show_int (vs_ID g)), (''Group Name'', vs_GroupName g), (''Created By'', vs_CreatedBy g),
     (''Created At'', vs_CreatedAt g)]"

definition printCRAMCredentialList :: "cli_CRAMCredential list \<Rightarrow> chunk list" where
  "printCRAMCredentialList = table_or ''No SMTP CRAM-MD5 credentials configured.''
     [''USERNAME'', ''ROLES'', ''ENABLED'', ''CREATED AT'']
     (\<lambda>c. [vc_Username c, Join (items (vc_Roles c)) '','', if vc_Enabled c then ''true'' else ''false'',
       shortTime (vc_CreatedAt c)])"

definition printCRAMCredentialCreated :: "cli_CRAMCredentialCreated \<Rightarrow> chunk list" where
  "printCRAMCredentialCreated c = details [
     (''Username'', vk_Username c), (''Roles'', Join (items (vk_Roles c)) '',''),
     (''Created At'', vk_CreatedAt c)]
     @ [Plain (newline @ ''Secret (shown only once, save it now):'' @ newline @ vk_Secret c @ newline)]"

definition printSMSSubscriptionList :: "cli_SMSSubscription list \<Rightarrow> chunk list" where
  "printSMSSubscriptionList = table_or ''No SMS subscriptions found.''
     [''USERNAME'', ''PHONE'', ''SUBSCRIBED AT'']
     (\<lambda>s. [vb_Username s, vb_Phone s, shortTime (vb_SubscribedAt s)])"

definition printSMSSubscriptionDetail :: "cli_SMSSubscription \<Rightarrow> chunk list" where
  "printSMSSubscriptionDetail s = details [
     (''Username'', vb_Username s), (''Phone'', vb_Phone s),
     (''Subscribed At'', shortTime (vb_SubscribedAt s))]"

definition summary_line :: "string \<Rightarrow> string \<Rightarrow> chunk" where
  "summary_line label v = Plain (label @ v @ newline)"

definition summary_event :: "cli_Event \<Rightarrow> chunk list" where
  "summary_event e =
     [Plain (''Event: '' @ ve_EventID e @ ''  ['' @ map upper_char (strOrDash (ve_EventSeverity e)) @ '']  ''
        @ (if ve_EndTime e \<noteq> [] then ''resolved'' else ''active'') @ newline)]
     @ (if ve_EventName e \<noteq> [] then [summary_line ''  Name:        '' (ve_EventName e)] else [])
     @ (if ve_EventDescription e \<noteq> [] then [summary_line ''  Description: '' (ve_EventDescription e)] else [])
     @ (if ve_EventURL e \<noteq> [] then [summary_line ''  URL:         '' (ve_EventURL e)] else [])
     @ [summary_line ''  Started:     '' (shortTime (ve_StartTime e))]
     @ (if ve_EndTime e \<noteq> [] then [summary_line ''  Ended:       '' (shortTime (ve_EndTime e))] else [])"

definition summary_deliveries :: "cli_Delivery list \<Rightarrow> chunk list" where
  "summary_deliveries ds = (if ds = [] then [Plain (''    No deliveries.'' @ newline)]
     else Plain (newline @ ''    Deliveries ('' @ show_nat (length ds) @ ''):'' @ newline) #
       table [''    DELIVERY ID'', ''RECIPIENT'', ''GROUP'', ''CHANNEL'', ''STATUS'', ''ATTEMPT'', ''SENT AT'', ''ERROR'']
         (map (\<lambda>d. [''    '' @ vd_DeliveryID d, deliveryRecipient d, strOrDash (vd_Group d), vd_Channel d, vd_Status d,
           show_int (vd_Attempt d), shortTime (vd_SentAt d), strOrDash (vd_ErrorMessage d)]) ds))"

definition summary_notification :: "nat \<Rightarrow> nat \<Rightarrow> NotificationWithDeliveries \<Rightarrow> chunk list" where
  "summary_notification i m nd = (let n = nd_Notification nd in
     [Plain (newline @ ''  Notification '' @ show_nat (i + 1) @ ''/'' @ show_nat m @ ''  ['' @ vn_NotificationID n
        @ '']  '' @ shortTime (vn_CreatedAt n) @ newline),
      summary_line ''    Groups:       '' (strOrDash (Join (items (vn_Groups n)) '', '')),
      summary_line ''    Destinations: '' (strOrDash (formatDestinations (items (vn_Destinations n)))),
      summary_line ''    Channels:     '' (strOrDash (Join (items (vn_Channels n)) '', '')),
      summary_line ''    Members:      '' (show_int (vn_MemberCount n)),
      summary_line ''    Status:       '' (vn_Status n)]
     @ (if vn_ErrorMessage n \<noteq> [] then [summary_line ''    Error:        '' (vn_ErrorMessage n)] else [])
     @ [summary_line ''    Message:      '' (vn_Message n)]
     @ summary_deliveries (items (nd_Deliveries nd)))"

definition printEventSummary :: "EventSummary \<Rightarrow> chunk list" where
  "printEventSummary s = summary_event (es_Event s) @
     (let ns = es_Notifications s in
      if ns = [] then [Plain (newline @ ''  No notifications.'' @ newline)]
      else concat (map (\<lambda>(i, nd). summary_notification i (length ns) nd) (enumerate 0 ns)))"

end
