(* ===== verification/Cli_Usage.thy ===== *)
theory Cli_Usage
  imports Cli_Client
begin

text \<open>
  The usage texts of \<open>nrcli\<close>, as they are written in \<open>main.go\<close> and the command files.
\<close>

definition text_lines :: "string list \<Rightarrow> string" where
  "text_lines ls = concat (map (\<lambda>l. l @ newline) ls)"

definition globalUsage :: string where
  \<open>globalUsage = text_lines [
     ''nrcli - Notification Relay CLI'',
     [],
     ''Usage:'',
     ''  nrcli [global flags] <command> [subcommand] [flags] [arguments]'',
     [],
     ''Global Flags:'',
     ''  --url URL          API base URL [$NR_URL, default: http://localhost:8080]'',
     ''  --user USER        Basic Auth username [$NR_USER]'',
     ''  --password PASS    Basic Auth password [$NR_PASSWORD]'',
     ''  --json             Output raw JSON instead of formatted tables'',
     [],
     ''Commands:'',
     ''  events             Manage events'',
     ''  notifications      Publish and inspect notifications'',
     ''  deliveries         Inspect delivery attempts'',
     ''  groups             View LDAP group membership and manage sync configuration'',
     ''  templates          Manage email templates'',
     ''  audit              View audit log (admin only)'',
     ''  subscriptions      Manage SMS subscriptions'',
     ''  smtp-cram          Manage SMTP CRAM-MD5 credentials (admin only)'',
     [],
     ''Run 'nrcli <command>' for subcommand help.'',
     [],
     ''Examples:'',
     ''  nrcli --user admin --password secret events list'',
     ''  nrcli events get alert-disk-01'',
     ''  nrcli notifications publish --event-id alert-disk-01 --group grp-oncall --channel sms --message "Disk full"'',
     ''  nrcli groups sync list'',
     ''  nrcli groups sync add grp-oncall'',
     ''  nrcli templates list --json'']\<close>

definition auditUsage :: string where
  \<open>auditUsage = text_lines [
     ''Usage: nrcli audit [flags]'',
     [],
     ''Lists the audit log. Requires admin role.'',
     [],
     ''Flags:'',
     ''  --username USER   Filter to entries for a specific user'',
     ''  --from TIME       Lower bound on timestamp (RFC3339, inclusive)'',
     ''  --to TIME         Upper bound on timestamp (RFC3339, inclusive)'',
     ''  --limit N         Max records to return (1-200, default: 50)'',
     ''  --offset N        Records to skip (default: 0)'',
     [],
     ''Examples:'',
     ''  nrcli audit --limit 20'',
     ''  nrcli audit --username jdoe --from 2026-04-01T00:00:00Z'']\<close>

definition deliveriesUsage :: string where
  \<open>deliveriesUsage = text_lines [
     ''Usage: nrcli deliveries <subcommand> [arguments]'',
     [],
     ''Subcommands:'',
     ''  get DELIVERY_ID   Get a delivery attempt by ID'']\<close>

definition eventsUsage :: string where
  \<open>eventsUsage = text_lines [
     ''Usage: nrcli events <subcommand> [flags] [arguments]'',
     [],
     ''Subcommands:'',
     ''  list                  List events (newest first)'',
     ''  create                Create a new event'',
     ''  get    EVENT_ID       Get an event by ID'',
     ''  update EVENT_ID       Update mutable fields on an event'',
     ''  end    EVENT_ID       Mark an event as resolved'',
     ''  notifications EVENT_ID  List notifications sent for an event'',
     ''  summary   EVENT_ID    Show full event detail with all notifications and deliveries'',
     [],
     ''Flags for 'list':'',
     ''  --limit N           Max records to return (1-200, default: 50)'',
     ''  --offset N          Records to skip (default: 0)'',
     ''  --start-from TIME   Lower bound on start_time (RFC3339, inclusive)'',
     ''  --start-to TIME     Upper bound on start_time (RFC3339, inclusive)'',
     [],
     ''Flags for 'create':'',
     ''  --event-id ID         External event identifier'',
     ''  --name NAME           Event name'',
     ''  --severity SEV        Severity (e.g. critical, major, minor, warning, information)'',
     ''  --url URL             URL associated with the event'',
     ''  --description DESC    Event description'',
     ''  --start-time TIME     Start time in RFC3339 (default: now)'',
     [],
     ''Flags for 'update':'',
     ''  --name NAME           New event name'',
     ''  --severity SEV        New severity'',
     ''  --url URL             New URL'',
     ''  --description DESC    New description'',
     [],
     ''Flags for 'end':'',
     ''  --end-time TIME       End time in RFC3339 (default: now)'']\<close>

definition groupsUsage :: string where
  \<open>groupsUsage = text_lines [
     ''Usage: nrcli groups <subcommand> [arguments]'',
     [],
     ''Subcommands:'',
     ''  list                  List all synced LDAP groups'',
     ''  members GROUP_NAME    List members of a group'',
     ''  sync                  Manage LDAP sync group configuration (admin only)'']\<close>

definition groupsSyncUsage :: string where
  \<open>groupsSyncUsage = text_lines [
     ''Usage: nrcli groups sync <subcommand> [arguments]'',
     [],
     ''Manage which LDAP groups the syncer mirrors into the membership table.'',
     ''Requires admin role.'',
     [],
     ''Subcommands:'',
     ''  list              List all configured sync groups'',
     ''  add GROUP_NAME    Add an LDAP group to the sync list'',
     ''  remove GROUP_NAME Remove a group from the sync list'']\<close>

definition notificationsUsage :: string where
  \<open>notificationsUsage = text_lines [
     ''Usage: nrcli notifications <subcommand> [flags] [arguments]'',
     [],
     ''Subcommands:'',
     ''  publish               Queue a notification for delivery'',
     ''  get   NOTIFICATION_ID  Get a notification by ID'',
     ''  deliveries NOTIFICATION_ID  List delivery attempts for a notification'',
     [],
     ''Flags for 'publish':'',
     ''  --message MSG           Notification message (required)'',
     ''  --group GROUP           LDAP group to notify; repeat for multiple'',
     ''  --channel CHANNEL       Delivery channel for groups: sms, voice, email; repeat for multiple'',
     ''                          (required when --group is specified)'',
     ''  --destination CH:TARGET Direct delivery target as CHANNEL:TARGET; repeat for multiple'',
     ''                          e.g. --destination sms:+12125551234'',
     ''                               --destination email:ops@example.com'',
     ''  --event-id ID           External event identifier'',
     ''  --event-name NAME       Event name (used when auto-creating the event)'',
     ''  --event-severity SEV    Event severity'',
     ''  --event-url URL         Event URL'',
     ''  --event-description D   Event description'',
     ''  --start-time TIME       Event start time (RFC3339; default: now)'',
     ''  --end-time TIME         Event end time (RFC3339); marks the event as ended'',
     ''  --email-template TMPL   Email template name (required when any channel is email)'',
     ''  --email-vars JSON       Template variables defined as a JSON string ("{'' @ [CHR 0x5C] @ ''"test'' @ [CHR 0x5C] @ ''": 1}")'',
     [],
     ''At least one --group or --destination must be provided.'',
     [],
     ''Examples:'',
     ''  # Notify an LDAP group'',
     ''  nrcli notifications publish '' @ [CHR 0x5C],
     ''    --event-id alert-disk-01 '' @ [CHR 0x5C],
     ''    --group grp-oncall '' @ [CHR 0x5C],
     ''    --channel sms --channel email '' @ [CHR 0x5C],
     ''    --message "Disk usage above 90% on web-01" '' @ [CHR 0x5C],
     ''    --email-template alert-standard '' @ [CHR 0x5C],
     ''    --email-vars "{'' @ [CHR 0x5C] @ ''"host'' @ [CHR 0x5C] @ ''": '' @ [CHR 0x5C] @ ''"web-01'' @ [CHR 0x5C] @ ''"}"'',
     [],
     ''  # Notify a direct phone number and email address'',
     ''  nrcli notifications publish '' @ [CHR 0x5C],
     ''    --event-id alert-disk-01 '' @ [CHR 0x5C],
     ''    --destination sms:+12125551234 '' @ [CHR 0x5C],
     ''    --destination email:ops@example.com '' @ [CHR 0x5C],
     ''    --message "Disk usage above 90% on web-01" '' @ [CHR 0x5C],
     ''    --email-template alert-standard'']\<close>

definition smtpCramUsage :: string where
  \<open>smtpCramUsage = text_lines [
     ''Usage: nrcli smtp-cram <subcommand> [arguments]'',
     [],
     ''Manage credentials for the SMTP ingestion server's CRAM-MD5 authentication'',
     ''mechanism. These are separate from LDAP: CRAM-MD5 requires the server to hold'',
     ''the plaintext shared secret, which an LDAP bind never exposes. Requires admin'',
     ''role.'',
     [],
     ''Subcommands:'',
     ''  list                                List all CRAM-MD5 credentials'',
     ''  add USERNAME --role ROLE [...]      Create a credential (secret shown once)'',
     ''  remove USERNAME                     Remove a credential'']\<close>

definition subscriptionsUsage :: string where
  \<open>subscriptionsUsage = text_lines [
     ''Usage: nrcli subscriptions <subcommand> [arguments]'',
     [],
     ''Subcommands:'',
     ''  list                    List all SMS subscriptions (admin only)'',
     ''  subscribe USERNAME      Subscribe a user by username (admin only)'',
     ''  subscribe-me            Subscribe yourself'',
     ''  unsubscribe USERNAME    Remove a user's subscription (admin only)'',
     ''  unsubscribe-me          Remove your own subscription'',
     [],
     ''Examples:'',
     ''  nrcli subscriptions list'',
     ''  nrcli subscriptions subscribe jsmith'',
     ''  nrcli subscriptions subscribe-me'',
     ''  nrcli subscriptions unsubscribe jsmith'',
     ''  nrcli subscriptions unsubscribe-me'']\<close>

definition templatesUsage :: string where
  \<open>templatesUsage = text_lines [
     ''Usage: nrcli templates <subcommand> [flags] [arguments]'',
     [],
     ''Subcommands:'',
     ''  list                      List all email templates'',
     ''  create                    Create a new email template'',
     ''  get   TEMPLATE_NAME       Get a template by name'',
     ''  update TEMPLATE_NAME      Replace a template's content'',
     ''  delete TEMPLATE_NAME      Delete a template'',
     [],
     ''Flags for 'create' and 'update':'',
     ''  --subject SUBJ        Email subject; supports Go template syntax (required)'',
     ''  --body BODY           Email body inline; supports Go template syntax'',
     ''  --body-file PATH      Read email body from a file (alternative to --body)'',
     ''  --required-var VAR    Variable name that must be supplied; repeat for multiple'',
     ''  --description DESC    Human-readable description'',
     [],
     ''Exactly one of --body or --body-file must be provided.'',
     [],
     ''Examples:'',
     ''  nrcli templates create '' @ [CHR 0x5C],
     ''    --subject "Alert: {{.event_name}}" '' @ [CHR 0x5C],
     ''    --body-file /etc/nrcli/templates/alert-standard.html '' @ [CHR 0x5C],
     ''    --required-var event_name --required-var host --required-var threshold '' @ [CHR 0x5C],
     ''    alert-standard'',
     [],
     ''  nrcli templates update alert-standard '' @ [CHR 0x5C],
     ''    --subject "ALERT: {{.event_name}}" '' @ [CHR 0x5C],
     ''    --body-file ./body.html'']\<close>

end
