(* ===== verification/Cli.thy ===== *)
theory Cli
  imports Cli_Format Cli_Usage
begin

text \<open>
  The commands of \<open>nrcli\<close> (\<open>main.go\<close> and the files \<open>cmd_*.go\<close>), one definition per function. Each reads its
  flags, checks its arguments, sends its requests in order and prints the reply; the exit code is 0, 1
  for an error or a wrong command, or 2 for a wrong flag.
\<close>

section \<open>Shared by the commands\<close>

definition with_flags :: "string \<Rightarrow> flag_set \<Rightarrow> string list \<Rightarrow> (flag_set \<Rightarrow> string list \<Rightarrow> unit command) \<Rightarrow> unit command" where
  "with_flags usage fs args k = and_then (parseFlags usage fs args) (\<lambda>(fs', rest). k fs' rest)"

definition given :: "string \<Rightarrow> string \<Rightarrow> (string \<times> string) list" where
  "given name v = (if v \<noteq> [] then [(name, v)] else [])"

definition string_fields :: "(string \<times> string) list \<Rightarrow> (string \<times> json) list" where
  "string_fields = map (map_prod id JStr)"

definition nil_slice_json :: "string list \<Rightarrow> json" where
  "nil_slice_json xs = (if xs = [] then JNull else JArr (map JStr xs))"

text \<open>A \<open>GET\<close> whose reply is shown, and a \<open>DELETE\<close> followed by a message.\<close>

definition get_and_show :: "cli_env \<Rightarrow> cli_config \<Rightarrow> string \<Rightarrow> (string \<times> string) list
    \<Rightarrow> 'a decoder \<Rightarrow> 'a \<Rightarrow> ('a \<Rightarrow> chunk list) \<Rightarrow> unit command" where
  "get_and_show env cfg path q d zero print =
     and_then (or_die (cli_Get env (cli_NewClient cfg) path q)) (show_body env cfg d zero print)"

definition post_and_show :: "cli_env \<Rightarrow> cli_config \<Rightarrow> string \<Rightarrow> json option
    \<Rightarrow> 'a decoder \<Rightarrow> 'a \<Rightarrow> ('a \<Rightarrow> chunk list) \<Rightarrow> unit command" where
  "post_and_show env cfg path body d zero print =
     and_then (or_die (cli_Post env (cli_NewClient cfg) path body)) (show_body env cfg d zero print)"

definition delete_and_say :: "cli_env \<Rightarrow> cli_config \<Rightarrow> string \<Rightarrow> string \<Rightarrow> unit command" where
  "delete_and_say env cfg path message =
     and_then (or_die (cli_Delete env (cli_NewClient cfg) path)) (\<lambda>_. out [Plain (message @ newline)])"

definition print_items :: "('a list \<Rightarrow> chunk list) \<Rightarrow> 'a list option \<Rightarrow> chunk list" where
  "print_items print xs = print (items xs)"

section \<open>Events\<close>

definition runEventsList :: "cli_env \<Rightarrow> cli_config \<Rightarrow> string list \<Rightarrow> unit command" where
  "runEventsList env cfg args = with_flags eventsUsage
     [(''limit'', FInt 50), (''offset'', FInt 0), (''start-from'', FString []), (''start-to'', FString [])] args
     (\<lambda>fs _. get_and_show env cfg ''/api/v1/events''
        ([(''limit'', show_int (int_flag fs ''limit'')), (''offset'', show_int (int_flag fs ''offset''))]
         @ given ''start_from'' (str_flag fs ''start-from'') @ given ''start_to'' (str_flag fs ''start-to''))
        (dec_page ''events'' dec_Event zero_Event) zero_page (\<lambda>p. print_items printEventList (pg_Rows p)))"

definition events_create_request :: "flag_set \<Rightarrow> json" where
  "events_create_request fs = object (string_fields (given ''event_id'' (str_flag fs ''event-id'')
     @ given ''event_name'' (str_flag fs ''name'') @ given ''event_severity'' (str_flag fs ''severity'')
     @ given ''event_url'' (str_flag fs ''url'') @ given ''event_description'' (str_flag fs ''description'')
     @ given ''start_time'' (str_flag fs ''start-time'')))"

definition runEventsCreate :: "cli_env \<Rightarrow> cli_config \<Rightarrow> string list \<Rightarrow> unit command" where
  "runEventsCreate env cfg args = with_flags eventsUsage
     [(''event-id'', FString []), (''name'', FString []), (''severity'', FString []), (''url'', FString []),
      (''description'', FString []), (''start-time'', FString [])] args
     (\<lambda>fs _. post_and_show env cfg ''/api/v1/events'' (Some (events_create_request fs))
        dec_Event zero_Event printEventDetail)"

definition runEventsGet :: "cli_env \<Rightarrow> cli_config \<Rightarrow> string list \<Rightarrow> unit command" where
  "runEventsGet env cfg args = with_flags eventsUsage [] args (\<lambda>_ rest.
     required_arg ''EVENT_ID'' rest (\<lambda>eventID.
       get_and_show env cfg (''/api/v1/events/'' @ PathEscape eventID) [] dec_Event zero_Event printEventDetail))"

definition events_update_fields :: "flag_set \<Rightarrow> (string \<times> string) list" where
  "events_update_fields fs = given ''event_name'' (str_flag fs ''name'')
     @ given ''event_severity'' (str_flag fs ''severity'') @ given ''event_url'' (str_flag fs ''url'')
     @ given ''event_description'' (str_flag fs ''description'')"

definition runEventsUpdate :: "cli_env \<Rightarrow> cli_config \<Rightarrow> string list \<Rightarrow> unit command" where
  "runEventsUpdate env cfg args = with_flags eventsUsage
     [(''name'', FString []), (''severity'', FString []), (''url'', FString []), (''description'', FString [])] args
     (\<lambda>fs rest. required_arg ''EVENT_ID'' rest (\<lambda>eventID.
        if events_update_fields fs = [] then die ''at least one of --name, --severity, --url, or --description is required''
        else and_then (or_die (cli_Patch env (cli_NewClient cfg) (''/api/v1/events/'' @ PathEscape eventID)
               (Some (object (string_fields (events_update_fields fs))))))
             (show_body env cfg dec_Event zero_Event printEventDetail)))"

definition runEventsEnd :: "cli_env \<Rightarrow> cli_config \<Rightarrow> string list \<Rightarrow> unit command" where
  "runEventsEnd env cfg args = with_flags eventsUsage [(''end-time'', FString [])] args
     (\<lambda>fs rest. required_arg ''EVENT_ID'' rest (\<lambda>eventID.
        post_and_show env cfg (''/api/v1/events/'' @ PathEscape eventID @ ''/end'')
          (if str_flag fs ''end-time'' \<noteq> [] then Some (object [(''end_time'', JStr (str_flag fs ''end-time''))]) else None)
          dec_Event zero_Event printEventDetail))"

definition runEventsNotifications :: "cli_env \<Rightarrow> cli_config \<Rightarrow> string list \<Rightarrow> unit command" where
  "runEventsNotifications env cfg args = with_flags eventsUsage [] args (\<lambda>_ rest.
     required_arg ''EVENT_ID'' rest (\<lambda>eventID.
       get_and_show env cfg (''/api/v1/events/'' @ PathEscape eventID @ ''/notifications'') []
         (dec_slice dec_Notification zero_Notification) None (print_items printNotificationList)))"

text \<open>The summary asks for the deliveries of one notification after another.\<close>

fun fetch_deliveries :: "cli_env \<Rightarrow> Client \<Rightarrow> cli_Notification list \<Rightarrow> NotificationWithDeliveries list command" where
  "fetch_deliveries env c [] = value_of []"
| "fetch_deliveries env c (n # ns) =
     and_then (or_die (cli_Get env c (''/api/v1/notifications/'' @ PathEscape (vn_NotificationID n) @ ''/deliveries'') []))
       (\<lambda>body. and_then (decoded env (dec_slice dec_Delivery zero_Delivery) None body)
         (\<lambda>ds. and_then (fetch_deliveries env c ns)
           (\<lambda>rest. value_of (\<lparr>nd_Notification = n, nd_Deliveries = ds\<rparr> # rest))))"

definition runEventsSummary :: "cli_env \<Rightarrow> cli_config \<Rightarrow> string list \<Rightarrow> unit command" where
  "runEventsSummary env cfg args = with_flags eventsUsage [] args (\<lambda>_ rest.
     required_arg ''EVENT_ID'' rest (\<lambda>eventID. let c = cli_NewClient cfg in
       and_then (or_die (cli_Get env c (''/api/v1/events/'' @ PathEscape eventID) [])) (\<lambda>eventBody.
       and_then (decoded env dec_Event zero_Event eventBody) (\<lambda>event.
       and_then (or_die (cli_Get env c (''/api/v1/events/'' @ PathEscape eventID @ ''/notifications'') [])) (\<lambda>notifsBody.
       and_then (decoded env (dec_slice dec_Notification zero_Notification) None notifsBody) (\<lambda>notifs.
       and_then (fetch_deliveries env c (items notifs)) (\<lambda>nds.
         let summary = \<lparr>es_Event = event, es_Notifications = nds\<rparr>
         in if cg_JSON cfg then printJSON (encode (EventSummary_json summary))
            else out (printEventSummary summary))))))))"

definition runEvents :: "cli_env \<Rightarrow> cli_config \<Rightarrow> string list \<Rightarrow> unit command" where
  "runEvents env cfg args = (case args of [] \<Rightarrow> usage_exit eventsUsage
     | name # rest \<Rightarrow>
         if name = ''list'' then runEventsList env cfg rest
         else if name = ''create'' then runEventsCreate env cfg rest
         else if name = ''get'' then runEventsGet env cfg rest
         else if name = ''update'' then runEventsUpdate env cfg rest
         else if name = ''end'' then runEventsEnd env cfg rest
         else if name = ''notifications'' then runEventsNotifications env cfg rest
         else if name = ''summary'' then runEventsSummary env cfg rest
         else unknown_subcommand ''events subcommand'' eventsUsage name)"

section \<open>Notifications\<close>

text \<open>What \<open>publish\<close> asks of its flags before it sends anything: the message of the error, if there is one.\<close>

definition publish_missing :: "flag_set \<Rightarrow> string option" where
  "publish_missing fs =
     (if strs_flag fs ''group'' = [] \<and> dests_flag fs ''destination'' = [] then
        Some ''at least one --group or --destination is required''
      else if strs_flag fs ''group'' \<noteq> [] \<and> strs_flag fs ''channel'' = [] then
        Some ''--channel is required when --group is specified''
      else if str_flag fs ''message'' = [] then Some ''--message is required''
      else None)"

definition publish_members :: "flag_set \<Rightarrow> (bool \<times> string \<times> json) list" where
  "publish_members fs = (let text = (\<lambda>name flag. (str_flag fs flag \<noteq> [], name, JStr (str_flag fs flag))) in
     [(True, ''message'', JStr (str_flag fs ''message'')),
      (strs_flag fs ''group'' \<noteq> [], ''groups'', JArr (map JStr (strs_flag fs ''group''))),
      (strs_flag fs ''channel'' \<noteq> [], ''channels'', JArr (map JStr (strs_flag fs ''channel''))),
      (dests_flag fs ''destination'' \<noteq> [], ''destinations'', JArr (map destination_json (dests_flag fs ''destination''))),
      text ''event_id'' ''event-id'', text ''event_name'' ''event-name'', text ''event_severity'' ''event-severity'',
      text ''event_url'' ''event-url'', text ''event_description'' ''event-description'',
      text ''start_time'' ''start-time'', text ''end_time'' ''end-time'', text ''email_template'' ''email-template''])"

definition publish_email_vars :: "cli_env \<Rightarrow> flag_set \<Rightarrow> (bool \<times> string \<times> json) command" where
  "publish_email_vars env fs = (let vars = str_flag fs ''email-vars'' in
     if vars = [] then value_of (False, ''email_vars'', JNull)
     else and_then (decoded env dec_any_map None vars) (\<lambda>m. value_of (True, ''email_vars'', any_map_json m)))"

definition publish_flags :: flag_set where
  "publish_flags = [(''event-id'', FString []), (''message'', FString []), (''event-name'', FString []),
     (''event-severity'', FString []), (''event-url'', FString []), (''event-description'', FString []),
     (''start-time'', FString []), (''end-time'', FString []), (''email-template'', FString []),
     (''email-vars'', FString []), (''group'', FStrings []), (''channel'', FStrings []), (''destination'', FDestinations [])]"

definition runNotificationsPublish :: "cli_env \<Rightarrow> cli_config \<Rightarrow> string list \<Rightarrow> unit command" where
  "runNotificationsPublish env cfg args = with_flags notificationsUsage publish_flags args
     (\<lambda>fs _. (case publish_missing fs of Some e \<Rightarrow> die e
       | None \<Rightarrow> and_then (publish_email_vars env fs) (\<lambda>vars.
           post_and_show env cfg ''/api/v1/notifications'' (Some (object (optional (publish_members fs @ [vars]))))
             dec_PublishResponse zero_PublishResponse printPublishResponse)))"

definition runNotificationsGet :: "cli_env \<Rightarrow> cli_config \<Rightarrow> string list \<Rightarrow> unit command" where
  "runNotificationsGet env cfg args = with_flags notificationsUsage [] args (\<lambda>_ rest.
     required_arg ''NOTIFICATION_ID'' rest (\<lambda>notifID.
       get_and_show env cfg (''/api/v1/notifications/'' @ PathEscape notifID) []
         dec_Notification zero_Notification printNotificationDetail))"

definition runNotificationsDeliveries :: "cli_env \<Rightarrow> cli_config \<Rightarrow> string list \<Rightarrow> unit command" where
  "runNotificationsDeliveries env cfg args = with_flags notificationsUsage [] args (\<lambda>_ rest.
     required_arg ''NOTIFICATION_ID'' rest (\<lambda>notifID.
       get_and_show env cfg (''/api/v1/notifications/'' @ PathEscape notifID @ ''/deliveries'') []
         (dec_slice dec_Delivery zero_Delivery) None (print_items printDeliveryList)))"

definition runNotifications :: "cli_env \<Rightarrow> cli_config \<Rightarrow> string list \<Rightarrow> unit command" where
  "runNotifications env cfg args = (case args of [] \<Rightarrow> usage_exit notificationsUsage
     | name # rest \<Rightarrow>
         if name = ''publish'' then runNotificationsPublish env cfg rest
         else if name = ''get'' then runNotificationsGet env cfg rest
         else if name = ''deliveries'' then runNotificationsDeliveries env cfg rest
         else unknown_subcommand ''notifications subcommand'' notificationsUsage name)"

section \<open>Deliveries and the audit log\<close>

definition runDeliveriesGet :: "cli_env \<Rightarrow> cli_config \<Rightarrow> string list \<Rightarrow> unit command" where
  "runDeliveriesGet env cfg args = with_flags deliveriesUsage [] args (\<lambda>_ rest.
     required_arg ''DELIVERY_ID'' rest (\<lambda>deliveryID.
       get_and_show env cfg (''/api/v1/deliveries/'' @ PathEscape deliveryID) []
         dec_Delivery zero_Delivery printDeliveryDetail))"

definition runDeliveries :: "cli_env \<Rightarrow> cli_config \<Rightarrow> string list \<Rightarrow> unit command" where
  "runDeliveries env cfg args = (case args of [] \<Rightarrow> usage_exit deliveriesUsage
     | name # rest \<Rightarrow>
         if name = ''get'' then runDeliveriesGet env cfg rest
         else unknown_subcommand ''deliveries subcommand'' deliveriesUsage name)"

definition runAudit :: "cli_env \<Rightarrow> cli_config \<Rightarrow> string list \<Rightarrow> unit command" where
  "runAudit env cfg args = with_flags auditUsage
     [(''username'', FString []), (''from'', FString []), (''to'', FString []), (''limit'', FInt 50), (''offset'', FInt 0)] args
     (\<lambda>fs _. get_and_show env cfg ''/api/v1/audit''
        ([(''limit'', show_int (int_flag fs ''limit'')), (''offset'', show_int (int_flag fs ''offset''))]
         @ given ''username'' (str_flag fs ''username'') @ given ''from'' (str_flag fs ''from'')
         @ given ''to'' (str_flag fs ''to''))
        (dec_page ''entries'' dec_AuditLogEntry zero_AuditLogEntry) zero_page
        (\<lambda>p. print_items printAuditLogList (pg_Rows p)))"

section \<open>Groups\<close>

definition runGroupsList :: "cli_env \<Rightarrow> cli_config \<Rightarrow> string list \<Rightarrow> unit command" where
  "runGroupsList env cfg args = with_flags groupsUsage [] args (\<lambda>_ _.
     get_and_show env cfg ''/api/v1/groups'' [] dec_strings None (print_items printGroupList))"

definition runGroupsMembers :: "cli_env \<Rightarrow> cli_config \<Rightarrow> string list \<Rightarrow> unit command" where
  "runGroupsMembers env cfg args = with_flags groupsUsage [] args (\<lambda>_ rest.
     required_arg ''GROUP_NAME'' rest (\<lambda>groupName.
       get_and_show env cfg (''/api/v1/groups/'' @ PathEscape groupName @ ''/members'') []
         (dec_slice dec_GroupMember zero_GroupMember) None (print_items printGroupMemberList)))"

definition runGroupsSyncList :: "cli_env \<Rightarrow> cli_config \<Rightarrow> string list \<Rightarrow> unit command" where
  "runGroupsSyncList env cfg args = with_flags groupsSyncUsage [] args (\<lambda>_ _.
     get_and_show env cfg ''/api/v1/groups/sync'' [] (dec_slice dec_SyncGroup zero_SyncGroup) None
       (print_items printSyncGroupList))"

definition runGroupsSyncAdd :: "cli_env \<Rightarrow> cli_config \<Rightarrow> string list \<Rightarrow> unit command" where
  "runGroupsSyncAdd env cfg args = with_flags groupsSyncUsage [] args (\<lambda>_ rest.
     required_arg ''GROUP_NAME'' rest (\<lambda>groupName.
       post_and_show env cfg ''/api/v1/groups/sync'' (Some (object [(''group_name'', JStr groupName)]))
         dec_SyncGroup zero_SyncGroup printSyncGroupDetail))"

definition runGroupsSyncRemove :: "cli_env \<Rightarrow> cli_config \<Rightarrow> string list \<Rightarrow> unit command" where
  "runGroupsSyncRemove env cfg args = with_flags groupsSyncUsage [] args (\<lambda>_ rest.
     required_arg ''GROUP_NAME'' rest (\<lambda>groupName.
       delete_and_say env cfg (''/api/v1/groups/sync/'' @ PathEscape groupName)
         (''Sync group '' @ go_quote groupName @ '' removed.'')))"

definition runGroupsSync :: "cli_env \<Rightarrow> cli_config \<Rightarrow> string list \<Rightarrow> unit command" where
  "runGroupsSync env cfg args = (case args of [] \<Rightarrow> usage_exit groupsSyncUsage
     | name # rest \<Rightarrow>
         if name = ''list'' then runGroupsSyncList env cfg rest
         else if name = ''add'' then runGroupsSyncAdd env cfg rest
         else if name = ''remove'' then runGroupsSyncRemove env cfg rest
         else unknown_subcommand ''groups sync subcommand'' groupsSyncUsage name)"

definition runGroups :: "cli_env \<Rightarrow> cli_config \<Rightarrow> string list \<Rightarrow> unit command" where
  "runGroups env cfg args = (case args of [] \<Rightarrow> usage_exit groupsUsage
     | name # rest \<Rightarrow>
         if name = ''list'' then runGroupsList env cfg rest
         else if name = ''members'' then runGroupsMembers env cfg rest
         else if name = ''sync'' then runGroupsSync env cfg rest
         else unknown_subcommand ''groups subcommand'' groupsUsage name)"

section \<open>Templates\<close>

definition resolveBody :: "cli_env \<Rightarrow> string \<Rightarrow> string \<Rightarrow> string command" where
  "resolveBody env body bodyFile =
     (if body \<noteq> [] \<and> bodyFile \<noteq> [] then die ''--body and --body-file are mutually exclusive''
      else if body = [] \<and> bodyFile = [] then die ''one of --body or --body-file is required''
      else if body \<noteq> [] then value_of body
      else (case ce_read_file env bodyFile of Inl e \<Rightarrow> die (''read body file: '' @ e) | Inr data \<Rightarrow> value_of data))"

definition runTemplatesList :: "cli_env \<Rightarrow> cli_config \<Rightarrow> string list \<Rightarrow> unit command" where
  "runTemplatesList env cfg args = with_flags templatesUsage [] args (\<lambda>_ _.
     get_and_show env cfg ''/api/v1/templates'' [] (dec_slice dec_Template zero_Template) None
       (print_items printTemplateList))"

definition template_flags :: flag_set where
  "template_flags = [(''subject'', FString []), (''body'', FString []), (''body-file'', FString []),
     (''description'', FString []), (''required-var'', FStrings [])]"

text \<open>What \<open>create\<close> and \<open>update\<close> share: the name, the subject and the body, and the request of them.\<close>

definition template_request :: "cli_env \<Rightarrow> flag_set \<Rightarrow> string list \<Rightarrow> (string \<Rightarrow> json \<Rightarrow> unit command) \<Rightarrow> unit command" where
  "template_request env fs rest k = required_arg ''TEMPLATE_NAME'' rest (\<lambda>name.
     if str_flag fs ''subject'' = [] then die ''--subject is required''
     else and_then (resolveBody env (str_flag fs ''body'') (str_flag fs ''body-file'')) (\<lambda>bodyContent.
       k name (object ([(''template_name'', JStr name), (''subject'', JStr (str_flag fs ''subject'')),
           (''body'', JStr bodyContent), (''required_vars'', nil_slice_json (strs_flag fs ''required-var''))]
         @ string_fields (given ''description'' (str_flag fs ''description''))))))"

definition runTemplatesCreate :: "cli_env \<Rightarrow> cli_config \<Rightarrow> string list \<Rightarrow> unit command" where
  "runTemplatesCreate env cfg args = with_flags templatesUsage template_flags args (\<lambda>fs rest.
     template_request env fs rest (\<lambda>name req.
       post_and_show env cfg ''/api/v1/templates'' (Some req) dec_Template zero_Template printTemplateDetail))"

definition runTemplatesGet :: "cli_env \<Rightarrow> cli_config \<Rightarrow> string list \<Rightarrow> unit command" where
  "runTemplatesGet env cfg args = with_flags templatesUsage [] args (\<lambda>_ rest.
     required_arg ''TEMPLATE_NAME'' rest (\<lambda>name.
       get_and_show env cfg (''/api/v1/templates/'' @ PathEscape name) [] dec_Template zero_Template printTemplateDetail))"

definition runTemplatesUpdate :: "cli_env \<Rightarrow> cli_config \<Rightarrow> string list \<Rightarrow> unit command" where
  "runTemplatesUpdate env cfg args = with_flags templatesUsage template_flags args (\<lambda>fs rest.
     template_request env fs rest (\<lambda>name req.
       and_then (or_die (cli_Put env (cli_NewClient cfg) (''/api/v1/templates/'' @ PathEscape name) (Some req)))
         (show_body env cfg dec_Template zero_Template printTemplateDetail)))"

definition runTemplatesDelete :: "cli_env \<Rightarrow> cli_config \<Rightarrow> string list \<Rightarrow> unit command" where
  "runTemplatesDelete env cfg args = with_flags templatesUsage [] args (\<lambda>_ rest.
     required_arg ''TEMPLATE_NAME'' rest (\<lambda>name.
       delete_and_say env cfg (''/api/v1/templates/'' @ PathEscape name)
         (''Template '' @ go_quote name @ '' deleted.'')))"

definition runTemplates :: "cli_env \<Rightarrow> cli_config \<Rightarrow> string list \<Rightarrow> unit command" where
  "runTemplates env cfg args = (case args of [] \<Rightarrow> usage_exit templatesUsage
     | name # rest \<Rightarrow>
         if name = ''list'' then runTemplatesList env cfg rest
         else if name = ''create'' then runTemplatesCreate env cfg rest
         else if name = ''get'' then runTemplatesGet env cfg rest
         else if name = ''update'' then runTemplatesUpdate env cfg rest
         else if name = ''delete'' then runTemplatesDelete env cfg rest
         else unknown_subcommand ''templates subcommand'' templatesUsage name)"

section \<open>Subscriptions\<close>

definition runSubscriptionsList :: "cli_env \<Rightarrow> cli_config \<Rightarrow> string list \<Rightarrow> unit command" where
  "runSubscriptionsList env cfg args = with_flags subscriptionsUsage [] args (\<lambda>_ _.
     get_and_show env cfg ''/api/v1/sms-subscriptions'' [] (dec_slice dec_SMSSubscription zero_SMSSubscription) None
       (print_items printSMSSubscriptionList))"

definition runSubscriptionsSubscribe :: "cli_env \<Rightarrow> cli_config \<Rightarrow> string list \<Rightarrow> unit command" where
  "runSubscriptionsSubscribe env cfg args = with_flags subscriptionsUsage [] args (\<lambda>_ rest.
     required_arg ''USERNAME'' rest (\<lambda>username.
       post_and_show env cfg ''/api/v1/sms-subscriptions'' (Some (object [(''username'', JStr username)]))
         dec_SMSSubscription zero_SMSSubscription printSMSSubscriptionDetail))"

definition runSubscriptionsSubscribeMe :: "cli_env \<Rightarrow> cli_config \<Rightarrow> string list \<Rightarrow> unit command" where
  "runSubscriptionsSubscribeMe env cfg args = with_flags subscriptionsUsage [] args (\<lambda>_ _.
     post_and_show env cfg ''/api/v1/sms-subscriptions/me'' None
       dec_SMSSubscription zero_SMSSubscription printSMSSubscriptionDetail)"

definition runSubscriptionsUnsubscribe :: "cli_env \<Rightarrow> cli_config \<Rightarrow> string list \<Rightarrow> unit command" where
  "runSubscriptionsUnsubscribe env cfg args = with_flags subscriptionsUsage [] args (\<lambda>_ rest.
     required_arg ''USERNAME'' rest (\<lambda>username.
       delete_and_say env cfg (''/api/v1/sms-subscriptions/'' @ PathEscape username)
         (''Subscription for '' @ go_quote username @ '' removed.'')))"

definition runSubscriptionsUnsubscribeMe :: "cli_env \<Rightarrow> cli_config \<Rightarrow> string list \<Rightarrow> unit command" where
  "runSubscriptionsUnsubscribeMe env cfg args = with_flags subscriptionsUsage [] args (\<lambda>_ _.
     delete_and_say env cfg ''/api/v1/sms-subscriptions/me'' ''You have been unsubscribed from SMS alerts.'')"

definition runSubscriptions :: "cli_env \<Rightarrow> cli_config \<Rightarrow> string list \<Rightarrow> unit command" where
  "runSubscriptions env cfg args = (case args of [] \<Rightarrow> usage_exit subscriptionsUsage
     | name # rest \<Rightarrow>
         if name = ''list'' then runSubscriptionsList env cfg rest
         else if name = ''subscribe'' then runSubscriptionsSubscribe env cfg rest
         else if name = ''subscribe-me'' then runSubscriptionsSubscribeMe env cfg rest
         else if name = ''unsubscribe'' then runSubscriptionsUnsubscribe env cfg rest
         else if name = ''unsubscribe-me'' then runSubscriptionsUnsubscribeMe env cfg rest
         else unknown_subcommand ''subscriptions subcommand'' subscriptionsUsage name)"

section \<open>Credentials\<close>

definition runSMTPCramList :: "cli_env \<Rightarrow> cli_config \<Rightarrow> string list \<Rightarrow> unit command" where
  "runSMTPCramList env cfg args = with_flags smtpCramUsage [] args (\<lambda>_ _.
     get_and_show env cfg ''/api/v1/smtp/cram-credentials'' [] (dec_slice dec_CRAMCredential zero_CRAMCredential) None
       (print_items printCRAMCredentialList))"

definition runSMTPCramAdd :: "cli_env \<Rightarrow> cli_config \<Rightarrow> string list \<Rightarrow> unit command" where
  "runSMTPCramAdd env cfg args = with_flags smtpCramUsage [(''role'', FStrings [])] args (\<lambda>fs rest.
     required_arg ''USERNAME'' rest (\<lambda>username.
       if strs_flag fs ''role'' = [] then die ''at least one --role is required''
       else post_and_show env cfg ''/api/v1/smtp/cram-credentials''
         (Some (object [(''username'', JStr username), (''roles'', JArr (map JStr (strs_flag fs ''role'')))]))
         dec_CRAMCredentialCreated zero_CRAMCredentialCreated printCRAMCredentialCreated))"

definition runSMTPCramRemove :: "cli_env \<Rightarrow> cli_config \<Rightarrow> string list \<Rightarrow> unit command" where
  "runSMTPCramRemove env cfg args = with_flags smtpCramUsage [] args (\<lambda>_ rest.
     required_arg ''USERNAME'' rest (\<lambda>username.
       delete_and_say env cfg (''/api/v1/smtp/cram-credentials/'' @ PathEscape username)
         (''SMTP CRAM-MD5 credential '' @ go_quote username @ '' removed.'')))"

definition runSMTPCram :: "cli_env \<Rightarrow> cli_config \<Rightarrow> string list \<Rightarrow> unit command" where
  "runSMTPCram env cfg args = (case args of [] \<Rightarrow> usage_exit smtpCramUsage
     | name # rest \<Rightarrow>
         if name = ''list'' then runSMTPCramList env cfg rest
         else if name = ''add'' then runSMTPCramAdd env cfg rest
         else if name = ''remove'' then runSMTPCramRemove env cfg rest
         else unknown_subcommand ''smtp-cram subcommand'' smtpCramUsage name)"

section \<open>The program\<close>

definition envOr :: "cli_env \<Rightarrow> string \<Rightarrow> string \<Rightarrow> string" where
  "envOr env key def = (if ce_getenv env key \<noteq> [] then ce_getenv env key else def)"

definition global_flags :: "cli_env \<Rightarrow> flag_set" where
  "global_flags env = [(''url'', FString (envOr env ''NR_URL'' ''http://localhost:8080'')),
     (''user'', FString (envOr env ''NR_USER'' [])), (''password'', FString (envOr env ''NR_PASSWORD'' [])),
     (''json'', FBool False)]"

definition config_of_flags :: "flag_set \<Rightarrow> cli_config" where
  "config_of_flags fs = \<lparr>cg_URL = str_flag fs ''url'', cg_Username = str_flag fs ''user'',
     cg_Password = str_flag fs ''password'', cg_JSON = bool_flag fs ''json''\<rparr>"

definition dispatch_command :: "cli_env \<Rightarrow> cli_config \<Rightarrow> string \<Rightarrow> string list \<Rightarrow> unit command" where
  "dispatch_command env cfg name args =
     (if name = ''events'' then runEvents env cfg args
      else if name = ''notifications'' then runNotifications env cfg args
      else if name = ''deliveries'' then runDeliveries env cfg args
      else if name = ''groups'' then runGroups env cfg args
      else if name = ''templates'' then runTemplates env cfg args
      else if name = ''audit'' then runAudit env cfg args
      else if name = ''subscriptions'' then runSubscriptions env cfg args
      else if name = ''smtp-cram'' then runSMTPCram env cfg args
      else unknown_subcommand ''command'' globalUsage name)"

definition cli_main :: "cli_env \<Rightarrow> string list \<Rightarrow> unit command" where
  "cli_main env args = with_flags globalUsage (global_flags env) args (\<lambda>fs rest.
     (case rest of [] \<Rightarrow> usage_exit globalUsage
      | name # rest' \<Rightarrow> dispatch_command env (config_of_flags fs) name rest'))"

text \<open>A run of the program: the exit code, and what it wrote and sent.\<close>

definition nrcli :: "cli_env \<Rightarrow> string list \<Rightarrow> nat \<times> cli" where
  "nrcli env args = (case run_state (cli_main env args) cli0 of
      (Inl code, s) \<Rightarrow> (code, s) | (Inr _, s) \<Rightarrow> (0, s))"

end
