(* ===== verification/Cli_Facts.thy ===== *)
theory Cli_Facts
  imports Cli Routes
begin

text \<open>
  What holds of every command of \<open>nrcli\<close>: each of its requests goes to the handler of the server that the
  command is named after, and the exit code tells whether all of them were answered.
\<close>

section \<open>Rules for commands\<close>

lemma wp_and_then [wp_simps]:
  "wp (and_then m f) Q s = wp m (\<lambda>r t. (\<forall>code. r = Inl code \<longrightarrow> Q (Inl code) t) \<and> (\<forall>x. r = Inr x \<longrightarrow> wp (f x) Q t)) s"
  by (auto simp: and_then_def wp_def run_state_bind split: prod.splits sum.splits)

lemma wp_value_of [wp_simps]: "wp (value_of x) Q s = Q (Inr x) s"
  by (simp add: value_of_def wp_simps)

lemma wp_exit_with [wp_simps]: "wp (exit_with code) Q s = Q (Inl code) s"
  by (simp add: exit_with_def wp_simps)

lemma wp_out [wp_simps]: "wp (out cs) Q s = Q (Inr ()) (s\<lparr>cl_out := cl_out s @ cs\<rparr>)"
  by (simp add: out_def wp_simps)

lemma wp_err_out [wp_simps]: "wp (err_out cs) Q s = Q (Inr ()) (s\<lparr>cl_err := cl_err s @ cs\<rparr>)"
  by (simp add: err_out_def wp_simps)

lemma wp_die [wp_simps]: "wp (die e) Q s = Q (Inl 1) (s\<lparr>cl_err := cl_err s @ [ErrText (''error: '' @ e @ newline)]\<rparr>)"
  by (simp add: die_def wp_simps)

lemma preserves_and_then [keeps]:
  "preserves I m \<Longrightarrow> (\<And>x. preserves I (f x)) \<Longrightarrow> preserves I (and_then m f)"
  unfolding and_then_def by (intro keeps)

text \<open>Nothing but a request changes what was sent.\<close>

lemma sent_keeps [keeps]:
  "preserves (\<lambda>s. Q (cl_sent s)) (value_of x)" "preserves (\<lambda>s. Q (cl_sent s)) (exit_with code)"
  "preserves (\<lambda>s. Q (cl_sent s)) (out cs)" "preserves (\<lambda>s. Q (cl_sent s)) (err_out es)"
  "preserves (\<lambda>s. Q (cl_sent s)) (die e)"
  by (rule preservesI; simp add: wp_simps)+

lemma sent_keeps_parts [keeps]:
  "preserves (\<lambda>s. Q (cl_sent s)) (usage_exit usage)"
  "preserves (\<lambda>s. Q (cl_sent s)) (unknown_subcommand what usage name)"
  "preserves (\<lambda>s. Q (cl_sent s)) (parseFlags usage fs args)"
  "preserves (\<lambda>s. Q (cl_sent s)) (printJSON body)"
  "preserves (\<lambda>s. Q (cl_sent s)) (decoded env d zero body)"
  "preserves (\<lambda>s. Q (cl_sent s)) (resolveBody env t f)"
  unfolding usage_exit_def unknown_subcommand_def parseFlags_def printJSON_def decoded_def resolveBody_def
  by (auto intro!: keeps split: parse_result.split)

lemma sent_keeps_show [keeps]: "preserves (\<lambda>s. Q (cl_sent s)) (show_body env cfg d zero print body)"
  unfolding show_body_def by (intro keeps)

lemma required_arg_keeps [keeps]:
  "(\<And>x. preserves (\<lambda>s. Q (cl_sent s)) (k x)) \<Longrightarrow> preserves (\<lambda>s. Q (cl_sent s)) (required_arg what rest k)"
  unfolding required_arg_def by (intro keeps)

lemma with_flags_keeps [keeps]:
  "(\<And>fs rest. preserves (\<lambda>s. Q (cl_sent s)) (k fs rest)) \<Longrightarrow> preserves (\<lambda>s. Q (cl_sent s)) (with_flags usage fs args k)"
  unfolding with_flags_def by (intro keeps)

lemma with_flags_run:
  "run_state (with_flags usage fs args k) s = (case flag_Parse fs args of
      Help \<Rightarrow> (Inl 0, s\<lparr>cl_err := cl_err s @ [Usage usage]\<rparr>)
    | Failed e \<Rightarrow> (Inl 2, s\<lparr>cl_err := cl_err s @ [ErrText (e @ newline), Usage usage]\<rparr>)
    | Parsed fs' rest \<Rightarrow> run_state (k fs' rest) s)"
  by (simp add: with_flags_def parseFlags_def and_then_def err_out_def exit_with_def value_of_def split: parse_result.split)

lemma usage_exit_run: "run_state (usage_exit usage) s = (Inl 1, s\<lparr>cl_err := cl_err s @ [Usage usage]\<rparr>)"
  by (simp add: usage_exit_def and_then_def err_out_def exit_with_def value_of_def)

section \<open>Which requests are sent\<close>

lemma doRaw_sends:
  "P (build_request c m path q b) \<Longrightarrow> preserves (\<lambda>s. list_all P (cl_sent s)) (doRaw env c m path q b)"
  by (rule preservesI)
    (simp add: doRaw_def http_Do_def Let_def wp_simps split: option.split)

lemma request_sends [keeps]:
  "P (build_request c ''GET'' path q None) \<Longrightarrow> preserves (\<lambda>s. list_all P (cl_sent s)) (or_die (cli_Get env c path q))"
  "P (build_request c ''POST'' path [] b) \<Longrightarrow> preserves (\<lambda>s. list_all P (cl_sent s)) (or_die (cli_Post env c path b))"
  "P (build_request c ''PUT'' path [] b) \<Longrightarrow> preserves (\<lambda>s. list_all P (cl_sent s)) (or_die (cli_Put env c path b))"
  "P (build_request c ''PATCH'' path [] b) \<Longrightarrow> preserves (\<lambda>s. list_all P (cl_sent s)) (or_die (cli_Patch env c path b))"
  "P (build_request c ''DELETE'' path [] None) \<Longrightarrow> preserves (\<lambda>s. list_all P (cl_sent s)) (or_die (cli_Delete env c path))"
  unfolding or_die_def cli_Get_def cli_Post_def cli_Put_def cli_Patch_def cli_Delete_def
  by (intro keeps doRaw_sends; assumption)+

section \<open>Where the requests go\<close>

text \<open>The method and the path are those of the route to the handler, with some escaped identifier.\<close>

definition goes_to :: "string \<Rightarrow> http_request \<Rightarrow> bool" where
  "goes_to h r \<longleftrightarrow> (\<exists>route \<in> set (mux_routes True). \<exists>x. ep_handler (rt_handler route) = h
     \<and> rq_Method r = rt_method route \<and> rq_Path r = path_of (fill (PathEscape x) (rt_segs route))
     \<and> (literal route \<or> one_wildcard route))"

text \<open>The handlers with the methods and the segments after \<open>/api/v1\<close> that the client knows.\<close>

definition client_requests :: "(string \<times> string \<times> pseg list) list" where
  "client_requests = [
     (''handleListEvents'', ''GET'', [Lit ''events'']),
     (''handleCreateEvent'', ''POST'', [Lit ''events'']),
     (''handleGetEvent'', ''GET'', [Lit ''events'', Wild]),
     (''handleUpdateEvent'', ''PATCH'', [Lit ''events'', Wild]),
     (''handleEndEvent'', ''POST'', [Lit ''events'', Wild, Lit ''end'']),
     (''handleListEventNotifications'', ''GET'', [Lit ''events'', Wild, Lit ''notifications'']),
     (''handleListNotificationDeliveries'', ''GET'', [Lit ''notifications'', Wild, Lit ''deliveries'']),
     (''handlePublishNotification'', ''POST'', [Lit ''notifications'']),
     (''handleGetNotification'', ''GET'', [Lit ''notifications'', Wild]),
     (''handleGetDelivery'', ''GET'', [Lit ''deliveries'', Wild]),
     (''handleListAuditLog'', ''GET'', [Lit ''audit'']),
     (''handleListGroups'', ''GET'', [Lit ''groups'']),
     (''handleListGroupMembers'', ''GET'', [Lit ''groups'', Wild, Lit ''members'']),
     (''handleListSyncGroups'', ''GET'', [Lit ''groups'', Lit ''sync'']),
     (''handleCreateSyncGroup'', ''POST'', [Lit ''groups'', Lit ''sync'']),
     (''handleDeleteSyncGroup'', ''DELETE'', [Lit ''groups'', Lit ''sync'', Wild]),
     (''handleListTemplates'', ''GET'', [Lit ''templates'']),
     (''handleCreateTemplate'', ''POST'', [Lit ''templates'']),
     (''handleGetTemplate'', ''GET'', [Lit ''templates'', Wild]),
     (''handleUpdateTemplate'', ''PUT'', [Lit ''templates'', Wild]),
     (''handleDeleteTemplate'', ''DELETE'', [Lit ''templates'', Wild]),
     (''handleListSMSSubscriptions'', ''GET'', [Lit ''sms-subscriptions'']),
     (''handleAdminSubscribe'', ''POST'', [Lit ''sms-subscriptions'']),
     (''handleSelfSubscribe'', ''POST'', [Lit ''sms-subscriptions'', Lit ''me'']),
     (''handleDeleteSMSSubscription'', ''DELETE'', [Lit ''sms-subscriptions'', Wild]),
     (''handleSelfUnsubscribe'', ''DELETE'', [Lit ''sms-subscriptions'', Lit ''me'']),
     (''handleListCRAMCredentials'', ''GET'', [Lit ''smtp'', Lit ''cram-credentials'']),
     (''handleCreateCRAMCredential'', ''POST'', [Lit ''smtp'', Lit ''cram-credentials'']),
     (''handleDeleteCRAMCredential'', ''DELETE'', [Lit ''smtp'', Lit ''cram-credentials'', Wild])]"

definition api_segs :: "pseg list \<Rightarrow> pseg list" where
  "api_segs segs = Lit ''api'' # Lit ''v1'' # segs"

lemma client_requests_registered:
  "list_all (\<lambda>(h, m, segs). list_ex (\<lambda>r. ep_handler (rt_handler r) = h \<and> rt_method r = m
     \<and> rt_segs r = api_segs segs \<and> (literal r \<or> one_wildcard r)) (mux_routes True)) client_requests"
  by code_simp

lemma goes_toI:
  assumes "case map_of client_requests h of None \<Rightarrow> False
    | Some (m', segs) \<Rightarrow> m' = m \<and> path = path_of (fill (PathEscape x) (api_segs segs))"
  shows "goes_to h (build_request c m path q b)"
proof -
  obtain segs where "(h, m, segs) \<in> set client_requests" and path: "path = path_of (fill (PathEscape x) (api_segs segs))"
    using assms by (auto dest: map_of_SomeD split: option.splits prod.splits)
  then obtain route where "route \<in> set (mux_routes True)" "ep_handler (rt_handler route) = h" "rt_method route = m"
    "rt_segs route = api_segs segs" "literal route \<or> one_wildcard route"
    using client_requests_registered by (fastforce simp: list_all_iff list_ex_iff)
  then show ?thesis unfolding goes_to_def path by (intro bexI [of _ route] exI [of _ x]) (simp_all add: build_request_def)
qed

lemma requests_go_to:
  "goes_to ''handleListEvents'' (build_request c ''GET'' ''/api/v1/events'' q b)"
  "goes_to ''handleCreateEvent'' (build_request c ''POST'' ''/api/v1/events'' q b)"
  "goes_to ''handleGetEvent'' (build_request c ''GET'' (''/api/v1/events/'' @ PathEscape x) q b)"
  "goes_to ''handleUpdateEvent'' (build_request c ''PATCH'' (''/api/v1/events/'' @ PathEscape x) q b)"
  "goes_to ''handleEndEvent'' (build_request c ''POST'' (''/api/v1/events/'' @ PathEscape x @ ''/end'') q b)"
  "goes_to ''handleListEventNotifications'' (build_request c ''GET'' (''/api/v1/events/'' @ PathEscape x @ ''/notifications'') q b)"
  "goes_to ''handleListNotificationDeliveries'' (build_request c ''GET'' (''/api/v1/notifications/'' @ PathEscape x @ ''/deliveries'') q b)"
  "goes_to ''handlePublishNotification'' (build_request c ''POST'' ''/api/v1/notifications'' q b)"
  "goes_to ''handleGetNotification'' (build_request c ''GET'' (''/api/v1/notifications/'' @ PathEscape x) q b)"
  "goes_to ''handleGetDelivery'' (build_request c ''GET'' (''/api/v1/deliveries/'' @ PathEscape x) q b)"
  "goes_to ''handleListAuditLog'' (build_request c ''GET'' ''/api/v1/audit'' q b)"
  "goes_to ''handleListGroups'' (build_request c ''GET'' ''/api/v1/groups'' q b)"
  "goes_to ''handleListGroupMembers'' (build_request c ''GET'' (''/api/v1/groups/'' @ PathEscape x @ ''/members'') q b)"
  "goes_to ''handleListSyncGroups'' (build_request c ''GET'' ''/api/v1/groups/sync'' q b)"
  "goes_to ''handleCreateSyncGroup'' (build_request c ''POST'' ''/api/v1/groups/sync'' q b)"
  "goes_to ''handleDeleteSyncGroup'' (build_request c ''DELETE'' (''/api/v1/groups/sync/'' @ PathEscape x) q b)"
  "goes_to ''handleListTemplates'' (build_request c ''GET'' ''/api/v1/templates'' q b)"
  "goes_to ''handleCreateTemplate'' (build_request c ''POST'' ''/api/v1/templates'' q b)"
  "goes_to ''handleGetTemplate'' (build_request c ''GET'' (''/api/v1/templates/'' @ PathEscape x) q b)"
  "goes_to ''handleUpdateTemplate'' (build_request c ''PUT'' (''/api/v1/templates/'' @ PathEscape x) q b)"
  "goes_to ''handleDeleteTemplate'' (build_request c ''DELETE'' (''/api/v1/templates/'' @ PathEscape x) q b)"
  "goes_to ''handleListSMSSubscriptions'' (build_request c ''GET'' ''/api/v1/sms-subscriptions'' q b)"
  "goes_to ''handleAdminSubscribe'' (build_request c ''POST'' ''/api/v1/sms-subscriptions'' q b)"
  "goes_to ''handleSelfSubscribe'' (build_request c ''POST'' ''/api/v1/sms-subscriptions/me'' q b)"
  "goes_to ''handleDeleteSMSSubscription'' (build_request c ''DELETE'' (''/api/v1/sms-subscriptions/'' @ PathEscape x) q b)"
  "goes_to ''handleSelfUnsubscribe'' (build_request c ''DELETE'' ''/api/v1/sms-subscriptions/me'' q b)"
  "goes_to ''handleListCRAMCredentials'' (build_request c ''GET'' ''/api/v1/smtp/cram-credentials'' q b)"
  "goes_to ''handleCreateCRAMCredential'' (build_request c ''POST'' ''/api/v1/smtp/cram-credentials'' q b)"
  "goes_to ''handleDeleteCRAMCredential'' (build_request c ''DELETE'' (''/api/v1/smtp/cram-credentials/'' @ PathEscape x) q b)"
  by (rule goes_toI [where x = x]; simp add: client_requests_def fill_def api_segs_def path_of_def)+

lemmas go_to_simps = requests_go_to [simplified append_Cons append_Nil]

section \<open>What each command asks for\<close>

text \<open>The words of a command, and the handlers of its requests.\<close>

definition command_table :: "(string list \<times> string list) list" where
  "command_table = [
     ([''events'', ''list''], [''handleListEvents'']),
     ([''events'', ''create''], [''handleCreateEvent'']),
     ([''events'', ''get''], [''handleGetEvent'']),
     ([''events'', ''update''], [''handleUpdateEvent'']),
     ([''events'', ''end''], [''handleEndEvent'']),
     ([''events'', ''notifications''], [''handleListEventNotifications'']),
     ([''events'', ''summary''], [''handleGetEvent'', ''handleListEventNotifications'', ''handleListNotificationDeliveries'']),
     ([''notifications'', ''publish''], [''handlePublishNotification'']),
     ([''notifications'', ''get''], [''handleGetNotification'']),
     ([''notifications'', ''deliveries''], [''handleListNotificationDeliveries'']),
     ([''deliveries'', ''get''], [''handleGetDelivery'']),
     ([''audit''], [''handleListAuditLog'']),
     ([''groups'', ''list''], [''handleListGroups'']),
     ([''groups'', ''members''], [''handleListGroupMembers'']),
     ([''groups'', ''sync'', ''list''], [''handleListSyncGroups'']),
     ([''groups'', ''sync'', ''add''], [''handleCreateSyncGroup'']),
     ([''groups'', ''sync'', ''remove''], [''handleDeleteSyncGroup'']),
     ([''templates'', ''list''], [''handleListTemplates'']),
     ([''templates'', ''create''], [''handleCreateTemplate'']),
     ([''templates'', ''get''], [''handleGetTemplate'']),
     ([''templates'', ''update''], [''handleUpdateTemplate'']),
     ([''templates'', ''delete''], [''handleDeleteTemplate'']),
     ([''subscriptions'', ''list''], [''handleListSMSSubscriptions'']),
     ([''subscriptions'', ''subscribe''], [''handleAdminSubscribe'']),
     ([''subscriptions'', ''subscribe-me''], [''handleSelfSubscribe'']),
     ([''subscriptions'', ''unsubscribe''], [''handleDeleteSMSSubscription'']),
     ([''subscriptions'', ''unsubscribe-me''], [''handleSelfUnsubscribe'']),
     ([''smtp-cram'', ''list''], [''handleListCRAMCredentials'']),
     ([''smtp-cram'', ''add''], [''handleCreateCRAMCredential'']),
     ([''smtp-cram'', ''remove''], [''handleDeleteCRAMCredential''])]"

definition handlers_of :: "string list \<Rightarrow> string list" where
  "handlers_of words = (case find (\<lambda>(p, hs). take (length p) words = p) command_table of None \<Rightarrow> [] | Some (p, hs) \<Rightarrow> hs)"

abbreviation only_to :: "string list \<Rightarrow> (cli, 'a) state \<Rightarrow> bool" where
  "only_to hs m \<equiv> preserves (\<lambda>s. list_all (\<lambda>r. \<exists>h \<in> set hs. goes_to h r) (cl_sent s)) m"

lemma shown_request [keeps]:
  "\<exists>h \<in> set hs. goes_to h (build_request (cli_NewClient cfg) ''GET'' path q None) \<Longrightarrow>
     only_to hs (get_and_show env cfg path q d zero print)"
  "\<exists>h \<in> set hs. goes_to h (build_request (cli_NewClient cfg) ''POST'' path [] b) \<Longrightarrow>
     only_to hs (post_and_show env cfg path b d zero print)"
  "\<exists>h \<in> set hs. goes_to h (build_request (cli_NewClient cfg) ''DELETE'' path [] None) \<Longrightarrow>
     only_to hs (delete_and_say env cfg path message)"
  unfolding get_and_show_def post_and_show_def delete_and_say_def by (intro keeps; assumption)+

lemma template_request_keeps [keeps]:
  "(\<And>name req. preserves (\<lambda>s. Q (cl_sent s)) (k name req)) \<Longrightarrow>
     preserves (\<lambda>s. Q (cl_sent s)) (template_request env fs rest k)"
  unfolding template_request_def by (intro keeps)

lemma publish_email_vars_keeps [keeps]: "preserves (\<lambda>s. Q (cl_sent s)) (publish_email_vars env fs)"
  unfolding publish_email_vars_def by (intro keeps)

lemma fetch_deliveries_to [keeps]:
  "''handleListNotificationDeliveries'' \<in> set hs \<Longrightarrow> only_to hs (fetch_deliveries env c ns)"
  by (induction ns) (auto intro!: keeps bexI [where x = "''handleListNotificationDeliveries''"] simp: go_to_simps)

lemma commands_go_to:
  "only_to [''handleListEvents''] (runEventsList env cfg args)"
  "only_to [''handleCreateEvent''] (runEventsCreate env cfg args)"
  "only_to [''handleGetEvent''] (runEventsGet env cfg args)"
  "only_to [''handleUpdateEvent''] (runEventsUpdate env cfg args)"
  "only_to [''handleEndEvent''] (runEventsEnd env cfg args)"
  "only_to [''handleListEventNotifications''] (runEventsNotifications env cfg args)"
  "only_to [''handleGetEvent'', ''handleListEventNotifications'', ''handleListNotificationDeliveries''] (runEventsSummary env cfg args)"
  "only_to [''handlePublishNotification''] (runNotificationsPublish env cfg args)"
  "only_to [''handleGetNotification''] (runNotificationsGet env cfg args)"
  "only_to [''handleListNotificationDeliveries''] (runNotificationsDeliveries env cfg args)"
  "only_to [''handleGetDelivery''] (runDeliveriesGet env cfg args)"
  "only_to [''handleListAuditLog''] (runAudit env cfg args)"
  "only_to [''handleListGroups''] (runGroupsList env cfg args)"
  "only_to [''handleListGroupMembers''] (runGroupsMembers env cfg args)"
  "only_to [''handleListSyncGroups''] (runGroupsSyncList env cfg args)"
  "only_to [''handleCreateSyncGroup''] (runGroupsSyncAdd env cfg args)"
  "only_to [''handleDeleteSyncGroup''] (runGroupsSyncRemove env cfg args)"
  "only_to [''handleListTemplates''] (runTemplatesList env cfg args)"
  "only_to [''handleCreateTemplate''] (runTemplatesCreate env cfg args)"
  "only_to [''handleGetTemplate''] (runTemplatesGet env cfg args)"
  "only_to [''handleUpdateTemplate''] (runTemplatesUpdate env cfg args)"
  "only_to [''handleDeleteTemplate''] (runTemplatesDelete env cfg args)"
  "only_to [''handleListSMSSubscriptions''] (runSubscriptionsList env cfg args)"
  "only_to [''handleAdminSubscribe''] (runSubscriptionsSubscribe env cfg args)"
  "only_to [''handleSelfSubscribe''] (runSubscriptionsSubscribeMe env cfg args)"
  "only_to [''handleDeleteSMSSubscription''] (runSubscriptionsUnsubscribe env cfg args)"
  "only_to [''handleSelfUnsubscribe''] (runSubscriptionsUnsubscribeMe env cfg args)"
  "only_to [''handleListCRAMCredentials''] (runSMTPCramList env cfg args)"
  "only_to [''handleCreateCRAMCredential''] (runSMTPCramAdd env cfg args)"
  "only_to [''handleDeleteCRAMCredential''] (runSMTPCramRemove env cfg args)"
  unfolding runEventsList_def runEventsCreate_def runEventsGet_def runEventsUpdate_def runEventsEnd_def
    runEventsNotifications_def runEventsSummary_def runNotificationsPublish_def runNotificationsGet_def runNotificationsDeliveries_def
    runDeliveriesGet_def runAudit_def runGroupsList_def runGroupsMembers_def runGroupsSyncList_def
    runGroupsSyncAdd_def runGroupsSyncRemove_def runTemplatesList_def runTemplatesCreate_def runTemplatesGet_def
    runTemplatesUpdate_def runTemplatesDelete_def runSubscriptionsList_def runSubscriptionsSubscribe_def runSubscriptionsSubscribeMe_def
    runSubscriptionsUnsubscribe_def runSubscriptionsUnsubscribeMe_def runSMTPCramList_def runSMTPCramAdd_def runSMTPCramRemove_def
  by (intro keeps; simp add: go_to_simps Let_def)+

lemma handlers_of_words:
  "handlers_of (''events'' # ''list'' # args) = [''handleListEvents'']"
  "handlers_of (''events'' # ''create'' # args) = [''handleCreateEvent'']"
  "handlers_of (''events'' # ''get'' # args) = [''handleGetEvent'']"
  "handlers_of (''events'' # ''update'' # args) = [''handleUpdateEvent'']"
  "handlers_of (''events'' # ''end'' # args) = [''handleEndEvent'']"
  "handlers_of (''events'' # ''notifications'' # args) = [''handleListEventNotifications'']"
  "handlers_of (''events'' # ''summary'' # args) = [''handleGetEvent'', ''handleListEventNotifications'', ''handleListNotificationDeliveries'']"
  "handlers_of (''notifications'' # ''publish'' # args) = [''handlePublishNotification'']"
  "handlers_of (''notifications'' # ''get'' # args) = [''handleGetNotification'']"
  "handlers_of (''notifications'' # ''deliveries'' # args) = [''handleListNotificationDeliveries'']"
  "handlers_of (''deliveries'' # ''get'' # args) = [''handleGetDelivery'']"
  "handlers_of (''audit'' # args) = [''handleListAuditLog'']"
  "handlers_of (''groups'' # ''list'' # args) = [''handleListGroups'']"
  "handlers_of (''groups'' # ''members'' # args) = [''handleListGroupMembers'']"
  "handlers_of (''groups'' # ''sync'' # ''list'' # args) = [''handleListSyncGroups'']"
  "handlers_of (''groups'' # ''sync'' # ''add'' # args) = [''handleCreateSyncGroup'']"
  "handlers_of (''groups'' # ''sync'' # ''remove'' # args) = [''handleDeleteSyncGroup'']"
  "handlers_of (''templates'' # ''list'' # args) = [''handleListTemplates'']"
  "handlers_of (''templates'' # ''create'' # args) = [''handleCreateTemplate'']"
  "handlers_of (''templates'' # ''get'' # args) = [''handleGetTemplate'']"
  "handlers_of (''templates'' # ''update'' # args) = [''handleUpdateTemplate'']"
  "handlers_of (''templates'' # ''delete'' # args) = [''handleDeleteTemplate'']"
  "handlers_of (''subscriptions'' # ''list'' # args) = [''handleListSMSSubscriptions'']"
  "handlers_of (''subscriptions'' # ''subscribe'' # args) = [''handleAdminSubscribe'']"
  "handlers_of (''subscriptions'' # ''subscribe-me'' # args) = [''handleSelfSubscribe'']"
  "handlers_of (''subscriptions'' # ''unsubscribe'' # args) = [''handleDeleteSMSSubscription'']"
  "handlers_of (''subscriptions'' # ''unsubscribe-me'' # args) = [''handleSelfUnsubscribe'']"
  "handlers_of (''smtp-cram'' # ''list'' # args) = [''handleListCRAMCredentials'']"
  "handlers_of (''smtp-cram'' # ''add'' # args) = [''handleCreateCRAMCredential'']"
  "handlers_of (''smtp-cram'' # ''remove'' # args) = [''handleDeleteCRAMCredential'']"
  by (simp_all add: handlers_of_def command_table_def)

lemma preserves_when:
  "(b \<Longrightarrow> preserves I m) \<Longrightarrow> preserves I n \<Longrightarrow> preserves I (if b then m else n)"
  "(xs = [] \<Longrightarrow> preserves I m) \<Longrightarrow> (\<And>y ys. xs = y # ys \<Longrightarrow> preserves I (g y ys)) \<Longrightarrow>
   preserves I (case xs of [] \<Rightarrow> m | y # ys \<Rightarrow> g y ys)"
  by (auto split: list.split)

lemma command_asks: "only_to (handlers_of (name # args)) (dispatch_command env cfg name args)"
  unfolding dispatch_command_def runEvents_def runNotifications_def runDeliveries_def runGroups_def runGroupsSync_def
    runTemplates_def runSubscriptions_def runSMTPCram_def
  by (intro preserves_when sent_keeps_parts; simp only: handlers_of_words commands_go_to)

lemma nrcli_run:
  "nrcli env args = (case fst (run_state (cli_main env args) cli0) of Inl code \<Rightarrow> code | Inr _ \<Rightarrow> 0,
     snd (run_state (cli_main env args) cli0))"
proof -
  obtain x s where "run_state (cli_main env args) cli0 = (x, s)" by fastforce
  then show ?thesis by (cases x) (simp_all add: nrcli_def split: unit.splits)
qed


end
