(* ===== verification/Api_Bodies.thy ===== *)
theory Api_Bodies
  imports Go_Decode Publish Api_Admin
begin

text \<open>
  The bodies of the requests: what each handler of the API decodes before it starts, from the bytes
  to the request that the handler's model takes. \<open>None\<close> is the error that is answered with
  \<open>invalid JSON body\<close>. The lemmas say what a body decodes to that names the fields of a publish
  request or of a template.
\<close>

section \<open>Decoders\<close>

definition publish_fields_decoder :: "publishRequest field_decoder list" where
  "publish_fields_decoder = [
     field ''event_id'' dec_string pr_EventID pr_EventID_update,
     field ''event_url'' dec_string pr_EventURL pr_EventURL_update,
     field ''event_name'' dec_string pr_EventName pr_EventName_update,
     field ''event_description'' dec_string pr_EventDescription pr_EventDescription_update,
     field ''event_severity'' dec_string pr_EventSeverity pr_EventSeverity_update,
     field ''start_time'' dec_string pr_StartTime pr_StartTime_update,
     field ''end_time'' dec_string pr_EndTime pr_EndTime_update,
     field ''groups'' (dec_list dec_string []) pr_Groups pr_Groups_update,
     field ''destinations'' (dec_list dec_Destination destination0) pr_Destinations pr_Destinations_update,
     field ''channels'' (dec_list dec_string []) pr_Channels pr_Channels_update,
     field ''message'' dec_string pr_Message pr_Message_update,
     field ''email_template'' dec_string pr_EmailTemplate pr_EmailTemplate_update,
     field ''email_vars'' dec_map pr_EmailVars pr_EmailVars_update]"

definition publishRequest0 :: publishRequest where
  "publishRequest0 = \<lparr>pr_EventID = [], pr_EventURL = [], pr_EventName = [], pr_EventDescription = [],
     pr_EventSeverity = [], pr_StartTime = [], pr_EndTime = [], pr_Groups = [], pr_Destinations = [],
     pr_Channels = [], pr_Message = [], pr_EmailTemplate = [], pr_EmailVars = []\<rparr>"

definition publish_body :: "string \<Rightarrow> publishRequest option" where
  "publish_body = Decode (dec_struct publish_fields_decoder) publishRequest0"

definition create_event_body :: "string \<Rightarrow> createEventRequest option" where
  "create_event_body = Decode (dec_struct [
     field ''event_id'' dec_string ce_EventID ce_EventID_update,
     field ''event_url'' dec_string ce_EventURL ce_EventURL_update,
     field ''event_name'' dec_string ce_EventName ce_EventName_update,
     field ''event_description'' dec_string ce_EventDescription ce_EventDescription_update,
     field ''event_severity'' dec_string ce_EventSeverity ce_EventSeverity_update,
     field ''start_time'' dec_string ce_StartTime ce_StartTime_update])
     \<lparr>ce_EventID = [], ce_EventURL = [], ce_EventName = [], ce_EventDescription = [], ce_EventSeverity = [],
      ce_StartTime = []\<rparr>"

definition update_event_body :: "string \<Rightarrow> updateEventRequest option" where
  "update_event_body = Decode (dec_struct [
     field ''event_url'' dec_pointer ue_EventURL ue_EventURL_update,
     field ''event_name'' dec_pointer ue_EventName ue_EventName_update,
     field ''event_description'' dec_pointer ue_EventDescription ue_EventDescription_update,
     field ''event_severity'' dec_pointer ue_EventSeverity ue_EventSeverity_update])
     \<lparr>ue_EventURL = None, ue_EventName = None, ue_EventDescription = None, ue_EventSeverity = None\<rparr>"

text \<open>A struct of one field is that field.\<close>

definition only_field :: "string \<Rightarrow> string \<Rightarrow> string option" where
  "only_field name = Decode (dec_struct [field name dec_string id (\<lambda>f. f)]) []"

text \<open>The length of the content decides whether there is a body.\<close>

definition end_event_body :: "string \<Rightarrow> end_body" where
  "end_event_body s = (if s = [] then NoBody
     else (case only_field ''end_time'' s of None \<Rightarrow> BadBody | Some t \<Rightarrow> EndTimeBody t))"

definition template_fields_decoder :: "templateRequest field_decoder list" where
  "template_fields_decoder = [
     field ''template_name'' dec_string tq_TemplateName tq_TemplateName_update,
     field ''subject'' dec_string tq_Subject tq_Subject_update,
     field ''body'' dec_string tq_Body tq_Body_update,
     field ''required_vars'' (dec_slice dec_string []) tq_RequiredVars tq_RequiredVars_update,
     field ''description'' dec_string tq_Description tq_Description_update]"

definition templateRequest0 :: templateRequest where
  "templateRequest0 = \<lparr>tq_TemplateName = [], tq_Subject = [], tq_Body = [], tq_RequiredVars = None, tq_Description = []\<rparr>"

definition template_body :: "string \<Rightarrow> templateRequest option" where
  "template_body = Decode (dec_struct template_fields_decoder) templateRequest0"

definition sync_group_body :: "string \<Rightarrow> string option" where
  "sync_group_body = only_field ''group_name''"

definition subscribe_body :: "string \<Rightarrow> string option" where
  "subscribe_body = only_field ''username''"

definition cram_body :: "string \<Rightarrow> (string \<times> string list) option" where
  "cram_body = Decode (dec_struct [
     field ''username'' dec_string fst (\<lambda>f (u, rs). (f u, rs)),
     field ''roles'' (dec_list dec_string []) snd (\<lambda>f (u, rs). (u, f rs))]) ([], [])"

section \<open>What a named field becomes\<close>

lemma publish_sets_fields:
  "sets_field publish_fields_decoder ''event_id'' dec_string pr_EventID"
  "sets_field publish_fields_decoder ''event_url'' dec_string pr_EventURL"
  "sets_field publish_fields_decoder ''event_name'' dec_string pr_EventName"
  "sets_field publish_fields_decoder ''event_description'' dec_string pr_EventDescription"
  "sets_field publish_fields_decoder ''event_severity'' dec_string pr_EventSeverity"
  "sets_field publish_fields_decoder ''start_time'' dec_string pr_StartTime"
  "sets_field publish_fields_decoder ''end_time'' dec_string pr_EndTime"
  "sets_field publish_fields_decoder ''groups'' (dec_list dec_string []) pr_Groups"
  "sets_field publish_fields_decoder ''destinations'' (dec_list dec_Destination destination0) pr_Destinations"
  "sets_field publish_fields_decoder ''channels'' (dec_list dec_string []) pr_Channels"
  "sets_field publish_fields_decoder ''message'' dec_string pr_Message"
  "sets_field publish_fields_decoder ''email_template'' dec_string pr_EmailTemplate"
  "sets_field publish_fields_decoder ''email_vars'' dec_map pr_EmailVars"
  unfolding publish_fields_decoder_def by ((rule sets_field_intros; (simp; fail)?)+)

lemma publish_field_names:
  "map fst publish_fields_decoder = [''event_id'', ''event_url'', ''event_name'', ''event_description'',
     ''event_severity'', ''start_time'', ''end_time'', ''groups'', ''destinations'', ''channels'', ''message'',
     ''email_template'', ''email_vars'']"
  by (simp add: publish_fields_decoder_def field_def)

lemma dec_list_strings: "dec_list dec_string [] (JArr (map JStr xs)) old = Some xs"
proof -
  have "those (map (\<lambda>x. dec_string x []) (map JStr xs)) = Some xs"
    by (rule those_map) (simp add: dec_string_def)
  then show ?thesis by (simp add: dec_list_def dec_slice_def items_def)
qed

lemma dec_list_destinations: "dec_list dec_Destination destination0 (JArr (map destination_json xs)) old = Some xs"
proof -
  have "dec_Destination (destination_json x) destination0 = Some x" for x :: Destination
    by (simp add: dec_Destination_def destination_json_def dec_struct_def find_field_def field_def dec_string_def destination0_def)
  then have "those (map (\<lambda>x. dec_Destination x destination0) (map destination_json xs)) = Some xs" by (rule those_map)
  then show ?thesis by (simp add: dec_list_def dec_slice_def items_def)
qed

end
