(* ===== verification/Cli_Publish.thy ===== *)
theory Cli_Publish
  imports Cli_Facts Api_Bodies
begin

text \<open>
  \<open>nrcli notifications publish\<close> and the server together: the request that is sent reaches the publish
  endpoint, which reads in its body what the flags said.
\<close>

section \<open>The body of a publication\<close>

definition email_vars_of :: "flag_set \<Rightarrow> any_map option option" where
  "email_vars_of fs = (if str_flag fs ''email-vars'' = [] then Some None
     else unmarshal dec_any_map None (str_flag fs ''email-vars''))"

definition publish_request_of :: "flag_set \<Rightarrow> any_map option \<Rightarrow> publishRequest" where
  "publish_request_of fs m = \<lparr>pr_EventID = str_flag fs ''event-id'', pr_EventURL = str_flag fs ''event-url'',
     pr_EventName = str_flag fs ''event-name'', pr_EventDescription = str_flag fs ''event-description'',
     pr_EventSeverity = str_flag fs ''event-severity'', pr_StartTime = str_flag fs ''start-time'',
     pr_EndTime = str_flag fs ''end-time'', pr_Groups = strs_flag fs ''group'',
     pr_Destinations = dests_flag fs ''destination'', pr_Channels = strs_flag fs ''channel'',
     pr_Message = str_flag fs ''message'', pr_EmailTemplate = str_flag fs ''email-template'',
     pr_EmailVars = items m\<rparr>"

definition all_members :: "flag_set \<Rightarrow> any_map option \<Rightarrow> (bool \<times> string \<times> json) list" where
  "all_members fs m = publish_members fs @ [(str_flag fs ''email-vars'' \<noteq> [], ''email_vars'', any_map_json m)]"

definition publish_json :: "flag_set \<Rightarrow> any_map option \<Rightarrow> json" where
  "publish_json fs m = object (optional (all_members fs m))"

lemma member_names:
  "map (fst \<circ> snd) (all_members fs m) = [''message'', ''groups'', ''channels'', ''destinations'', ''event_id'',
     ''event_name'', ''event_severity'', ''event_url'', ''event_description'', ''start_time'', ''end_time'',
     ''email_template'', ''email_vars'']"
  by (simp add: all_members_def publish_members_def Let_def)

lemma distinct_members: "distinct (map (fst \<circ> snd) (all_members fs m))"
  unfolding member_names by simp

lemma accepted_members:
  "list_all (\<lambda>(b, k, v). accepts publish_fields_decoder k v) (all_members fs m)"
proof -
  have str: "dec_string (JStr t) old \<noteq> None" for t old by (simp add: dec_string_def)
  have strings: "dec_list dec_string [] (JArr (map JStr xs)) old \<noteq> None" for xs old by (simp add: dec_list_strings)
  have dests: "dec_list dec_Destination destination0 (JArr (map destination_json xs)) old \<noteq> None" for xs old
    by (simp add: dec_list_destinations)
  have vars: "dec_map (any_map_json m) old \<noteq> None" for old
    by (simp add: dec_map_def dec_any_map_def any_map_json_def split: option.split)
  show ?thesis
    unfolding all_members_def publish_members_def Let_def publish_fields_decoder_def
      append.simps list.pred_inject prod.case
    by (intro conjI TrueI; (rule accepts_here accepts_other str strings dests vars | (simp; fail))+)
qed

lemma plain_members:
  "list_all (\<lambda>(_, v). plain v) (items m) \<Longrightarrow> list_all (\<lambda>(b, k, v). plain v) (all_members fs m)"
  by (cases m) (simp_all add: all_members_def publish_members_def Let_def any_map_json_def items_def list_all_iff
      destination_json_def case_prod_beta)

lemma publish_body_of_flags:
  assumes "list_all (\<lambda>(_, v). plain v) (items m)" and "email_vars_of fs = Some m"
  shows "publish_body (encode (publish_json fs m)) = Some (publish_request_of fs m)"
proof -
  let ?M = "all_members fs m"
  have plain: "list_all (\<lambda>(_, v). plain v) (optional ?M)"
    using plain_members [OF assms(1)] by (fastforce simp: list_all_iff optional_def)
  have acc: "accepts publish_fields_decoder k v" if "(k, v) \<in> set (optional ?M)" for k v
    using accepted_members that by (fastforce simp: list_all_iff optional_def)
  obtain r where r: "publish_body (encode (publish_json fs m)) = Some r"
      "dec_fields publish_fields_decoder (to_map (optional ?M)) publishRequest0 = Some r"
    using Decode_object [OF plain acc, of publishRequest0] unfolding publish_body_def publish_json_def by blast
  have get: "if b then d v (g publishRequest0) = Some (g r) else g r = g publishRequest0"
    if "sets_field publish_fields_decoder k d g" "(b, k, v) \<in> set ?M" for b k v d g
    using object_field [OF r(2) that(1) acc distinct_optional [OF distinct_members]]
      map_of_optional [OF distinct_members that(2)] by (simp split: if_splits)
  have str: "g r = t" if "sets_field publish_fields_decoder k dec_string g"
    "(t \<noteq> [], k, JStr t) \<in> set ?M" "g publishRequest0 = []" for k g t
    using get [OF that(1,2)] that(3) by (cases t) (simp_all add: dec_string_def)
  have lst: "g r = xs" if "sets_field publish_fields_decoder k (dec_list d0 z) g" "(xs \<noteq> [], k, JArr (map f xs)) \<in> set ?M"
    "dec_list d0 z (JArr (map f xs)) [] = Some xs" "g publishRequest0 = []" for k g d0 z f and xs :: "'x list"
    using get [OF that(1,2)] that(3,4) by (cases xs) simp_all
  note members = all_members_def publish_members_def publishRequest0_def Let_def
  have vars: "pr_EmailVars r = items m"
  proof (cases "str_flag fs ''email-vars'' = []")
    case True
    then have "pr_EmailVars r = []" "m = None"
      using get [OF publish_sets_fields(13), of False "any_map_json m"] assms(2) by (simp_all add: members email_vars_of_def)
    then show ?thesis by (simp add: items_def)
  next
    case False
    then obtain v where "dec_any_map v None = Some m"
      using assms(2) by (auto simp: email_vars_of_def unmarshal_def split: option.splits)
    then have "dec_map (any_map_json m) [] = Some (items m)" unfolding any_map_json_def by (rule decoded_map_again)
    moreover have "(True, ''email_vars'', any_map_json m) \<in> set ?M" using False by (simp add: members)
    ultimately show ?thesis
      using get [OF publish_sets_fields(13), of True "any_map_json m"] by (simp add: publishRequest0_def)
  qed
  have "str_flag fs ''message'' = pr_Message r"
    using get [OF publish_sets_fields(11), of True "JStr (str_flag fs ''message'')"] by (simp add: members dec_string_def)
  note str = str [OF publish_sets_fields(1)] str [OF publish_sets_fields(2)] str [OF publish_sets_fields(3)]
    str [OF publish_sets_fields(4)] str [OF publish_sets_fields(5)] str [OF publish_sets_fields(6)]
    str [OF publish_sets_fields(7)] str [OF publish_sets_fields(12)]
    lst [OF publish_sets_fields(8) _ dec_list_strings] lst [OF publish_sets_fields(9) _ dec_list_destinations]
    lst [OF publish_sets_fields(10) _ dec_list_strings]
  have "r = publish_request_of fs m"
    by (rule publishRequest.equality; simp only: publish_request_of_def publishRequest.simps vars
      \<open>str_flag fs ''message'' = pr_Message r\<close> unit.simps)
      ((rule str; simp add: members; fail)+, simp)
  with r(1) show ?thesis by simp
qed

section \<open>The request\<close>

lemma publish_email_vars_run:
  assumes "email_vars_of fs = Some m"
  shows "run_state (publish_email_vars env fs) s
    = (Inr (str_flag fs ''email-vars'' \<noteq> [], ''email_vars'', any_map_json m), s)"
  using assms
  by (cases "str_flag fs ''email-vars'' = []")
    (simp_all add: email_vars_of_def publish_email_vars_def decoded_def and_then_def value_of_def any_map_json_def Let_def)

lemma post_and_show_sends:
  assumes "ce_bad_url env (ct_baseURL (cli_NewClient cfg) @ path) = None"
  shows "cl_sent (snd (run_state (post_and_show env cfg path b d zero print) s))
    = cl_sent s @ [build_request (cli_NewClient cfg) ''POST'' path [] b]"
proof -
  let ?r = "build_request (cli_NewClient cfg) ''POST'' path [] b"
  have show_sent: "wp (show_body env cfg d zero print x) (\<lambda>_ t. cl_sent t = rs) t" if "cl_sent t = rs" for x t rs
    by (rule preserves_wp [OF sent_keeps_show]) (rule that)
  have "wp (post_and_show env cfg path b d zero print) (\<lambda>_ t. cl_sent t = cl_sent s @ [?r]) s"
    using assms
    by (auto simp: post_and_show_def or_die_def cli_Post_def doRaw_def http_Do_def Let_def wp_simps show_sent
        request_url_def build_request_def split: sum.split prod.split)
  then show ?thesis by (simp add: wp_def case_prod_beta)
qed

text \<open>C39 (roundtrip): what is typed is what the server reads: when the flags of \<open>nrcli notifications publish\<close> parse,
  nothing is missing and the variables are JSON (without numbers), exactly one request is sent;
  the multiplexer gives it to the publish endpoint, behind the permission to publish; and the
  endpoint decodes its body to a request with each field as its flags said.\<close>

theorem publish_reaches_server:
  assumes "flag_Parse (global_flags env) args = Parsed gfs (''notifications'' # ''publish'' # args')"
    and "flag_Parse publish_flags args' = Parsed fs rest" and "publish_missing fs = None"
    and "email_vars_of fs = Some m" and "list_all (\<lambda>(_, v). plain v) (items m)"
    and "ce_bad_url env (TrimRight_slash (str_flag gfs ''url'') @ ''/api/v1/notifications'') = None"
  shows "\<exists>r. cl_sent (snd (nrcli env args)) = [r]
    \<and> findHandler (mux_routes True) (rq_Method r) (rq_Path r)
        = Found \<lparr>ep_access = Api [PermPublish], ep_handler = ''handlePublishNotification''\<rparr> []
    \<and> (\<exists>body. rq_Content r = Some body \<and> publish_body body = Some (publish_request_of fs m))"
proof -
  let ?cfg = "config_of_flags gfs"
  let ?r = "build_request (cli_NewClient ?cfg) ''POST'' ''/api/v1/notifications'' [] (Some (publish_json fs m))"
  have url: "ce_bad_url env (ct_baseURL (cli_NewClient ?cfg) @ ''/api/v1/notifications'') = None"
    using assms(6) by (simp add: cli_NewClient_def config_of_flags_def)
  have "runNotifications env ?cfg (''publish'' # args') = runNotificationsPublish env ?cfg args'"
    by (simp add: runNotifications_def)
  then have "run_state (cli_main env args) cli0 = run_state (runNotificationsPublish env ?cfg args') cli0"
    using assms(1) by (simp add: cli_main_def with_flags_run dispatch_command_def)
  also have "\<dots> = run_state (post_and_show env ?cfg ''/api/v1/notifications'' (Some (publish_json fs m))
      dec_PublishResponse zero_PublishResponse printPublishResponse) cli0"
    using assms(2,3) publish_email_vars_run [OF assms(4)]
    by (simp add: runNotificationsPublish_def with_flags_run and_then_def publish_json_def all_members_def)
  finally have "cl_sent (snd (nrcli env args)) = [?r]"
    by (simp add: nrcli_run cli0_def post_and_show_sends [OF url])
  moreover have "findHandler (mux_routes True) (rq_Method ?r) (rq_Path ?r)
      = Found \<lparr>ep_access = Api [PermPublish], ep_handler = ''handlePublishNotification''\<rparr> []"
  proof -
    let ?e = "endpoint ''POST /api/v1/notifications'' (Api [PermPublish]) ''handlePublishNotification''"
    have parse: "parse_pattern ''POST /api/v1/notifications'' = (''POST'', [Lit ''api'', Lit ''v1'', Lit ''notifications''])"
      by code_simp
    have "?e \<in> set (mux_routes True)" by (simp add: mux_routes_def registerRoutes_def)
    moreover have "literal ?e" by code_simp
    ultimately have "findHandler (mux_routes True) (rt_method ?e) (path_of (fill [] (rt_segs ?e))) = Found (rt_handler ?e) []"
      by (rule literal_found)
    then show ?thesis by (simp add: endpoint_def parse build_request_def fill_def path_of_def)
  qed
  moreover have "rq_Content ?r = Some (encode (publish_json fs m))" by (simp add: build_request_def)
  ultimately show ?thesis using publish_body_of_flags [OF assms(5,4)] by blast
qed

end
