(* ===== verification/Cli_Exit.thy ===== *)
theory Cli_Exit
  imports Cli_Facts
begin

text \<open>
  The exit code of \<open>nrcli\<close>: it is 0 only after every request was answered without an error, or after a
  request for help, and a command that fails has printed nothing to the standard output. The
  commands are taken apart into steps that keep a run clean and a last step that prints.
\<close>

definition answered :: "cli_env \<Rightarrow> http_request list \<Rightarrow> bool" where
  "answered env rs \<longleftrightarrow> (\<forall>i < length rs. \<exists>status body.
     ce_transport env (take i rs) (rs ! i) = Inr (status, Inr body) \<and> status < 400)"

definition clean :: "cli_env \<Rightarrow> cli \<Rightarrow> bool" where
  "clean env s \<longleftrightarrow> answered env (cl_sent s) \<and> cl_out s = [] \<and> cl_err s = []"

definition finished :: "cli_env \<Rightarrow> cli \<Rightarrow> bool" where
  "finished env s \<longleftrightarrow> answered env (cl_sent s) \<and> cl_err s = []"

text \<open>From a clean state, a success ends as \<open>P\<close> says and a failure is an exit with 1 and a message.\<close>

fun ended :: "(cli \<Rightarrow> bool) \<Rightarrow> nat + 'a \<Rightarrow> cli \<Rightarrow> bool" where
  "ended P (Inl code) t \<longleftrightarrow> code = 1 \<and> cl_out t = [] \<and> cl_err t \<noteq> []"
| "ended P (Inr x) t \<longleftrightarrow> P t"

definition runs :: "cli_env \<Rightarrow> (cli \<Rightarrow> bool) \<Rightarrow> 'a command \<Rightarrow> bool" where
  "runs env P m \<longleftrightarrow> (\<forall>s. clean env s \<longrightarrow> wp m (ended P) s)"

lemma answered_snoc:
  assumes "answered env rs" and "ce_transport env rs r = Inr (status, Inr body)" and "status < 400"
  shows "answered env (rs @ [r])"
  unfolding answered_def
proof (intro allI impI)
  fix i assume i: "i < length (rs @ [r])"
  show "\<exists>status body. ce_transport env (take i (rs @ [r])) ((rs @ [r]) ! i) = Inr (status, Inr body) \<and> status < 400"
  proof (cases "i < length rs")
    case True
    then show ?thesis using assms(1) by (simp add: answered_def nth_append)
  next
    case False
    with i have "i = length rs" by simp
    then show ?thesis using assms(2,3) by simp
  qed
qed

named_theorems run_rules \<open>rules for runs of commands from a clean state\<close>

lemma runsD: "runs env P m \<Longrightarrow> clean env s \<Longrightarrow> wp m (ended P) s"
  by (simp add: runs_def)

lemma runs_and_then [run_rules]:
  assumes "runs env (clean env) m" and "\<And>x. runs env P (f x)"
  shows "runs env P (and_then m f)"
  unfolding runs_def wp_and_then
proof (intro allI impI, rule wp_mono [OF runsD [OF assms(1)]])
  fix r :: "nat + 'a" and t
  assume "ended (clean env) r t"
  then show "(\<forall>code. r = Inl code \<longrightarrow> ended P (Inl code) t) \<and> (\<forall>x. r = Inr x \<longrightarrow> wp (f x) (ended P) t)"
    using runsD [OF assms(2)] by auto
qed

lemma runs_value_of [run_rules]: "runs env (clean env) (value_of x)"
  by (simp add: runs_def wp_simps)

lemma runs_die [run_rules]: "runs env P (die e)"
  by (simp add: runs_def wp_simps clean_def)

lemma runs_out [run_rules]: "runs env (finished env) (out cs)"
  by (simp add: runs_def wp_simps clean_def finished_def)

lemma runs_if [run_rules]: "runs env P m \<Longrightarrow> runs env P n \<Longrightarrow> runs env P (if b then m else n)"
  by simp

lemma runs_option [run_rules]:
  "runs env P m \<Longrightarrow> (\<And>x. runs env P (g x)) \<Longrightarrow> runs env P (case y of None \<Rightarrow> m | Some x \<Rightarrow> g x)"
  by (simp split: option.split)

lemma runs_sum [run_rules]:
  "(\<And>x. runs env P (f x)) \<Longrightarrow> (\<And>x. runs env P (g x)) \<Longrightarrow> runs env P (case y of Inl x \<Rightarrow> f x | Inr x \<Rightarrow> g x)"
  by (simp split: sum.split)

lemma runs_prod [run_rules]: "(\<And>x z. runs env P (g x z)) \<Longrightarrow> runs env P (case y of (x, z) \<Rightarrow> g x z)"
  by (simp split: prod.split)

lemma runs_Let [run_rules]: "(\<And>x. runs env P (f x)) \<Longrightarrow> runs env P (let x = a in f x)"
  by simp

lemma runs_request [run_rules]:
  "runs env (clean env) (or_die (cli_Get env c path q))"
  "runs env (clean env) (or_die (cli_Post env c path b))"
  "runs env (clean env) (or_die (cli_Put env c path b))"
  "runs env (clean env) (or_die (cli_Patch env c path b))"
  "runs env (clean env) (or_die (cli_Delete env c path))"
proof -
  have "runs env (clean env) (or_die (doRaw env c m path q b))" for m q b
    unfolding runs_def
  proof (intro allI impI)
    fix s assume s: "clean env s"
    let ?r = "build_request c m path q b"
    show "wp (or_die (doRaw env c m path q b)) (ended (clean env)) s"
    proof (cases "ce_bad_url env (request_url ?r)")
      case None
      then show ?thesis
        using s answered_snoc [of env "cl_sent s" ?r]
        by (cases "ce_transport env (cl_sent s) ?r")
          (auto simp: or_die_def doRaw_def http_Do_def Let_def wp_simps clean_def split: sum.splits prod.splits)
    qed (use s in \<open>simp add: or_die_def doRaw_def Let_def wp_simps clean_def\<close>)
  qed
  then show
    "runs env (clean env) (or_die (cli_Get env c path q))"
    "runs env (clean env) (or_die (cli_Post env c path b))"
    "runs env (clean env) (or_die (cli_Put env c path b))"
    "runs env (clean env) (or_die (cli_Patch env c path b))"
    "runs env (clean env) (or_die (cli_Delete env c path))"
    by (simp_all add: cli_Get_def cli_Post_def cli_Put_def cli_Patch_def cli_Delete_def)
qed

lemma runs_required_arg [run_rules]: "(\<And>x. runs env P (k x)) \<Longrightarrow> runs env P (required_arg what rest k)"
  by (auto simp: required_arg_def intro: run_rules split: list.split)

lemma runs_parts [run_rules]:
  "runs env (clean env) (decoded env d zero body)"
  "runs env (clean env) (resolveBody env t f)"
  "runs env (finished env) (printJSON data)"
  unfolding decoded_def resolveBody_def printJSON_def by (intro run_rules)+

lemma runs_show_body [run_rules]: "runs env (finished env) (show_body env cfg d zero print body)"
  unfolding show_body_def by (intro run_rules)

lemma runs_shown [run_rules]:
  "runs env (finished env) (get_and_show env cfg path q d zero print)"
  "runs env (finished env) (post_and_show env cfg path b d zero print)"
  "runs env (finished env) (delete_and_say env cfg path message)"
  unfolding get_and_show_def post_and_show_def delete_and_say_def by (intro run_rules)+

lemma runs_template_request [run_rules]:
  "(\<And>name req. runs env P (k name req)) \<Longrightarrow> runs env P (template_request env fs rest k)"
  unfolding template_request_def by (intro run_rules)

lemma runs_email_vars [run_rules]: "runs env (clean env) (publish_email_vars env fs)"
  unfolding publish_email_vars_def by (intro run_rules)

lemma runs_fetch_deliveries [run_rules]: "runs env (clean env) (fetch_deliveries env c ns)"
  by (induction ns) (auto intro: run_rules)

section \<open>Commands\<close>

text \<open>At the start nothing was sent; a request for help or a wrong flag ends before anything is.\<close>

definition starts :: "cli_env \<Rightarrow> unit command \<Rightarrow> bool" where
  "starts env m \<longleftrightarrow> wp m (\<lambda>r t. (\<forall>code. r = Inl code \<longrightarrow>
       cl_out t = [] \<and> cl_err t \<noteq> [] \<and> (code = 1 \<or> (code = 0 \<or> code = 2) \<and> cl_sent t = []))
     \<and> (\<forall>x. r = Inr x \<longrightarrow> finished env t)) cli0"

lemma clean_cli0: "clean env cli0"
  by (simp add: clean_def answered_def cli0_def)

lemma starts_runs:
  assumes "runs env (finished env) m"
  shows "starts env m"
  unfolding starts_def
proof (rule wp_mono [OF runsD [OF assms clean_cli0]])
  fix r :: "nat + unit" and t
  assume "ended (finished env) r t"
  then show "(\<forall>code. r = Inl code \<longrightarrow> cl_out t = [] \<and> cl_err t \<noteq> [] \<and> (code = 1 \<or> (code = 0 \<or> code = 2) \<and> cl_sent t = []))
    \<and> (\<forall>x. r = Inr x \<longrightarrow> finished env t)"
    by (cases r) simp_all
qed

lemma starts_with_flags: "(\<And>fs rest. starts env (k fs rest)) \<Longrightarrow> starts env (with_flags usage fs args k)"
  by (auto simp: starts_def wp_def with_flags_run cli0_def split: parse_result.split)

lemma starts_usage: "starts env (usage_exit usage)" "starts env (unknown_subcommand what usage name)"
  by (simp_all add: starts_def usage_exit_def unknown_subcommand_def wp_simps cli0_def)

lemma starts_if: "starts env m \<Longrightarrow> starts env n \<Longrightarrow> starts env (if b then m else n)"
  by simp

lemma starts_list:
  "starts env m \<Longrightarrow> (\<And>y ys. starts env (g y ys)) \<Longrightarrow> starts env (case xs of [] \<Rightarrow> m | y # ys \<Rightarrow> g y ys)"
  by (simp split: list.split)

lemmas start_rules = starts_with_flags starts_usage starts_if starts_list

lemma starts_leaf:
  "starts env (runEventsList env cfg args)"
  "starts env (runEventsCreate env cfg args)"
  "starts env (runEventsGet env cfg args)"
  "starts env (runEventsUpdate env cfg args)"
  "starts env (runEventsEnd env cfg args)"
  "starts env (runEventsNotifications env cfg args)"
  "starts env (runEventsSummary env cfg args)"
  "starts env (runNotificationsPublish env cfg args)"
  "starts env (runNotificationsGet env cfg args)"
  "starts env (runNotificationsDeliveries env cfg args)"
  "starts env (runDeliveriesGet env cfg args)"
  "starts env (runAudit env cfg args)"
  "starts env (runGroupsList env cfg args)"
  "starts env (runGroupsMembers env cfg args)"
  "starts env (runGroupsSyncList env cfg args)"
  "starts env (runGroupsSyncAdd env cfg args)"
  "starts env (runGroupsSyncRemove env cfg args)"
  "starts env (runTemplatesList env cfg args)"
  "starts env (runTemplatesCreate env cfg args)"
  "starts env (runTemplatesGet env cfg args)"
  "starts env (runTemplatesUpdate env cfg args)"
  "starts env (runTemplatesDelete env cfg args)"
  "starts env (runSubscriptionsList env cfg args)"
  "starts env (runSubscriptionsSubscribe env cfg args)"
  "starts env (runSubscriptionsSubscribeMe env cfg args)"
  "starts env (runSubscriptionsUnsubscribe env cfg args)"
  "starts env (runSubscriptionsUnsubscribeMe env cfg args)"
  "starts env (runSMTPCramList env cfg args)"
  "starts env (runSMTPCramAdd env cfg args)"
  "starts env (runSMTPCramRemove env cfg args)"
  unfolding runEventsList_def runEventsCreate_def runEventsGet_def runEventsUpdate_def runEventsEnd_def
    runEventsNotifications_def runEventsSummary_def runNotificationsPublish_def runNotificationsGet_def runNotificationsDeliveries_def
    runDeliveriesGet_def runAudit_def runGroupsList_def runGroupsMembers_def runGroupsSyncList_def
    runGroupsSyncAdd_def runGroupsSyncRemove_def runTemplatesList_def runTemplatesCreate_def runTemplatesGet_def
    runTemplatesUpdate_def runTemplatesDelete_def runSubscriptionsList_def runSubscriptionsSubscribe_def runSubscriptionsSubscribeMe_def
    runSubscriptionsUnsubscribe_def runSubscriptionsUnsubscribeMe_def runSMTPCramList_def runSMTPCramAdd_def runSMTPCramRemove_def
  by (intro starts_with_flags; rule starts_runs; intro run_rules)+

lemma starts_main: "starts env (cli_main env args)"
  unfolding cli_main_def dispatch_command_def runEvents_def runNotifications_def runDeliveries_def runGroups_def
    runGroupsSync_def runTemplates_def runSubscriptions_def runSMTPCram_def
  by (intro start_rules starts_leaf)

section \<open>Flags after the argument\<close>

text \<open>The usage texts put flags after a name; parsing ends at the name, so that these commands always fail
  and nothing is sent.\<close>

lemma flags_after_the_name_fail:
  assumes "\<not> is_flag name"
  shows "fst (run_state (runTemplatesUpdate env cfg (name # args)) s) = Inl 1"
    and "fst (run_state (runSMTPCramAdd env cfg (name # args)) s) = Inl 1"
    and "fst (run_state (runEventsUpdate env cfg (name # args)) s) = Inl 1"
    and "cl_sent (snd (run_state (runTemplatesUpdate env cfg (name # args)) s)) = cl_sent s"
    and "cl_sent (snd (run_state (runSMTPCramAdd env cfg (name # args)) s)) = cl_sent s"
    and "cl_sent (snd (run_state (runEventsUpdate env cfg (name # args)) s)) = cl_sent s"
  using assms
  by (simp_all add: runTemplatesUpdate_def runSMTPCramAdd_def runEventsUpdate_def with_flags_run flag_Parse_positional
      required_arg_def template_request_def template_flags_def str_flag_def strs_flag_def events_update_fields_def
      given_def die_def and_then_def err_out_def exit_with_def value_of_def)

text \<open>The last example of the global usage: the switch \<open>--json\<close> is not a flag of the subcommands.\<close>

lemma json_after_the_command_fails: "fst (run_state (runTemplatesList env cfg [''--json'']) s) = Inl 2"
  by (simp add: runTemplatesList_def with_flags_run flag_Parse.simps(2) is_flag_def flag_name_def split_value_def
      cut_at_def Let_def)

text \<open>C40 (error): the exit code of \<open>nrcli\<close> tells what happened: it is 0, 1 or 2; with 0, every request was answered
  with a status below 400 and nothing went wrong, or help was asked for and nothing was sent; with
  any other code there is a message on standard error and nothing on standard output; and 2 says
  that nothing was sent.\<close>

theorem exit_code_tells_outcome:
  assumes "nrcli env args = (code, s)"
  shows "code \<in> {0, 1, 2} \<and> (code = 0 \<longrightarrow> answered env (cl_sent s) \<and> (cl_err s = [] \<or> cl_out s = [] \<and> cl_sent s = []))
    \<and> (code \<noteq> 0 \<longrightarrow> cl_out s = [] \<and> cl_err s \<noteq> []) \<and> (code = 2 \<longrightarrow> cl_sent s = [])"
proof -
  obtain x where run: "run_state (cli_main env args) cli0 = (x, s)" "code = (case x of Inl c \<Rightarrow> c | Inr _ \<Rightarrow> 0)"
    using assms by (simp add: nrcli_run) (metis prod.collapse)
  have "answered env []" by (simp add: answered_def)
  then show ?thesis
    using starts_main [of env args] run by (cases x) (auto simp: starts_def wp_def finished_def)
qed

end
