(* ===== verification/Samples_Cli.thy ===== *)
theory Samples_Cli
  imports Cli_Publish Cli_Exit
begin

text \<open>
  Runs of \<open>nrcli\<close> at concrete command lines against a server with a fixed answer: the hypotheses of the
  properties of the client hold there.
\<close>

definition sample_env :: "int \<Rightarrow> string \<Rightarrow> cli_env" where
  "sample_env status body = \<lparr>ce_transport = (\<lambda>before r. Inr (status, Inr body)), ce_bad_url = (\<lambda>_. None),
     ce_read_file = (\<lambda>_. Inl ''no such file''), ce_getenv = (\<lambda>_. []), ce_json_error = (\<lambda>_. ''unexpected end of JSON input'')\<rparr>"

definition members_args :: "string list" where
  "members_args = [''groups'', ''members'', ''on call'']"

definition members_request :: http_request where
  "members_request = \<lparr>rq_Method = ''GET'', rq_Base = ''http://localhost:8080'',
     rq_Path = ''/api/v1/groups/on%20call/members'', rq_Query = [], rq_Content = None, rq_BasicAuth = None\<rparr>"

lemma members_run:
  "nrcli (sample_env 404 ''unknown group'') members_args
     = (1, \<lparr>cl_out = [], cl_err = [ErrText (''error: HTTP 404: unknown group'' @ newline)], cl_sent = [members_request]\<rparr>)"
  by code_simp


lemma exit_code_tells_outcome_witness:
  "(1::nat) \<in> {0, 1, 2} \<and> cl_out (snd (nrcli (sample_env 404 ''unknown group'') members_args)) = []
     \<and> cl_err (snd (nrcli (sample_env 404 ''unknown group'') members_args)) \<noteq> []"
  using exit_code_tells_outcome [OF members_run] by (simp add: members_run)

definition publish_args :: "string list" where
  "publish_args = [''--group'', ''ops'', ''--channel'', ''sms'', ''--message'', ''Disk full'', ''--email-vars'', ''{}'']"

definition parsed_publish :: flag_set where
  "parsed_publish = (case flag_Parse publish_flags publish_args of Parsed fs rest \<Rightarrow> fs | _ \<Rightarrow> [])"

lemma publish_reaches_server_witness:
  "\<exists>r. cl_sent (snd (nrcli (sample_env 500 []) (''notifications'' # ''publish'' # publish_args))) = [r]
    \<and> (\<exists>body. rq_Content r = Some body \<and> publish_body body = Some (publish_request_of parsed_publish (Some [])))"
proof -
  have 1: "flag_Parse (global_flags (sample_env 500 [])) (''notifications'' # ''publish'' # publish_args)
      = Parsed (global_flags (sample_env 500 [])) (''notifications'' # ''publish'' # publish_args)"
    by (rule flag_Parse_positional) (simp add: is_flag_def)
  have 2: "flag_Parse publish_flags publish_args = Parsed parsed_publish []" by code_simp
  have 3: "publish_missing parsed_publish = None" by code_simp
  have 4: "email_vars_of parsed_publish = Some (Some [])" by code_simp
  have 5: "list_all (\<lambda>(_, v). plain v) (items (Some []))" by (simp add: items_def)
  have 6: "ce_bad_url (sample_env 500 []) (TrimRight_slash (str_flag (global_flags (sample_env 500 [])) ''url'')
      @ ''/api/v1/notifications'') = None"
    by (simp add: sample_env_def)
  show ?thesis using publish_reaches_server [OF 1 2 3 4 5 6] by blast
qed

end
