(* ===== verification/End_To_End.thy ===== *)
theory End_To_End
  imports Dispatcher_Retry Publish Subscriptions
begin

text \<open>
  From the queue to the recipients: the worker of the dispatcher serves the jobs the front ends have
  queued, in their order, and a job leaves the others alone. The lemmas here join the outcome of a
  job (\<open>Dispatcher_Retry\<close>) with what the front ends store (\<open>Publish\<close>, \<open>Subscriptions\<close>); the
  properties that rest on them are in the root theory.
\<close>

section \<open>The worker\<close>

text \<open>A running program: the database answers, nothing is cancelled, the queue is \<open>q\<close>.\<close>

definition serving :: "string list \<Rightarrow> world \<Rightarrow> bool" where
  "serving q w \<longleftrightarrow> w_faults w = [] \<and> w_cancels w = [] \<and> w_queue w = q"

lemma serving_faults: "serving q w \<Longrightarrow> sent w = w \<and> \<not> faulty w \<and> w_cancels w = []"
  by (simp add: serving_def)

interpretation served: job_invariant "serving q" d notif UNIV UNIV "\<lambda>_. True" "\<lambda>_. True" "\<lambda>_ _. True"
  for q d notif
  by unfold_locales
    (auto intro!: preservesI simp: wp_simps serving_faults delivery_write_defs update_deliveries_def
      read_defs voice_call_def email_send_def sms_send_def split: option.split,
     auto simp: serving_def)

lemma processJob_serving:
  assumes "\<And>ts. mset (dp_order d ts) = mset ts"
  shows "preserves (serving q) (processJob d nid)"
proof (rule preservesI, rule wp_processJob)
  fix w assume s: "serving q w"
  then show s': "serving q (sent w)" by (simp add: serving_faults)
  fix notif
  have "preserves (serving q) (process_loaded d notif)"
  proof (rule served.keeps_loaded)
    show "set (dp_order d ts) \<subseteq> set ts" for ts
      using assms [of ts] by (metis set_mset_mset subset_refl)
  qed simp_all
  then show "wp (process_loaded d notif) (\<lambda>_. serving q) (sent w)" using s' by (rule preserves_wp)
qed

lemma wp_processJob_frame:
  assumes "\<And>ts. mset (dp_order d ts) = mset ts"
  shows "wp (processJob d nid) (\<lambda>_ w'. job_frame (w_db w) nid (w_db w')) w"
proof -
  have "preserves (on_db (job_frame (w_db w) nid)) (processJob d nid)"
    by (rule preserves_processJob_db [OF assms]) (auto intro!: job_invariant_on_db job_frame_laws)
  then have "wp (processJob d nid) (\<lambda>_. on_db (job_frame (w_db w) nid)) w"
    by (rule preserves_wp) (simp add: on_db_def job_frame_def)
  then show ?thesis by (simp add: on_db_def [abs_def] wp_def)
qed

text \<open>A job of another notification leaves what a job needs to know.\<close>

lemma find_filter_other: "find (\<lambda>x. key x = k) xs = find (\<lambda>x. key x = k) (filter (\<lambda>x. key x \<noteq> j) xs)" if "j \<noteq> k"
  using that by (induction xs) auto

lemma job_frame_other:
  assumes "job_frame d0 j d" and "j \<noteq> k"
  shows "find (\<lambda>n. nt_NotificationID n = k) (notifications d) = find (\<lambda>n. nt_NotificationID n = k) (notifications d0)"
    "targets d groups dests = targets d0 groups dests"
  using assms find_filter_other [OF assms(2), of nt_NotificationID "notifications d"]
    find_filter_other [OF assms(2), of nt_NotificationID "notifications d0"]
  by (simp_all add: job_frame_def targets_def members_of_def)

lemma worker_step:
  assumes "serving (job # q) w"
  shows "wp (worker d (Suc n)) Q w = wp (processJob d job) (\<lambda>_. wp (worker d n) Q) (w\<lparr>w_queue := q\<rparr>)"
proof -
  have eq: "w\<lparr>w_cancels := [], w_queue := q\<rparr> = w\<lparr>w_queue := q\<rparr>"
    using assms by (cases w) (simp add: serving_def)
  from assms show ?thesis by (simp add: serving_def wp_simps eq)
qed

lemma worker_reaches_last:
  assumes order: "\<And>ts. mset (dp_order d ts) = mset ts"
    and "serving (pre @ [nid]) w" and "nid \<notin> set pre"
    and "find (\<lambda>n. nt_NotificationID n = nid) (notifications (w_db w)) = Some notif"
    and cols: "parse_column unmarshal_strings (nt_Groups notif) = Some groups"
      "parse_column unmarshal_strings (nt_Channels notif) = Some channels"
      "parse_column unmarshal_destinations (nt_Destinations notif) = Some dests"
  shows "wp (worker d (Suc (length pre)))
    (\<lambda>_ w'. w_queue w' = [] \<and> job_ended nid (targets (w_db w) groups dests) w') w"
  using assms(2-4)
proof (induction pre arbitrary: w)
  case Nil
  let ?w = "w\<lparr>w_queue := []\<rparr>"
  have "serving [] ?w" using Nil.prems(1) by (simp add: serving_def)
  from preserves_wp [OF processJob_serving [OF order] this]
  have "wp (processJob d nid) (\<lambda>_. serving []) ?w" .
  moreover have "wp (processJob d nid) (\<lambda>_. job_ended nid (targets (w_db ?w) groups dests)) ?w"
    by (rule wp_processJob_ended) (use Nil.prems cols in \<open>simp_all add: serving_def\<close>)
  ultimately have "wp (processJob d nid) (\<lambda>_ w'. w_queue w' = [] \<and> job_ended nid (targets (w_db w) groups dests) w') ?w"
    by (simp add: wp_def serving_def)
  moreover have "serving (nid # []) w" using Nil.prems(1) by simp
  ultimately show ?case by (simp only: worker_step list.size worker.simps(1) wp_ret)
next
  case (Cons job pre)
  let ?w = "w\<lparr>w_queue := pre @ [nid]\<rparr>"
  have "serving (pre @ [nid]) ?w" using Cons.prems(1) by (simp add: serving_def)
  from preserves_wp [OF processJob_serving [OF order] this, of job] wp_processJob_frame [OF order, of job ?w]
  have "wp (processJob d job) (\<lambda>_ w1. serving (pre @ [nid]) w1 \<and> job_frame (w_db ?w) job (w_db w1)) ?w"
    by (simp only: wp_conj)
  then have "wp (processJob d job) (\<lambda>_. wp (worker d (Suc (length pre)))
      (\<lambda>_ w'. w_queue w' = [] \<and> job_ended nid (targets (w_db w) groups dests) w')) ?w"
  proof (rule wp_mono, elim conjE)
    fix u w1 assume s: "serving (pre @ [nid]) w1" and f: "job_frame (w_db ?w) job (w_db w1)"
    have ne: "job \<noteq> nid" "nid \<notin> set pre" using Cons.prems(2) by auto
    from job_frame_other [OF f ne(1)] Cons.prems(3)
    have "find (\<lambda>n. nt_NotificationID n = nid) (notifications (w_db w1)) = Some notif"
      "targets (w_db w1) groups dests = targets (w_db w) groups dests" by (simp_all add: targets_def members_of_def)
    with Cons.IH [OF s ne(2)] show "wp (worker d (Suc (length pre)))
      (\<lambda>_ w'. w_queue w' = [] \<and> job_ended nid (targets (w_db w) groups dests) w') w1" by simp
  qed
  moreover have "serving (job # (pre @ [nid])) w" using Cons.prems(1) by simp
  ultimately show ?case by (simp only: worker_step list.size Nat.add_0_right add_Suc_right)
qed

section \<open>The welcome message\<close>

text \<open>A job for one registered number calls the provider for that number only.\<close>

definition one_sms :: "Notification \<Rightarrow> string \<Rightarrow> bool" where
  "one_sms n phone \<longleftrightarrow> nt_Groups n = None \<and> nt_Channels n = None
     \<and> nt_Destinations n = Some (marshal_destinations [\<lparr>ds_Channel = ''sms'', ds_Target = phone\<rparr>])"

definition texted :: "Dispatcher \<Rightarrow> string \<Rightarrow> string \<Rightarrow> world \<Rightarrow> world \<Rightarrow> bool" where
  "texted d phone msg w w' \<longleftrightarrow> (\<exists>j. 0 < j \<and> int j \<le> dp_RetryLimit d
     \<and> w_outbox w' = replicate j (SmsTo phone msg) @ w_outbox w)"

lemma one_sms_columns:
  assumes "one_sms n phone"
  shows "parse_column unmarshal_strings (nt_Groups n) = Some []"
    "parse_column unmarshal_strings (nt_Channels n) = Some []"
    "parse_column unmarshal_destinations (nt_Destinations n) = Some [\<lparr>ds_Channel = ''sms'', ds_Target = phone\<rparr>]"
proof -
  have "marshal_destinations ds \<noteq> []" for ds by (simp add: marshal_destinations_def)
  with assms show "parse_column unmarshal_strings (nt_Groups n) = Some []"
    "parse_column unmarshal_strings (nt_Channels n) = Some []"
    "parse_column unmarshal_destinations (nt_Destinations n) = Some [\<lparr>ds_Channel = ''sms'', ds_Target = phone\<rparr>]"
    by (simp_all add: one_sms_def parse_column_def ns_present_def unmarshal_marshal_destinations)
qed

lemma wp_dispatch_registered:
  assumes "dp_sms d = Some f" and "0 < dp_RetryLimit d" and "w_cancels w = []" and "w_faults w = []"
    and "nt_NotificationID n \<in> nt_NotificationID ` set (notifications (w_db w))"
    and "\<exists>s \<in> set (sms_subscriptions (w_db w)). sb_Phone s = phone"
  shows "wp (dispatch_destination d n \<lparr>ds_Channel = ''sms'', ds_Target = phone\<rparr>)
    (\<lambda>_. texted d phone (nt_Message n) w) w"
proof -
  obtain s where s: "find (\<lambda>r. sb_Phone r = phone) (sms_subscriptions (w_db w)) = Some s"
    using assms(6) by (cases "find (\<lambda>r. sb_Phone r = phone) (sms_subscriptions (w_db w))") (auto simp: find_None)
  let ?ans = "\<lambda>i. f (length (w_outbox w) + i) phone (nt_Message n)"
  have "wp (dispatchSMSToDestination d n phone) (\<lambda>_ w'. retry_outcome d ?ans (SmsTo phone (nt_Message n)) w w'
      \<and> (let x = last (deliveries (w_db w')) in dl_NotificationID x = nt_NotificationID n
          \<and> dl_Group x = None \<and> dl_Member x = None \<and> dl_Destination x = Some phone \<and> dl_Channel x = ''sms'')) w"
    unfolding dispatchSMSToDestination_def
    by (rule wp_dispatch_with_retry [where f = "\<lambda>i. f i phone (nt_Message n)"])
      (use assms in \<open>auto simp: wp_sms_send InsertDestinationDelivery_def\<close>)
  then have "wp (dispatchSMSToDestination d n phone) (\<lambda>_. texted d phone (nt_Message n) w) w"
  proof (rule wp_mono)
    fix u w'
    let ?j = "attempts (\<lambda>i. answer_error (?ans i) = None) (nat (dp_RetryLimit d))"
    assume "retry_outcome d ?ans (SmsTo phone (nt_Message n)) w w'
      \<and> (let x = last (deliveries (w_db w')) in dl_NotificationID x = nt_NotificationID n
          \<and> dl_Group x = None \<and> dl_Member x = None \<and> dl_Destination x = Some phone \<and> dl_Channel x = ''sms'')"
    then have "w_outbox w' = replicate ?j (SmsTo phone (nt_Message n)) @ w_outbox w"
      by (auto simp: retry_outcome_def Let_def split: prod.splits)
    moreover have "0 < ?j" "int ?j \<le> dp_RetryLimit d"
      using assms(2) attempts_pos [of "nat (dp_RetryLimit d)"] attempts_le [of _ "nat (dp_RetryLimit d)"]
      by (simp_all add: le_nat_iff)
    ultimately show "texted d phone (nt_Message n) w w'" unfolding texted_def by blast
  qed
  with s assms(1,4) show ?thesis
    by (simp add: dispatch_destination_def GetSMSSubscriptionByPhone_def wp_simps)
qed

lemma wp_job_one_sms:
  assumes order: "\<And>ts. mset (dp_order d ts) = mset ts"
    and d: "dp_sms d = Some f" "0 < dp_RetryLimit d" and w: "w_cancels w = []" "w_faults w = []"
    and n: "find (\<lambda>n. nt_NotificationID n = nid) (notifications (w_db w)) = Some n" "one_sms n phone"
    and sub: "\<exists>s \<in> set (sms_subscriptions (w_db w)). sb_Phone s = phone"
  shows "wp (processJob d nid) (\<lambda>_. texted d phone (nt_Message n) w) w"
proof -
  let ?dst = "\<lparr>ds_Channel = ''sms'', ds_Target = phone\<rparr>"
  have id: "nt_NotificationID n = nid" using n(1) by (rule find_notification)
  have one: "dp_order d [ToDestination ?dst] = [ToDestination ?dst]"
    using order [of "[ToDestination ?dst]"] by simp
  let ?w = "w\<lparr>w_db := w_db w\<lparr>notifications := update_where (\<lambda>x. nt_NotificationID x = nid)
      (\<lambda>x. x\<lparr>nt_Status := ''processing'', nt_ErrorMessage := None\<rparr>) (notifications (w_db w))\<rparr>\<rparr>"
  have here: "nid \<in> nt_NotificationID ` set (notifications (w_db ?w))"
    using find_Some_set [OF n(1)] by (auto simp: image_update_where)
  have "wp (dispatch_destination d n ?dst) (\<lambda>_. texted d phone (nt_Message n) w) ?w"
    using wp_dispatch_registered [of d f ?w n phone] d w here sub by (simp add: id texted_def [abs_def])
  then have "wp (dispatch_destination d n ?dst) (\<lambda>_ w'. wp (finish_job n 1) (\<lambda>_. texted d phone (nt_Message n) w) w') ?w"
  proof (rule wp_mono)
    fix u w' assume "texted d phone (nt_Message n) w w'"
    then show "wp (finish_job n 1) (\<lambda>_. texted d phone (nt_Message n) w) w'"
      by (simp add: finish_job_def setNotificationStatus_def UpdateNotificationStatus_def
          UpdateNotificationMemberCount_def wp_simps texted_def)
  qed
  then show ?thesis
    using n(1) w one
    by (simp add: processJob_def GetNotificationByNotificationID_def process_loaded_def
        setNotificationStatus_def [of _ "''processing''"] UpdateNotificationStatus_def [of "''processing''"]
        wp_bind wp_query_one wp_exec wp_ret one_sms_columns [OF n(2)] dispatch_parsed_def id nullString_def)
qed

text \<open>What storing the welcome leaves: its job is queued, or there was no room for it.\<close>

definition welcomed :: "string \<Rightarrow> world \<Rightarrow> world \<Rightarrow> bool" where
  "welcomed phone w w' \<longleftrightarrow> w_faults w' = [] \<and> w_cancels w' = w_cancels w \<and> w_outbox w' = w_outbox w
     \<and> sms_subscriptions (w_db w') = sms_subscriptions (w_db w)
     \<and> (w_queue w' = w_queue w
        \<or> (\<exists>nid n. w_queue w' = w_queue w @ [nid]
             \<and> find (\<lambda>n. nt_NotificationID n = nid) (notifications (w_db w')) = Some n
             \<and> one_sms n phone \<and> nt_Message n = subscribeWelcomeMsg))"

lemma find_appended:
  "k \<notin> key ` set xs \<Longrightarrow> key x = k \<Longrightarrow> find (\<lambda>y. key y = k) (xs @ [x]) = Some x"
  by (induction xs) auto

lemma wp_sendWelcomeSMS:
  assumes "w_faults w = []"
  shows "wp (sendWelcomeSMS u phone) (\<lambda>_. welcomed phone w) w"
proof -
  have ev: "wp (InsertEvent eid url name desc sev start ends cb at) (\<lambda>_ v. w_faults v = [] \<and> w_cancels v = w_cancels w
      \<and> w_outbox v = w_outbox w \<and> w_queue v = w_queue w
      \<and> sms_subscriptions (w_db v) = sms_subscriptions (w_db w)) v0"
    if "w_faults v0 = []" "w_cancels v0 = w_cancels w" "w_outbox v0 = w_outbox w" "w_queue v0 = w_queue w"
      "sms_subscriptions (w_db v0) = sms_subscriptions (w_db w)" for eid url name desc sev start ends cb at v0
    using that by (simp add: InsertEvent_def wp_simps Let_def split: prod.split)
  have nt: "wp (do {
      n \<leftarrow> InsertNotification nid eid None
        (Some (marshal_destinations [\<lparr>ds_Channel = ''sms'', ds_Target = phone\<rparr>])) None subscribeWelcomeMsg
        0 None None at cb ''pending'';
      (case n of Inl e \<Rightarrow> ret () | Inr _ \<Rightarrow> do { _ \<leftarrow> try_enqueue nid; ret () }) }) (\<lambda>_. welcomed phone w) v"
    if "w_faults v = [] \<and> w_cancels v = w_cancels w \<and> w_outbox v = w_outbox w \<and> w_queue v = w_queue w
      \<and> sms_subscriptions (w_db v) = sms_subscriptions (w_db w)" for nid eid at cb v
    using that
    by (simp add: InsertNotification_def wp_simps Let_def wp_try_enqueue welcomed_def one_sms_def find_appended)
  show ?thesis
    unfolding sendWelcomeSMS_def wp_bind [of now_RFC3339] wp_now_RFC3339 wp_bind [of api_newUUIDV7] wp_uuidV7
      wp_bind [of "InsertEvent _ _ _ _ _ _ _ _ _"]
    by (rule wp_mono [OF ev nt]) (use assms in simp_all)
qed

lemma find_equal_keys: "find (\<lambda>r. k r = x) (xs @ [y]) = Some z \<Longrightarrow> find (\<lambda>r. k r = x) xs = None \<Longrightarrow> z = y"
  by (simp add: find_append split: option.splits if_splits)

text \<open>An endpoint that answers 201 registered a number and welcomed it.\<close>

lemma subscribe_user_welcomes:
  assumes look: "run_state (look u) w = (m, w)" and "w_faults w = []"
    and "run_state (subscribe_user look r noMobile u) w = (Reply 201 resp, w1)"
  shows "\<exists>s. s \<in> set (sms_subscriptions (w_db w1)) \<and> sb_Phone s = ss_Phone resp
    \<and> (\<exists>member. m = Inr member \<and> ss_Phone resp = mb_Mobile member)
    \<and> (\<exists>v. w_queue v = w_queue w \<and> w_cancels v = w_cancels w \<and> w_outbox v = w_outbox w
         \<and> welcomed (ss_Phone resp) v w1)"
proof -
  let ?W = "\<lambda>phone w'. \<exists>v. w_queue v = w_queue w \<and> w_cancels v = w_cancels w \<and> w_outbox v = w_outbox w
         \<and> welcomed phone v w'"
  let ?Q = "\<lambda>x w'. \<forall>resp. x = Reply 201 resp \<longrightarrow>
      (\<exists>s \<in> set (sms_subscriptions (w_db w')). sb_Phone s = ss_Phone resp)
    \<and> (\<exists>member. m = Inr member \<and> ss_Phone resp = mb_Mobile member) \<and> ?W (ss_Phone resp) w'"
  have store: "wp (store_subscription (auditLogAction r ''sms_subscribe'' ''sms_subscriptions'' []) u phone)
      (\<lambda>ok w'. ok \<longrightarrow> w_faults w' = [] \<and> ?W phone w'
         \<and> (\<exists>at. sms_subscriptions (w_db w') = sms_subscriptions (w_db w)
              @ [\<lparr>sb_Username = u, sb_Phone = phone, sb_SubscribedAt = at\<rparr>])) w" for phone
  proof -
    let ?R = "\<lambda>at w'. w_faults w' = [] \<and> ?W phone w'
         \<and> sms_subscriptions (w_db w') = sms_subscriptions (w_db w)
              @ [\<lparr>sb_Username = u, sb_Phone = phone, sb_SubscribedAt = at\<rparr>]"
    have tail: "wp (do { auditLogAction r ''sms_subscribe'' ''sms_subscriptions'' [] t;
        sendWelcomeSMS u phone; ret True }) (\<lambda>ok. ?R at) v"
      if "w_faults v = []" "w_cancels v = w_cancels w" "w_outbox v = w_outbox w" "w_queue v = w_queue w"
        "sms_subscriptions (w_db v) = sms_subscriptions (w_db w)
              @ [\<lparr>sb_Username = u, sb_Phone = phone, sb_SubscribedAt = at\<rparr>]" for t at v
    proof -
      have "wp (sendWelcomeSMS u phone) (\<lambda>_. ?R at) v1"
        if "w_faults v1 = []" "w_cancels v1 = w_cancels w" "w_outbox v1 = w_outbox w" "w_queue v1 = w_queue w"
          "sms_subscriptions (w_db v1) = sms_subscriptions (w_db v)" for v1
        by (rule wp_mono [OF wp_sendWelcomeSMS]) (use that \<open>sms_subscriptions (w_db v) = _\<close> in
            \<open>auto simp: welcomed_def\<close>)
      then show ?thesis
        using that by (simp add: auditLogAction_def auditLog_def InsertAuditLog_def wp_simps)
    qed
    show ?thesis
      using assms(2) unfolding store_subscription_def InsertSMSSubscription_def
      by (auto simp: wp_bind [of now_RFC3339] wp_now_RFC3339 wp_bind [of "insert_unless _ _"] wp_insert_unless wp_ret
          intro!: wp_mono [OF tail])
  qed
  have "wp (subscribe_user look r noMobile u) ?Q w"
  proof (cases m)
    case (Inl e)
    with look show ?thesis by (simp add: subscribe_user_def wp_def writeCoreError_def internal_error_def)
  next
    case (Inr member)
    have rest: "wp (do {
        ok \<leftarrow> store_subscription (auditLogAction r ''sms_subscribe'' ''sms_subscriptions'' []) u (mb_Mobile member);
        if \<not> ok then ret (writeCoreError internal_error)
        else do {
          sub \<leftarrow> GetSMSSubscription u;
          ret (Reply 201 (toSMSSubscriptionResponse (case sub of Inr row \<Rightarrow> row | Inl _ \<Rightarrow> no_subscription))) } }) ?Q w"
      if none: "find (\<lambda>r. ToLower (sb_Username r) = ToLower u) (sms_subscriptions (w_db w)) = None"
      unfolding wp_bind [of "store_subscription _ _ _"]
      by (rule wp_mono [OF store])
        (use none Inr in \<open>auto simp: wp_simps wp_GetSMSSubscription find_append writeCoreError_def internal_error_def
           toSMSSubscriptionResponse_def\<close>)
    show ?thesis
      using look Inr assms(2) rest
      by (auto simp: subscribe_user_def wp_def [of "look u"] wp_bind wp_ret wp_if wp_case_sum wp_GetSMSSubscription
          split: option.split)
  qed
  from wp_run [OF this assms(3)] show ?thesis by auto
qed

end
