(* ===== verification/Spec2Isabelle.thy ===== *)
theory Spec2Isabelle
  imports Samples_Ldap Samples_Front Samples_Wiring Samples_Cli End_To_End
begin

text \<open>
  A model of the notification relay and of its command-line client, with the theorems that make it
  correct. The relay takes notifications over HTTP and SMTP, stores them in SQLite, and sends them by
  SMS, voice and email to the members of LDAP groups and to direct destinations.

  \<^bold>\<open>The parts and how they meet.\<close> All parts work on one \<open>world\<close> (theory \<open>World\<close>): the tables, the queue of
  jobs between the front ends and the workers, the clock, the random bytes, the failures of the
  driver and what was sent to people. An operation is a function in the state monad over the world,
  with its errors as values; it is the whole handler of the source, every statement and early return.
  A front end (publish endpoint, SMTP session, subscription) stores a row and puts a job into the
  queue; the dispatcher takes it, counts the targets, sends with retries and records what became of each
  delivery; the poller asks Twilio for the state of deliveries in flight; the syncer copies LDAP groups
  into the table that the dispatcher reads; the sweeper closes old events. The client turns a command
  line into requests for the same routes.

  \<^bold>\<open>The theories and the code.\<close>
  \<^item> \<open>Prelude\<close>: the weakest precondition \<open>wp\<close>, invariants \<open>preserves\<close>, the collections \<open>wp_simps\<close> and \<open>keeps\<close>.
  \<^item> \<open>Go_Strings\<close>, \<open>Go_Url\<close>, \<open>Go_Base64\<close>, \<open>Go_Time\<close>, \<open>Time_Parse\<close>, \<open>Go_Json\<close>, \<open>Go_Decode\<close>, \<open>Go_Mux\<close>, \<open>Go_Flag\<close>: what the program
    uses of the standard library of Go, with \<open>parseTimeToRFC3339\<close> of \<open>api/handlers.go\<close>.
  \<^item> \<open>World\<close>, \<open>Database\<close>, \<open>Database_Facts\<close>, \<open>Uuid\<close>: \<open>db/models.go\<close>, \<open>db/queries.sql.go\<close>, the identifiers; the keys
    of the schema as the invariant \<open>db_ok\<close>, and the locale \<open>keyed_table\<close> for the contract of a table.
  \<^item> \<open>Dispatcher\<close>, \<open>Dispatcher_Facts\<close>, \<open>Dispatcher_Retry\<close>, \<open>Templates\<close>, \<open>Twilio\<close>, \<open>Email\<close>, \<open>Poller\<close>, \<open>Sweeper\<close>: \<open>notify/\<close>.
    The locale \<open>job_invariant\<close> carries an invariant through a job; the facts say what a job may touch and
    how its attempts end.
  \<^item> \<open>Ldap\<close>, \<open>Ldap_Cache\<close>, \<open>Ldap_Sync\<close>: \<open>ldap/\<close>; the list and the index of the cache refine a map with an
    order of use.
  \<^item> \<open>Api_Base\<close>, \<open>Api_Bodies\<close>, \<open>Api_Events\<close>, \<open>Publish\<close>, \<open>Subscriptions\<close>, \<open>Api_Admin\<close>, \<open>Admin_Facts\<close>, \<open>Ui\<close>, \<open>Ui_Facts\<close>, \<open>Routes\<close>:
    \<open>api/\<close>, from the middleware and the routes to the pages and the sessions of browsers.
  \<^item> \<open>Smtp_Auth\<close>, \<open>Smtp_Session\<close>, \<open>Smtp_Facts\<close>: \<open>smtpapi/\<close>; a session is a step relation with an invariant over
    every reachable state.
  \<^item> \<open>Config\<close>, \<open>Wiring\<close>: \<open>config/config.go\<close>, \<open>db/connect.go\<close>, \<open>cmd/notification_relay/main.go\<close> and the constructors.
  \<^item> \<open>Cli_Client\<close>, \<open>Cli_Usage\<close>, \<open>Cli_Format\<close>, \<open>Cli\<close>, \<open>Cli_Facts\<close>, \<open>Cli_Exit\<close>, \<open>Cli_Publish\<close>: \<open>cmd/nrcli/\<close>; a command is a
    function in a monad with an exit code over what was written and sent.
  \<^item> \<open>End_To_End\<close> and this theory: what is stored by a front end is what the worker later delivers.
  \<^item> \<open>Samples\<close>, \<open>Samples_Front\<close>, \<open>Samples_Ldap\<close>, \<open>Samples_Wiring\<close>, \<open>Samples_Cli\<close>: each theorem at a concrete input.

  \<^bold>\<open>Fuel and bounds.\<close> The JSON parser has fuel for the nesting, twice the length of the text, and more
  makes no difference (\<open>parse_fuel\<close>). The retry loops run \<open>RetryLimit\<close> times at most, with the delay wrapped at
  64 bits as \<open>time.Duration\<close>. The worker and the loops with a ticker are modelled up to an empty queue and
  for one tick; every other recursion is structural or has a measure.

  \<^bold>\<open>Parameters.\<close> The LDAP library, the mail server, the HTTP transports, the YAML parser, the file system,
  \<open>net/mail\<close> and \<open>mime\<close>, \<open>text/template\<close> and \<open>html/template\<close>, AES-GCM and HMAC-MD5, and the driver's failures are
  arguments of the definitions; what a theorem asks of them (a cipher that decrypts what it
  encrypted, say) is a named hypothesis with a witness.

  \<^bold>\<open>Not modelled.\<close>
  \<^item> Goroutines within a task: the members of a group are served one after the other; the interleaving of front ends, workers and loops is that of whole steps.
  \<^item> Signals, the orderly shutdown and the wait for it, the migrations, the texts of driver errors, the
    log lines (only which file they go to), the HTML of the pages, the alignment of the client's tables.
  \<^item> Case is folded for ASCII only; strings are bytes, and invalid UTF-8 and the line separators that
    Go escapes pass through the JSON encoder as they are; a number keeps its text; rows with equal
    sort keys keep the order of the table; a repeated key for a slice starts the slice again.
  \<^item> \<open>db/querier.go\<close> and the interfaces of \<open>notify/sms.go\<close> and \<open>notify/voice.go\<close> have no code of their own; \<open>testutil/\<close>
    is test support.
\<close>

section \<open>From a request to its deliveries\<close>

text \<open>C1 (liveness): a request that is accepted is carried out. Once the worker has served the jobs
  that were queued before it and its own (no failure of the database, no shutdown), the queue is
  empty and the stored notification has the number of its targets, as counted when it was accepted,
  and the status completed, or failed when there is none.\<close>

theorem accepted_request_is_carried_out:
  assumes "\<And>ts. mset (dp_order d ts) = mset ts"
    and "run_state (handlePublishNotification s r (Some req)) w = (Reply code resp, w1)"
    and "set (w_queue w) \<subseteq> nt_NotificationID ` set (notifications (w_db w))"
    and "db_ok (w_db w1)" and "w_faults w1 = []" and "w_cancels w1 = []"
    and "run_state (worker d (length (w_queue w1))) w1 = ((), w2)"
  shows "w_queue w2 = [] \<and> (\<exists>n. find (\<lambda>n. nt_NotificationID n = ps_NotificationID resp) (notifications (w_db w2)) = Some n
    \<and> nt_MemberCount n = int (sum_list (map (\<lambda>g. length (members_of (w_db w1) g)) (pr_Groups req))
        + length (pr_Destinations req))
    \<and> (nt_Status n, nt_ErrorMessage n) = (if nt_MemberCount n = 0
         then (''failed'', Some ''no members found for requested groups'') else (''completed'', None)))"
proof -
  let ?id = "ps_NotificationID resp"
  from wp_run [OF handlePublish_outcome assms(2)] obtain n where
    q: "w_queue w1 = w_queue w @ [?id]" and n: "find (\<lambda>n. nt_NotificationID n = ?id) (notifications (w_db w1)) = Some n"
      "notifications (w_db w1) = notifications (w_db w) @ [n]" "stores_request req n"
    by (auto simp: publish_outcome_def)
  have "distinct (map nt_NotificationID (notifications (w_db w1)))"
    using assms(4) by (simp add: db_ok_def unique_defs)
  then have "?id \<notin> set (w_queue w)"
    using n(2) find_notification [OF n(1)] assms(3) by auto
  moreover have "parse_column unmarshal_strings (nt_Groups n) = Some (pr_Groups req)"
    "parse_column unmarshal_strings (nt_Channels n) = Some (pr_Channels req)"
    "parse_column unmarshal_destinations (nt_Destinations n) = Some (pr_Destinations req)"
    using n(3) unfolding stores_request_def json_column_def parse_column_def by blast+
  ultimately have "wp (worker d (Suc (length (w_queue w))))
      (\<lambda>_ w'. w_queue w' = [] \<and> job_ended ?id (targets (w_db w1) (pr_Groups req) (pr_Destinations req)) w') w1"
    using assms(5,6) q n(1) by (intro worker_reaches_last [OF assms(1)]) (simp_all add: serving_def)
  with q assms(7) show ?thesis by (simp add: wp_def job_ended_def targets_def)
qed

lemma published_facts:
  "\<exists>resp. run_state (handlePublishNotification sample_server sample_request (Some sample_publish))
      (sample_world\<lparr>w_queue_cap := 2\<rparr>) = (Reply 202 resp, published_world 2)
    \<and> w_faults (published_world 2) = [] \<and> w_cancels (published_world 2) = []
    \<and> group_members (w_db (published_world 2)) = group_members sample_db \<and> db_ok (w_db (published_world 2))"
proof -
  have "wp (handlePublishNotification sample_server sample_request (Some sample_publish))
      (\<lambda>x w'. (\<exists>resp. x = Reply 202 resp) \<and> w_faults w' = [] \<and> w_cancels w' = []
        \<and> group_members (w_db w') = group_members sample_db) (sample_world\<lparr>w_queue_cap := 2\<rparr>)"
    by (simp add: handlePublishNotification_def sample_checked publish_checked_def publish_event_def
        find_or_create_event_def publish_end_time_def store_notification_def wp_try_enqueue
        GetEventByEventID_def InsertNotification_def auditLogAction_def InsertAuditLog_def wp_simps
        sample_defs sample_severity Let_def)
  moreover have "db_ok (w_db (published_world 2))"
    using preservesD [OF publish_keeps_db_ok, of "sample_world\<lparr>w_queue_cap := 2\<rparr>" sample_server sample_request
        "Some sample_publish"] sample_db_ok
    by (simp add: published_world_def on_db_def sample_world_def)
  ultimately show ?thesis
    by (auto simp: wp_def published_world_def intro!: prod_eqI)
qed

theorem accepted_request_is_carried_out_witness:
  "\<exists>n \<in> set (notifications (w_db (snd (run_state (worker sample_dispatcher 1) (published_world 2))))).
     nt_MemberCount n = 3 \<and> nt_Status n = ''completed''"
proof -
  obtain resp where p: "run_state (handlePublishNotification sample_server sample_request (Some sample_publish))
      (sample_world\<lparr>w_queue_cap := 2\<rparr>) = (Reply 202 resp, published_world 2)"
    "w_faults (published_world 2) = []" "w_cancels (published_world 2) = []"
    "group_members (w_db (published_world 2)) = group_members sample_db" "db_ok (w_db (published_world 2))"
    using published_facts by auto
  have q: "w_queue (published_world 2) = [ps_NotificationID resp]"
    using wp_run [OF handlePublish_outcome p(1)] by (auto simp: publish_outcome_def sample_defs)
  have m: "length (members_of (w_db (published_world 2)) ''ops'') = 2"
    by (simp add: members_of_def p(4) sample_defs)
  have r: "pr_Groups sample_publish = [''ops'']" "length (pr_Destinations sample_publish) = 1"
    by (simp_all add: sample_publish_def)
  show ?thesis
    using accepted_request_is_carried_out [OF sample_order p(1) _ p(5,2,3) run_unit, unfolded q] m r
    by (force simp: sample_defs dest: find_Some_set)
qed


text \<open>Carol, who has no subscription yet; the directory's answer is alice's number.\<close>

definition subscribed_world :: world where
  "subscribed_world = snd (run_state (handleSelfSubscribe sample_look sample_request) sample_world)"

lemma sample_lookup: "run_state (sample_look u) w = (Inr (entry_member sample_entry), w)"
  by (simp add: ldapUserLookup_def LookupUser_def ldap_connect_def open_either_def dialAndBind_def user_filter_def
      directory_defs)


end
